(* ===== verification/OFB_Prelude.thy ===== *)
theory OFB_Prelude
  imports Main "HOL-Library.Word"
begin

text \<open>
  What every component theory shares: the result type of fallible Go code, the type names of the
  model, big-endian byte strings as \<^verbatim>\<open>math/big\<close> reads and writes them, the signed 64-bit
  arithmetic of Go's \<^verbatim>\<open>int64\<close>, slicing with its run-time bounds check, and the generic contract
  of a length-delimited encoding (locale \<open>framed_codec\<close>).

  A Go function that returns an error, or that can panic, returns a sum: \<open>Inl\<close> carries the error
  value or the panic, \<open>Inr\<close> the result. Go strings and byte slices are both sequences of bytes;
  text is a HOL \<^typ>\<open>string\<close>, raw bytes are a list of \<^typ>\<open>8 word\<close>.
\<close>

unbundle bit_operations_syntax

type_synonym byte = "8 word"
type_synonym bytes = "8 word list"
type_synonym u64 = "64 word"

named_theorems res_simps \<open>rewriting of sequenced fallible computations\<close>
named_theorems i64_simps \<open>int64 arithmetic that stays in range\<close>


section \<open>Fallible computations\<close>

definition res_bind :: "'e + 'a \<Rightarrow> ('a \<Rightarrow> 'e + 'b) \<Rightarrow> 'e + 'b" where
  "res_bind r f = (case r of Inl e \<Rightarrow> Inl e | Inr x \<Rightarrow> f x)"

lemma res_bind_Inl [simp]: "res_bind (Inl e) f = Inl e"
  by (simp add: res_bind_def)

lemma res_bind_Inr [simp]: "res_bind (Inr x) f = f x"
  by (simp add: res_bind_def)

lemma res_bind_eq_Inr [res_simps]:
  "res_bind r f = Inr y \<longleftrightarrow> (\<exists>x. r = Inr x \<and> f x = Inr y)"
  by (cases r) auto

lemma res_bind_eq_Inl [res_simps]:
  "res_bind r f = Inl e \<longleftrightarrow> r = Inl e \<or> (\<exists>x. r = Inr x \<and> f x = Inl e)"
  by (cases r) auto

definition res_err :: "('e \<Rightarrow> 'f) \<Rightarrow> 'e + 'a \<Rightarrow> 'f + 'a" where
  "res_err f r = (case r of Inl e \<Rightarrow> Inl (f e) | Inr x \<Rightarrow> Inr x)"

lemma res_err_simps [simp]: "res_err f (Inl e) = Inl (f e)" "res_err f (Inr x) = Inr x"
  by (simp_all add: res_err_def)

lemma res_err_eq_Inr [res_simps]: "res_err f r = Inr x \<longleftrightarrow> r = Inr x"
  by (cases r) auto

text \<open>A loop that stops at the first error, as a Go \<^verbatim>\<open>for\<close> loop with an early return does.\<close>

fun res_map :: "('a \<Rightarrow> 'e + 'b) \<Rightarrow> 'a list \<Rightarrow> 'e + 'b list" where
  "res_map f [] = Inr []"
| "res_map f (x # xs) = res_bind (f x) (\<lambda>y. res_bind (res_map f xs) (\<lambda>ys. Inr (y # ys)))"

lemma res_map_eq_Inr:
  "res_map f xs = Inr ys \<longleftrightarrow> list_all2 (\<lambda>x y. f x = Inr y) xs ys"
  by (induction xs arbitrary: ys) (auto simp: res_simps list_all2_Cons1)

lemma res_map_length: "res_map f xs = Inr ys \<Longrightarrow> length ys = length xs"
  by (simp add: res_map_eq_Inr list_all2_lengthD)


section \<open>Slices\<close>

text \<open>\<^verbatim>\<open>b[lo:hi]\<close>: Go panics unless \<^verbatim>\<open>lo <= hi <= cap(b)\<close>; every slice taken here is of a
  slice whose capacity the code does not rely on, so the bound is its length.\<close>

definition go_slice :: "'e \<Rightarrow> 'a list \<Rightarrow> nat \<Rightarrow> nat \<Rightarrow> 'e + 'a list" where
  "go_slice panic b lo hi =
     (if lo \<le> hi \<and> hi \<le> length b then Inr (take (hi - lo) (drop lo b)) else Inl panic)"


section \<open>Signed 64-bit arithmetic\<close>

text \<open>The value an \<^verbatim>\<open>int64\<close> holds after an operation whose mathematical result is the argument.\<close>

definition i64 :: "int \<Rightarrow> int" where
  "i64 x = (x + 2 ^ 63) mod 2 ^ 64 - 2 ^ 63"

definition in_i64 :: "int \<Rightarrow> bool" where
  "in_i64 x \<longleftrightarrow> - (2 ^ 63) \<le> x \<and> x < 2 ^ 63"

lemma i64_id [i64_simps]: "in_i64 x \<Longrightarrow> i64 x = x"
  by (simp add: i64_def in_i64_def)

lemma in_i64_i64 [simp]: "in_i64 (i64 x)"
proof -
  have "0 \<le> (x + 2 ^ 63) mod 2 ^ 64" and "(x + 2 ^ 63) mod 2 ^ 64 < 2 ^ 64"
    by simp_all
  then show ?thesis by (simp add: i64_def in_i64_def)
qed

lemma i64_cong: "i64 x mod 2 ^ 64 = x mod 2 ^ 64"
proof -
  have "i64 x mod 2 ^ 64 = (((x + 2 ^ 63) mod 2 ^ 64) - 2 ^ 63) mod 2 ^ 64"
    by (simp add: i64_def)
  also have "\<dots> = (x + 2 ^ 63 - 2 ^ 63) mod 2 ^ 64"
    by (rule mod_diff_left_eq)
  finally show ?thesis by simp
qed

lemma i64_eq_of_mod: "x mod 2 ^ 64 = y mod 2 ^ 64 \<Longrightarrow> i64 x = i64 y"
proof -
  assume h: "x mod 2 ^ 64 = y mod 2 ^ 64"
  have "(x + 2 ^ 63) mod 2 ^ 64 = (y + 2 ^ 63) mod 2 ^ 64"
    using h by (metis mod_add_left_eq)
  then show ?thesis by (simp add: i64_def)
qed

lemma i64_add_i64 [simp]: "i64 (i64 x + y) = i64 (x + y)" "i64 (x + i64 y) = i64 (x + y)"
  by (rule i64_eq_of_mod, metis i64_cong mod_add_left_eq,
      rule i64_eq_of_mod, metis i64_cong mod_add_right_eq)

lemma i64_diff_i64 [simp]: "i64 (i64 x - y) = i64 (x - y)" "i64 (x - i64 y) = i64 (x - y)"
  by (rule i64_eq_of_mod, metis i64_cong mod_diff_left_eq,
      rule i64_eq_of_mod, metis i64_cong mod_diff_right_eq)


section \<open>Big-endian byte strings\<close>

text \<open>\<open>bytes_nat\<close> is \<^verbatim>\<open>(*big.Int).SetBytes\<close>, \<open>nat_bytes\<close> is \<^verbatim>\<open>(*big.Int).Bytes\<close>: no leading
  zero byte, and the empty string for zero.\<close>

definition bytes_nat :: "bytes \<Rightarrow> nat" where
  "bytes_nat bs = foldl (\<lambda>v c. v * 256 + unat c) 0 bs"

fun nat_bytes :: "nat \<Rightarrow> bytes" where
  "nat_bytes n = (if n = 0 then [] else nat_bytes (n div 256) @ [of_nat n])"

declare nat_bytes.simps [simp del]

lemma nat_bytes_0 [simp]: "nat_bytes 0 = []"
  by (simp add: nat_bytes.simps)

lemma nat_bytes_pos: "0 < n \<Longrightarrow> nat_bytes n = nat_bytes (n div 256) @ [of_nat n]"
  by (subst nat_bytes.simps) simp

lemma nat_bytes_eq_Nil [simp]: "nat_bytes n = [] \<longleftrightarrow> n = 0"
  by (cases "n = 0") (simp_all add: nat_bytes_pos)

lemma bytes_nat_Nil [simp]: "bytes_nat [] = 0"
  by (simp add: bytes_nat_def)

lemma bytes_nat_snoc [simp]: "bytes_nat (bs @ [c]) = bytes_nat bs * 256 + unat c"
  by (simp add: bytes_nat_def)

lemma unat_byte_less [simp]: "unat (c :: byte) < 256"
  using unsigned_less [of c] by simp

lemma unat_ucast_byte_u64 [simp]: "unat (ucast (c :: byte) :: u64) = unat c"
proof -
  have "unat c < 2 ^ 64" using unat_byte_less [of c] by (rule less_trans) simp
  then show ?thesis by (simp add: unsigned_ucast_eq take_bit_eq_mod)
qed

lemma unat_drop_bit_8: "unat (drop_bit 8 (v :: u64)) = unat v div 256"
  by (simp add: drop_bit_eq_div unat_div_distrib)

lemma unat_of_nat_byte [simp]: "unat (of_nat n :: byte) = n mod 256"
  by (simp add: unat_of_nat)

lemma bytes_nat_nat_bytes [simp]: "bytes_nat (nat_bytes n) = n"
proof (induction n rule: nat_bytes.induct)
  case (1 n)
  then show ?case by (cases "n = 0") (simp_all add: nat_bytes_pos)
qed

lemma bytes_nat_Cons: "bytes_nat (b # bs) = unat b * 256 ^ length bs + bytes_nat bs"
proof (induction bs rule: rev_induct)
  case Nil
  then show ?case by (simp add: bytes_nat_def)
next
  case (snoc c bs)
  have "bytes_nat (b # bs @ [c]) = bytes_nat ((b # bs) @ [c])" by simp
  also have "\<dots> = bytes_nat (b # bs) * 256 + unat c" by (simp only: bytes_nat_snoc)
  finally show ?case using snoc by (simp add: algebra_simps)
qed

lemma bytes_nat_less: "bytes_nat bs < 256 ^ length bs"
proof (induction bs rule: rev_induct)
  case (snoc c bs)
  have "bytes_nat bs * 256 + unat c < (bytes_nat bs + 1) * 256" by simp
  also have "\<dots> \<le> 256 ^ length bs * 256" using snoc by simp
  finally show ?case by simp
qed simp

lemma length_nat_bytes_le: "n < 256 ^ k \<Longrightarrow> length (nat_bytes n) \<le> k"
proof (induction n arbitrary: k rule: nat_bytes.induct)
  case (1 n)
  show ?case
  proof (cases "n = 0")
    case False
    with "1.prems" obtain k' where k: "k = Suc k'" by (cases k) auto
    with "1.prems" have "n div 256 < 256 ^ k'"
      by (simp add: less_mult_imp_div_less mult.commute)
    with "1.IH" [OF False] have "length (nat_bytes (n div 256)) \<le> k'" .
    with False k show ?thesis by (simp add: nat_bytes_pos)
  qed simp
qed

lemma hd_nat_bytes: "0 < n \<Longrightarrow> hd (nat_bytes n) \<noteq> 0"
proof (induction n rule: nat_bytes.induct)
  case (1 n)
  show ?case
  proof (cases "n div 256 = 0")
    case True
    with "1.prems" have "n mod 256 = n" and "nat_bytes n = [of_nat n]"
      by (simp_all add: nat_bytes_pos div_eq_0_iff)
    moreover have "of_nat n \<noteq> (0 :: byte)"
      using \<open>n mod 256 = n\<close> "1.prems" by (metis unat_0 unat_of_nat_byte less_numeral_extra(3))
    ultimately show ?thesis by simp
  next
    case False
    with "1" have "hd (nat_bytes (n div 256)) \<noteq> 0" by simp
    with False show ?thesis
      by (simp add: nat_bytes_pos [OF "1.prems"] hd_append)
  qed
qed

lemma nat_bytes_bytes_nat: "bs = [] \<or> hd bs \<noteq> 0 \<Longrightarrow> nat_bytes (bytes_nat bs) = bs"
proof (induction bs rule: rev_induct)
  case (snoc c bs)
  have w: "of_nat (bytes_nat bs * 256 + unat c) = c"
    by (simp only: word_unat_eq_iff unat_of_nat_byte) simp
  show ?case
  proof (cases bs)
    case Nil
    with snoc.prems have "0 < unat c" by (simp add: unat_gt_0)
    then show ?thesis using Nil by (simp add: nat_bytes_pos [of "unat c"] div_eq_0_iff bytes_nat_def)
  next
    case (Cons b bs')
    with snoc.prems have "hd bs \<noteq> 0" by simp
    with snoc.IH have ih: "nat_bytes (bytes_nat bs) = bs" by simp
    have "0 < bytes_nat bs"
      using ih Cons by (metis list.distinct(1) nat_bytes_0 neq0_conv)
    then have "nat_bytes (bytes_nat bs * 256 + unat c) = nat_bytes (bytes_nat bs) @ [c]"
      using w by (subst nat_bytes_pos) simp_all
    then show ?thesis using ih by simp
  qed
qed simp


section \<open>The contract of a length-delimited encoding\<close>

text \<open>A Go slice never has more than \<^verbatim>\<open>math.MaxInt\<close> elements.\<close>

definition go_len :: "'a list \<Rightarrow> bool" where
  "go_len b \<longleftrightarrow> length b < 2 ^ 63"

lemma go_len_appendD1: "go_len (a @ b) \<Longrightarrow> go_len a"
  by (simp add: go_len_def)

lemma go_len_appendD2: "go_len (a @ b) \<Longrightarrow> go_len b"
  by (simp add: go_len_def)

lemma go_len_concat: "go_len (concat xss) \<Longrightarrow> xs \<in> set xss \<Longrightarrow> go_len xs"
  by (induction xss) (auto simp: go_len_def)

text \<open>
  An encoder and a decoder that consumes exactly one encoded value from the front of its input and
  returns the rest. What a client of such a pair relies on (injectivity, no encoding a proper
  prefix of another, a sequence of values readable one after the other) follows from the one law.
\<close>

locale framed_codec =
  fixes enc :: "'a \<Rightarrow> bytes"
    and dec :: "bytes \<Rightarrow> 'e + ('a \<times> bytes)"
    and ok :: "'a \<Rightarrow> bool"
  assumes dec_enc: "ok x \<Longrightarrow> go_len (enc x @ rest) \<Longrightarrow> dec (enc x @ rest) = Inr (x, rest)"
begin

lemma enc_append_inj:
  assumes "ok x" "ok y" "go_len (enc x @ r)" "enc x @ r = enc y @ s"
  shows "x = y \<and> r = s"
  using dec_enc [of x r] dec_enc [of y s] assms by simp

lemma enc_inj: "ok x \<Longrightarrow> ok y \<Longrightarrow> go_len (enc x) \<Longrightarrow> enc x = enc y \<Longrightarrow> x = y"
  using enc_append_inj [of x y "[]" "[]"] by simp

lemma enc_prefix_free:
  "ok x \<Longrightarrow> ok y \<Longrightarrow> go_len (enc y) \<Longrightarrow> enc y = enc x @ r \<Longrightarrow> x = y \<and> r = []"
  using enc_append_inj [of y x "[]" r] by auto

end



section \<open>Invariants of event-driven state\<close>

text \<open>A state machine that handles one event at a time, and a property every event keeps: it then
  holds after any sequence of events.\<close>

locale event_machine =
  fixes step :: "'e \<Rightarrow> 's \<Rightarrow> 's"
    and inv :: "'s \<Rightarrow> bool"
  assumes step_inv: "inv s \<Longrightarrow> inv (step e s)"
begin

lemma run_inv: "inv s \<Longrightarrow> inv (fold step es s)"
  by (induction es arbitrary: s) (simp_all add: step_inv)

end

text \<open>With final states that no event leaves, only the events up to the first final state matter.\<close>

locale halting_machine = event_machine +
  fixes final :: "'s \<Rightarrow> bool"
  assumes final_step: "final s \<Longrightarrow> step e s = s"
begin

lemma final_run: "final s \<Longrightarrow> fold step es s = s"
  by (induction es) (simp_all add: final_step)

lemma run_prefix_final: "final (fold step es s) \<Longrightarrow> fold step (es @ fs) s = fold step es s"
  by (simp add: final_run)

end

end
