(* ===== verification/Rlp.thy ===== *)
theory Rlp
  imports OFB_Prelude
begin

text \<open>
  RLP, the byte encoding of Ethereum transactions: the encoder of \<^verbatim>\<open>ethtypes/rlp.go\<close> and the
  reader of \<^verbatim>\<open>ethtypes/decode.go\<close> (\<open>readItem\<close>, \<open>readLong\<close>, \<open>readAny\<close>, \<open>splitList\<close>), with
  64-bit lengths kept at their width. Shown: the reader inverts the encoder in front of any
  remaining input, so encodings are injective and prefix-free; the reader accepts nothing but
  encodings, up to one non-minimal form; a list of items is split into exactly those items; and
  the one input shape on which the reader panics instead of returning an error.
\<close>

datatype rlp_error =
    UnexpectedEnd
  | ExpectedListFoundByte
  | ExpectedListFoundString
  | ExpectedStringFoundList
  | StringPastEnd
  | ListPastEnd
  | BadLengthOfLength byte
  | LengthPastEnd
  | LeadingZeroLength
  | NonCanonicalLength u64
  | ItemPastEnd
  | TrailingBytes nat
  | NegativeIntegerPanic
  | SliceBoundsPanic


section \<open>Encoder\<close>

function bigEndian_loop :: "u64 \<Rightarrow> bytes \<Rightarrow> bytes" where
  "bigEndian_loop v buf = (if v > 0 then bigEndian_loop (drop_bit 8 v) (ucast v # buf) else buf)"
  by pat_completeness auto
termination
proof (relation "measure (\<lambda>(v, buf). unat v)", goal_cases)
  case (2 v buf)
  then have "0 < unat v" by (simp add: unat_gt_0)
  then show ?case by (simp add: unat_drop_bit_8)
qed simp

declare bigEndian_loop.simps [simp del]

definition bigEndian :: "u64 \<Rightarrow> bytes" where
  "bigEndian v = (if v = 0 then [] else bigEndian_loop v [])"

definition rlpLengthPrefix :: "nat \<Rightarrow> byte \<Rightarrow> bytes" where
  "rlpLengthPrefix len offset =
     (if len \<le> 55 then [offset + of_nat len]
      else let lenBytes = bigEndian (of_nat len)
           in (offset + 55 + of_nat (length lenBytes)) # lenBytes)"

definition rlpString :: "bytes \<Rightarrow> bytes" where
  "rlpString b =
     (if length b = 1 \<and> b ! 0 < 0x80 then [b ! 0]
      else rlpLengthPrefix (length b) 0x80 @ b)"

definition rlpList :: "bytes \<Rightarrow> bytes" where
  "rlpList payload = rlpLengthPrefix (length payload) 0xc0 @ payload"

definition rlpUint :: "u64 \<Rightarrow> bytes" where
  "rlpUint v = rlpString (bigEndian v)"

text \<open>A nil \<^verbatim>\<open>*big.Int\<close> is \<^const>\<open>None\<close>; a negative one panics.\<close>

definition rlpBig :: "int option \<Rightarrow> rlp_error + bytes" where
  "rlpBig v =
     (case v of
        None \<Rightarrow> Inr (rlpString [])
      | Some x \<Rightarrow>
          if x < 0 then Inl NegativeIntegerPanic
          else Inr (rlpString (nat_bytes (nat x))))"


section \<open>Reader\<close>

definition beUint :: "bytes \<Rightarrow> u64" where
  "beUint b = foldl (\<lambda>v c. push_bit 8 v OR ucast c) 0 b"

definition readLong :: "bytes \<Rightarrow> byte \<Rightarrow> rlp_error + (bytes \<times> bytes)" where
  "readLong b lenOfLen =
     (if lenOfLen = 0 \<or> unat lenOfLen > 8 then Inl (BadLengthOfLength lenOfLen)
      else if length b < 1 + unat lenOfLen then Inl LengthPastEnd
      else let lengthBytes = take (unat lenOfLen) (drop 1 b) in
        if lengthBytes ! 0 = 0 then Inl LeadingZeroLength
        else let n = beUint lengthBytes in
          if n \<le> 55 then Inl (NonCanonicalLength n)
          else let start = 1 + ucast lenOfLen in
            if of_nat (length b) < start + n then Inl ItemPastEnd
            else
              res_bind (go_slice SliceBoundsPanic b (unat start) (unat (start + n))) (\<lambda>payload.
              res_bind (go_slice SliceBoundsPanic b (unat (start + n)) (length b)) (\<lambda>rest.
                Inr (payload, rest))))"

definition readItem :: "bytes \<Rightarrow> bool \<Rightarrow> rlp_error + (bytes \<times> bytes)" where
  "readItem b wantList =
     (if b = [] then Inl UnexpectedEnd
      else let prefix = b ! 0 in
        if prefix < 0x80 then
          (if wantList then Inl ExpectedListFoundByte
           else Inr (take 1 b, drop 1 b))
        else if prefix \<le> 0xb7 then
          (if wantList then Inl ExpectedListFoundString
           else let n = unat (prefix - 0x80) in
             if length b < 1 + n then Inl StringPastEnd
             else Inr (take n (drop 1 b), drop (1 + n) b))
        else if prefix \<le> 0xbf then
          (if wantList then Inl ExpectedListFoundString
           else readLong b (prefix - 0xb7))
        else if prefix \<le> 0xf7 then
          (if \<not> wantList then Inl ExpectedStringFoundList
           else let n = unat (prefix - 0xc0) in
             if length b < 1 + n then Inl ListPastEnd
             else Inr (take n (drop 1 b), drop (1 + n) b))
        else
          (if \<not> wantList then Inl ExpectedStringFoundList
           else readLong b (prefix - 0xf7)))"

definition readAny :: "bytes \<Rightarrow> rlp_error + (bytes \<times> bytes)" where
  "readAny b = (if b = [] then Inl UnexpectedEnd else readItem b (b ! 0 \<ge> 0xc0))"

text \<open>Every successful read consumes at least the prefix byte, which is why the loop ends.\<close>

lemma readLong_shorter: "readLong b l = Inr (p, r) \<Longrightarrow> length r < length b"
proof -
  assume h: "readLong b l = Inr (p, r)"
  define start :: u64 where "start = 1 + ucast l"
  have l8: "unat l \<le> 8" "l \<noteq> 0" using h by (auto simp: readLong_def split: if_splits)
  have s: "unat start = 1 + unat l" using l8
    by (simp add: start_def unat_word_ariths)
  obtain n where "unat start \<le> unat (start + n)" "r = drop (unat (start + n)) b"
    "unat (start + n) \<le> length b"
    using h unfolding readLong_def Let_def start_def [symmetric]
    by (auto simp: res_simps go_slice_def split: if_splits)
  with s show ?thesis by simp
qed

lemma readItem_shorter: "readItem b w = Inr (p, r) \<Longrightarrow> length r < length b"
  by (auto simp: readItem_def Let_def split: if_splits dest: readLong_shorter)

lemma readAny_shorter: "readAny b = Inr (p, r) \<Longrightarrow> length r < length b"
  by (auto simp: readAny_def split: if_splits dest: readItem_shorter)

function splitList_loop :: "bytes \<Rightarrow> bytes list \<Rightarrow> rlp_error + bytes list" where
  "splitList_loop payload items =
     (if payload = [] then Inr items
      else case readAny payload of
          Inl e \<Rightarrow> Inl e
        | Inr (item, remaining) \<Rightarrow> splitList_loop remaining (items @ [item]))"
  by pat_completeness auto
termination
  by (relation "measure (\<lambda>(payload, items). length payload)") (auto dest: readAny_shorter)

declare splitList_loop.simps [simp del]

definition splitList :: "bytes \<Rightarrow> rlp_error + bytes list" where
  "splitList b =
     res_bind (readItem b True) (\<lambda>(payload, rest).
       if rest \<noteq> [] then Inl (TrailingBytes (length rest))
       else splitList_loop payload [])"



section \<open>Bytes and numbers\<close>

lemma bigEndian_loop_eq: "bigEndian_loop v buf = nat_bytes (unat v) @ buf"
proof (induction v buf rule: bigEndian_loop.induct)
  case (1 v buf)
  show ?case
  proof (cases "v > 0")
    case True
    then have "0 < unat v" by (simp add: unat_gt_0)
    with 1 [OF True] True show ?thesis
      by (subst bigEndian_loop.simps)
        (simp add: nat_bytes_pos [of "unat v"] unat_drop_bit_8)
  next
    case False
    then have "v = 0" by (simp add: word_gt_0)
    then show ?thesis by (subst bigEndian_loop.simps) simp
  qed
qed

lemma bigEndian_eq: "bigEndian v = nat_bytes (unat v)"
  by (simp add: bigEndian_def bigEndian_loop_eq)

lemma push_or_byte: "push_bit 8 (v :: u64) OR ucast (c :: byte) = v * 256 + ucast c"
proof -
  have "push_bit 8 v + ucast c = push_bit 8 v OR (ucast c :: u64)"
    by (rule disjunctive_add) (auto simp: bit_simps dest: bit_imp_le_length)
  then show ?thesis by (simp add: push_bit_eq_mult mult.commute)
qed

lemma beUint_eq: "beUint bs = of_nat (bytes_nat bs)"
proof (induction bs rule: rev_induct)
  case (snoc c bs)
  have "beUint (bs @ [c]) = beUint bs * 256 + ucast c"
    by (simp add: beUint_def push_or_byte)
  also have "(ucast c :: u64) = of_nat (unat c)" by (rule of_nat_unat [symmetric])
  finally show ?case using snoc by simp
qed (simp add: beUint_def)

lemma beUint_bigEndian [simp]: "beUint (bigEndian v) = v"
  by (simp add: beUint_eq bigEndian_eq)

lemma length_bigEndian_le: "length (bigEndian v) \<le> 8"
proof -
  have "unat v < 2 ^ 64" using unsigned_less [of v, where 'a = nat] by simp
  then show ?thesis by (simp add: bigEndian_eq length_nat_bytes_le)
qed


text \<open>An encoding is at most nine bytes longer than what it encodes.\<close>

lemma length_rlpLengthPrefix_le: "length (rlpLengthPrefix n c) \<le> 9"
  using length_bigEndian_le [of "of_nat n"] by (simp add: rlpLengthPrefix_def Let_def)

lemma length_rlpString_le: "length (rlpString b) \<le> length b + 9"
  using length_rlpLengthPrefix_le [of "length b" "0x80"] by (simp add: rlpString_def)

lemma length_rlpList_le: "length (rlpList b) \<le> length b + 9"
  using length_rlpLengthPrefix_le [of "length b" "0xc0"] by (simp add: rlpList_def)


section \<open>The reader inverts the encoder\<close>

lemma length_len_bytes:
  assumes "0 < n" "n < 2 ^ 63"
  shows "length (nat_bytes n) \<in> {1, 2, 3, 4, 5, 6, 7, 8}"
proof -
  have "length (nat_bytes n) \<le> 8" using assms by (intro length_nat_bytes_le) simp
  moreover have "length (nat_bytes n) \<noteq> 0" using assms by simp
  ultimately show ?thesis by (simp add: numeral_eq_Suc le_Suc_eq)
qed

lemma readLong_frame:
  assumes long: "55 < length p" and len: "go_len ((c # nat_bytes (length p) @ p) @ rest)"
  shows "readLong (c # nat_bytes (length p) @ p @ rest) (of_nat (length (nat_bytes (length p))))
         = Inr (p, rest)"
proof -
  let ?L = "nat_bytes (length p)"
  let ?l = "of_nat (length ?L) :: byte"
  let ?b = "c # ?L @ p @ rest"
  have plen: "length p < 2 ^ 63" using len by (simp add: go_len_def)
  have k: "length ?L \<in> {1, 2, 3, 4, 5, 6, 7, 8}"
    by (rule length_len_bytes) (use long plen in auto)
  then have ul: "unat ?l = length ?L" by auto
  have l0: "?l \<noteq> 0" "unat ?l \<le> 8" using k by auto
  have n: "unat (beUint ?L) = length p"
    using plen by (simp add: beUint_eq unat_of_nat)
  have gt: "\<not> beUint ?L \<le> 55"
    using n long by (simp add: word_le_nat_alt)
  have start: "unat (1 + ucast ?l :: u64) = 1 + length ?L"
    using k ul by (auto simp: unat_word_ariths)
  have sum: "unat (1 + ucast ?l + beUint ?L) = 1 + length ?L + length p"
    using start n k plen by (auto simp: unat_word_ariths)
  have blen: "unat (of_nat (length ?b) :: u64) = length ?b"
    by (simp only: unat_of_nat) (use len in \<open>simp add: go_len_def\<close>)
  have fits: "\<not> of_nat (length ?b) < 1 + ucast ?l + beUint ?L"
    unfolding word_less_nat_alt blen sum by simp
  have hd0: "?L ! 0 \<noteq> 0"
    using hd_nat_bytes [of "length p"] long by (metis gr_implies_not0 hd_conv_nth nat_bytes_eq_Nil not_gr_zero)
  show ?thesis
    using l0 gt hd0 fits
    unfolding readLong_def Let_def go_slice_def start sum ul
    by (simp add: start sum ul)
qed

lemma unat_short_prefix:
  "n \<le> 55 \<Longrightarrow> unat (0x80 + of_nat n :: byte) = 0x80 + n"
  "n \<le> 55 \<Longrightarrow> unat (0xc0 + of_nat n :: byte) = 0xc0 + n"
  by (simp_all add: unat_word_ariths)

lemma readItem_string:
  assumes len: "go_len (rlpString b @ rest)"
  shows "readItem (rlpString b @ rest) False = Inr (b, rest)"
proof (cases "length b = 1 \<and> b ! 0 < 0x80")
  case True
  then obtain x where "b = [x]" by (cases b) auto
  with True show ?thesis by (simp add: rlpString_def readItem_def)
next
  case single: False
  show ?thesis
  proof (cases "length b \<le> 55")
    case True
    then show ?thesis using single unat_short_prefix(1) [OF True]
      by (auto simp: rlpString_def rlpLengthPrefix_def readItem_def Let_def word_less_nat_alt
          word_le_nat_alt unat_of_nat)
  next
    case False
    let ?L = "nat_bytes (length b)"
    have blen: "length b < 2 ^ 63" using len by (simp add: rlpString_def go_len_def split: if_splits)
    then have be: "bigEndian (of_nat (length b)) = ?L"
      by (simp add: bigEndian_eq unat_of_nat)
    have enc: "rlpString b = (0x80 + 55 + of_nat (length ?L)) # ?L @ b"
      using False single by (auto simp: rlpString_def rlpLengthPrefix_def be Let_def)
    have k: "length ?L \<in> {1, 2, 3, 4, 5, 6, 7, 8}"
      by (rule length_len_bytes) (use False blen in auto)
    have "readItem (rlpString b @ rest) False
        = readLong (rlpString b @ rest) (of_nat (length ?L))"
      using k by (auto simp: enc readItem_def Let_def)
    also have "\<dots> = Inr (b, rest)"
      using readLong_frame [of b _ rest] False len by (simp add: enc)
    finally show ?thesis .
  qed
qed

lemma readItem_list:
  assumes len: "go_len (rlpList b @ rest)"
  shows "readItem (rlpList b @ rest) True = Inr (b, rest)"
proof (cases "length b \<le> 55")
  case True
  then show ?thesis using unat_short_prefix(2) [OF True]
    by (auto simp: rlpList_def rlpLengthPrefix_def readItem_def Let_def word_less_nat_alt
        word_le_nat_alt unat_of_nat)
next
  case False
  let ?L = "nat_bytes (length b)"
  have blen: "length b < 2 ^ 63" using len by (simp add: rlpList_def go_len_def)
  then have be: "bigEndian (of_nat (length b)) = ?L"
    by (simp add: bigEndian_eq unat_of_nat)
  have enc: "rlpList b = (0xc0 + 55 + of_nat (length ?L)) # ?L @ b"
    using False by (simp add: rlpList_def rlpLengthPrefix_def be Let_def)
  have k: "length ?L \<in> {1, 2, 3, 4, 5, 6, 7, 8}"
    by (rule length_len_bytes) (use False blen in auto)
  have "readItem (rlpList b @ rest) True = readLong (rlpList b @ rest) (of_nat (length ?L))"
    using k by (auto simp: enc readItem_def Let_def)
  also have "\<dots> = Inr (b, rest)"
    using readLong_frame [of b _ rest] False len by (simp add: enc)
  finally show ?thesis .
qed

interpretation rlp_str: framed_codec rlpString "\<lambda>b. readItem b False" "\<lambda>_. True"
  by unfold_locales (rule readItem_string)

interpretation rlp_lst: framed_codec rlpList "\<lambda>b. readItem b True" "\<lambda>_. True"
  by unfold_locales (rule readItem_list)



section \<open>The reader accepts only encodings\<close>

text \<open>The length field of a long item, read back: the decoded length, and that it is minimal.\<close>

lemma readLong_sound:
  assumes len: "go_len b" and read: "readLong b l = Inr (p, r)"
  shows "\<exists>c. b = c # nat_bytes (length p) @ p @ r" "55 < length p"
    "l = of_nat (length (nat_bytes (length p)))"
proof -
  let ?L = "take (unat l) (drop 1 b)"
  define start :: u64 where "start = 1 + ucast l"
  define n where "n = beUint ?L"
  note d = read [unfolded readLong_def Let_def, folded start_def n_def]
  have l8: "unat l \<le> 8" "l \<noteq> 0" and bl: "1 + unat l \<le> length b" and hd0: "?L ! 0 \<noteq> 0"
    and n55: "\<not> n \<le> 55"
    using d by (auto split: if_splits)
  have sl: "unat start \<le> unat (start + n)" "unat (start + n) \<le> length b"
    and p: "p = take (unat (start + n) - unat start) (drop (unat start) b)"
    and r: "r = drop (unat (start + n)) b"
    using d by (auto simp: res_simps go_slice_def split: if_splits)
  have s: "unat start = 1 + unat l" using l8 by (simp add: start_def unat_word_ariths)
  have lL: "length ?L = unat l" using bl by simp
  then have "bytes_nat ?L < 256 ^ 8"
    using bytes_nat_less [of ?L] l8 power_increasing [of "unat l" 8 "256 :: nat"] by simp
  then have un: "unat n = bytes_nat ?L" by (simp add: n_def beUint_eq unat_of_nat)
  have sum: "unat (start + n) = unat start + unat n"
    using sl(1) by (simp add: unat_plus_simple [symmetric] word_le_nat_alt)
  have lp: "length p = unat n" using p sl sum by simp
  have "?L \<noteq> []" using lL l8 by (auto simp: unat_eq_zero)
  then have nb: "nat_bytes (length p) = ?L"
    using hd0 by (simp only: lp un) (rule nat_bytes_bytes_nat, simp add: hd_conv_nth)
  obtain c b' where b: "b = c # b'" using bl by (cases b) auto
  have "b' = take (unat l) b' @ take (unat n) (drop (unat l) b') @ drop (unat n) (drop (unat l) b')"
    by (simp only: append_take_drop_id)
  then have "b' = ?L @ p @ r" using b p r s sum by (simp add: add.commute)
  then show "\<exists>c. b = c # nat_bytes (length p) @ p @ r" using b nb by simp
  show "55 < length p" using n55 lp by (simp add: word_le_nat_alt)
  show "l = of_nat (length (nat_bytes (length p)))" using nb lL by simp
qed

lemma byte_decompose:
  fixes c :: byte
  shows "0x80 \<le> c \<Longrightarrow> c = 0x80 + of_nat (unat (c - 0x80))"
    and "0xc0 \<le> c \<Longrightarrow> c = 0xc0 + of_nat (unat (c - 0xc0))"
  by simp_all

lemma unat_prefix_diff:
  fixes c :: byte
  shows "0x80 \<le> c \<Longrightarrow> unat (c - 0x80) = unat c - 0x80"
    and "0xc0 \<le> c \<Longrightarrow> unat (c - 0xc0) = unat c - 0xc0"
  by (simp_all add: unat_sub)

lemma readItem_list_sound:
  assumes len: "go_len b" and read: "readItem b True = Inr (p, r)"
  shows "b = rlpList p @ r"
proof -
  obtain c b' where b: "b = c # b'" using read by (cases b) (auto simp: readItem_def)
  have c0: "\<not> c \<le> 0xbf" using read b by (auto simp: readItem_def Let_def word_less_nat_alt
      word_le_nat_alt split: if_splits)
  then have cc0: "0xc0 \<le> c" by (simp add: word_le_nat_alt)
  show ?thesis
  proof (cases "c \<le> 0xf7")
    case True
    define n where "n = unat (c - 0xc0)"
    have n: "n \<le> length b'" "p = take n b'" "r = drop n b'"
      using read b c0 True
      by (auto simp: readItem_def Let_def n_def word_less_nat_alt word_le_nat_alt split: if_splits)
    have "n \<le> 55" using True unat_prefix_diff(2) [OF cc0] by (simp add: n_def word_le_nat_alt)
    then show ?thesis using n b byte_decompose(2) [OF cc0]
      by (simp add: rlpList_def rlpLengthPrefix_def n_def)
  next
    case False
    have rl: "readLong b (c - 0xf7) = Inr (p, r)"
      using read b c0 False
      by (auto simp: readItem_def Let_def word_less_nat_alt word_le_nat_alt split: if_splits)
    note f = readLong_sound [OF len rl]
    have "length p < 2 ^ 63" using f(1) len by (auto simp: go_len_def)
    then have "bigEndian (of_nat (length p)) = nat_bytes (length p)"
      by (simp add: bigEndian_eq unat_of_nat)
    moreover have "c = 0xc0 + 55 + of_nat (length (nat_bytes (length p)))"
      using f(3) by (simp add: algebra_simps)
    ultimately show ?thesis using f(1,2) b by (auto simp: rlpList_def rlpLengthPrefix_def Let_def)
  qed
qed

lemma readItem_string_sound:
  assumes len: "go_len b" and read: "readItem b False = Inr (p, r)"
  shows "b = rlpString p @ r \<or> (\<exists>x < 0x80. p = [x] \<and> b = 0x81 # x # r)"
proof -
  obtain c b' where b: "b = c # b'" using read by (cases b) (auto simp: readItem_def)
  have c0: "c \<le> 0xbf" using read b by (auto simp: readItem_def Let_def word_less_nat_alt
      word_le_nat_alt split: if_splits)
  consider (single) "c < 0x80" | (short) "0x80 \<le> c" "c \<le> 0xb7" | (long) "0xb7 < c"
    by fastforce
  then show ?thesis
  proof cases
    case single
    then have "p = [c]" "r = b'" using read b by (auto simp: readItem_def)
    then show ?thesis using single b by (simp add: rlpString_def)
  next
    case short
    define n where "n = unat (c - 0x80)"
    have n: "n \<le> length b'" "p = take n b'" "r = drop n b'"
      using read b short
      by (auto simp: readItem_def Let_def n_def word_less_nat_alt word_le_nat_alt split: if_splits)
    have n55: "n \<le> 55" using short unat_prefix_diff(1) [OF short(1)]
      by (simp add: n_def word_le_nat_alt)
    have c: "c = 0x80 + of_nat n" using byte_decompose(1) [OF short(1)] by (simp add: n_def)
    show ?thesis
    proof (cases "length p = 1 \<and> p ! 0 < 0x80")
      case True
      then obtain x where x: "p = [x]" by (cases p) auto
      then have "n = 1" using n by (cases b') (auto simp: take_Suc_conv_app_nth dest: arg_cong [where f = length])
      then have "b = 0x81 # x # r" using x n b c by (cases b') auto
      then show ?thesis using x True by auto
    next
      case False
      then have "b = rlpString p @ r" using n n55 b c
        by (auto simp: rlpString_def rlpLengthPrefix_def)
      then show ?thesis ..
    qed
  next
    case long
    have rl: "readLong b (c - 0xb7) = Inr (p, r)"
      using read b c0 long
      by (auto simp: readItem_def Let_def word_less_nat_alt word_le_nat_alt split: if_splits)
    note f = readLong_sound [OF len rl]
    have "length p < 2 ^ 63" using f(1) len by (auto simp: go_len_def)
    then have "bigEndian (of_nat (length p)) = nat_bytes (length p)"
      by (simp add: bigEndian_eq unat_of_nat)
    moreover have "c = 0x80 + 55 + of_nat (length (nat_bytes (length p)))"
      using f(3) by (simp add: algebra_simps)
    ultimately show ?thesis using f(1,2) b by (auto simp: rlpString_def rlpLengthPrefix_def Let_def)
  qed
qed



section \<open>Splitting a list into its items\<close>

text \<open>An item of either kind, as the transaction encoder concatenates them.\<close>

datatype rlp_item = Str (payload_of: bytes) | Lst (payload_of: bytes)

fun enc_item :: "rlp_item \<Rightarrow> bytes" where
  "enc_item (Str b) = rlpString b"
| "enc_item (Lst b) = rlpList b"

lemma rlpString_head: "rlpString b \<noteq> [] \<and> (go_len (rlpString b) \<longrightarrow> \<not> 0xc0 \<le> rlpString b ! 0)"
proof (cases "readItem (rlpString b) False")
  case (Inl e)
  then have "\<not> go_len (rlpString b)" using readItem_string [of b "[]"] by auto
  then show ?thesis by (auto simp: rlpString_def rlpLengthPrefix_def Let_def)
next
  case (Inr r)
  then show ?thesis
    by (auto simp: readItem_def Let_def word_less_nat_alt word_le_nat_alt split: if_splits)
qed

lemma rlpList_head: "rlpList b \<noteq> [] \<and> (go_len (rlpList b) \<longrightarrow> 0xc0 \<le> rlpList b ! 0)"
proof (cases "readItem (rlpList b) True")
  case (Inl e)
  then have "\<not> go_len (rlpList b)" using readItem_list [of b "[]"] by auto
  then show ?thesis by (auto simp: rlpList_def rlpLengthPrefix_def Let_def)
next
  case (Inr r)
  then show ?thesis
    by (auto simp: readItem_def Let_def word_less_nat_alt word_le_nat_alt split: if_splits)
qed

lemma length_enc_items_le:
  "length (concat (map enc_item its)) \<le> sum_list (map (\<lambda>it. length (payload_of it) + 9) its)"
proof (induction its)
  case (Cons it its)
  have "length (enc_item it) \<le> length (payload_of it) + 9"
    by (cases it) (simp_all add: length_rlpString_le length_rlpList_le)
  with Cons show ?case by simp
qed simp

lemma enc_item_nonempty [simp]: "enc_item it \<noteq> []"
  using rlpString_head rlpList_head by (cases it) auto

lemma readAny_item:
  assumes "go_len (enc_item it @ rest)"
  shows "readAny (enc_item it @ rest) = Inr (payload_of it, rest)"
proof (cases it)
  case (Str b)
  with assms have "go_len (rlpString b)" by (auto dest: go_len_appendD1)
  then show ?thesis
    using assms Str rlpString_head [of b] readItem_string [of b rest]
    by (simp add: readAny_def nth_append)
next
  case (Lst b)
  with assms have "go_len (rlpList b)" by (auto dest: go_len_appendD1)
  then show ?thesis
    using assms Lst rlpList_head [of b] readItem_list [of b rest]
    by (simp add: readAny_def nth_append)
qed

lemma splitList_loop_items:
  assumes "go_len (concat (map enc_item its))"
  shows "splitList_loop (concat (map enc_item its)) items = Inr (items @ map payload_of its)"
  using assms
proof (induction its arbitrary: items)
  case Nil
  then show ?case by (simp add: splitList_loop.simps)
next
  case (Cons it its)
  have "go_len (concat (map enc_item its))" using Cons.prems by (auto dest: go_len_appendD2)
  with Cons.IH [of "items @ [payload_of it]"] readAny_item [of it] Cons.prems show ?case
    by (subst splitList_loop.simps) simp
qed

lemma splitList_items:
  assumes "go_len (rlpList (concat (map enc_item its)))"
  shows "splitList (rlpList (concat (map enc_item its))) = Inr (map payload_of its)"
proof -
  have "go_len (concat (map enc_item its))"
    using assms by (auto simp: rlpList_def dest: go_len_appendD2)
  then show ?thesis
    using readItem_list [of _ "[]"] assms by (simp add: splitList_def splitList_loop_items)
qed

text \<open>The bytes that name the transaction determine every item in it.\<close>

lemma rlp_items_inj:
  assumes "go_len (rlpList (concat (map enc_item its)))"
    and "rlpList (concat (map enc_item its)) = rlpList (concat (map enc_item its'))"
  shows "map payload_of its = map payload_of its'"
  using splitList_items [of its] splitList_items [of its'] assms by simp


section \<open>Where the reader panics\<close>

lemma readLong_panic:
  assumes len: "go_len b"
  shows "readLong b l = Inl SliceBoundsPanic \<longleftrightarrow>
    l = 8 \<and> 9 \<le> length b \<and> 2 ^ 64 \<le> 9 + bytes_nat (take 8 (drop 1 b))"
proof (cases "l = 0 \<or> unat l > 8 \<or> length b < 1 + unat l")
  case True
  then show ?thesis by (auto simp: readLong_def)
next
  case False
  let ?L = "take (unat l) (drop 1 b)"
  define start :: u64 where "start = 1 + ucast l"
  define n where "n = beUint ?L"
  have l8: "unat l \<le> 8" "l \<noteq> 0" "1 + unat l \<le> length b" using False by auto
  have s: "unat start = 1 + unat l" using l8 by (simp add: start_def unat_word_ariths)
  have lL: "length ?L = unat l" using l8 by simp
  have small: "bytes_nat ?L < 256 ^ unat l" using bytes_nat_less [of ?L] lL by simp
  also have "\<dots> \<le> 256 ^ 8" using l8 by (intro power_increasing) simp_all
  finally have un: "unat n = bytes_nat ?L" by (simp add: n_def beUint_eq unat_of_nat)
  have blen: "unat (of_nat (length b) :: u64) = length b"
    using len by (simp only: unat_of_nat go_len_def) simp
  show ?thesis
  proof (cases "unat start + unat n < 2 ^ 64")
    case True
    then have sum: "unat (start + n) = unat start + unat n" by (simp add: unat_word_ariths)
    have "readLong b l \<noteq> Inl SliceBoundsPanic"
      unfolding readLong_def Let_def start_def [symmetric] n_def [symmetric]
      using sum blen by (auto simp: res_simps go_slice_def word_less_nat_alt)
    moreover have "\<not> 2 ^ 64 \<le> 9 + bytes_nat (take 8 (drop 1 b))" if "l = 8"
      using True s un that by simp
    ultimately show ?thesis by auto
  next
    case wrap: False
    have "unat l = 8"
    proof (rule ccontr)
      assume "unat l \<noteq> 8"
      then have "unat l \<le> 7" using l8 by simp
      then have "(256 :: nat) ^ unat l \<le> 256 ^ 7" by (intro power_increasing) simp_all
      then show False using wrap s un small \<open>unat l \<le> 7\<close> by simp
    qed
    then have l: "l = 8" by (simp add: word_unat_eq_iff)
    have n_big: "2 ^ 64 \<le> 9 + bytes_nat ?L" using wrap s un \<open>unat l = 8\<close> by simp
    have "?L ! 0 \<noteq> 0"
    proof
      assume z: "?L ! 0 = 0"
      obtain c L' where L: "?L = c # L'" using lL \<open>unat l = 8\<close> by (cases ?L) auto
      with z have "bytes_nat ?L = bytes_nat L'" by (simp add: bytes_nat_Cons)
      moreover have "length (c # L') = 8" unfolding L [symmetric] using lL \<open>unat l = 8\<close> by simp
      then have "bytes_nat L' < 256 ^ 7" using bytes_nat_less [of L'] by simp
      ultimately show False using n_big by simp
    qed
    moreover have "\<not> n \<le> 55" using n_big un by (simp add: word_le_nat_alt)
    moreover have sum: "unat (start + n) < unat start"
    proof (rule ccontr)
      assume "\<not> ?thesis"
      then have "unat (start + n) = unat start + unat n"
        by (simp add: unat_plus_simple [symmetric] word_le_nat_alt)
      then show False using wrap unsigned_less [of "start + n", where 'a = nat] by simp
    qed
    moreover have "\<not> of_nat (length b) < start + n"
      using sum s l8 blen by (simp add: word_less_nat_alt)
    ultimately have "readLong b l = Inl SliceBoundsPanic"
      unfolding readLong_def Let_def start_def [symmetric] n_def [symmetric]
      using False by (simp add: go_slice_def)
    then show ?thesis using l n_big l8 \<open>unat l = 8\<close> by simp
  qed
qed

lemma readItem_panic:
  assumes len: "go_len b"
  shows "readItem b w = Inl SliceBoundsPanic \<longleftrightarrow>
    9 \<le> length b \<and> b ! 0 = (if w then 0xff else 0xbf) \<and>
    2 ^ 64 \<le> 9 + bytes_nat (take 8 (drop 1 b))"
proof (cases b)
  case (Cons c b')
  have e: "c - 0xb7 = 8 \<longleftrightarrow> c = 0xbf" "c - 0xf7 = 8 \<longleftrightarrow> c = 0xff"
    by (auto simp: diff_eq_eq)
  show ?thesis
    using Cons readLong_panic [OF len, of "c - 0xb7"] readLong_panic [OF len, of "c - 0xf7"] e
    by (auto simp: readItem_def Let_def)
qed (simp add: readItem_def)



section \<open>Properties\<close>

text \<open>Splitting undoes list building: from a list of strings and nested lists, encoded and
  concatenated, \<^const>\<open>splitList\<close> returns exactly their payloads in order, at every size a Go
  slice can have, in the short and in the long length form.\<close>

theorem rlp_split_roundtrip:
  assumes "go_len (rlpList (concat (map enc_item its)))"
  shows "splitList (rlpList (concat (map enc_item its))) = Inr (map payload_of its)"
  using assms by (rule splitList_items)

theorem rlp_split_roundtrip_witness:
  "splitList (rlpList (concat (map enc_item [Str (replicate 60 7), Lst [], Str [0x7f]])))
     = Inr [replicate 60 7, [], [0x7f]]"
proof -
  let ?its = "[Str (replicate 60 7), Lst [], Str [0x7f]]"
  have "length (concat (map enc_item ?its)) \<le> 100"
    using length_enc_items_le [of ?its] by simp
  then have "go_len (rlpList (concat (map enc_item ?its)))"
    using length_rlpList_le [of "concat (map enc_item ?its)"] by (simp add: go_len_def)
  from rlp_split_roundtrip [OF this] show ?thesis by simp
qed

text \<open>The reader accepts nothing the encoder does not produce, with one exception: a list item
  is accepted only in its one canonical encoding, and a string item only in its canonical encoding
  or, for a single byte below \<^verbatim>\<open>0x80\<close>, in the longer form \<^verbatim>\<open>0x81 x\<close>.\<close>

theorem rlp_reader_accepts_encodings:
  assumes "go_len b" "readItem b wantList = Inr (p, r)"
  shows "b = (if wantList then rlpList p else rlpString p) @ r \<or>
    (\<not> wantList \<and> (\<exists>x < 0x80. p = [x] \<and> b = [0x81, x] @ r))"
  using assms readItem_list_sound [of b p r] readItem_string_sound [of b p r]
  by (cases wantList) auto

theorem rlp_reader_accepts_encodings_witness:
  "[0x81, 5, 0xc0] = rlpString [5] @ [0xc0] \<or> (\<exists>x < 0x80. [5 :: byte] = [x] \<and> [0x81, 5, 0xc0] = [0x81, x] @ [0xc0 :: byte])"
  using rlp_reader_accepts_encodings [of "[0x81, 5, 0xc0]" False "[5]" "[0xc0]"]
  by (simp add: go_len_def readItem_def)

end
