(* ===== verification/Go_Text.thy ===== *)
theory Go_Text
  imports OFB_Prelude
begin

text \<open>
  The parts of Go's standard library the modelled code uses on text: \<^verbatim>\<open>encoding/hex\<close>,
  \<^verbatim>\<open>strconv\<close> decimal rendering and parsing, \<^verbatim>\<open>strings.Join\<close>, and the conversion between
  strings and byte slices. A Go string is a sequence of bytes, so a HOL \<^typ>\<open>char\<close> is one byte.
\<close>

section \<open>Strings as bytes\<close>

definition str_bytes :: "string \<Rightarrow> bytes" where
  "str_bytes s = map (\<lambda>c. of_nat (of_char c)) s"

definition bytes_str :: "bytes \<Rightarrow> string" where
  "bytes_str b = map (\<lambda>x. char_of (unat x)) b"

lemma bytes_str_str_bytes [simp]: "bytes_str (str_bytes s) = s"
  by (simp add: bytes_str_def str_bytes_def comp_def map_idI)

lemma str_bytes_bytes_str [simp]: "str_bytes (bytes_str b) = b"
  by (simp add: bytes_str_def str_bytes_def comp_def of_char_of map_idI)

lemma str_bytes_inj: "str_bytes s = str_bytes t \<Longrightarrow> s = t"
  by (metis bytes_str_str_bytes)

lemma length_str_bytes [simp]: "length (str_bytes s) = length s"
  by (simp add: str_bytes_def)


section \<open>Hexadecimal\<close>

definition hex_digit :: "nat \<Rightarrow> char" where
  "hex_digit n = char_of (if n < 10 then 48 + n else 87 + n)"

definition unhex :: "char \<Rightarrow> nat option" where
  "unhex c = (let n = of_char c in
     if 48 \<le> n \<and> n \<le> 57 then Some (n - 48)
     else if 97 \<le> n \<and> n \<le> 102 then Some (n - 87)
     else if 65 \<le> n \<and> n \<le> 70 then Some (n - 55)
     else None)"

definition hex_encode :: "bytes \<Rightarrow> string" where
  "hex_encode bs = concat (map (\<lambda>b. [hex_digit (unat b div 16), hex_digit (unat b mod 16)]) bs)"

text \<open>\<^verbatim>\<open>hex.DecodeString\<close>: an odd length or a character that is no hex digit is an error.\<close>

fun hex_decode :: "string \<Rightarrow> bytes option" where
  "hex_decode [] = Some []"
| "hex_decode [c] = None"
| "hex_decode (c # d # s) =
     (case (unhex c, unhex d, hex_decode s) of
        (Some h, Some l, Some bs) \<Rightarrow> Some (of_nat (h * 16 + l) # bs)
      | _ \<Rightarrow> None)"

lemma unhex_hex_digit [simp]: "n < 16 \<Longrightarrow> unhex (hex_digit n) = Some n"
  by (auto simp: unhex_def hex_digit_def Let_def)

lemma hex_encode_Nil [simp]: "hex_encode [] = []"
  by (simp add: hex_encode_def)

lemma hex_encode_Cons [simp]:
  "hex_encode (b # bs) = hex_digit (unat b div 16) # hex_digit (unat b mod 16) # hex_encode bs"
  by (simp add: hex_encode_def)

lemma length_hex_encode [simp]: "length (hex_encode bs) = 2 * length bs"
  by (induction bs) simp_all

lemma unat_byte_div_16 [simp]: "unat (b :: byte) div 16 < 16"
  using unat_byte_less [of b] by (simp add: less_mult_imp_div_less)

lemma hex_decode_encode [simp]: "hex_decode (hex_encode bs) = Some bs"
  by (induction bs) simp_all

lemma hex_decode_length: "hex_decode s = Some bs \<Longrightarrow> length s = 2 * length bs"
  by (induction s arbitrary: bs rule: hex_decode.induct) (auto split: option.splits)

text \<open>Decoding looks at each character only through its digit value, hence ignores case.\<close>

lemma hex_decode_cong: "map unhex s = map unhex t \<Longrightarrow> hex_decode s = hex_decode t"
proof (induction s arbitrary: t rule: hex_decode.induct)
  case (3 c d s)
  then obtain c' d' t' where t: "t = c' # d' # t'" "unhex c = unhex c'" "unhex d = unhex d'"
    "map unhex s = map unhex t'"
    by (auto simp: map_eq_Cons_conv Cons_eq_map_conv)
  show ?case using "3.IH" [OF t(4)] t by simp
qed (auto simp: Cons_eq_map_conv)

lemma hex_digit_of_hex_encode:
  "c \<in> set (hex_encode bs) \<Longrightarrow> \<exists>n < 16. c = hex_digit n"
proof (induction bs)
  case (Cons b bs)
  have "unat b div 16 < 16" "unat b mod 16 < 16" by simp_all
  with Cons show ?case by (metis hex_encode_Cons set_ConsD)
qed simp

lemma of_char_hex_digit: "n < 16 \<Longrightarrow> of_char (hex_digit n) = (if n < 10 then 48 + n else 87 + n)"
  by (simp add: hex_digit_def)


section \<open>Decimal numbers\<close>

definition dec_digit :: "nat \<Rightarrow> char" where
  "dec_digit n = char_of (48 + n)"

fun dec_nat :: "nat \<Rightarrow> string" where
  "dec_nat n = (if n < 10 then [dec_digit n] else dec_nat (n div 10) @ [dec_digit (n mod 10)])"

declare dec_nat.simps [simp del]

text \<open>\<^verbatim>\<open>strconv.FormatInt(x, 10)\<close>\<close>

definition dec_int :: "int \<Rightarrow> string" where
  "dec_int x = (if x < 0 then CHR ''-'' # dec_nat (nat (- x)) else dec_nat (nat x))"

definition is_digit :: "char \<Rightarrow> bool" where
  "is_digit c \<longleftrightarrow> (48 :: nat) \<le> of_char c \<and> of_char c \<le> (57 :: nat)"

definition digits_nat :: "string \<Rightarrow> nat" where
  "digits_nat s = foldl (\<lambda>v c. v * 10 + (of_char c - 48)) 0 s"

lemma digits_nat_snoc [simp]: "digits_nat (s @ [c]) = digits_nat s * 10 + (of_char c - 48)"
  by (simp add: digits_nat_def)

lemma is_digit_dec_digit [simp]: "n < 10 \<Longrightarrow> is_digit (dec_digit n)"
  by (simp add: is_digit_def dec_digit_def)

lemma of_char_dec_digit [simp]: "n < 10 \<Longrightarrow> of_char (dec_digit n) = 48 + n"
  by (simp add: dec_digit_def)

lemma digits_nat_dec_nat [simp]: "digits_nat (dec_nat n) = n"
proof (induction n rule: dec_nat.induct)
  case (1 n)
  show ?case
  proof (cases "n < 10")
    case True
    then show ?thesis by (simp add: dec_nat.simps digits_nat_def)
  next
    case False
    then show ?thesis using 1 by (subst dec_nat.simps) simp
  qed
qed

lemma dec_nat_digits: "list_all is_digit (dec_nat n)"
proof (induction n rule: dec_nat.induct)
  case (1 n)
  then show ?case by (subst dec_nat.simps) simp
qed

lemma dec_nat_nonempty [simp]: "dec_nat n \<noteq> []"
  by (subst dec_nat.simps) simp

lemma dec_nat_inj: "dec_nat m = dec_nat n \<Longrightarrow> m = n"
  by (metis digits_nat_dec_nat)

lemma not_digit_minus [simp]: "\<not> is_digit (CHR ''-'')"
  by (simp add: is_digit_def)

lemma dec_int_inj: "dec_int x = dec_int y \<Longrightarrow> x = y"
proof -
  assume h: "dec_int x = dec_int y"
  have no: "CHR ''-'' # s \<noteq> dec_nat n" for s n
    using dec_nat_digits [of n] by (metis list.pred_inject(2) not_digit_minus)
  show ?thesis
    using h no by (auto simp: dec_int_def dest: dec_nat_inj split: if_splits) (metis no)+
qed


section \<open>Joining\<close>

fun str_join :: "string \<Rightarrow> string list \<Rightarrow> string" where
  "str_join sep [] = []"
| "str_join sep [s] = s"
| "str_join sep (s # t # ss) = s @ sep @ str_join sep (t # ss)"

text \<open>Fields without the separator character can be told apart again after joining.\<close>

lemma append_sep_inj:
  assumes "c \<notin> set a" "c \<notin> set a'" "a @ c # b = a' @ c # b'"
  shows "a = a' \<and> b = b'"
  using assms
proof (induction a arbitrary: a')
  case Nil
  then show ?case by (cases a') auto
next
  case (Cons x a)
  then show ?case by (cases a') auto
qed

lemma str_join_inj:
  assumes "length xs = length ys" "\<forall>x \<in> set xs \<union> set ys. c \<notin> set x"
    and "str_join [c] xs = str_join [c] ys"
  shows "xs = ys"
  using assms
proof (induction "[c]" xs arbitrary: ys rule: str_join.induct)
  case (3 s t ss)
  then obtain s' t' ss' where ys: "ys = s' # t' # ss'"
    by (metis length_Suc_conv)
  with 3 append_sep_inj [of c s s' "str_join [c] (t # ss)" "str_join [c] (t' # ss')"]
  have e: "s = s'" "str_join [c] (t # ss) = str_join [c] (t' # ss')" by auto
  have "t # ss = t' # ss'"
    by (rule "3.hyps") (use 3 ys e in auto)
  with e ys show ?case by simp
next
  case (2 s)
  then obtain y where "ys = [y]" by (cases ys) auto
  with 2 show ?case by simp
qed auto

section \<open>Trimming, folding, scanning\<close>

text \<open>\<^verbatim>\<open>strings.TrimPrefix\<close>, and \<^verbatim>\<open>strings.TrimSpace\<close> and \<^verbatim>\<open>strings.EqualFold\<close> on ASCII text.\<close>

definition trim_prefix :: "string \<Rightarrow> string \<Rightarrow> string" where
  "trim_prefix p s = (if take (length p) s = p then drop (length p) s else s)"

definition is_space :: "char \<Rightarrow> bool" where
  "is_space c \<longleftrightarrow> (let n = of_char c :: nat in (9 \<le> n \<and> n \<le> 13) \<or> n = 32)"

definition trim_space :: "string \<Rightarrow> string" where
  "trim_space s = rev (dropWhile is_space (rev (dropWhile is_space s)))"

definition to_lower :: "char \<Rightarrow> char" where
  "to_lower c = (let n = of_char c :: nat in if 65 \<le> n \<and> n \<le> 90 then char_of (n + 32) else c)"

text \<open>\<^verbatim>\<open>strings.EqualFold\<close> for text in which one side is hex: none of its letters has another form outside ASCII.\<close>

definition equal_fold :: "string \<Rightarrow> string \<Rightarrow> bool" where
  "equal_fold s t \<longleftrightarrow> map to_lower s = map to_lower t"

lemma equal_fold_refl [simp]: "equal_fold s s"
  by (simp add: equal_fold_def)

text \<open>\<^verbatim>\<open>fmt.Sscanf(s, "%d", &n)\<close> into an \<^verbatim>\<open>int\<close>: spaces other than a newline are skipped, a sign is allowed, the longest
  run of digits is read and what follows is ignored; a newline before the number, no digits, or a number outside 64 bits,
  is an error.\<close>

definition sscan_int :: "string \<Rightarrow> int option" where
  "sscan_int s =
     (let t = dropWhile is_space s;
          neg = (take 1 t = ''-'');
          u = (if take 1 t = ''-'' \<or> take 1 t = ''+'' then drop 1 t else t);
          ds = takeWhile is_digit u;
          v = (if neg then - int (digits_nat ds) else int (digits_nat ds))
      in if CHR 0x0A \<in> set (takeWhile is_space s) \<or> ds = [] \<or> \<not> in_i64 v then None else Some v)"

text \<open>\<^verbatim>\<open>strconv.Atoi\<close>: an optional sign, then digits to the end.\<close>

definition atoi :: "string \<Rightarrow> int option" where
  "atoi s =
     (let neg = (take 1 s = ''-'');
          u = (if take 1 s = ''-'' \<or> take 1 s = ''+'' then drop 1 s else s);
          v = (if neg then - int (digits_nat u) else int (digits_nat u))
      in if u = [] \<or> \<not> list_all is_digit u \<or> \<not> in_i64 v then None else Some v)"

lemma is_digit_not_sign: "is_digit c \<Longrightarrow> c \<noteq> CHR ''-'' \<and> c \<noteq> CHR ''+''"
  by (auto simp: is_digit_def)

lemma atoi_digits:
  "ds \<noteq> [] \<Longrightarrow> list_all is_digit ds \<Longrightarrow>
     atoi ds = (if in_i64 (int (digits_nat ds)) then Some (int (digits_nat ds)) else None)"
  by (cases ds) (auto simp: atoi_def Let_def dest: is_digit_not_sign)

lemma hex_encode_no_prefix [simp]: "trim_prefix ''0x'' (hex_encode bs) = hex_encode bs"
proof (cases bs)
  case (Cons b rest)
  have "hex_digit n \<noteq> CHR ''x''" if "n < 16" for n
    using of_char_hex_digit [OF that] that by (auto split: if_splits)
  then show ?thesis using Cons by (simp add: trim_prefix_def)
qed (simp add: trim_prefix_def)

text \<open>Counting the separator: a joined string has one separator between fields, plus those inside them.\<close>

lemma count_str_join:
  "xs \<noteq> [] \<Longrightarrow> count_list (str_join [c] xs) c = length xs - 1 + sum_list (map (\<lambda>x. count_list x c) xs)"
  by (induction "[c]" xs rule: str_join.induct) auto

lemma str_join_binds:
  assumes "length xs = length ys" "xs \<noteq> []" "\<forall>x \<in> set xs. c \<notin> set x"
    and "str_join [c] xs = str_join [c] ys"
  shows "xs = ys"
proof -
  have z: "sum_list (map (\<lambda>x. count_list x c) xs) = 0"
    using assms(3) by (simp add: sum_list_eq_0_iff count_list_0_iff)
  have "ys \<noteq> []" using assms(1,2) by auto
  then have "sum_list (map (\<lambda>x. count_list x c) ys) = 0"
    using count_str_join [of xs c] count_str_join [of ys c] assms z by simp
  then have "\<forall>y \<in> set ys. c \<notin> set y"
    by (simp add: sum_list_eq_0_iff count_list_0_iff)
  then show ?thesis using assms by (intro str_join_inj [of xs ys c]) auto
qed

text \<open>\<^verbatim>\<open>new(big.Int).SetString(s, 10)\<close>: an optional sign, then digits to the end, of any length.\<close>

definition big_dec :: "string \<Rightarrow> int option" where
  "big_dec s =
     (let u = (if take 1 s = ''-'' \<or> take 1 s = ''+'' then drop 1 s else s)
      in if u = [] \<or> \<not> list_all is_digit u then None
         else Some (if take 1 s = ''-'' then - int (digits_nat u) else int (digits_nat u)))"

lemma big_dec_dec_int [simp]: "big_dec (dec_int x) = Some x"
proof (cases "x < 0")
  case True
  then show ?thesis using dec_nat_digits [of "nat (- x)"] by (simp add: big_dec_def dec_int_def)
next
  case False
  have "take 1 (dec_nat n) \<noteq> ''-'' \<and> take 1 (dec_nat n) \<noteq> ''+''" for n
    using dec_nat_digits [of n] by (cases "dec_nat n") (auto dest: is_digit_not_sign)
  then show ?thesis using False dec_nat_digits [of "nat x"] by (simp add: big_dec_def dec_int_def Let_def)
qed


section \<open>A counted string\<close>

text \<open>A self-delimiting encoding of strings, used where an example needs a concrete record codec.\<close>

definition enc_str :: "string \<Rightarrow> string" where
  "enc_str s = replicate (length s) (CHR ''a'') @ CHR ''b'' # s"

definition dec_str :: "string \<Rightarrow> string \<times> string" where
  "dec_str t = (let n = length (takeWhile (\<lambda>c. c = CHR ''a'') t) in (take n (drop (Suc n) t), drop (Suc n + n) t))"

lemma dec_enc_str [simp]: "dec_str (enc_str s @ t) = (s, t)"
proof -
  have "takeWhile (\<lambda>c. c = CHR ''a'') (replicate n (CHR ''a'') @ CHR ''b'' # u) = replicate n (CHR ''a'')" for n u
    by (induction n) auto
  then have "takeWhile (\<lambda>c. c = CHR ''a'') (enc_str s @ t) = replicate (length s) (CHR ''a'')"
    by (simp add: enc_str_def)
  then show ?thesis by (simp add: dec_str_def enc_str_def Let_def)
qed

lemma dec_enc_str_end [simp]: "dec_str (enc_str s) = (s, [])"
  using dec_enc_str [of s "[]"] by simp

lemma enc_str_nonempty [simp]: "enc_str s \<noteq> []"
  by (simp add: enc_str_def)

end
