(* ===== verification/Eth_Crypto.thy ===== *)
theory Eth_Crypto
  imports Rlp Go_Text
begin

text \<open>
  \<^verbatim>\<open>internal/ethcrypto\<close>: public-key encodings, EIP-55 addresses, and the reordering of signatures
  between Ethereum's \<^verbatim>\<open>[R || S || V]\<close> and the \<^verbatim>\<open>[V+27 || R || S]\<close> of the elliptic-curve library.
  That library (btcec) and the Keccak permutation are not part of the repository: they are the
  fields of \<open>btcec\<close>, a record of functions every definition that calls them takes as an argument.
\<close>

record btcec =
  legacyKeccak :: "bytes \<Rightarrow> bytes"
  signCompact :: "bytes \<Rightarrow> bytes \<Rightarrow> bytes"
  recoverCompact :: "bytes \<Rightarrow> bytes \<Rightarrow> (nat \<times> nat) option"
  parsePubKey :: "bytes \<Rightarrow> (nat \<times> nat) option"
  setByteSlice :: "bytes \<Rightarrow> nat \<times> bool"
  isOverHalfOrder :: "nat \<Rightarrow> bool"
  ecdsaVerify :: "nat \<Rightarrow> nat \<Rightarrow> bytes \<Rightarrow> (nat \<times> nat) \<Rightarrow> bool"
  curveN :: nat
  scalarBaseMult :: "bytes \<Rightarrow> nat \<times> nat"

datatype eth_error =
    DigestLength nat
  | SigLength nat
  | CompactLength nat
  | RecoveryId byte
  | RecoverFailed
  | AddressLength nat
  | AddressNotHex
  | PrivNotHex
  | PrivLength nat
  | PrivRange
  | FillBytesPanic
  | IndexPanic

record PrivateKey =
  priv_D :: nat
  priv_X :: nat
  priv_Y :: nat

definition SignatureLength :: nat where
  "SignatureLength = 65"


section \<open>Public keys and addresses\<close>

definition Keccak256 :: "btcec \<Rightarrow> bytes list \<Rightarrow> bytes" where
  "Keccak256 lib data = legacyKeccak lib (concat data)"

text \<open>\<^verbatim>\<open>(*big.Int).FillBytes\<close> on a buffer of \<open>k\<close> bytes: left-padded, and a panic when it does not fit.\<close>

definition fillBytes :: "nat \<Rightarrow> nat \<Rightarrow> eth_error + bytes" where
  "fillBytes n k =
     (let b = nat_bytes n in
      if length b \<le> k then Inr (replicate (k - length b) 0 @ b) else Inl FillBytesPanic)"

definition MarshalPubkey :: "nat \<Rightarrow> nat \<Rightarrow> eth_error + bytes" where
  "MarshalPubkey x y =
     res_bind (fillBytes x 32) (\<lambda>xb. res_bind (fillBytes y 32) (\<lambda>yb. Inr (4 # xb @ yb)))"

definition CompressPubkey :: "nat \<Rightarrow> nat \<Rightarrow> eth_error + bytes" where
  "CompressPubkey x y =
     (let p = (if bit y 0 then 3 else 2) in res_bind (fillBytes x 32) (\<lambda>xb. Inr (p # xb)))"

definition AddressBytes :: "btcec \<Rightarrow> nat \<Rightarrow> nat \<Rightarrow> eth_error + bytes" where
  "AddressBytes lib x y =
     res_bind (MarshalPubkey x y) (\<lambda>m.
       let h = Keccak256 lib [drop 1 m] in go_slice IndexPanic h 12 (length h))"

fun checksum_loop :: "string \<Rightarrow> nat \<Rightarrow> string \<Rightarrow> string \<Rightarrow> eth_error + string" where
  "checksum_loop hash i [] out = Inr out"
| "checksum_loop hash i (c # lower) out =
     (let n = of_char c :: nat in
      if 97 \<le> n \<and> n \<le> 102 then
        (if length hash \<le> i then Inl IndexPanic
         else if 56 \<le> (of_char (hash ! i) :: nat)
           then checksum_loop hash (Suc i) lower (out @ [char_of (n - 32)])
           else checksum_loop hash (Suc i) lower (out @ [c]))
      else checksum_loop hash (Suc i) lower (out @ [c]))"

definition ChecksumAddress :: "btcec \<Rightarrow> bytes \<Rightarrow> eth_error + string" where
  "ChecksumAddress lib addr =
     (let lower = hex_encode addr;
          hash = hex_encode (Keccak256 lib [str_bytes lower])
      in checksum_loop hash 0 lower ''0x'')"

definition Address :: "btcec \<Rightarrow> nat \<Rightarrow> nat \<Rightarrow> eth_error + string" where
  "Address lib x y = res_bind (AddressBytes lib x y) (ChecksumAddress lib)"

definition ParseAddress :: "string \<Rightarrow> eth_error + bytes" where
  "ParseAddress s =
     (let s = (if length s \<ge> 2 \<and> (take 2 s = ''0x'' \<or> take 2 s = ''0X'') then drop 2 s else s) in
      if length s \<noteq> 40 then Inl (AddressLength (length s))
      else case hex_decode s of None \<Rightarrow> Inl AddressNotHex | Some raw \<Rightarrow> Inr raw)"

definition IsHexAddress :: "string \<Rightarrow> bool" where
  "IsHexAddress s = (case ParseAddress s of Inl _ \<Rightarrow> False | Inr _ \<Rightarrow> True)"


section \<open>Signatures\<close>

definition Sign :: "btcec \<Rightarrow> bytes \<Rightarrow> PrivateKey \<Rightarrow> eth_error + bytes" where
  "Sign lib digest priv =
     (if length digest \<noteq> 32 then Inl (DigestLength (length digest))
      else res_bind (fillBytes (priv_D priv) 32) (\<lambda>key.
        let compact = signCompact lib key digest in
        if length compact \<noteq> SignatureLength then Inl (CompactLength (length compact))
        else Inr (take 64 (drop 1 compact) @ [compact ! 0 - 27])))"

definition SigToPub :: "btcec \<Rightarrow> bytes \<Rightarrow> bytes \<Rightarrow> eth_error + (nat \<times> nat)" where
  "SigToPub lib digest sig =
     (if length digest \<noteq> 32 then Inl (DigestLength (length digest))
      else if length sig \<noteq> SignatureLength then Inl (SigLength (length sig))
      else let v = (if sig ! 64 \<ge> 27 then sig ! 64 - 27 else sig ! 64) in
        if v > 1 then Inl (RecoveryId (sig ! 64))
        else let compact = (v + 27) # take 64 sig in
          case recoverCompact lib compact digest of
            None \<Rightarrow> Inl RecoverFailed
          | Some pub \<Rightarrow> Inr pub)"

definition RecoverAddress :: "btcec \<Rightarrow> bytes \<Rightarrow> bytes \<Rightarrow> eth_error + string" where
  "RecoverAddress lib digest sig =
     res_bind (SigToPub lib digest sig) (\<lambda>(x, y). Address lib x y)"

definition VerifySignature :: "btcec \<Rightarrow> bytes \<Rightarrow> bytes \<Rightarrow> bytes \<Rightarrow> bool" where
  "VerifySignature lib pubkey digest sig =
     (if length sig \<noteq> 64 \<or> length digest \<noteq> 32 then False
      else case parsePubKey lib pubkey of
          None \<Rightarrow> False
        | Some pub \<Rightarrow>
            (let (r, r_overflow) = setByteSlice lib (take 32 sig) in
             if r_overflow then False
             else let (s, s_overflow) = setByteSlice lib (drop 32 sig) in
               if s_overflow then False
               else if isOverHalfOrder lib s then False
               else ecdsaVerify lib r s digest pub))"

definition privFromD :: "btcec \<Rightarrow> nat \<Rightarrow> PrivateKey" where
  "privFromD lib d =
     (let (x, y) = scalarBaseMult lib (nat_bytes d) in \<lparr>priv_D = d, priv_X = x, priv_Y = y\<rparr>)"

definition HexToECDSA :: "btcec \<Rightarrow> string \<Rightarrow> eth_error + PrivateKey" where
  "HexToECDSA lib s =
     (case hex_decode s of
        None \<Rightarrow> Inl PrivNotHex
      | Some raw \<Rightarrow>
          if length raw \<noteq> 32 then Inl (PrivLength (length raw))
          else let d = bytes_nat raw in
            if d = 0 \<or> curveN lib \<le> d then Inl PrivRange
            else Inr (privFromD lib d))"

definition FromECDSA :: "PrivateKey option \<Rightarrow> eth_error + bytes" where
  "FromECDSA priv = (case priv of None \<Rightarrow> Inr [] | Some p \<Rightarrow> fillBytes (priv_D p) 32)"

definition FromECDSAPub :: "(nat option \<times> nat option) option \<Rightarrow> eth_error + bytes" where
  "FromECDSAPub pub =
     (case pub of Some (Some x, Some y) \<Rightarrow> MarshalPubkey x y | _ \<Rightarrow> Inr [])"

definition PubkeyToAddress :: "btcec \<Rightarrow> nat \<times> nat \<Rightarrow> eth_error + string" where
  "PubkeyToAddress lib pub = Address lib (fst pub) (snd pub)"


section \<open>Padding\<close>

lemma fillBytes_length: "fillBytes n k = Inr b \<Longrightarrow> length b = k"
  by (auto simp: fillBytes_def Let_def split: if_splits)

lemma bytes_nat_leading_zeros [simp]: "bytes_nat (replicate m 0 @ b) = bytes_nat b"
  by (induction m) (simp_all add: bytes_nat_Cons)

lemma fillBytes_value: "fillBytes n k = Inr b \<Longrightarrow> bytes_nat b = n"
  by (auto simp: fillBytes_def Let_def split: if_splits)

lemma fillBytes_ok: "n < 256 ^ k \<Longrightarrow> \<exists>b. fillBytes n k = Inr b"
  by (simp add: fillBytes_def Let_def length_nat_bytes_le)

lemma nat_bytes_less: "n < 256 ^ length (nat_bytes n)"
  using bytes_nat_less [of "nat_bytes n"] by simp

lemma fillBytes_panic: "256 ^ k \<le> n \<Longrightarrow> fillBytes n k = Inl FillBytesPanic"
proof -
  assume "256 ^ k \<le> n"
  then have "(256 :: nat) ^ k < 256 ^ length (nat_bytes n)"
    using nat_bytes_less [of n] by linarith
  then show ?thesis by (simp add: fillBytes_def Let_def power_less_imp_less_exp [of 256])
qed

text \<open>A fixed-width buffer is the padding of the number it holds.\<close>

lemma nat_bytes_of_padded: "nat_bytes (bytes_nat b) = dropWhile (\<lambda>x. x = 0) b"
proof (induction b)
  case (Cons x b)
  show ?case
  proof (cases "x = 0")
    case True
    then show ?thesis using Cons by (simp add: bytes_nat_Cons)
  next
    case False
    then show ?thesis using nat_bytes_bytes_nat [of "x # b"] by simp
  qed
qed simp

lemma fillBytes_bytes_nat: "fillBytes (bytes_nat b) (length b) = Inr b"
proof -
  have "takeWhile (\<lambda>x. x = 0) b = replicate (length (takeWhile (\<lambda>x. x = 0) b)) 0"
    by (rule replicate_eqI) (auto dest: set_takeWhileD)
  moreover have "length (takeWhile (\<lambda>x. x = 0) b) = length b - length (dropWhile (\<lambda>x. x = 0) b)"
    by (metis add_diff_cancel_right' length_append takeWhile_dropWhile_id)
  ultimately have "replicate (length b - length (dropWhile (\<lambda>x. x = 0) b)) 0
      @ dropWhile (\<lambda>x. x = 0) b = b"
    by (metis takeWhile_dropWhile_id)
  then show ?thesis by (simp add: fillBytes_def nat_bytes_of_padded Let_def length_dropWhile_le)
qed

lemma MarshalPubkey_length: "MarshalPubkey x y = Inr m \<Longrightarrow> length m = 65"
  by (auto simp: MarshalPubkey_def res_simps dest!: fillBytes_length)

text \<open>A checked loop index: every character of the lowercase address is copied, in its case or in
  the other, so the digit values are those of the address.\<close>

lemma unhex_upper:
  assumes "97 \<le> (of_char c :: nat)" "of_char c \<le> (102 :: nat)"
  shows "unhex (char_of (of_char c - 32 :: nat)) = unhex c"
  using assms by (auto simp: unhex_def Let_def)

lemma checksum_loop_digits:
  assumes "i + length lower \<le> length hash"
  shows "\<exists>r. checksum_loop hash i lower out = Inr (out @ r) \<and> map unhex r = map unhex lower"
  using assms
proof (induction hash i lower out rule: checksum_loop.induct)
  case (2 hash i c lower out)
  let ?n = "of_char c :: nat"
  have i: "\<not> length hash \<le> i" "Suc i + length lower \<le> length hash" using "2.prems" by auto
  consider (up) "97 \<le> ?n \<and> ?n \<le> 102" "56 \<le> (of_char (hash ! i) :: nat)"
    | (keep) "97 \<le> ?n \<and> ?n \<le> 102" "\<not> 56 \<le> (of_char (hash ! i) :: nat)"
    | (digit) "\<not> (97 \<le> ?n \<and> ?n \<le> 102)" by blast
  then show ?case
  proof cases
    case up
    from "2.IH"(1) [OF refl up(1) i(1) up(2) i(2)] up i show ?thesis
      by (auto simp: Let_def unhex_upper)
  next
    case keep
    from "2.IH"(2) [OF refl keep(1) i(1) keep(2) i(2)] keep i show ?thesis
      by (auto simp: Let_def)
  next
    case digit
    from "2.IH"(3) [OF refl digit i(2)] digit show ?thesis
      by (auto simp: Let_def)
  qed
qed simp



section \<open>Addresses\<close>

text \<open>What the code relies on from the hash: a 32-byte digest.\<close>

definition keccak_ok :: "btcec \<Rightarrow> bool" where
  "keccak_ok lib \<longleftrightarrow> (\<forall>b. length (legacyKeccak lib b) = 32)"

lemma ParseAddress_0x:
  "length s = 40 \<Longrightarrow> ParseAddress (''0x'' @ s)
     = (case hex_decode s of None \<Rightarrow> Inl AddressNotHex | Some raw \<Rightarrow> Inr raw)"
  by (simp add: ParseAddress_def)

lemma ChecksumAddress_form:
  assumes "keccak_ok lib" "length addr \<le> 32"
  obtains r where "ChecksumAddress lib addr = Inr (''0x'' @ r)"
    "map unhex r = map unhex (hex_encode addr)"
  using checksum_loop_digits [of 0 "hex_encode addr"
      "hex_encode (Keccak256 lib [str_bytes (hex_encode addr)])" "''0x''"] assms
  by (auto simp: ChecksumAddress_def Let_def keccak_ok_def Keccak256_def)

lemma ParseAddress_Checksum:
  assumes "keccak_ok lib" "length addr = 20" "ChecksumAddress lib addr = Inr s"
  shows "ParseAddress s = Inr addr"
proof -
  have "length addr \<le> 32" using assms(2) by simp
  from ChecksumAddress_form [OF assms(1) this]
  obtain r where r: "s = ''0x'' @ r" "map unhex r = map unhex (hex_encode addr)"
    using assms(3) by auto
  have "length (map unhex r) = length (map unhex (hex_encode addr))" by (simp only: r(2))
  then have "length r = 40" using assms(2) by simp
  moreover have "hex_decode r = Some addr" using hex_decode_cong [OF r(2)] by simp
  ultimately show ?thesis using r(1) ParseAddress_0x [of r] by simp
qed

lemma ParseAddress_length: "ParseAddress s = Inr a \<Longrightarrow> length a = 20"
  by (auto simp: ParseAddress_def Let_def split: if_splits option.splits dest!: hex_decode_length)

lemma Address_parses:
  assumes "keccak_ok lib" "x < 2 ^ 256" "y < 2 ^ 256"
  obtains s where "Address lib x y = Inr s" "IsHexAddress s"
proof -
  obtain xb yb where xy: "fillBytes x 32 = Inr xb" "fillBytes y 32 = Inr yb"
    using fillBytes_ok [of x 32] fillBytes_ok [of y 32] assms by auto
  let ?a = "drop 12 (Keccak256 lib [xb @ yb])"
  have a: "AddressBytes lib x y = Inr ?a" and l: "length ?a = 20"
    using assms(1) xy
    by (auto simp: AddressBytes_def MarshalPubkey_def Let_def go_slice_def keccak_ok_def Keccak256_def)
  obtain s where s: "ChecksumAddress lib ?a = Inr s"
    using ChecksumAddress_form [OF assms(1), of ?a] l by auto
  show thesis
  proof (rule that)
    show "Address lib x y = Inr s" using a s by (simp add: Address_def)
    show "IsHexAddress s"
      using ParseAddress_Checksum [OF assms(1) l s] by (simp add: IsHexAddress_def)
  qed
qed

text \<open>An address printed with its EIP-55 checksum parses back to the same 20 bytes, whatever
  case the hash chose for each letter, and both steps succeed.\<close>

theorem ChecksumAddress_roundtrip:
  assumes "keccak_ok lib" "length addr = 20"
  shows "\<exists>s. ChecksumAddress lib addr = Inr s \<and> ParseAddress s = Inr addr"
  using ChecksumAddress_form [OF assms(1), of addr] ParseAddress_Checksum [OF assms] assms(2) by auto


section \<open>Signature layout\<close>

text \<open>What the code relies on from the curve library: a compact signature has 65 bytes and recovers
  to the public key of the private key that made it.\<close>

definition compact_ok :: "btcec \<Rightarrow> bool" where
  "compact_ok lib \<longleftrightarrow> (\<forall>key digest.
     length key = 32 \<and> 0 < bytes_nat key \<and> bytes_nat key < curveN lib \<and> length digest = 32 \<longrightarrow>
     length (signCompact lib key digest) = 65 \<and>
     recoverCompact lib (signCompact lib key digest) digest
       = Some (scalarBaseMult lib (nat_bytes (bytes_nat key))))"

lemma HexToECDSA_D:
  assumes "HexToECDSA lib s = Inr priv"
  shows "\<exists>raw. hex_decode s = Some raw \<and> length raw = 32 \<and> priv = privFromD lib (bytes_nat raw)
    \<and> 0 < bytes_nat raw \<and> bytes_nat raw < curveN lib"
  using assms by (auto simp: HexToECDSA_def Let_def split: option.splits if_splits)

lemma list_split_65:
  "length c = 65 \<Longrightarrow> c ! 0 # take 64 (drop 1 c) = c"
  by (cases c) simp_all

lemma byte_27_le_1 [simp]: "\<not> (27 :: byte) \<le> 1"
  by (simp add: word_le_nat_alt)

text \<open>The two recovery-id spellings are the same signature.\<close>

lemma SigToPub_spelling:
  assumes "length rs = 64" "v \<le> 1"
  shows "SigToPub lib digest (rs @ [v + 27]) = SigToPub lib digest (rs @ [v])"
proof -
  have "v = 0 \<or> v = 1" using assms(2) by (auto simp: word_le_nat_alt word_unat_eq_iff)
  then show ?thesis using assms(1) by (auto simp: SigToPub_def nth_append SignatureLength_def)
qed

lemma SigToPub_recovery:
  assumes "SigToPub lib digest sig = Inr pub"
  shows "length digest = 32" "length sig = 65"
    "(if sig ! 64 \<ge> 27 then sig ! 64 - 27 else sig ! 64) \<le> 1"
  using assms by (auto simp: SigToPub_def SignatureLength_def Let_def split: if_splits)

text \<open>A signature made with an imported private key recovers, under Ethereum's byte order, to the
  address of that key. The reordering loses nothing: recovery is handed the very compact signature
  the curve library produced. The library may in principle return a recovery id above 1 (header
  byte 29 or 30), which Ethereum cannot carry; the claim is for the two ids it can.\<close>

theorem Sign_recovers_signer:
  assumes lib: "compact_ok lib" and key: "HexToECDSA lib s = Inr priv" and d: "length digest = 32"
    and kb: "fillBytes (priv_D priv) 32 = Inr key"
    and v: "signCompact lib key digest ! 0 \<in> {27, 28}"
  shows "\<exists>sig. Sign lib digest priv = Inr sig \<and> length sig = SignatureLength \<and>
    RecoverAddress lib digest sig = PubkeyToAddress lib (priv_X priv, priv_Y priv)"
proof -
  obtain raw where raw: "length raw = 32" "priv = privFromD lib (bytes_nat raw)"
    "0 < bytes_nat raw" "bytes_nat raw < curveN lib"
    using HexToECDSA_D [OF key] by auto
  have D: "priv_D priv = bytes_nat raw" and xy: "(priv_X priv, priv_Y priv) = scalarBaseMult lib (nat_bytes (bytes_nat raw))"
    using raw(2) by (auto simp: privFromD_def Let_def split: prod.splits)
  have key: "key = raw" using kb fillBytes_bytes_nat [of raw] raw(1) by (simp add: D)
  let ?c = "signCompact lib raw digest"
  have c: "length ?c = 65" "recoverCompact lib ?c digest = Some (priv_X priv, priv_Y priv)"
    using lib raw(1,3,4) d by (simp_all add: compact_ok_def xy)
  let ?sig = "take 64 (drop 1 ?c) @ [?c ! 0 - 27]"
  have "Sign lib digest priv = Inr ?sig"
    using d kb c(1) by (simp add: Sign_def key SignatureLength_def Let_def)
  moreover have "SigToPub lib digest ?sig = Inr (priv_X priv, priv_Y priv)"
    using v c d list_split_65 [OF c(1)]
    by (auto simp: SigToPub_def key SignatureLength_def nth_append Let_def)
  ultimately show ?thesis
    using c(1) by (auto simp: RecoverAddress_def PubkeyToAddress_def SignatureLength_def)
qed

text \<open>A concrete library for the witnesses: the digest is constant, a compact signature carries its
  key in R, and recovery reads it back.\<close>

definition demo_lib :: btcec where
  "demo_lib = \<lparr>legacyKeccak = (\<lambda>b. replicate 32 0xab), signCompact = (\<lambda>k d. 27 # k @ d),
     recoverCompact = (\<lambda>c d. if length c = 65 then Some (bytes_nat (take 32 (drop 1 c)), 7) else None),
     parsePubKey = (\<lambda>_. None), setByteSlice = (\<lambda>b. (bytes_nat b, False)),
     isOverHalfOrder = (\<lambda>_. False), ecdsaVerify = (\<lambda>_ _ _ _. False), curveN = 1000,
     scalarBaseMult = (\<lambda>b. (bytes_nat b, 7))\<rparr>"

lemma demo_lib_ok: "keccak_ok demo_lib" "compact_ok demo_lib"
  by (auto simp: keccak_ok_def compact_ok_def demo_lib_def)

theorem ChecksumAddress_roundtrip_witness:
  "\<exists>s. ChecksumAddress demo_lib (replicate 20 0xfe) = Inr s \<and> ParseAddress s = Inr (replicate 20 0xfe)"
  by (rule ChecksumAddress_roundtrip) (simp_all add: demo_lib_ok)

definition demo_key :: string where
  "demo_key = hex_encode (replicate 31 0 @ [5])"

lemma demo_key_parses:
  "HexToECDSA demo_lib demo_key = Inr \<lparr>priv_D = 5, priv_X = 5, priv_Y = 7\<rparr>"
proof -
  have "bytes_nat [5] = 5" by (simp add: bytes_nat_def)
  then have "bytes_nat (replicate 31 0 @ [5]) = 5" by (simp only: bytes_nat_leading_zeros)
  then show ?thesis
    by (simp add: HexToECDSA_def demo_key_def Let_def privFromD_def demo_lib_def)
qed

theorem Sign_recovers_signer_witness:
  "\<exists>sig. Sign demo_lib (replicate 32 1) \<lparr>priv_D = 5, priv_X = 5, priv_Y = 7\<rparr> = Inr sig \<and>
    length sig = SignatureLength \<and>
    RecoverAddress demo_lib (replicate 32 1) sig = PubkeyToAddress demo_lib (5, 7)"
proof -
  have "nat_bytes 5 = [5]" by (simp add: nat_bytes.simps)
  then have kb: "fillBytes 5 32 = Inr (replicate 31 0 @ [5])" by (simp add: fillBytes_def)
  show ?thesis
    using Sign_recovers_signer [OF demo_lib_ok(2) demo_key_parses, of "replicate 32 1"
        "replicate 31 0 @ [5]"] kb
    by (simp add: demo_lib_def)
qed

end
