(* ===== verification/Eth_Tx.thy ===== *)
theory Eth_Tx
  imports Eth_Crypto
begin

text \<open>
  Ethereum transactions: \<^verbatim>\<open>ethtypes/transaction.go\<close> (validation, the digest that is signed, the
  signed bytes that are broadcast) and \<^verbatim>\<open>ethtypes/decode.go\<close> (reading the fields back). Shown: the
  bytes that are hashed for signing determine every field, so no signature covers two different
  transactions or two chains; what the decoder reads from a signed transaction is what was signed;
  a second transaction appended to the first is refused; and no signature of another key passes.
\<close>

record Transaction =
  tx_ChainID :: "int option"
  tx_Nonce :: u64
  tx_Gas :: u64
  tx_GasPrice :: "int option"
  tx_MaxFee :: "int option"
  tx_Tip :: "int option"
  tx_To :: "bytes option"
  tx_Value :: "int option"
  tx_Data :: bytes

record SignedTransaction =
  st_Raw :: bytes
  st_Hash :: bytes
  st_From :: string

record SignedTxInfo =
  info_Type :: byte
  info_Hash :: bytes
  info_Nonce :: u64
  info_Gas :: u64
  info_Value :: int
  info_To :: "bytes option"
  info_ChainID :: "int option"

datatype tx_error =
    ChainIdRequired
  | BothFeeModels
  | NoFeeModel
  | DynamicNeedsBoth
  | RecipientLength nat
  | NegativeValue
  | EncodingPanic rlp_error
  | TxSigLength nat
  | Unrecoverable eth_error
  | WrongSender string string
  | EmptyTransaction
  | UnknownType byte
  | BadRlp rlp_error
  | DynamicFieldCount nat
  | LegacyFieldCount nat

definition DynamicFeeTxType :: byte where
  "DynamicFeeTxType = 0x02"


section \<open>Validation\<close>

definition IsDynamic :: "Transaction \<Rightarrow> bool" where
  "IsDynamic t \<longleftrightarrow> tx_MaxFee t \<noteq> None \<or> tx_Tip t \<noteq> None"

text \<open>\<^const>\<open>None\<close> is Go's nil error.\<close>

definition validate :: "Transaction \<Rightarrow> tx_error option" where
  "validate t =
     (if (case tx_ChainID t of None \<Rightarrow> True | Some c \<Rightarrow> c \<le> 0) then Some ChainIdRequired
      else let legacy = (tx_GasPrice t \<noteq> None); dynamic = IsDynamic t in
        if legacy \<and> dynamic then Some BothFeeModels
        else if \<not> legacy \<and> \<not> dynamic then Some NoFeeModel
        else if dynamic \<and> (tx_MaxFee t = None \<or> tx_Tip t = None) then Some DynamicNeedsBoth
        else if (case tx_To t of None \<Rightarrow> False | Some a \<Rightarrow> length a \<noteq> 20)
          then Some (RecipientLength (length (the (tx_To t))))
        else if (case tx_Value t of None \<Rightarrow> False | Some v \<Rightarrow> v < 0) then Some NegativeValue
        else None)"

definition toField :: "Transaction \<Rightarrow> bytes" where
  "toField t = (case tx_To t of None \<Rightarrow> rlpString [] | Some a \<Rightarrow> rlpString a)"


section \<open>The bytes that are signed and broadcast\<close>

text \<open>\<^verbatim>\<open>concat\<close> over encoded items, whose arguments are evaluated first: one that panics, panics.\<close>

definition concat_items :: "(rlp_error + bytes) list \<Rightarrow> rlp_error + bytes" where
  "concat_items items = res_bind (res_map (\<lambda>x. x) items) (\<lambda>bs. Inr (concat bs))"

definition signing_payload :: "Transaction \<Rightarrow> rlp_error + bytes" where
  "signing_payload t =
     (if IsDynamic t then
        res_bind (concat_items
          [rlpBig (tx_ChainID t),
           Inr (rlpUint (tx_Nonce t)),
           rlpBig (tx_Tip t),
           rlpBig (tx_MaxFee t),
           Inr (rlpUint (tx_Gas t)),
           Inr (toField t),
           rlpBig (tx_Value t),
           Inr (rlpString (tx_Data t)),
           Inr (rlpList [])]) (\<lambda>p. Inr (DynamicFeeTxType # rlpList p))
      else
        res_bind (concat_items
          [Inr (rlpUint (tx_Nonce t)),
           rlpBig (tx_GasPrice t),
           Inr (rlpUint (tx_Gas t)),
           Inr (toField t),
           rlpBig (tx_Value t),
           Inr (rlpString (tx_Data t)),
           rlpBig (tx_ChainID t),
           Inr (rlpUint 0),
           Inr (rlpUint 0)]) (\<lambda>p. Inr (rlpList p)))"

definition SigningHash :: "btcec \<Rightarrow> Transaction \<Rightarrow> tx_error + bytes" where
  "SigningHash lib t =
     (case validate t of
        Some e \<Rightarrow> Inl e
      | None \<Rightarrow> res_bind (res_err EncodingPanic (signing_payload t)) (\<lambda>p. Inr (Keccak256 lib [p])))"

definition equalAddress :: "string \<Rightarrow> string \<Rightarrow> bool" where
  "equalAddress a b =
     (case ParseAddress a of
        Inl _ \<Rightarrow> False
      | Inr ab \<Rightarrow>
          (case ParseAddress b of
             Inl _ \<Rightarrow> False
           | Inr bb \<Rightarrow> length ab = length bb \<and> list_all2 (=) ab bb))"

definition signed_payload :: "Transaction \<Rightarrow> byte \<Rightarrow> int \<Rightarrow> int \<Rightarrow> rlp_error + bytes" where
  "signed_payload t recovery r s =
     (if IsDynamic t then
        res_bind (concat_items
          [rlpBig (tx_ChainID t),
           Inr (rlpUint (tx_Nonce t)),
           rlpBig (tx_Tip t),
           rlpBig (tx_MaxFee t),
           Inr (rlpUint (tx_Gas t)),
           Inr (toField t),
           rlpBig (tx_Value t),
           Inr (rlpString (tx_Data t)),
           Inr (rlpList []),
           Inr (rlpUint (ucast recovery)),
           rlpBig (Some r),
           rlpBig (Some s)]) (\<lambda>p. Inr (DynamicFeeTxType # rlpList p))
      else
        let v = uint ((ucast recovery :: u64) + 35) + the (tx_ChainID t) * 2 in
        res_bind (concat_items
          [Inr (rlpUint (tx_Nonce t)),
           rlpBig (tx_GasPrice t),
           Inr (rlpUint (tx_Gas t)),
           Inr (toField t),
           rlpBig (tx_Value t),
           Inr (rlpString (tx_Data t)),
           rlpBig (Some v),
           rlpBig (Some r),
           rlpBig (Some s)]) (\<lambda>p. Inr (rlpList p)))"

definition WithSignature ::
  "btcec \<Rightarrow> Transaction \<Rightarrow> bytes \<Rightarrow> string \<Rightarrow> tx_error + SignedTransaction" where
  "WithSignature lib t sig expectedFrom =
     (case validate t of
        Some e \<Rightarrow> Inl e
      | None \<Rightarrow>
          if length sig \<noteq> SignatureLength then Inl (TxSigLength (length sig))
          else
            res_bind (SigningHash lib t) (\<lambda>digest.
            res_bind (res_err Unrecoverable (RecoverAddress lib digest sig)) (\<lambda>from.
              if expectedFrom \<noteq> '''' \<and> \<not> equalAddress from expectedFrom
              then Inl (WrongSender from expectedFrom)
              else let r = int (bytes_nat (take 32 sig));
                       s = int (bytes_nat (take 32 (drop 32 sig)));
                       recovery = (if sig ! 64 \<ge> 27 then sig ! 64 - 27 else sig ! 64) in
                res_bind (res_err EncodingPanic (signed_payload t recovery r s)) (\<lambda>raw.
                  Inr \<lparr>st_Raw = raw, st_Hash = Keccak256 lib [raw], st_From = from\<rparr>))))"


section \<open>Reading a signed transaction\<close>

definition TransactionHash :: "btcec \<Rightarrow> bytes \<Rightarrow> bytes" where
  "TransactionHash lib raw = Keccak256 lib [raw]"

definition addressOrNil :: "bytes \<Rightarrow> bytes option" where
  "addressOrNil b = (if b = [] then None else Some b)"

definition DecodeSignedTransaction :: "btcec \<Rightarrow> bytes \<Rightarrow> tx_error + SignedTxInfo" where
  "DecodeSignedTransaction lib raw =
     (if raw = [] then Inl EmptyTransaction
      else if raw ! 0 < 0xc0 \<and> raw ! 0 \<noteq> DynamicFeeTxType then Inl (UnknownType (raw ! 0))
      else let ty = (if raw ! 0 < 0xc0 then raw ! 0 else 0);
               body = (if raw ! 0 < 0xc0 then drop 1 raw else raw);
               h = TransactionHash lib raw in
        res_bind (res_err BadRlp (splitList body)) (\<lambda>items.
          if ty = DynamicFeeTxType then
            (if length items \<noteq> 12 then Inl (DynamicFieldCount (length items))
             else Inr \<lparr>info_Type = ty, info_Hash = h,
                       info_Nonce = beUint (items ! 1), info_Gas = beUint (items ! 4),
                       info_Value = int (bytes_nat (items ! 6)),
                       info_To = addressOrNil (items ! 5),
                       info_ChainID = Some (int (bytes_nat (items ! 0)))\<rparr>)
          else if length items \<noteq> 9 then Inl (LegacyFieldCount (length items))
          else let v = int (bytes_nat (items ! 6)) in
            Inr \<lparr>info_Type = ty, info_Hash = h,
                 info_Nonce = beUint (items ! 0), info_Gas = beUint (items ! 2),
                 info_Value = int (bytes_nat (items ! 4)),
                 info_To = addressOrNil (items ! 3),
                 info_ChainID = (if v \<ge> 35 then Some (drop_bit 1 (v - 35)) else None)\<rparr>))"



section \<open>Payloads as lists of items\<close>

definition nonneg_opt :: "int option \<Rightarrow> bool" where
  "nonneg_opt v = (case v of None \<Rightarrow> True | Some x \<Rightarrow> 0 \<le> x)"

definition big_item :: "int option \<Rightarrow> rlp_item" where
  "big_item v = Str (case v of None \<Rightarrow> [] | Some x \<Rightarrow> nat_bytes (nat x))"

definition uint_item :: "u64 \<Rightarrow> rlp_item" where
  "uint_item v = Str (bigEndian v)"

definition to_item :: "Transaction \<Rightarrow> rlp_item" where
  "to_item t = Str (case tx_To t of None \<Rightarrow> [] | Some a \<Rightarrow> a)"

lemma rlpBig_eq:
  "rlpBig v = (if nonneg_opt v then Inr (enc_item (big_item v)) else Inl NegativeIntegerPanic)"
  by (auto simp: rlpBig_def nonneg_opt_def big_item_def split: option.split)

lemma rlpUint_eq: "rlpUint v = enc_item (uint_item v)"
  by (simp add: rlpUint_def uint_item_def)

lemma toField_eq: "toField t = enc_item (to_item t)"
  by (simp add: toField_def to_item_def split: option.split)

lemma payload_big_item:
  "nonneg_opt v \<Longrightarrow> int (bytes_nat (payload_of (big_item v))) = (case v of None \<Rightarrow> 0 | Some x \<Rightarrow> x)"
  by (simp add: big_item_def nonneg_opt_def split: option.splits)

lemma payload_uint_item [simp]: "beUint (payload_of (uint_item v)) = v"
  by (simp add: uint_item_def)

lemma uint_item_inj: "payload_of (uint_item v) = payload_of (uint_item w) \<Longrightarrow> v = w"
  by (metis payload_uint_item)

definition dynamic_items :: "Transaction \<Rightarrow> rlp_item list" where
  "dynamic_items t =
     [big_item (tx_ChainID t), uint_item (tx_Nonce t), big_item (tx_Tip t), big_item (tx_MaxFee t),
      uint_item (tx_Gas t), to_item t, big_item (tx_Value t), Str (tx_Data t), Lst []]"

definition legacy_items :: "Transaction \<Rightarrow> rlp_item list" where
  "legacy_items t =
     [uint_item (tx_Nonce t), big_item (tx_GasPrice t), uint_item (tx_Gas t), to_item t,
      big_item (tx_Value t), Str (tx_Data t)]"

definition amounts_ok :: "Transaction \<Rightarrow> bool" where
  "amounts_ok t \<longleftrightarrow> nonneg_opt (tx_ChainID t) \<and> nonneg_opt (tx_Value t) \<and>
     (if IsDynamic t then nonneg_opt (tx_Tip t) \<and> nonneg_opt (tx_MaxFee t)
      else nonneg_opt (tx_GasPrice t))"

lemmas payload_simps = concat_items_def res_simps rlpBig_eq rlpUint_eq toField_eq
  dynamic_items_def legacy_items_def amounts_ok_def

lemma signing_payload_dynamic:
  "IsDynamic t \<Longrightarrow> signing_payload t = Inr p \<longleftrightarrow>
     amounts_ok t \<and> p = DynamicFeeTxType # rlpList (concat (map enc_item (dynamic_items t)))"
  by (auto simp: signing_payload_def payload_simps)

lemma signing_payload_legacy:
  "\<not> IsDynamic t \<Longrightarrow> signing_payload t = Inr p \<longleftrightarrow>
     amounts_ok t \<and> p = rlpList (concat (map enc_item (legacy_items t @
       [big_item (tx_ChainID t), uint_item 0, uint_item 0])))"
  by (auto simp: signing_payload_def payload_simps)

lemma signed_payload_dynamic:
  "IsDynamic t \<Longrightarrow> 0 \<le> r \<Longrightarrow> 0 \<le> s \<Longrightarrow> signed_payload t recovery r s = Inr p \<longleftrightarrow>
     amounts_ok t \<and> p = DynamicFeeTxType # rlpList (concat (map enc_item (dynamic_items t @
       [uint_item (ucast recovery), big_item (Some r), big_item (Some s)])))"
  by (auto simp: signed_payload_def payload_simps nonneg_opt_def)

lemma signed_payload_legacy:
  assumes "\<not> IsDynamic t" "0 \<le> r" "0 \<le> s" "tx_ChainID t = Some c" "0 < c"
  shows "signed_payload t recovery r s = Inr p \<longleftrightarrow>
     amounts_ok t \<and> p = rlpList (concat (map enc_item (legacy_items t @
       [big_item (Some (uint ((ucast recovery :: u64) + 35) + c * 2)), big_item (Some r), big_item (Some s)])))"
  using assms by (auto simp: signed_payload_def payload_simps nonneg_opt_def)

lemma validate_NoneD:
  assumes "validate t = None"
  shows "\<exists>c. tx_ChainID t = Some c \<and> 0 < c"
    and "IsDynamic t \<Longrightarrow> tx_GasPrice t = None \<and> (\<exists>m. tx_MaxFee t = Some m) \<and> (\<exists>p. tx_Tip t = Some p)"
    and "\<not> IsDynamic t \<Longrightarrow> (\<exists>g. tx_GasPrice t = Some g) \<and> tx_MaxFee t = None \<and> tx_Tip t = None"
    and "tx_To t = None \<or> length (the (tx_To t)) = 20"
    and "nonneg_opt (tx_Value t)"
  using assms
  by (auto simp: validate_def Let_def IsDynamic_def nonneg_opt_def split: if_splits option.splits)

lemma to_item_addr:
  "tx_To t = None \<or> length (the (tx_To t)) = 20 \<Longrightarrow> addressOrNil (payload_of (to_item t)) = tx_To t"
  by (auto simp: to_item_def addressOrNil_def split: option.splits)

lemma big_item_inj:
  assumes "payload_of (big_item v) = payload_of (big_item w)" "nonneg_opt v" "nonneg_opt w"
  shows "(case v of None \<Rightarrow> 0 | Some x \<Rightarrow> x) = (case w of None \<Rightarrow> 0 | Some x \<Rightarrow> x)"
  using payload_big_item [of v] payload_big_item [of w] assms by simp


section \<open>A signature covers one transaction\<close>

text \<open>Two transactions agree on everything Ethereum gives a meaning to; a nil value is zero.\<close>

definition same_tx :: "Transaction \<Rightarrow> Transaction \<Rightarrow> bool" where
  "same_tx t u \<longleftrightarrow>
     IsDynamic t = IsDynamic u \<and> tx_ChainID t = tx_ChainID u \<and> tx_Nonce t = tx_Nonce u \<and>
     tx_Gas t = tx_Gas u \<and> tx_GasPrice t = tx_GasPrice u \<and> tx_MaxFee t = tx_MaxFee u \<and>
     tx_Tip t = tx_Tip u \<and> tx_To t = tx_To u \<and> tx_Data t = tx_Data u \<and>
     (case tx_Value t of None \<Rightarrow> 0 | Some v \<Rightarrow> v) = (case tx_Value u of None \<Rightarrow> 0 | Some v \<Rightarrow> v)"

lemma payload_kind:
  assumes "go_len p" "signing_payload t = Inr p"
  shows "IsDynamic t \<longleftrightarrow> p ! 0 = DynamicFeeTxType"
proof (cases "IsDynamic t")
  case True
  then show ?thesis using assms by (simp add: signing_payload_dynamic)
next
  case False
  then obtain q where p: "p = rlpList q" using assms by (auto simp: signing_payload_legacy)
  then have "0xc0 \<le> p ! 0" using rlpList_head [of q] assms(1) by simp
  then have "p ! 0 \<noteq> DynamicFeeTxType" by (auto simp: DynamicFeeTxType_def word_le_nat_alt)
  then show ?thesis using False by simp
qed

lemma to_item_inj:
  assumes "payload_of (to_item t) = payload_of (to_item u)"
    "tx_To t = None \<or> length (the (tx_To t)) = 20" "tx_To u = None \<or> length (the (tx_To u)) = 20"
  shows "tx_To t = tx_To u"
  using to_item_addr [OF assms(2)] to_item_addr [OF assms(3)] assms(1) by simp

lemma same_tx_dynamic:
  assumes v: "validate t = None" "validate u = None" and d: "IsDynamic t" "IsDynamic u"
    and ok: "amounts_ok t" "amounts_ok u"
    and eq: "map payload_of (dynamic_items t) = map payload_of (dynamic_items u)"
  shows "same_tx t u"
proof -
  have e: "payload_of (big_item (tx_ChainID t)) = payload_of (big_item (tx_ChainID u))"
    "payload_of (uint_item (tx_Nonce t)) = payload_of (uint_item (tx_Nonce u))"
    "payload_of (big_item (tx_Tip t)) = payload_of (big_item (tx_Tip u))"
    "payload_of (big_item (tx_MaxFee t)) = payload_of (big_item (tx_MaxFee u))"
    "payload_of (uint_item (tx_Gas t)) = payload_of (uint_item (tx_Gas u))"
    "payload_of (to_item t) = payload_of (to_item u)"
    "payload_of (big_item (tx_Value t)) = payload_of (big_item (tx_Value u))"
    "tx_Data t = tx_Data u"
    using eq by (simp_all add: dynamic_items_def)
  have n: "tx_Nonce t = tx_Nonce u" "tx_Gas t = tx_Gas u"
    using e(2,5) by (auto dest: uint_item_inj)
  have to: "tx_To t = tx_To u"
    using to_item_inj [OF e(6) validate_NoneD(4) [OF v(1)] validate_NoneD(4) [OF v(2)]] .
  note vt = validate_NoneD(1,2) [OF v(1)] and vu = validate_NoneD(1,2) [OF v(2)]
  have o: "nonneg_opt (tx_ChainID t)" "nonneg_opt (tx_ChainID u)" "nonneg_opt (tx_Tip t)"
    "nonneg_opt (tx_Tip u)" "nonneg_opt (tx_MaxFee t)" "nonneg_opt (tx_MaxFee u)"
    "nonneg_opt (tx_Value t)" "nonneg_opt (tx_Value u)"
    using ok d by (auto simp: amounts_ok_def)
  have c: "tx_ChainID t = tx_ChainID u" using big_item_inj [OF e(1) o(1,2)] vt(1) vu(1) by auto
  have p: "tx_Tip t = tx_Tip u" using big_item_inj [OF e(3) o(3,4)] vt(2) vu(2) d by auto
  have m: "tx_MaxFee t = tx_MaxFee u" using big_item_inj [OF e(4) o(5,6)] vt(2) vu(2) d by auto
  show ?thesis using n to c p m e(8) d vt(2) vu(2) big_item_inj [OF e(7) o(7,8)]
    by (simp add: same_tx_def)
qed

lemma same_tx_legacy:
  assumes v: "validate t = None" "validate u = None" and d: "\<not> IsDynamic t" "\<not> IsDynamic u"
    and ok: "amounts_ok t" "amounts_ok u"
    and eq: "map payload_of (legacy_items t) = map payload_of (legacy_items u)"
    and ch: "payload_of (big_item (tx_ChainID t)) = payload_of (big_item (tx_ChainID u))"
  shows "same_tx t u"
proof -
  have e: "payload_of (uint_item (tx_Nonce t)) = payload_of (uint_item (tx_Nonce u))"
    "payload_of (big_item (tx_GasPrice t)) = payload_of (big_item (tx_GasPrice u))"
    "payload_of (uint_item (tx_Gas t)) = payload_of (uint_item (tx_Gas u))"
    "payload_of (to_item t) = payload_of (to_item u)"
    "payload_of (big_item (tx_Value t)) = payload_of (big_item (tx_Value u))"
    "tx_Data t = tx_Data u"
    using eq by (simp_all add: legacy_items_def)
  have n: "tx_Nonce t = tx_Nonce u" "tx_Gas t = tx_Gas u"
    using e(1,3) by (auto dest: uint_item_inj)
  have to: "tx_To t = tx_To u"
    using to_item_inj [OF e(4) validate_NoneD(4) [OF v(1)] validate_NoneD(4) [OF v(2)]] .
  note vt = validate_NoneD(1,3) [OF v(1)] and vu = validate_NoneD(1,3) [OF v(2)]
  have o: "nonneg_opt (tx_ChainID t)" "nonneg_opt (tx_ChainID u)" "nonneg_opt (tx_GasPrice t)"
    "nonneg_opt (tx_GasPrice u)" "nonneg_opt (tx_Value t)" "nonneg_opt (tx_Value u)"
    using ok d by (auto simp: amounts_ok_def)
  have c: "tx_ChainID t = tx_ChainID u" using big_item_inj [OF ch o(1,2)] vt(1) vu(1) by auto
  have g: "tx_GasPrice t = tx_GasPrice u" using big_item_inj [OF e(2) o(3,4)] vt(2) vu(2) d by auto
  show ?thesis using n to c g e(6) d vt(2) vu(2) big_item_inj [OF e(5) o(5,6)]
    by (simp add: same_tx_def)
qed

text \<open>C28: The bytes hashed for signing determine the transaction: two accepted transactions with the
  same signing payload are of the same form and agree on chain id, nonce, gas, fees, recipient,
  value and data. So a signature over one never authorises another, nor the same one on another
  chain. A payload is a Go slice, hence shorter than \<open>2 ^ 63\<close> bytes.\<close>

theorem signing_payload_binds:
  assumes v: "validate t = None" "validate u = None"
    and p: "signing_payload t = Inr p" "signing_payload u = Inr p" and len: "go_len p"
  shows "same_tx t u"
proof (cases "IsDynamic t")
  case True
  then have u: "IsDynamic u" using payload_kind [OF len p(1)] payload_kind [OF len p(2)] by simp
  let ?e = "\<lambda>x. rlpList (concat (map enc_item (dynamic_items x)))"
  have "go_len (?e t)" "?e t = ?e u" and ok: "amounts_ok t" "amounts_ok u"
    using p True u len by (auto simp: signing_payload_dynamic go_len_def)
  then show ?thesis using rlp_items_inj [of "dynamic_items t" "dynamic_items u"]
      same_tx_dynamic [OF v True u ok] by simp
next
  case False
  then have u: "\<not> IsDynamic u" using payload_kind [OF len p(1)] payload_kind [OF len p(2)] by simp
  let ?its = "\<lambda>x. legacy_items x @ [big_item (tx_ChainID x), uint_item 0, uint_item 0]"
  have g: "go_len (rlpList (concat (map enc_item (?its t))))"
    "rlpList (concat (map enc_item (?its t))) = rlpList (concat (map enc_item (?its u)))"
    and ok: "amounts_ok t" "amounts_ok u"
    using p False u len by (auto simp: signing_payload_legacy)
  have "map payload_of (?its t) = map payload_of (?its u)" by (rule rlp_items_inj [OF g])
  then show ?thesis
    by (intro same_tx_legacy [OF v False u ok]) (simp_all add: legacy_items_def)
qed



section \<open>Reading back what was signed\<close>

lemma WithSignature_Inr:
  assumes "WithSignature lib t sig from = Inr st"
  obtains digest recovery r s where "validate t = None" "SigningHash lib t = Inr digest"
    "RecoverAddress lib digest sig = Inr (st_From st)"
    "from = [] \<or> equalAddress (st_From st) from"
    "recovery \<le> 1" "0 \<le> r" "0 \<le> s"
    "signed_payload t recovery r s = Inr (st_Raw st)" "st_Hash st = Keccak256 lib [st_Raw st]"
proof -
  have v: "validate t = None" using assms by (simp add: WithSignature_def split: option.splits)
  let ?rec = "if sig ! 64 \<ge> 27 then sig ! 64 - 27 else sig ! 64"
  let ?r = "int (bytes_nat (take 32 sig))" and ?s = "int (bytes_nat (take 32 (drop 32 sig)))"
  have l: "length sig = SignatureLength"
    using assms v by (cases "length sig = SignatureLength") (simp_all add: WithSignature_def)
  obtain digest where d1: "SigningHash lib t = Inr digest"
    using assms v l by (cases "SigningHash lib t") (simp_all add: WithSignature_def)
  obtain a where d2: "RecoverAddress lib digest sig = Inr a"
    using assms v l d1 by (cases "RecoverAddress lib digest sig") (simp_all add: WithSignature_def)
  have f: "\<not> (from \<noteq> [] \<and> \<not> equalAddress a from)"
    using assms v l d1 d2
    by (cases "from \<noteq> [] \<and> \<not> equalAddress a from") (simp_all add: WithSignature_def)
  have "res_bind (res_err EncodingPanic (signed_payload t ?rec ?r ?s)) (\<lambda>raw.
          Inr \<lparr>st_Raw = raw, st_Hash = Keccak256 lib [raw], st_From = a\<rparr>) = Inr st"
    using assms v l d1 d2 f unfolding WithSignature_def Let_def by (simp del: not_le not_less)
  then obtain raw where p: "signed_payload t ?rec ?r ?s = Inr raw"
    "st = \<lparr>st_Raw = raw, st_Hash = Keccak256 lib [raw], st_From = a\<rparr>"
    by (cases "signed_payload t ?rec ?r ?s") auto
  obtain pub where "SigToPub lib digest sig = Inr pub"
    using d2 by (cases "SigToPub lib digest sig") (simp_all add: RecoverAddress_def)
  from SigToPub_recovery(3) [OF this] show ?thesis
    by (intro that [OF v d1, of ?rec ?r ?s]) (use d2 f p in auto)
qed

lemma legacy_v:
  assumes "recovery \<le> (1 :: byte)" "0 < (c :: int)"
  shows "drop_bit 1 (uint ((ucast recovery :: u64) + 35) + c * 2 - 35) = c"
    and "35 \<le> uint ((ucast recovery :: u64) + 35) + c * 2"
proof -
  have "recovery = 0 \<or> recovery = 1" using assms(1) by (auto simp: word_le_nat_alt word_unat_eq_iff)
  then show "drop_bit 1 (uint ((ucast recovery :: u64) + 35) + c * 2 - 35) = c"
    and "35 \<le> uint ((ucast recovery :: u64) + 35) + c * 2"
    using assms(2) by (auto simp: drop_bit_eq_div)
qed

lemma legacy_head: "go_len (rlpList q) \<Longrightarrow> \<not> rlpList q ! 0 < 0xc0 \<and> rlpList q \<noteq> []"
  using rlpList_head [of q] by auto

lemma decode_dynamic:
  assumes "splitList body = Inr items" "length items = 12"
  shows "DecodeSignedTransaction lib (DynamicFeeTxType # body) =
    Inr \<lparr>info_Type = DynamicFeeTxType, info_Hash = Keccak256 lib [DynamicFeeTxType # body],
         info_Nonce = beUint (items ! 1), info_Gas = beUint (items ! 4),
         info_Value = int (bytes_nat (items ! 6)), info_To = addressOrNil (items ! 5),
         info_ChainID = Some (int (bytes_nat (items ! 0)))\<rparr>"
  using assms by (simp add: DecodeSignedTransaction_def DynamicFeeTxType_def TransactionHash_def)

lemma decode_legacy:
  assumes "go_len (rlpList q)" "splitList (rlpList q) = Inr items" "length items = 9"
  shows "DecodeSignedTransaction lib (rlpList q) =
    (let v = int (bytes_nat (items ! 6)) in
     Inr \<lparr>info_Type = 0, info_Hash = Keccak256 lib [rlpList q],
         info_Nonce = beUint (items ! 0), info_Gas = beUint (items ! 2),
         info_Value = int (bytes_nat (items ! 4)), info_To = addressOrNil (items ! 3),
         info_ChainID = (if v \<ge> 35 then Some (drop_bit 1 (v - 35)) else None)\<rparr>)"
  using assms legacy_head [OF assms(1)]
  by (simp add: DecodeSignedTransaction_def DynamicFeeTxType_def TransactionHash_def)

lemma decode_WithSignature:
  assumes "WithSignature lib t sig from = Inr st" "go_len (st_Raw st)"
  shows "DecodeSignedTransaction lib (st_Raw st) =
    Inr \<lparr>info_Type = (if IsDynamic t then DynamicFeeTxType else 0), info_Hash = st_Hash st,
         info_Nonce = tx_Nonce t, info_Gas = tx_Gas t,
         info_Value = (case tx_Value t of None \<Rightarrow> 0 | Some v \<Rightarrow> v),
         info_To = tx_To t, info_ChainID = tx_ChainID t\<rparr>"
  using assms(1)
proof (rule WithSignature_Inr)
  fix digest recovery r s
  assume v: "validate t = None" and rec: "recovery \<le> 1" and rs: "0 \<le> r" "0 \<le> s"
    and p: "signed_payload t recovery r s = Inr (st_Raw st)"
    and h: "st_Hash st = Keccak256 lib [st_Raw st]"
  obtain c where c: "tx_ChainID t = Some c" "0 < c" using validate_NoneD(1) [OF v] by auto
  note to = to_item_addr [OF validate_NoneD(4) [OF v]]
  note val = payload_big_item [OF validate_NoneD(5) [OF v]]
  show ?thesis
  proof (cases "IsDynamic t")
    case True
    let ?its = "dynamic_items t @ [uint_item (ucast recovery), big_item (Some r), big_item (Some s)]"
    let ?body = "rlpList (concat (map enc_item ?its))"
    have raw: "st_Raw st = DynamicFeeTxType # ?body"
      using p signed_payload_dynamic [OF True rs] by simp
    then have "go_len ?body" using assms(2) by (simp add: go_len_def)
    note sp = splitList_items [OF this]
    show ?thesis unfolding h raw
      using decode_dynamic [OF sp, of lib] True c to val payload_big_item [of "tx_ChainID t"]
      by (simp add: dynamic_items_def nonneg_opt_def)
  next
    case False
    let ?v = "uint ((ucast recovery :: u64) + 35) + c * 2"
    let ?its = "legacy_items t @ [big_item (Some ?v), big_item (Some r), big_item (Some s)]"
    let ?q = "concat (map enc_item ?its)"
    have raw: "st_Raw st = rlpList ?q" using p signed_payload_legacy [OF False rs c] by simp
    then have g: "go_len (rlpList ?q)" using assms(2) by simp
    note lv = legacy_v [OF rec c(2)]
    have "int (bytes_nat (payload_of (big_item (Some ?v)))) = ?v"
      using payload_big_item [of "Some ?v"] lv(2) by (simp add: nonneg_opt_def)
    then show ?thesis unfolding h raw
      using decode_legacy [OF g splitList_items [OF g], of lib] False c to val lv
      by (simp add: legacy_items_def Let_def)
  qed
qed

text \<open>C29: Whatever \<^const>\<open>WithSignature\<close> returns for broadcast, \<^const>\<open>DecodeSignedTransaction\<close> reads
  back: the form, the hash, and the nonce, gas, value, recipient and chain id that were signed,
  from the right positions of both forms and out of EIP-155's combined \<open>v\<close>.\<close>

theorem decode_signed_roundtrip:
  assumes "WithSignature lib t sig from = Inr st" "go_len (st_Raw st)"
  shows "DecodeSignedTransaction lib (st_Raw st) =
    Inr \<lparr>info_Type = (if IsDynamic t then DynamicFeeTxType else 0), info_Hash = st_Hash st,
         info_Nonce = tx_Nonce t, info_Gas = tx_Gas t,
         info_Value = (case tx_Value t of None \<Rightarrow> 0 | Some v \<Rightarrow> v),
         info_To = tx_To t, info_ChainID = tx_ChainID t\<rparr>"
  using assms by (rule decode_WithSignature)

text \<open>Bytes after a signed transaction are refused, whatever they are: two concatenated
  transactions are never read as the first of them.\<close>

theorem decode_refuses_trailing:
  assumes "WithSignature lib t sig from = Inr st" "x \<noteq> []" "go_len (st_Raw st @ x)"
  shows "DecodeSignedTransaction lib (st_Raw st @ x) = Inl (BadRlp (TrailingBytes (length x)))"
  using assms(1)
proof (rule WithSignature_Inr)
  fix digest recovery r s
  assume v: "validate t = None" and rs: "0 \<le> r" "0 \<le> s"
    and p: "signed_payload t recovery r s = Inr (st_Raw st)"
  obtain c where c: "tx_ChainID t = Some c" "0 < c" using validate_NoneD(1) [OF v] by auto
  have split: "splitList (rlpList q @ x) = Inl (TrailingBytes (length x))"
    if "go_len (rlpList q @ x)" for q
    using readItem_list [OF that] assms(2) by (simp add: splitList_def)
  show ?thesis
  proof (cases "IsDynamic t")
    case True
    then obtain q where raw: "st_Raw st = DynamicFeeTxType # rlpList q"
      using p signed_payload_dynamic [OF True rs] by auto
    with assms(3) split [of q] show ?thesis
      by (simp add: DecodeSignedTransaction_def DynamicFeeTxType_def go_len_def)
  next
    case False
    then obtain q where raw: "st_Raw st = rlpList q"
      using p signed_payload_legacy [OF False rs c] by auto
    with assms(3) split [of q] legacy_head [of q] go_len_appendD1 [of "rlpList q" x] show ?thesis
      by (simp add: DecodeSignedTransaction_def nth_append)
  qed
qed

lemma WithSignature_from:
  assumes "WithSignature lib t sig from = Inr st" "from \<noteq> []"
  shows "\<exists>digest a. SigningHash lib t = Inr digest \<and> RecoverAddress lib digest sig = Inr (st_From st) \<and>
    ParseAddress (st_From st) = Inr a \<and> ParseAddress from = Inr a \<and>
    st_Hash st = TransactionHash lib (st_Raw st)"
  using assms(1)
proof (rule WithSignature_Inr)
  fix digest recovery r s
  assume "SigningHash lib t = Inr digest" "RecoverAddress lib digest sig = Inr (st_From st)"
    "from = [] \<or> equalAddress (st_From st) from" "st_Hash st = Keccak256 lib [st_Raw st]"
  then show ?thesis using assms(2)
    by (auto simp: equalAddress_def TransactionHash_def list.rel_eq split: sum.splits)
qed

text \<open>A transaction is returned for broadcast only with a signature over its own digest that
  recovers to the expected sender, addresses compared as bytes; its hash is the Keccak digest of
  exactly the returned bytes.\<close>

theorem WithSignature_sender:
  assumes "WithSignature lib t sig from = Inr st" "from \<noteq> []"
  shows "\<exists>digest a. SigningHash lib t = Inr digest \<and> RecoverAddress lib digest sig = Inr (st_From st) \<and>
    ParseAddress (st_From st) = Inr a \<and> ParseAddress from = Inr a \<and>
    st_Hash st = TransactionHash lib (st_Raw st)"
  using assms by (rule WithSignature_from)



section \<open>Success, and the one panic of the decoder\<close>

lemma signing_payload_ok: "amounts_ok t \<Longrightarrow> \<exists>p. signing_payload t = Inr p"
  by (cases "IsDynamic t") (auto simp: signing_payload_dynamic signing_payload_legacy)

lemma WithSignature_succeeds:
  assumes lib: "keccak_ok lib" and t: "validate t = None" "amounts_ok t"
    and sig: "length sig = 65" "sig ! 64 = 0"
    and rec: "\<And>digest. length digest = 32 \<Longrightarrow>
      recoverCompact lib (27 # take 64 sig) digest = Some (x, y)"
    and xy: "x < 2 ^ 256" "y < 2 ^ 256"
    and raw: "signed_payload t 0 (int (bytes_nat (take 32 sig)))
      (int (bytes_nat (take 32 (drop 32 sig)))) = Inr raw"
  obtains a where "IsHexAddress a" "\<And>from. from = [] \<or> from = a \<Longrightarrow>
    WithSignature lib t sig from = Inr \<lparr>st_Raw = raw, st_Hash = Keccak256 lib [raw], st_From = a\<rparr>"
proof -
  obtain p where p: "signing_payload t = Inr p" using signing_payload_ok [OF t(2)] by auto
  have h: "SigningHash lib t = Inr (Keccak256 lib [p])" using t p by (simp add: SigningHash_def)
  have "length (Keccak256 lib [p]) = 32" using lib by (simp add: keccak_ok_def Keccak256_def)
  then have pub: "SigToPub lib (Keccak256 lib [p]) sig = Inr (x, y)"
    using sig rec by (simp add: SigToPub_def SignatureLength_def)
  obtain a where a: "Address lib x y = Inr a" "IsHexAddress a"
    using Address_parses [OF lib xy] by auto
  have ra: "RecoverAddress lib (Keccak256 lib [p]) sig = Inr a"
    using pub a by (simp add: RecoverAddress_def)
  have eq: "equalAddress a a"
    using a(2) by (auto simp: equalAddress_def IsHexAddress_def list.rel_eq split: sum.splits)
  show thesis
    using t(1) sig h ra eq raw
    by (intro that [OF a(2)]) (auto simp: WithSignature_def SignatureLength_def)
qed

definition demo_tx :: Transaction where
  "demo_tx = \<lparr>tx_ChainID = Some 137, tx_Nonce = 9, tx_Gas = 21000, tx_GasPrice = Some 20,
     tx_MaxFee = None, tx_Tip = None, tx_To = Some (replicate 20 0x11), tx_Value = Some 1000,
     tx_Data = []\<rparr>"

definition demo_sig :: bytes where
  "demo_sig = replicate 64 1 @ [0]"

lemma demo_tx_ok: "validate demo_tx = None" "amounts_ok demo_tx" "\<not> IsDynamic demo_tx"
  by (simp_all add: demo_tx_def validate_def amounts_ok_def IsDynamic_def nonneg_opt_def)

lemma length_big_item_small: "0 \<le> x \<Longrightarrow> x < 2 ^ 64 \<Longrightarrow> length (payload_of (big_item (Some x))) \<le> 8"
  by (simp add: big_item_def, rule length_nat_bytes_le) simp

lemma length_nat_bytes_bytes_nat: "length (nat_bytes (bytes_nat b)) \<le> length b"
  by (rule length_nat_bytes_le) (rule bytes_nat_less)

text \<open>The demonstration transaction with its signature, ready to broadcast.\<close>

lemma demo_signed:
  obtains raw a where "length raw \<le> 309" "IsHexAddress a" "\<And>from. from = [] \<or> from = a \<Longrightarrow>
    WithSignature demo_lib demo_tx demo_sig from =
      Inr \<lparr>st_Raw = raw, st_Hash = Keccak256 demo_lib [raw], st_From = a\<rparr>"
proof -
  let ?r = "int (bytes_nat (take 32 demo_sig))" and ?s = "int (bytes_nat (take 32 (drop 32 demo_sig)))"
  let ?its = "legacy_items demo_tx @
    [big_item (Some (uint ((ucast (0 :: byte) :: u64) + 35) + 137 * 2)), big_item (Some ?r), big_item (Some ?s)]"
  let ?raw = "rlpList (concat (map enc_item ?its))"
  have p: "signed_payload demo_tx 0 ?r ?s = Inr ?raw"
    using signed_payload_legacy [OF demo_tx_ok(3), of ?r ?s 137 0] demo_tx_ok(2) by (simp add: demo_tx_def)
  have "length (payload_of (big_item (Some ?r))) \<le> 32" "length (payload_of (big_item (Some ?s))) \<le> 32"
    using length_nat_bytes_bytes_nat [of "take 32 demo_sig"] length_nat_bytes_bytes_nat [of "take 32 (drop 32 demo_sig)"]
    by (simp_all add: big_item_def demo_sig_def)
  moreover have "length (payload_of (big_item (Some 20))) \<le> 8" "length (payload_of (big_item (Some 1000))) \<le> 8"
    "length (payload_of (big_item (Some 309))) \<le> 8" "length (payload_of (uint_item 9)) \<le> 8"
    "length (payload_of (uint_item 21000)) \<le> 8"
    by (rule length_big_item_small, simp, simp)+ (simp_all add: uint_item_def length_bigEndian_le)
  ultimately have "sum_list (map (\<lambda>it. length (payload_of it) + 9) ?its) \<le> 300"
    by (simp add: legacy_items_def demo_tx_def to_item_def)
  then have g: "length ?raw \<le> 309"
    using length_enc_items_le [of ?its] length_rlpList_le [of "concat (map enc_item ?its)"] by linarith
  have rec: "recoverCompact demo_lib (27 # take 64 demo_sig) digest
      = Some (bytes_nat (take 32 demo_sig), 7)" for digest
    by (simp add: demo_lib_def demo_sig_def)
  have "bytes_nat (take 32 demo_sig) < 2 ^ 256"
    using bytes_nat_less [of "take 32 demo_sig"] by (simp add: demo_sig_def)
  then show thesis
    using WithSignature_succeeds [OF demo_lib_ok(1) demo_tx_ok(1,2) _ _ rec _ _ p] that [OF g]
    by (auto simp: demo_sig_def nth_append)
qed

text \<open>A value that is absent and one that is zero are written alike, and mean the same.\<close>

theorem signing_payload_binds_witness:
  "\<exists>p. signing_payload (demo_tx\<lparr>tx_Value := None\<rparr>) = Inr p \<and> signing_payload (demo_tx\<lparr>tx_Value := Some 0\<rparr>) = Inr p \<and>
     same_tx (demo_tx\<lparr>tx_Value := None\<rparr>) (demo_tx\<lparr>tx_Value := Some 0\<rparr>)"
proof -
  let ?t = "demo_tx\<lparr>tx_Value := None\<rparr>" and ?u = "demo_tx\<lparr>tx_Value := Some 0\<rparr>"
  let ?its = "legacy_items ?t @ [big_item (Some 137), uint_item 0, uint_item 0]"
  have v: "validate ?t = None" "validate ?u = None" by (simp_all add: demo_tx_def validate_def IsDynamic_def Let_def)
  have "big_item (Some 0) = big_item None" by (simp add: big_item_def)
  then have "legacy_items ?u = legacy_items ?t" by (simp add: legacy_items_def to_item_def)
  then have p: "signing_payload ?t = Inr (rlpList (concat (map enc_item ?its)))" "signing_payload ?u = Inr (rlpList (concat (map enc_item ?its)))"
    by (simp_all add: signing_payload_legacy IsDynamic_def demo_tx_def amounts_ok_def nonneg_opt_def)
  have "length (payload_of (big_item (Some 20))) \<le> 8" "length (payload_of (big_item (Some 137))) \<le> 8"
    by (rule length_big_item_small, simp, simp)+
  then have "sum_list (map (\<lambda>it. length (payload_of it) + 9) ?its) \<le> 300"
    using length_bigEndian_le [of 9] length_bigEndian_le [of 21000] length_bigEndian_le [of 0]
    by (simp add: legacy_items_def demo_tx_def to_item_def uint_item_def big_item_def)
  then have "length (rlpList (concat (map enc_item ?its))) \<le> 309"
    using length_enc_items_le [of ?its] length_rlpList_le [of "concat (map enc_item ?its)"] by simp
  then show ?thesis using p signing_payload_binds [OF v p] by (auto simp: go_len_def)
qed

theorem decode_signed_roundtrip_witness:
  "\<exists>st. WithSignature demo_lib demo_tx demo_sig [] = Inr st \<and>
     DecodeSignedTransaction demo_lib (st_Raw st) =
       Inr \<lparr>info_Type = 0, info_Hash = st_Hash st, info_Nonce = 9, info_Gas = 21000,
            info_Value = 1000, info_To = Some (replicate 20 0x11), info_ChainID = Some 137\<rparr>"
proof (rule demo_signed)
  fix raw a
  assume g: "length raw \<le> 309" and w: "\<And>from. from = [] \<or> from = a \<Longrightarrow>
    WithSignature demo_lib demo_tx demo_sig from =
      Inr \<lparr>st_Raw = raw, st_Hash = Keccak256 demo_lib [raw], st_From = a\<rparr>"
  show ?thesis
    using w [of "[]"] decode_signed_roundtrip [OF w [of "[]"]] g demo_tx_ok(3)
    by (simp add: demo_tx_def go_len_def)
qed

theorem decode_refuses_trailing_witness:
  "\<exists>st. WithSignature demo_lib demo_tx demo_sig [] = Inr st \<and>
     DecodeSignedTransaction demo_lib (st_Raw st @ [0xc0]) = Inl (BadRlp (TrailingBytes 1))"
proof (rule demo_signed)
  fix raw a
  assume g: "length raw \<le> 309" and w: "\<And>from. from = [] \<or> from = a \<Longrightarrow>
    WithSignature demo_lib demo_tx demo_sig from =
      Inr \<lparr>st_Raw = raw, st_Hash = Keccak256 demo_lib [raw], st_From = a\<rparr>"
  show ?thesis
    using w [of "[]"] decode_refuses_trailing [OF w [of "[]"], of "[0xc0]"] g by (simp add: go_len_def)
qed

theorem WithSignature_sender_witness:
  "\<exists>st from a digest. from \<noteq> [] \<and> WithSignature demo_lib demo_tx demo_sig from = Inr st \<and>
     SigningHash demo_lib demo_tx = Inr digest \<and>
     RecoverAddress demo_lib digest demo_sig = Inr (st_From st) \<and>
     ParseAddress (st_From st) = Inr a \<and> ParseAddress from = Inr a"
proof (rule demo_signed)
  fix raw a
  assume a: "IsHexAddress a" and w: "\<And>from. from = [] \<or> from = a \<Longrightarrow>
    WithSignature demo_lib demo_tx demo_sig from =
      Inr \<lparr>st_Raw = raw, st_Hash = Keccak256 demo_lib [raw], st_From = a\<rparr>"
  have "a \<noteq> []" using a by (auto simp: IsHexAddress_def ParseAddress_def)
  then show ?thesis
    using w [of a] WithSignature_sender [OF w [of a]] by fastforce
qed

text \<open>C30: A long item whose eight-byte length field is within nine of \<open>2 ^ 64\<close> makes the bounds check
  of the reader wrap around: \<^verbatim>\<open>start+n\<close> is then a small number, the check passes, and the slice
  expression panics. Decoding such bytes panics instead of returning an error, for every library
  and whatever follows them.\<close>

theorem decode_panics_on_wrapped_length:
  assumes "length l = 8" "2 ^ 64 \<le> 9 + bytes_nat l" "go_len (0xff # l @ x)"
  shows "DecodeSignedTransaction lib (0xff # l @ x) = Inl (BadRlp SliceBoundsPanic)"
proof -
  have "readItem (0xff # l @ x) True = Inl SliceBoundsPanic"
    using assms readItem_panic [OF assms(3), of True] by simp
  then show ?thesis
    by (simp add: DecodeSignedTransaction_def splitList_def DynamicFeeTxType_def)
qed

theorem decode_panics_on_wrapped_length_witness:
  "DecodeSignedTransaction demo_lib [0xff, 0xff, 0xff, 0xff, 0xff, 0xff, 0xff, 0xff, 0xff]
     = Inl (BadRlp SliceBoundsPanic)"
  using decode_panics_on_wrapped_length
    [of "[0xff, 0xff, 0xff, 0xff, 0xff, 0xff, 0xff, 0xff]" "[]" demo_lib]
  by (simp add: go_len_def bytes_nat_def)

end
