(* ===== verification/Btc_Select.thy ===== *)
theory Btc_Select
  imports Go_Text "HOL-Library.Multiset" "HOL-Library.Product_Lexorder" "HOL-Library.List_Lexorder"
    "HOL-Library.Char_ord"
begin

text \<open>
  Bitcoin coin selection, \<^verbatim>\<open>chains/bitcoin_coinselect.go\<close>: which unspent outputs pay one
  destination, what fee and change result. Amounts are \<^verbatim>\<open>int64\<close>: every sum and product of amounts
  and fee rates is wrapped by \<^const>\<open>i64\<close>. Byte sizes are not wrapped: they are a small multiple of
  the number of outputs held in memory and stay far below \<open>2 ^ 63\<close>.

  The Bitcoin library (btcutil, txscript) is the record \<open>btcd\<close> of functions the code calls.
  \<^verbatim>\<open>sort.Slice\<close> with the comparator of the source is a sort by amount descending, then transaction
  id, then output index; on outputs with distinct outpoints every sort agrees with it.
\<close>

datatype btc_net = MainNet | TestNet3 | RegressionNet

record 'a btcd =
  decodeAddress :: "string \<Rightarrow> btc_net \<Rightarrow> 'a option"
  isForNet :: "'a \<Rightarrow> btc_net \<Rightarrow> bool"
  payToAddrScript :: "'a \<Rightarrow> bytes option"
  isPayToWitnessPubKeyHash :: "bytes \<Rightarrow> bool"

record UTXO =
  utxo_Txid :: string
  utxo_Vout :: int
  utxo_Amount :: int
  utxo_Script :: string
  utxo_Confirmations :: int

record CoinSelectionRequest =
  csr_Network :: string
  csr_UTXOs :: "UTXO list"
  csr_Destination :: string
  csr_Amount :: int
  csr_FeeRate :: int
  csr_ChangeAddress :: string
  csr_MinConfirmations :: "int option"

record BitcoinInput =
  bin_Txid :: string
  bin_Vout :: int
  bin_Amount :: int
  bin_Script :: string
  bin_SegWit :: bool

record BitcoinOutput =
  bout_Address :: string
  bout_Amount :: int

record BitcoinSigningRequest =
  bsr_Network :: string
  bsr_Inputs :: "BitcoinInput list"
  bsr_Outputs :: "BitcoinOutput list"

record CoinSelection =
  sel_Request :: BitcoinSigningRequest
  sel_Selected :: "UTXO list"
  sel_TotalIn :: int
  sel_Amount :: int
  sel_Fee :: int
  sel_Change :: int
  sel_VirtualSize :: int
  sel_FeeRate :: int
  sel_ChangeDroppedToFee :: bool

datatype btc_error =
    UnsupportedNetwork string
  | AmountNotPositive int
  | FeeRateNotPositive int
  | NoAddress
  | InvalidAddress string
  | WrongNetwork string
  | ScriptFailed
  | NotHexScript
  | UnsupportedOutput
  | OnlyUnconfirmed nat int
  | NoSpendable
  | BelowDust int int
  | InsufficientFunds int nat int int

definition txOverheadBase :: int where "txOverheadBase = 10"
definition segwitMarkerFlagWeight :: int where "segwitMarkerFlagWeight = 2"
definition p2pkhInputBase :: int where "p2pkhInputBase = 148"
definition p2wpkhInputBase :: int where "p2wpkhInputBase = 41"
definition p2wpkhInputWitness :: int where "p2wpkhInputWitness = 108"
definition p2pkhDust :: int where "p2pkhDust = 546"
definition p2wpkhDust :: int where "p2wpkhDust = 294"

lemmas size_consts = txOverheadBase_def segwitMarkerFlagWeight_def p2pkhInputBase_def
  p2wpkhInputBase_def p2wpkhInputWitness_def p2pkhDust_def p2wpkhDust_def


section \<open>Operations\<close>

definition bitcoinNetParams :: "string \<Rightarrow> btc_error + btc_net" where
  "bitcoinNetParams network =
     (if network = '''' \<or> network = ''mainnet'' then Inr MainNet
      else if network = ''testnet'' \<or> network = ''testnet3'' then Inr TestNet3
      else if network = ''regtest'' then Inr RegressionNet
      else Inl (UnsupportedNetwork network))"

definition scriptForAddress :: "'a btcd \<Rightarrow> string \<Rightarrow> btc_net \<Rightarrow> btc_error + bytes" where
  "scriptForAddress lib addr params =
     (if addr = '''' then Inl NoAddress
      else case decodeAddress lib addr params of
          None \<Rightarrow> Inl (InvalidAddress addr)
        | Some decoded \<Rightarrow>
            if \<not> isForNet lib decoded params then Inl (WrongNetwork addr)
            else case payToAddrScript lib decoded of None \<Rightarrow> Inl ScriptFailed | Some s \<Rightarrow> Inr s)"

text \<open>The opcodes are those of the Bitcoin script language: \<^verbatim>\<open>OP_DUP OP_HASH160 <20> .. OP_EQUALVERIFY OP_CHECKSIG\<close>.\<close>

definition isPayToPubKeyHash :: "bytes \<Rightarrow> bool" where
  "isPayToPubKeyHash script \<longleftrightarrow> length script = 25 \<and> script ! 0 = 0x76 \<and> script ! 1 = 0xa9 \<and>
     script ! 2 = 20 \<and> script ! 23 = 0x88 \<and> script ! 24 = 0xac"

definition inputWeights :: "'a btcd \<Rightarrow> string \<Rightarrow> btc_error + (int \<times> int)" where
  "inputWeights lib scriptHex =
     (case hex_decode scriptHex of
        None \<Rightarrow> Inl NotHexScript
      | Some script \<Rightarrow>
          if isPayToWitnessPubKeyHash lib script then Inr (p2wpkhInputBase, p2wpkhInputWitness)
          else if isPayToPubKeyHash script then Inr (p2pkhInputBase, 0)
          else Inl UnsupportedOutput)"

definition input_size :: "'a btcd \<Rightarrow> UTXO \<Rightarrow> int \<times> int" where
  "input_size lib u =
     (case inputWeights lib (utxo_Script u) of Inl _ \<Rightarrow> (p2pkhInputBase, 0) | Inr bw \<Rightarrow> bw)"

definition estimateVirtualSize :: "'a btcd \<Rightarrow> UTXO list \<Rightarrow> bytes list \<Rightarrow> int" where
  "estimateVirtualSize lib inputs outputScripts =
     (let ws = map (input_size lib) inputs;
          base = txOverheadBase + sum_list (map fst ws)
            + sum_list (map (\<lambda>s. 9 + int (length s)) outputScripts);
          anySegwit = list_ex (\<lambda>(b, w). w > 0) ws;
          witness = sum_list (map snd ws) + (if anySegwit then segwitMarkerFlagWeight else 0);
          weight = base * 4 + witness
      in (weight + 3) div 4)"

definition dustThreshold :: "'a btcd \<Rightarrow> bytes \<Rightarrow> int" where
  "dustThreshold lib script = (if isPayToWitnessPubKeyHash lib script then p2wpkhDust else p2pkhDust)"

definition buildSelection ::
  "CoinSelectionRequest \<Rightarrow> UTXO list \<Rightarrow> int \<Rightarrow> int \<Rightarrow> int \<Rightarrow> int \<Rightarrow> bool \<Rightarrow> CoinSelection" where
  "buildSelection req selected totalIn change fee vsize changeDropped =
     (let inputs = map (\<lambda>u. \<lparr>bin_Txid = utxo_Txid u, bin_Vout = utxo_Vout u,
            bin_Amount = utxo_Amount u, bin_Script = utxo_Script u, bin_SegWit = False\<rparr>) selected;
          outputs = \<lparr>bout_Address = csr_Destination req, bout_Amount = csr_Amount req\<rparr> #
            (if change > 0 then [\<lparr>bout_Address = csr_ChangeAddress req, bout_Amount = change\<rparr>] else [])
      in \<lparr>sel_Request = \<lparr>bsr_Network = csr_Network req, bsr_Inputs = inputs, bsr_Outputs = outputs\<rparr>,
          sel_Selected = selected, sel_TotalIn = totalIn, sel_Amount = csr_Amount req,
          sel_Fee = fee, sel_Change = change, sel_VirtualSize = vsize,
          sel_FeeRate = csr_FeeRate req, sel_ChangeDroppedToFee = changeDropped\<rparr>)"

definition min_conf :: "CoinSelectionRequest \<Rightarrow> int" where
  "min_conf req = (case csr_MinConfirmations req of None \<Rightarrow> 1 | Some c \<Rightarrow> c)"

text \<open>The filter loop: which outputs are spendable, and how many were only unconfirmed.\<close>

definition is_spendable :: "'a btcd \<Rightarrow> int \<Rightarrow> UTXO \<Rightarrow> bool" where
  "is_spendable lib minConf u \<longleftrightarrow> \<not> utxo_Amount u \<le> 0 \<and> \<not> utxo_Confirmations u < minConf \<and>
     (case inputWeights lib (utxo_Script u) of Inl _ \<Rightarrow> False | Inr _ \<Rightarrow> True)"

definition unconfirmed_count :: "int \<Rightarrow> UTXO list \<Rightarrow> nat" where
  "unconfirmed_count minConf us =
     length (filter (\<lambda>u. \<not> utxo_Amount u \<le> 0 \<and> utxo_Confirmations u < minConf) us)"

definition coin_key :: "UTXO \<Rightarrow> int \<times> string \<times> int" where
  "coin_key u = (- utxo_Amount u, utxo_Txid u, utxo_Vout u)"

definition sort_coins :: "UTXO list \<Rightarrow> UTXO list" where
  "sort_coins = sort_key coin_key"

fun select_loop ::
  "'a btcd \<Rightarrow> CoinSelectionRequest \<Rightarrow> bytes \<Rightarrow> bytes \<Rightarrow> UTXO list \<Rightarrow> int \<Rightarrow> UTXO list
     \<Rightarrow> btc_error + CoinSelection" where
  "select_loop lib req dest chg selected totalIn [] =
     (let size = estimateVirtualSize lib selected [dest, chg];
          need = i64 (csr_Amount req + i64 (size * csr_FeeRate req))
      in Inl (InsufficientFunds totalIn (length selected) need (i64 (size * csr_FeeRate req))))"
| "select_loop lib req dest chg selected0 totalIn0 (u # us) =
     (let selected = selected0 @ [u];
          totalIn = i64 (totalIn0 + utxo_Amount u);
          withChange = estimateVirtualSize lib selected [dest, chg];
          feeWithChange = i64 (withChange * csr_FeeRate req)
      in if totalIn < i64 (csr_Amount req + feeWithChange)
         then select_loop lib req dest chg selected totalIn us
         else let change = i64 (i64 (totalIn - csr_Amount req) - feeWithChange) in
           if change \<ge> dustThreshold lib chg
           then Inr (buildSelection req selected totalIn change feeWithChange withChange False)
           else let noChange = estimateVirtualSize lib selected [dest];
                    feeNoChange = i64 (noChange * csr_FeeRate req)
             in if totalIn \<ge> i64 (csr_Amount req + feeNoChange)
                then Inr (buildSelection req selected totalIn 0
                       (i64 (totalIn - csr_Amount req)) noChange True)
                else select_loop lib req dest chg selected totalIn us)"

definition SelectCoins :: "'a btcd \<Rightarrow> CoinSelectionRequest \<Rightarrow> btc_error + CoinSelection" where
  "SelectCoins lib req =
     res_bind (bitcoinNetParams (csr_Network req)) (\<lambda>params.
       if csr_Amount req \<le> 0 then Inl (AmountNotPositive (csr_Amount req))
       else if csr_FeeRate req \<le> 0 then Inl (FeeRateNotPositive (csr_FeeRate req))
       else
         res_bind (scriptForAddress lib (csr_Destination req) params) (\<lambda>destScript.
         res_bind (scriptForAddress lib (csr_ChangeAddress req) params) (\<lambda>changeScript.
           let minConf = min_conf req;
               spendable = filter (is_spendable lib minConf) (csr_UTXOs req);
               unconfirmed = unconfirmed_count minConf (csr_UTXOs req) in
           if spendable = [] then
             (if unconfirmed > 0 then Inl (OnlyUnconfirmed unconfirmed minConf) else Inl NoSpendable)
           else let destDust = dustThreshold lib destScript in
             if csr_Amount req < destDust then Inl (BelowDust (csr_Amount req) destDust)
             else select_loop lib req destScript changeScript [] 0 (sort_coins spendable))))"



section \<open>Sizes\<close>

definition amounts :: "UTXO list \<Rightarrow> int" where
  "amounts us = sum_list (map utxo_Amount us)"

lemma amounts_simps [simp]:
  "amounts [] = 0" "amounts (u # us) = utxo_Amount u + amounts us"
  "amounts (us @ vs) = amounts us + amounts vs"
  by (simp_all add: amounts_def)

lemma input_size_nonneg: "0 \<le> fst (input_size lib u)" "0 \<le> snd (input_size lib u)"
  by (auto simp: input_size_def inputWeights_def size_consts split: option.splits)

lemma sum_list_nonneg_map: "(\<And>x. 0 \<le> f x) \<Longrightarrow> 0 \<le> sum_list (map f xs :: int list)"
  by (induction xs) simp_all

text \<open>More inputs or more outputs never make a transaction smaller.\<close>

lemma estimateVirtualSize_mono:
  assumes "outs = outs' \<or> (\<exists>x. outs' = outs @ x)"
  shows "estimateVirtualSize lib ins outs \<le> estimateVirtualSize lib (ins @ extra) outs'"
proof -
  let ?ws = "map (input_size lib)"
  have b: "sum_list (map fst (?ws ins)) \<le> sum_list (map fst (?ws (ins @ extra)))"
    and w: "sum_list (map snd (?ws ins)) \<le> sum_list (map snd (?ws (ins @ extra)))"
    using sum_list_nonneg_map [of "\<lambda>u. fst (input_size lib u)" extra]
      sum_list_nonneg_map [of "\<lambda>u. snd (input_size lib u)" extra]
    by (simp_all add: input_size_nonneg comp_def)
  have o: "sum_list (map (\<lambda>s. 9 + int (length s)) outs) \<le> sum_list (map (\<lambda>s. 9 + int (length s)) outs')"
    using assms sum_list_nonneg_map [of "\<lambda>s. 9 + int (length s)"] by auto
  have "list_ex (\<lambda>(b, w). w > 0) (?ws ins) \<Longrightarrow> list_ex (\<lambda>(b, w). w > 0) (?ws (ins @ extra))"
    by simp
  then have "(if list_ex (\<lambda>(b, w). w > 0) (?ws ins) then segwitMarkerFlagWeight else 0)
      \<le> (if list_ex (\<lambda>(b, w). w > 0) (?ws (ins @ extra)) then segwitMarkerFlagWeight else 0)"
    by (auto simp: size_consts)
  then show ?thesis unfolding estimateVirtualSize_def Let_def
    using b w o by (intro zdiv_mono1 add_mono mult_right_mono order.refl) (assumption | simp)+
qed

lemma estimateVirtualSize_pos: "0 < estimateVirtualSize lib ins outs"
proof -
  have "0 \<le> sum_list (map fst (map (input_size lib) ins))"
    "0 \<le> sum_list (map snd (map (input_size lib) ins))"
    "0 \<le> sum_list (map (\<lambda>s. 9 + int (length s)) outs)"
    by (auto intro!: sum_list_nonneg simp: input_size_nonneg)
  then show ?thesis
    unfolding estimateVirtualSize_def Let_def by (simp add: size_consts pos_imp_zdiv_pos_iff)
qed

lemma sum_list_mset_cong: "mset xs = mset ys \<Longrightarrow> sum_list (map f xs) = sum_list (map f ys :: int list)"
  by (metis mset_map sum_mset_sum_list)

lemma estimateVirtualSize_perm:
  assumes "mset ins = mset ins'"
  shows "estimateVirtualSize lib ins outs = estimateVirtualSize lib ins' outs"
proof -
  have "set ins = set ins'" using assms by (rule mset_eq_setD)
  then show ?thesis
    using sum_list_mset_cong [OF assms, of "\<lambda>u. fst (input_size lib u)"]
      sum_list_mset_cong [OF assms, of "\<lambda>u. snd (input_size lib u)"]
    by (simp add: estimateVirtualSize_def Let_def comp_def list_ex_iff)
qed


section \<open>The selection loop\<close>

text \<open>What the loop decides after taking a coin: stop with a selection, or go on.\<close>

definition decide ::
  "'a btcd \<Rightarrow> CoinSelectionRequest \<Rightarrow> bytes \<Rightarrow> bytes \<Rightarrow> UTXO list \<Rightarrow> int \<Rightarrow> CoinSelection option" where
  "decide lib req dest chg selected totalIn =
     (let withChange = estimateVirtualSize lib selected [dest, chg];
          feeWithChange = i64 (withChange * csr_FeeRate req);
          change = i64 (i64 (totalIn - csr_Amount req) - feeWithChange);
          noChange = estimateVirtualSize lib selected [dest] in
      if totalIn < i64 (csr_Amount req + feeWithChange) then None
      else if change \<ge> dustThreshold lib chg
        then Some (buildSelection req selected totalIn change feeWithChange withChange False)
      else if totalIn \<ge> i64 (csr_Amount req + i64 (noChange * csr_FeeRate req))
        then Some (buildSelection req selected totalIn 0 (i64 (totalIn - csr_Amount req)) noChange True)
      else None)"

lemma select_loop_Cons:
  "select_loop lib req dest chg sel tot (u # us) =
     (case decide lib req dest chg (sel @ [u]) (i64 (tot + utxo_Amount u)) of
        Some s \<Rightarrow> Inr s
      | None \<Rightarrow> select_loop lib req dest chg (sel @ [u]) (i64 (tot + utxo_Amount u)) us)"
  by (auto simp: decide_def Let_def)

text \<open>The loop returns the decision at the first prefix that has one.\<close>

lemma select_loop_first:
  assumes "select_loop lib req dest chg sel (i64 tot) us = Inr s"
  shows "\<exists>k < length us.
    decide lib req dest chg (sel @ take (Suc k) us) (i64 (tot + amounts (take (Suc k) us))) = Some s \<and>
    (\<forall>j < k. decide lib req dest chg (sel @ take (Suc j) us) (i64 (tot + amounts (take (Suc j) us))) = None)"
  using assms
proof (induction us arbitrary: sel tot)
  case Nil
  then show ?case by (simp add: Let_def)
next
  case (Cons u us)
  let ?d = "decide lib req dest chg (sel @ [u]) (i64 (tot + utxo_Amount u))"
  show ?case
  proof (cases ?d)
    case None
    then have "select_loop lib req dest chg (sel @ [u]) (i64 (tot + utxo_Amount u)) us = Inr s"
      using Cons.prems by (simp add: select_loop_Cons del: select_loop.simps)
    from Cons.IH [OF this] obtain k where "k < length us"
      "decide lib req dest chg (sel @ take (Suc (Suc k)) (u # us)) (i64 (tot + amounts (take (Suc (Suc k)) (u # us)))) = Some s"
      "\<forall>j < k. decide lib req dest chg (sel @ take (Suc (Suc j)) (u # us)) (i64 (tot + amounts (take (Suc (Suc j)) (u # us)))) = None"
      by (auto simp: add.assoc)
    moreover have "decide lib req dest chg (sel @ take (Suc 0) (u # us)) (i64 (tot + amounts (take (Suc 0) (u # us)))) = None"
      using None by simp
    ultimately show ?thesis
      by (intro exI [of _ "Suc k"]) (auto simp: less_Suc_eq_0_disj simp del: take_Suc_Cons)
  next
    case (Some s')
    then show ?thesis using Cons.prems
      by (intro exI [of _ 0]) (simp add: select_loop_Cons del: select_loop.simps)
  qed
qed




section \<open>Selection within the range of int64\<close>

abbreviation coins :: "'a btcd \<Rightarrow> CoinSelectionRequest \<Rightarrow> UTXO list" where
  "coins lib req \<equiv> sort_coins (filter (is_spendable lib (min_conf req)) (csr_UTXOs req))"

definition fee_for :: "'a btcd \<Rightarrow> CoinSelectionRequest \<Rightarrow> UTXO list \<Rightarrow> bytes list \<Rightarrow> int" where
  "fee_for lib req ins outs = estimateVirtualSize lib ins outs * csr_FeeRate req"

text \<open>The scripts of the request, and that neither its coins nor the dearest transaction it could
  lead to exceeds an \<^verbatim>\<open>int64\<close>. All Bitcoin there will ever be is less than \<open>2 ^ 51\<close> satoshis.\<close>

definition request_ok :: "'a btcd \<Rightarrow> CoinSelectionRequest \<Rightarrow> bytes \<Rightarrow> bytes \<Rightarrow> bool" where
  "request_ok lib req dest chg \<longleftrightarrow>
     (\<exists>params. bitcoinNetParams (csr_Network req) = Inr params \<and>
        scriptForAddress lib (csr_Destination req) params = Inr dest \<and>
        scriptForAddress lib (csr_ChangeAddress req) params = Inr chg) \<and>
     0 < csr_Amount req \<and> 0 < csr_FeeRate req \<and>
     amounts (coins lib req) < 2 ^ 63 \<and>
     csr_Amount req + fee_for lib req (coins lib req) [dest, chg] < 2 ^ 63"

definition enough :: "'a btcd \<Rightarrow> CoinSelectionRequest \<Rightarrow> bytes \<Rightarrow> bytes \<Rightarrow> UTXO list \<Rightarrow> bool" where
  "enough lib req dest chg us \<longleftrightarrow> csr_Amount req + fee_for lib req us [dest, chg] \<le> amounts us"

lemma dust_pos: "0 < dustThreshold lib script"
  by (simp add: dustThreshold_def size_consts)

lemma set_coins: "u \<in> set (coins lib req) \<longleftrightarrow> u \<in> set (csr_UTXOs req) \<and> is_spendable lib (min_conf req) u"
  by (auto simp: sort_coins_def)

lemma mset_coins: "mset (coins lib req) = mset (filter (is_spendable lib (min_conf req)) (csr_UTXOs req))"
  by (simp add: sort_coins_def)

lemma amounts_nonneg: "\<forall>u \<in> set us. 0 < utxo_Amount u \<Longrightarrow> 0 \<le> amounts us"
  by (induction us) auto

lemma coins_pos: "\<forall>u \<in> set (coins lib req). 0 < utxo_Amount u"
proof
  fix u assume "u \<in> set (coins lib req)"
  then have "is_spendable lib (min_conf req) u" by (simp only: set_coins)
  then show "0 < utxo_Amount u" by (simp add: is_spendable_def)
qed

lemma amounts_take:
  "0 \<le> amounts (take k (coins lib req))" "amounts (take k (coins lib req)) \<le> amounts (coins lib req)"
proof -
  have "amounts (coins lib req) = amounts (take k (coins lib req)) + amounts (drop k (coins lib req))"
    by (metis amounts_simps(3) append_take_drop_id)
  moreover have "0 \<le> amounts (drop k (coins lib req))" "0 \<le> amounts (take k (coins lib req))"
    using coins_pos [of lib req] by (auto intro!: amounts_nonneg dest: in_set_takeD in_set_dropD)
  ultimately show "0 \<le> amounts (take k (coins lib req))"
    "amounts (take k (coins lib req)) \<le> amounts (coins lib req)" by auto
qed

lemma fee_take:
  assumes "0 < csr_FeeRate req"
  shows "fee_for lib req (take k (coins lib req)) [dest] \<le> fee_for lib req (take k (coins lib req)) [dest, chg]"
    and "fee_for lib req (take k (coins lib req)) [dest, chg] \<le> fee_for lib req (coins lib req) [dest, chg]"
    and "0 < fee_for lib req us outs"
  using assms
    estimateVirtualSize_mono [of "[dest]" "[dest, chg]" lib "take k (coins lib req)" "[]"]
    estimateVirtualSize_mono [of "[dest, chg]" "[dest, chg]" lib "take k (coins lib req)" "drop k (coins lib req)"]
    estimateVirtualSize_pos [of lib us outs]
  by (auto simp: fee_for_def intro!: mult_right_mono)

text \<open>In range, the decision of the loop is the one of exact arithmetic, and the last case of the
  source, not enough even without change, does not occur.\<close>

lemma decide_exact:
  fixes lib req dest chg k
  defines "us \<equiv> take k (coins lib req)"
  assumes ok: "request_ok lib req dest chg"
  shows "decide lib req dest chg us (i64 (amounts us)) =
    (let change = amounts us - csr_Amount req - fee_for lib req us [dest, chg] in
     if \<not> enough lib req dest chg us then None
     else if dustThreshold lib chg \<le> change
       then Some (buildSelection req us (amounts us) change (fee_for lib req us [dest, chg])
              (estimateVirtualSize lib us [dest, chg]) False)
     else Some (buildSelection req us (amounts us) 0 (amounts us - csr_Amount req)
            (estimateVirtualSize lib us [dest]) True))"
proof -
  note r = ok [unfolded request_ok_def]
  have rate: "0 < csr_FeeRate req" "0 < csr_Amount req" using r by auto
  let ?f = "fee_for lib req us [dest, chg]" and ?g = "fee_for lib req us [dest]"
  have a: "0 \<le> amounts us" "amounts us < 2 ^ 63"
    using amounts_take [of k lib req] r by (auto simp: us_def)
  have f: "csr_Amount req + ?f < 2 ^ 63" "?g \<le> ?f" "0 < ?f" "0 < ?g"
    using fee_take(1,2) [OF rate(1), where lib = lib and k = k and dest = dest and chg = chg]
      fee_take(3) [OF rate(1), of lib us] r by (auto simp: us_def)
  have e: "i64 (amounts us) = amounts us" "i64 ?f = ?f" "i64 ?g = ?g"
    "i64 (csr_Amount req + ?f) = csr_Amount req + ?f" "i64 (csr_Amount req + ?g) = csr_Amount req + ?g"
    "i64 (amounts us - csr_Amount req) = amounts us - csr_Amount req"
    using a f rate by (auto intro!: i64_id simp: in_i64_def)
  have c: "i64 (amounts us - csr_Amount req - ?f) = amounts us - csr_Amount req - ?f"
    if "csr_Amount req + ?f \<le> amounts us"
    using that a rate f by (intro i64_id) (auto simp: in_i64_def)
  show ?thesis
    unfolding decide_def fee_for_def [symmetric] Let_def e enough_def
    using f(2) c by auto
qed

lemma SelectCoins_loop:
  assumes "request_ok lib req dest chg"
  shows "SelectCoins lib req =
    (if coins lib req = [] then
       (if unconfirmed_count (min_conf req) (csr_UTXOs req) > 0
        then Inl (OnlyUnconfirmed (unconfirmed_count (min_conf req) (csr_UTXOs req)) (min_conf req))
        else Inl NoSpendable)
     else if csr_Amount req < dustThreshold lib dest
       then Inl (BelowDust (csr_Amount req) (dustThreshold lib dest))
     else select_loop lib req dest chg [] (i64 0) (coins lib req))"
proof -
  have "i64 0 = 0" by (simp add: i64_def)
  moreover have "coins lib req = [] \<longleftrightarrow> filter (is_spendable lib (min_conf req)) (csr_UTXOs req) = []"
    by (metis mset_coins mset_zero_iff)
  ultimately show ?thesis
    using assms by (auto simp: SelectCoins_def request_ok_def Let_def)
qed

text \<open>The selection as one decision: the shortest sufficient prefix of the sorted coins.\<close>

lemma SelectCoins_decision:
  assumes ok: "request_ok lib req dest chg" and sel: "SelectCoins lib req = Inr s"
  obtains k us change where "k < length (coins lib req)" "us = take (Suc k) (coins lib req)"
    "enough lib req dest chg us"
    "\<forall>j < k. \<not> enough lib req dest chg (take (Suc j) (coins lib req))"
    "dustThreshold lib dest \<le> csr_Amount req"
    "change = amounts us - csr_Amount req - fee_for lib req us [dest, chg]"
    "s = (if dustThreshold lib chg \<le> change
      then buildSelection req us (amounts us) change (fee_for lib req us [dest, chg])
             (estimateVirtualSize lib us [dest, chg]) False
      else buildSelection req us (amounts us) 0 (amounts us - csr_Amount req)
             (estimateVirtualSize lib us [dest]) True)"
proof -
  have l: "select_loop lib req dest chg [] (i64 0) (coins lib req) = Inr s"
    and d: "dustThreshold lib dest \<le> csr_Amount req"
    using sel by (auto simp: SelectCoins_loop [OF ok] split: if_splits)
  obtain k where k: "k < length (coins lib req)"
    "decide lib req dest chg (take (Suc k) (coins lib req)) (i64 (amounts (take (Suc k) (coins lib req)))) = Some s"
    "\<forall>j < k. decide lib req dest chg (take (Suc j) (coins lib req)) (i64 (amounts (take (Suc j) (coins lib req)))) = None"
    using select_loop_first [OF l] by auto
  show thesis
  proof (rule that [OF k(1) refl _ _ d refl])
    show "enough lib req dest chg (take (Suc k) (coins lib req))"
      using k(2) unfolding decide_exact [OF ok] by (auto simp: Let_def split: if_splits)
    show "\<forall>j < k. \<not> enough lib req dest chg (take (Suc j) (coins lib req))"
      using k(3) unfolding decide_exact [OF ok] by (auto simp: Let_def split: if_splits)
  qed (use k(2) in \<open>unfold decide_exact [OF ok], auto simp: Let_def split: if_splits\<close>)
qed


section \<open>Properties\<close>

lemma sum_bin_amounts:
  "sum_list (map bin_Amount (bsr_Inputs (sel_Request (buildSelection req us t c f v b)))) = amounts us"
  by (simp add: buildSelection_def amounts_def comp_def)

lemma buildSelection_sel [simp]:
  "sel_Selected (buildSelection req us t c f v b) = us"
  "sel_TotalIn (buildSelection req us t c f v b) = t"
  "sel_Change (buildSelection req us t c f v b) = c"
  "sel_Fee (buildSelection req us t c f v b) = f"
  "sel_VirtualSize (buildSelection req us t c f v b) = v"
  "sel_ChangeDroppedToFee (buildSelection req us t c f v b) = b"
  "bsr_Outputs (sel_Request (buildSelection req us t c f v b)) =
     \<lparr>bout_Address = csr_Destination req, bout_Amount = csr_Amount req\<rparr> #
     (if c > 0 then [\<lparr>bout_Address = csr_ChangeAddress req, bout_Amount = c\<rparr>] else [])"
  by (simp_all add: buildSelection_def)

lemma selection_balance:
  assumes "request_ok lib req dest chg" "SelectCoins lib req = Inr s"
  shows "sum_list (map bin_Amount (bsr_Inputs (sel_Request s)))
      = sum_list (map bout_Amount (bsr_Outputs (sel_Request s))) + sel_Fee s \<and>
    sel_TotalIn s = csr_Amount req + sel_Change s + sel_Fee s \<and>
    bsr_Outputs (sel_Request s) = \<lparr>bout_Address = csr_Destination req, bout_Amount = csr_Amount req\<rparr> #
      (if sel_ChangeDroppedToFee s then []
       else [\<lparr>bout_Address = csr_ChangeAddress req, bout_Amount = sel_Change s\<rparr>]) \<and>
    (if sel_ChangeDroppedToFee s then sel_Change s = 0 else dustThreshold lib chg \<le> sel_Change s) \<and>
    sel_VirtualSize s = estimateVirtualSize lib (sel_Selected s)
      (if sel_ChangeDroppedToFee s then [dest] else [dest, chg]) \<and>
    sel_VirtualSize s * csr_FeeRate req \<le> sel_Fee s \<and>
    sel_Fee s < fee_for lib req (sel_Selected s) [dest, chg] + dustThreshold lib chg"
  using assms
proof (rule SelectCoins_decision)
  fix k us change
  assume us: "us = take (Suc k) (coins lib req)" and en: "enough lib req dest chg us"
    and c: "change = amounts us - csr_Amount req - fee_for lib req us [dest, chg]"
    and s: "s = (if dustThreshold lib chg \<le> change
      then buildSelection req us (amounts us) change (fee_for lib req us [dest, chg])
             (estimateVirtualSize lib us [dest, chg]) False
      else buildSelection req us (amounts us) 0 (amounts us - csr_Amount req)
             (estimateVirtualSize lib us [dest]) True)"
  have g: "fee_for lib req us [dest] \<le> fee_for lib req us [dest, chg]"
    using assms(1) unfolding us by (intro fee_take(1)) (simp add: request_ok_def)
  show ?thesis
    using en c g dust_pos [of lib chg] unfolding s enough_def
    by (cases "dustThreshold lib chg \<le> change") (auto simp: sum_bin_amounts fee_for_def)
qed

text \<open>Largest first, and no coin more than needed. The selection is a prefix of the spendable
  outputs sorted by amount, transaction id and index; it never contains an output of the wallet
  twice, nor one that is unconfirmed, worthless or of a type the platform cannot sign for; and no
  shorter prefix covers the amount and the fee.\<close>

theorem SelectCoins_minimal_prefix:
  assumes "request_ok lib req dest chg" "SelectCoins lib req = Inr s"
  shows "\<exists>k < length (coins lib req). sel_Selected s = take (Suc k) (coins lib req) \<and>
    mset (sel_Selected s) \<subseteq># mset (csr_UTXOs req) \<and>
    list_all (is_spendable lib (min_conf req)) (sel_Selected s) \<and>
    sorted (map coin_key (sel_Selected s)) \<and>
    enough lib req dest chg (sel_Selected s) \<and>
    (\<forall>j < k. \<not> enough lib req dest chg (take (Suc j) (coins lib req)))"
  using assms
proof (rule SelectCoins_decision)
  fix k us change
  assume k: "k < length (coins lib req)" and us: "us = take (Suc k) (coins lib req)"
    and en: "enough lib req dest chg us"
    and no: "\<forall>j < k. \<not> enough lib req dest chg (take (Suc j) (coins lib req))"
    and s: "s = (if dustThreshold lib chg \<le> change
      then buildSelection req us (amounts us) change (fee_for lib req us [dest, chg])
             (estimateVirtualSize lib us [dest, chg]) False
      else buildSelection req us (amounts us) 0 (amounts us - csr_Amount req)
             (estimateVirtualSize lib us [dest]) True)"
  have sel: "sel_Selected s = us" using s by simp
  have "mset us \<subseteq># mset (coins lib req)"
    unfolding us by (metis append_take_drop_id mset_append mset_subset_eq_add_left)
  also have "\<dots> \<subseteq># mset (csr_UTXOs req)" unfolding mset_coins by (simp add: multiset_filter_subset)
  finally have m: "mset us \<subseteq># mset (csr_UTXOs req)" .
  have "list_all (is_spendable lib (min_conf req)) us"
    unfolding us list_all_iff using set_coins [of _ lib req] by (meson in_set_takeD)
  moreover have "sorted (map coin_key us)"
    unfolding us sort_coins_def take_map [symmetric] by (intro sorted_wrt_take) simp
  ultimately show ?thesis
    unfolding sel by (intro exI [of _ k] conjI k us en no m)
qed

lemma selected_inputs:
  assumes "request_ok lib req dest chg" "SelectCoins lib req = Inr s"
  shows "bsr_Inputs (sel_Request s) = map (\<lambda>u. \<lparr>bin_Txid = utxo_Txid u, bin_Vout = utxo_Vout u,
      bin_Amount = utxo_Amount u, bin_Script = utxo_Script u, bin_SegWit = False\<rparr>) (sel_Selected s)"
  using assms by (rule SelectCoins_decision) (auto simp: buildSelection_def)

definition outpoint :: "UTXO \<Rightarrow> string \<times> int" where
  "outpoint u = (utxo_Txid u, utxo_Vout u)"

lemma distinct_outpoints:
  assumes "mset us \<subseteq># mset vs" "distinct (map outpoint vs)"
  shows "distinct (map outpoint us)"
proof -
  have "mset (map outpoint us) \<subseteq># mset (map outpoint vs)" using image_mset_subseteq_mono [OF assms(1)] by simp
  then show ?thesis using assms(2)
    by (metis distinct_append mset_append mset_eq_imp_distinct_iff mset_subset_eq_exists_conv ex_mset)
qed

text \<open>C22: The money balances. A selection for a request within the range of \<^verbatim>\<open>int64\<close> spends outputs of the wallet, none
  more often than the wallet lists it (so each outpoint once, when no outpoint is listed twice), all of positive value, with
  the required confirmations and of a type the platform can sign for. Its inputs name exactly these outputs and are worth
  exactly its outputs plus its fee; the destination gets the requested amount and any second output is change worth
  keeping; the fee is at least the requested rate for the estimated size, and exceeds the fee of the larger
  transaction with change by less than the dust the change would have been.\<close>

theorem SelectCoins_balances:
  assumes "request_ok lib req dest chg" "SelectCoins lib req = Inr s"
  shows "mset (sel_Selected s) \<subseteq># mset (csr_UTXOs req) \<and>
    (distinct (map outpoint (csr_UTXOs req)) \<longrightarrow> distinct (map (\<lambda>i. (bin_Txid i, bin_Vout i)) (bsr_Inputs (sel_Request s)))) \<and>
    (\<forall>u \<in> set (sel_Selected s). 0 < utxo_Amount u \<and> min_conf req \<le> utxo_Confirmations u \<and>
       (\<exists>weights. inputWeights lib (utxo_Script u) = Inr weights)) \<and>
    map (\<lambda>i. (bin_Txid i, bin_Vout i, bin_Amount i, bin_Script i)) (bsr_Inputs (sel_Request s))
      = map (\<lambda>u. (utxo_Txid u, utxo_Vout u, utxo_Amount u, utxo_Script u)) (sel_Selected s) \<and>
    sum_list (map bin_Amount (bsr_Inputs (sel_Request s)))
      = sum_list (map bout_Amount (bsr_Outputs (sel_Request s))) + sel_Fee s \<and>
    sel_TotalIn s = csr_Amount req + sel_Change s + sel_Fee s \<and>
    bsr_Outputs (sel_Request s) = \<lparr>bout_Address = csr_Destination req, bout_Amount = csr_Amount req\<rparr> #
      (if sel_ChangeDroppedToFee s then []
       else [\<lparr>bout_Address = csr_ChangeAddress req, bout_Amount = sel_Change s\<rparr>]) \<and>
    (if sel_ChangeDroppedToFee s then sel_Change s = 0 else dustThreshold lib chg \<le> sel_Change s) \<and>
    sel_VirtualSize s = estimateVirtualSize lib (sel_Selected s)
      (if sel_ChangeDroppedToFee s then [dest] else [dest, chg]) \<and>
    sel_VirtualSize s * csr_FeeRate req \<le> sel_Fee s \<and>
    sel_Fee s < fee_for lib req (sel_Selected s) [dest, chg] + dustThreshold lib chg"
proof (intro conjI)
  note ins = selected_inputs [OF assms]
  show m: "mset (sel_Selected s) \<subseteq># mset (csr_UTXOs req)" using SelectCoins_minimal_prefix [OF assms] by blast
  show "distinct (map outpoint (csr_UTXOs req)) \<longrightarrow> distinct (map (\<lambda>i. (bin_Txid i, bin_Vout i)) (bsr_Inputs (sel_Request s)))"
    using distinct_outpoints [OF m] by (simp add: ins comp_def outpoint_def [abs_def])
  have "is_spendable lib c u \<Longrightarrow> 0 < utxo_Amount u \<and> c \<le> utxo_Confirmations u \<and> (\<exists>weights. inputWeights lib (utxo_Script u) = Inr weights)"
    for c u by (cases "inputWeights lib (utxo_Script u)") (simp_all add: is_spendable_def)
  then show "\<forall>u \<in> set (sel_Selected s). 0 < utxo_Amount u \<and> min_conf req \<le> utxo_Confirmations u \<and>
      (\<exists>weights. inputWeights lib (utxo_Script u) = Inr weights)"
    using SelectCoins_minimal_prefix [OF assms] unfolding list_all_iff by blast
  show "map (\<lambda>i. (bin_Txid i, bin_Vout i, bin_Amount i, bin_Script i)) (bsr_Inputs (sel_Request s))
      = map (\<lambda>u. (utxo_Txid u, utxo_Vout u, utxo_Amount u, utxo_Script u)) (sel_Selected s)" by (simp add: ins)
qed (use selection_balance [OF assms] in blast)+


lemma select_loop_utxos: "select_loop lib (req\<lparr>csr_UTXOs := us\<rparr>) dest chg sel tot cs
    = select_loop lib req dest chg sel tot cs"
  by (induction cs arbitrary: sel tot) (simp_all add: Let_def buildSelection_def)

lemma sort_coins_perm:
  assumes "mset us = mset vs" "inj_on coin_key (set us)"
  shows "sort_coins us = sort_coins vs"
proof -
  have "mset (map coin_key (sort_coins us)) = mset (map coin_key (sort_coins vs))"
    using assms(1) by (simp add: sort_coins_def)
  moreover have "sorted (map coin_key (sort_coins us))" "sorted (map coin_key (sort_coins vs))"
    by (simp_all add: sort_coins_def)
  ultimately have "map coin_key (sort_coins us) = map coin_key (sort_coins vs)"
    by (metis properties_for_sort)
  moreover have "set (sort_coins us) = set us" "set (sort_coins vs) = set us"
    using mset_eq_setD [OF assms(1)] by (simp_all add: sort_coins_def)
  ultimately show ?thesis using assms(2) by (simp add: inj_on_map_eq_map)
qed

text \<open>The same wallet gives the same transaction. Reordering the unspent outputs of a request,
  as a node is free to do between two calls, changes neither the selection nor the error, as long
  as no outpoint is listed twice.\<close>

theorem SelectCoins_order_independent:
  assumes "mset us = mset (csr_UTXOs req)" "distinct (map outpoint us)"
  shows "SelectCoins lib (req\<lparr>csr_UTXOs := us\<rparr>) = SelectCoins lib req"
proof -
  let ?P = "is_spendable lib (min_conf req)"
  have r: "csr_UTXOs (req\<lparr>csr_UTXOs := us\<rparr>) = us" "csr_Network (req\<lparr>csr_UTXOs := us\<rparr>) = csr_Network req"
    "csr_Amount (req\<lparr>csr_UTXOs := us\<rparr>) = csr_Amount req" "csr_FeeRate (req\<lparr>csr_UTXOs := us\<rparr>) = csr_FeeRate req"
    "csr_Destination (req\<lparr>csr_UTXOs := us\<rparr>) = csr_Destination req"
    "csr_ChangeAddress (req\<lparr>csr_UTXOs := us\<rparr>) = csr_ChangeAddress req"
    by simp_all
  have c: "min_conf (req\<lparr>csr_UTXOs := us\<rparr>) = min_conf req" by (simp add: min_conf_def)
  have u: "unconfirmed_count (min_conf req) us = unconfirmed_count (min_conf req) (csr_UTXOs req)"
    unfolding unconfirmed_count_def size_mset [symmetric] mset_filter assms(1) ..
  have f: "mset (filter ?P us) = mset (filter ?P (csr_UTXOs req))" using assms(1) by simp
  have "inj_on outpoint (set (filter ?P us))"
    using assms(2) by (auto simp: distinct_map intro: inj_on_subset)
  then have "inj_on coin_key (set (filter ?P us))"
    by (auto simp: inj_on_def coin_key_def outpoint_def)
  from sort_coins_perm [OF f this]
  have s: "sort_coins (filter ?P us) = sort_coins (filter ?P (csr_UTXOs req))" .
  have e: "filter ?P us = [] \<longleftrightarrow> filter ?P (csr_UTXOs req) = []"
    unfolding mset_zero_iff [symmetric] f ..
  show ?thesis
    unfolding SelectCoins_def Let_def c
    by (simp only: r u s e select_loop_utxos)
qed


section \<open>Examples\<close>

definition demo_script :: bytes where
  "demo_script = 0 # 20 # replicate 20 7"

definition demo_btcd :: "string btcd" where
  "demo_btcd = \<lparr>decodeAddress = (\<lambda>s n. Some s), isForNet = (\<lambda>a n. True),
     payToAddrScript = (\<lambda>a. Some demo_script),
     isPayToWitnessPubKeyHash = (\<lambda>s. length s = 22 \<and> s ! 0 = 0 \<and> s ! 1 = 20)\<rparr>"

definition demo_coin :: "string \<Rightarrow> int \<Rightarrow> UTXO" where
  "demo_coin txid amount = \<lparr>utxo_Txid = txid, utxo_Vout = 0, utxo_Amount = amount,
     utxo_Script = hex_encode demo_script, utxo_Confirmations = 6\<rparr>"

definition demo_req :: "UTXO list \<Rightarrow> int \<Rightarrow> int \<Rightarrow> CoinSelectionRequest" where
  "demo_req us amount rate = \<lparr>csr_Network = ''regtest'', csr_UTXOs = us, csr_Destination = ''dest'',
     csr_Amount = amount, csr_FeeRate = rate, csr_ChangeAddress = ''change'',
     csr_MinConfirmations = None\<rparr>"

lemma demo_weights: "inputWeights demo_btcd (utxo_Script (demo_coin t a)) = Inr (41, 108)"
  by (simp add: inputWeights_def demo_coin_def demo_btcd_def demo_script_def size_consts)

lemma demo_coin_sel [simp]: "utxo_Amount (demo_coin t a) = a" "utxo_Txid (demo_coin t a) = t"
  "utxo_Vout (demo_coin t a) = 0" "utxo_Confirmations (demo_coin t a) = 6"
  by (simp_all add: demo_coin_def)

lemma demo_spendable [simp]: "0 < a \<Longrightarrow> is_spendable demo_btcd 1 (demo_coin t a)"
  by (simp add: is_spendable_def demo_weights)

lemma demo_size [simp]: "input_size demo_btcd (demo_coin t a) = (41, 108)"
  by (simp add: input_size_def demo_weights)

lemma demo_scripts [simp]: "scriptForAddress demo_btcd ''dest'' n = Inr demo_script"
  "scriptForAddress demo_btcd ''change'' n = Inr demo_script" "length demo_script = 22"
  "dustThreshold demo_btcd demo_script = 294"
  by (simp_all add: scriptForAddress_def demo_btcd_def dustThreshold_def demo_script_def size_consts)

lemma demo_req_sel [simp]: "csr_Amount (demo_req us a r) = a" "csr_FeeRate (demo_req us a r) = r"
  "csr_UTXOs (demo_req us a r) = us" "csr_Network (demo_req us a r) = ''regtest''"
  "csr_Destination (demo_req us a r) = ''dest''" "csr_ChangeAddress (demo_req us a r) = ''change''"
  "min_conf (demo_req us a r) = 1"
  by (simp_all add: demo_req_def min_conf_def)

lemma demo_vsize:
  "estimateVirtualSize demo_btcd [demo_coin t a] [demo_script, demo_script] = 141"
  "estimateVirtualSize demo_btcd [demo_coin t a] [demo_script] = 110"
  "estimateVirtualSize demo_btcd [demo_coin t a, demo_coin t' a'] [demo_script, demo_script] = 209"
  by (simp_all add: estimateVirtualSize_def Let_def size_consts)

definition demo_wallet :: "UTXO list" where
  "demo_wallet = [demo_coin ''aa'' 3000, demo_coin ''bb'' 50000]"

lemma demo_sorted: "coins demo_btcd (demo_req demo_wallet a r) = [demo_coin ''bb'' 50000, demo_coin ''aa'' 3000]"
  by (simp add: demo_wallet_def sort_coins_def coin_key_def)

lemma demo_request_ok: "request_ok demo_btcd (demo_req demo_wallet 20000 2) demo_script demo_script"
  unfolding request_ok_def demo_sorted by (simp add: bitcoinNetParams_def fee_for_def demo_vsize)

lemma demo_select:
  "SelectCoins demo_btcd (demo_req demo_wallet 20000 2) =
     Inr (buildSelection (demo_req demo_wallet 20000 2) [demo_coin ''bb'' 50000] 50000 29718 282 141 False)"
  unfolding SelectCoins_loop [OF demo_request_ok] demo_sorted
  by (simp add: demo_vsize i64_def)


theorem SelectCoins_balances_witness:
  "\<exists>s. SelectCoins demo_btcd (demo_req demo_wallet 20000 2) = Inr s \<and> mset (sel_Selected s) \<subseteq># mset demo_wallet \<and>
     distinct (map (\<lambda>i. (bin_Txid i, bin_Vout i)) (bsr_Inputs (sel_Request s))) \<and>
     sel_TotalIn s = 20000 + sel_Change s + sel_Fee s \<and> sel_VirtualSize s * 2 \<le> sel_Fee s"
proof -
  have "distinct (map outpoint (csr_UTXOs (demo_req demo_wallet 20000 2)))" by (simp add: demo_wallet_def outpoint_def)
  then show ?thesis using demo_select SelectCoins_balances [OF demo_request_ok demo_select] by simp
qed

theorem SelectCoins_minimal_prefix_witness:
  "\<exists>k < 2. take (Suc k) [demo_coin ''bb'' 50000, demo_coin ''aa'' 3000] = [demo_coin ''bb'' 50000]"
  using SelectCoins_minimal_prefix [OF demo_request_ok demo_select] unfolding demo_sorted by auto


theorem SelectCoins_order_independent_witness:
  "SelectCoins demo_btcd (demo_req (rev demo_wallet) 20000 2) = SelectCoins demo_btcd (demo_req demo_wallet 20000 2)"
  using SelectCoins_order_independent [of "rev demo_wallet" "demo_req demo_wallet 20000 2" demo_btcd]
  by (simp add: demo_req_def demo_wallet_def outpoint_def)

text \<open>C24: The fee rate of a request is not bounded, and its product with the size wraps around: whenever the wrapped fee for
  the first eligible coin is negative and leaves a change that is not dust, the selection spends only that coin and
  reports that negative fee, and its outputs are worth more than its input by as much.\<close>

theorem SelectCoins_fee_wraps:
  assumes "bitcoinNetParams (csr_Network req) = Inr params" "scriptForAddress lib (csr_Destination req) params = Inr dest"
    "scriptForAddress lib (csr_ChangeAddress req) params = Inr chg" "0 < csr_FeeRate req"
    and amount: "dustThreshold lib dest \<le> csr_Amount req" "csr_Amount req < 2 ^ 63" "utxo_Amount u < 2 ^ 63"
    and first: "coins lib req = u # us" and fee: "fee = i64 (estimateVirtualSize lib [u] [dest, chg] * csr_FeeRate req)" "fee < 0"
    and change: "dustThreshold lib chg \<le> utxo_Amount u - csr_Amount req - fee" "utxo_Amount u - csr_Amount req - fee < 2 ^ 63"
  shows "\<exists>s. SelectCoins lib req = Inr s \<and> sel_Selected s = [u] \<and> sel_Fee s = fee \<and>
    sum_list (map bin_Amount (bsr_Inputs (sel_Request s))) = utxo_Amount u \<and>
    sum_list (map bout_Amount (bsr_Outputs (sel_Request s))) = utxo_Amount u - fee"
proof -
  let ?a = "csr_Amount req" and ?c = "utxo_Amount u - csr_Amount req - fee"
  have pos: "0 < ?a" "0 < ?c" using amount(1) change(1) dust_pos [of lib dest] dust_pos [of lib chg] by linarith+
  have u: "0 < utxo_Amount u" using coins_pos [of lib req] first by simp
  have "- (2 ^ 63) \<le> fee" unfolding fee(1) using in_i64_i64 by (simp add: in_i64_def)
  then have r: "i64 (utxo_Amount u) = utxo_Amount u" "i64 (?a + fee) = ?a + fee" "i64 (utxo_Amount u - ?a) = utxo_Amount u - ?a" "i64 ?c = ?c"
    using pos u amount(2,3) fee(2) change(2) by (auto intro!: i64_id simp: in_i64_def)
  have ne: "filter (is_spendable lib (min_conf req)) (csr_UTXOs req) \<noteq> []" using first by (auto simp: sort_coins_def)
  have "SelectCoins lib req = select_loop lib req dest chg [] 0 (u # us)"
    using assms(1-4) amount(1) pos(1) ne unfolding SelectCoins_def first [symmetric] by (simp add: Let_def)
  also have "\<dots> = Inr (buildSelection req [u] (utxo_Amount u) ?c fee (estimateVirtualSize lib [u] [dest, chg]) False)"
    using r change(1) pos(2) by (simp add: Let_def fee(1) [symmetric] del: i64_add_i64 i64_diff_i64)
  finally show ?thesis using pos(2) by (simp add: buildSelection_def)
qed

theorem SelectCoins_fee_wraps_witness:
  "\<exists>s. SelectCoins demo_btcd (demo_req [demo_coin ''aa'' 50000] 20000 (2 ^ 56)) = Inr s \<and>
     sel_Fee s < 0 \<and> 50000 < sum_list (map bout_Amount (bsr_Outputs (sel_Request s)))"
proof -
  let ?req = "demo_req [demo_coin ''aa'' 50000] 20000 (2 ^ 56)"
  have c: "coins demo_btcd ?req = [demo_coin ''aa'' 50000]" by (simp add: sort_coins_def)
  have f: "i64 (estimateVirtualSize demo_btcd [demo_coin ''aa'' 50000] [demo_script, demo_script] * csr_FeeRate ?req) = - 8286623314361712640"
    by (simp add: demo_vsize i64_def)
  have "\<exists>s. SelectCoins demo_btcd ?req = Inr s \<and> sel_Selected s = [demo_coin ''aa'' 50000] \<and> sel_Fee s = - 8286623314361712640 \<and>
    sum_list (map bin_Amount (bsr_Inputs (sel_Request s))) = utxo_Amount (demo_coin ''aa'' 50000) \<and>
    sum_list (map bout_Amount (bsr_Outputs (sel_Request s))) = utxo_Amount (demo_coin ''aa'' 50000) - - 8286623314361712640"
    by (rule SelectCoins_fee_wraps [where params = RegressionNet, OF _ _ _ _ _ _ _ c f [symmetric]])
      (simp_all add: bitcoinNetParams_def)
  then show ?thesis by auto
qed

text \<open>A transaction without change is considered only once the coins also cover the fee of one
  with change. A wallet that covers the amount and the whole fee of a transaction without change,
  but not the extra bytes of a change output, is refused as having insufficient funds.\<close>

theorem SelectCoins_refuses_changeless:
  "let req = demo_req [demo_coin ''aa'' 20240] 20000 2 in
     csr_Amount req + fee_for demo_btcd req (coins demo_btcd req) [demo_script] \<le> amounts (coins demo_btcd req) \<and>
     SelectCoins demo_btcd req = Inl (InsufficientFunds 20240 1 20282 282)"
proof -
  have c: "sort_coins [demo_coin ''aa'' 20240] = [demo_coin ''aa'' 20240]"
    by (simp add: sort_coins_def)
  then show ?thesis
    by (simp add: SelectCoins_def bitcoinNetParams_def demo_vsize i64_def Let_def fee_for_def)
qed

end
