(* ===== verification/Btc_Plan.thy ===== *)
theory Btc_Plan
  imports Btc_Select
begin

text \<open>
  Threshold-signed Bitcoin transactions, \<^verbatim>\<open>chains/bitcoin_threshold.go\<close>: planning (the unsigned
  transaction and one digest per input) and assembly (the committee's signatures placed into it and
  checked by the script engine). The wire format, the digest algorithms, the script builder and the
  script engine are those of btcd; they are the fields of \<open>btc_lib\<close>. A \<open>MsgTx\<close> is btcd's
  transaction; a new one has version 1 and lock time 0, and a new input the final sequence number.
\<close>

record TxIn =
  in_PrevHash :: bytes
  in_PrevIndex :: "32 word"
  in_SigScript :: bytes
  in_Witness :: "bytes list"
  in_Sequence :: "32 word"

record TxOut =
  out_Value :: int
  out_PkScript :: bytes

record MsgTx =
  msg_Version :: int
  msg_TxIn :: "TxIn list"
  msg_TxOut :: "TxOut list"
  msg_LockTime :: "32 word"

datatype script_item = Op byte | PushData bytes

datatype engine_result = EngineOk | EngineNotBuilt | ScriptFails

record 'a btc_lib =
  lib_btcd :: "'a btcd"
  newHashFromStr :: "string \<Rightarrow> bytes option"
  calcWitnessSigHash :: "bytes \<Rightarrow> MsgTx \<Rightarrow> nat \<Rightarrow> int \<Rightarrow> bytes option"
  calcSignatureHash :: "bytes \<Rightarrow> MsgTx \<Rightarrow> nat \<Rightarrow> bytes option"
  buildScript :: "script_item list \<Rightarrow> bytes option"
  serializeTx :: "MsgTx \<Rightarrow> bytes option"
  deserializeTx :: "bytes \<Rightarrow> MsgTx option"
  parseCompressed :: "bytes \<Rightarrow> bytes option"
  derSerialize :: "int \<Rightarrow> int \<Rightarrow> bytes"
  runEngine :: "bytes \<Rightarrow> MsgTx \<Rightarrow> nat \<Rightarrow> int \<Rightarrow> engine_result"
  txHashString :: "MsgTx \<Rightarrow> string"
  groupOrder :: int
  hash160 :: "bytes \<Rightarrow> bytes"
  witnessPubKeyHashAddress :: "bytes \<Rightarrow> btc_net \<Rightarrow> string option"
  pubKeyHashAddress :: "bytes \<Rightarrow> btc_net \<Rightarrow> string option"

record BitcoinSigningPlan =
  plan_UnsignedTxHex :: string
  plan_SigHashes :: "string list"
  plan_PrevScripts :: "string list"
  plan_Witness :: "bool list"
  plan_Amounts :: "int list"

record BitcoinInputSignature =
  bis_R :: string
  bis_S :: string

datatype plan_error =
    PlanNetwork btc_error
  | NoInputs
  | NoOutputs
  | BadTxid nat
  | NegativeVout nat
  | OutputNotPositive nat
  | OutputAddress nat
  | OutputWrongNet nat
  | OutputScript nat
  | OutputDust nat
  | OutputsExceedInputs int int
  | FeeExceedsOutputs int int
  | InputScriptHex nat
  | InputScriptEmpty nat
  | SegwitNoAmount nat
  | NotWitnessProgram nat
  | SigHashFailed nat
  | SerializeFailed
  | NoPlan
  | SignatureCount nat nat
  | PubKeyHex
  | PubKeyInvalid
  | UnsignedTxHex
  | UnsignedTxMalformed
  | InputCount nat nat
  | BadR nat
  | BadS nat
  | SigScriptFailed nat
  | PrevScriptHex nat
  | EngineFailed nat
  | InputNotSatisfied nat
  | WitnessAddress
  | LegacyAddress


section \<open>Planning\<close>

definition stripHexPrefix :: "string \<Rightarrow> string" where
  "stripHexPrefix s =
     (if length s \<ge> 2 \<and> (take 2 s = ''0x'' \<or> take 2 s = ''0X'') then drop 2 s else s)"

definition p2pkhScriptForWitnessProgram :: "'a btc_lib \<Rightarrow> bytes \<Rightarrow> bytes option" where
  "p2pkhScriptForWitnessProgram lib w =
     (if length w \<noteq> 22 \<or> w ! 0 \<noteq> 0x00 \<or> w ! 1 \<noteq> 0x14 then None
      else buildScript lib [Op 0x76, Op 0xa9, PushData (drop 2 w), Op 0x88, Op 0xac])"

fun plan_inputs :: "'a btc_lib \<Rightarrow> nat \<Rightarrow> BitcoinInput list \<Rightarrow> plan_error + TxIn list" where
  "plan_inputs lib i [] = Inr []"
| "plan_inputs lib i (x # xs) =
     (case newHashFromStr lib (bin_Txid x) of
        None \<Rightarrow> Inl (BadTxid i)
      | Some hash \<Rightarrow>
          if bin_Vout x < 0 then Inl (NegativeVout i)
          else res_bind (plan_inputs lib (Suc i) xs) (\<lambda>rest.
            Inr (\<lparr>in_PrevHash = hash, in_PrevIndex = word_of_int (bin_Vout x),
                  in_SigScript = [], in_Witness = [], in_Sequence = 0xffffffff\<rparr> # rest)))"

definition plan_output :: "'a btc_lib \<Rightarrow> btc_net \<Rightarrow> nat \<Rightarrow> BitcoinOutput \<Rightarrow> plan_error + TxOut" where
  "plan_output lib params i out =
     (if bout_Amount out \<le> 0 then Inl (OutputNotPositive i)
      else case decodeAddress (lib_btcd lib) (bout_Address out) params of
          None \<Rightarrow> Inl (OutputAddress i)
        | Some addr \<Rightarrow>
            if \<not> isForNet (lib_btcd lib) addr params then Inl (OutputWrongNet i)
            else case payToAddrScript (lib_btcd lib) addr of
                None \<Rightarrow> Inl (OutputScript i)
              | Some script \<Rightarrow>
                  if bout_Amount out < dustThreshold (lib_btcd lib) script then Inl (OutputDust i)
                  else Inr \<lparr>out_Value = bout_Amount out, out_PkScript = script\<rparr>)"

fun plan_outputs :: "'a btc_lib \<Rightarrow> btc_net \<Rightarrow> nat \<Rightarrow> BitcoinOutput list \<Rightarrow> int
    \<Rightarrow> plan_error + (TxOut list \<times> int)" where
  "plan_outputs lib params i [] totalOut = Inr ([], totalOut)"
| "plan_outputs lib params i (x # xs) totalOut =
     res_bind (plan_output lib params i x) (\<lambda>o1.
     res_bind (plan_outputs lib params (Suc i) xs (i64 (totalOut + bout_Amount x))) (\<lambda>(os, t).
       Inr (o1 # os, t)))"

definition total_in :: "BitcoinInput list \<Rightarrow> int" where
  "total_in ins = foldl (\<lambda>t x. i64 (t + bin_Amount x)) 0 ins"

definition fee_check :: "int \<Rightarrow> int \<Rightarrow> plan_error option" where
  "fee_check totalIn totalOut =
     (if totalIn > 0 then
        (let fee = i64 (totalIn - totalOut) in
         if fee < 0 then Some (OutputsExceedInputs totalOut totalIn)
         else if totalOut > 0 \<and> fee > totalOut then Some (FeeExceedsOutputs fee totalOut)
         else None)
      else None)"

definition plan_digest :: "'a btc_lib \<Rightarrow> MsgTx \<Rightarrow> nat \<Rightarrow> BitcoinInput \<Rightarrow> plan_error + (bytes \<times> bool)" where
  "plan_digest lib tx i x =
     (case hex_decode (bin_Script x) of
        None \<Rightarrow> Inl (InputScriptHex i)
      | Some prevScript \<Rightarrow>
          if prevScript = [] then Inl (InputScriptEmpty i)
          else if isPayToWitnessPubKeyHash (lib_btcd lib) prevScript then
            (if bin_Amount x \<le> 0 then Inl (SegwitNoAmount i)
             else case p2pkhScriptForWitnessProgram lib prevScript of
                 None \<Rightarrow> Inl (NotWitnessProgram i)
               | Some script \<Rightarrow>
                   (case calcWitnessSigHash lib script tx i (bin_Amount x) of
                      None \<Rightarrow> Inl (SigHashFailed i)
                    | Some digest \<Rightarrow> Inr (digest, True)))
          else (case calcSignatureHash lib prevScript tx i of
                  None \<Rightarrow> Inl (SigHashFailed i)
                | Some digest \<Rightarrow> Inr (digest, False)))"

fun plan_digests :: "'a btc_lib \<Rightarrow> MsgTx \<Rightarrow> nat \<Rightarrow> BitcoinInput list
    \<Rightarrow> BitcoinSigningPlan \<Rightarrow> plan_error + BitcoinSigningPlan" where
  "plan_digests lib tx i [] plan = Inr plan"
| "plan_digests lib tx i (x # xs) plan =
     res_bind (plan_digest lib tx i x) (\<lambda>(digest, witness).
       plan_digests lib tx (Suc i) xs
         (plan\<lparr>plan_SigHashes := plan_SigHashes plan @ [hex_encode digest],
               plan_PrevScripts := plan_PrevScripts plan @ [bin_Script x],
               plan_Witness := plan_Witness plan @ [witness],
               plan_Amounts := plan_Amounts plan @ [bin_Amount x]\<rparr>))"

definition PlanBitcoinTransaction ::
  "'a btc_lib \<Rightarrow> BitcoinSigningRequest \<Rightarrow> plan_error + BitcoinSigningPlan" where
  "PlanBitcoinTransaction lib req =
     res_bind (res_err PlanNetwork (bitcoinNetParams (bsr_Network req))) (\<lambda>params.
       if bsr_Inputs req = [] then Inl NoInputs
       else if bsr_Outputs req = [] then Inl NoOutputs
       else
         res_bind (plan_inputs lib 0 (bsr_Inputs req)) (\<lambda>ins.
         res_bind (plan_outputs lib params 0 (bsr_Outputs req) 0) (\<lambda>(outs, totalOut).
           let tx = \<lparr>msg_Version = 1, msg_TxIn = ins, msg_TxOut = outs, msg_LockTime = 0\<rparr> in
           case fee_check (total_in (bsr_Inputs req)) totalOut of
             Some e \<Rightarrow> Inl e
           | None \<Rightarrow>
               res_bind (plan_digests lib tx 0 (bsr_Inputs req)
                   \<lparr>plan_UnsignedTxHex = [], plan_SigHashes = [], plan_PrevScripts = [],
                    plan_Witness = [], plan_Amounts = []\<rparr>) (\<lambda>plan.
                 case serializeTx lib tx of
                   None \<Rightarrow> Inl SerializeFailed
                 | Some buf \<Rightarrow> Inr (plan\<lparr>plan_UnsignedTxHex := hex_encode buf\<rparr>)))))"


section \<open>Assembly\<close>

text \<open>\<^verbatim>\<open>new(big.Int).SetString(s, 16)\<close>: an optional sign, then at least one hex digit.\<close>

definition hex_digits_nat :: "string \<Rightarrow> nat option" where
  "hex_digits_nat s =
     (if s \<noteq> [] \<and> list_all (\<lambda>c. unhex c \<noteq> None) s
      then Some (foldl (\<lambda>v c. v * 16 + the (unhex c)) 0 s) else None)"

definition big_hex :: "string \<Rightarrow> int option" where
  "big_hex s =
     (case s of
        [] \<Rightarrow> None
      | c # t \<Rightarrow>
          if c = CHR ''-'' then map_option (\<lambda>n. - int n) (hex_digits_nat t)
          else if c = CHR ''+'' then map_option int (hex_digits_nat t)
          else map_option int (hex_digits_nat s))"

definition low_s :: "int \<Rightarrow> int \<Rightarrow> int" where
  "low_s n s = (let halfOrder = drop_bit 1 n in if s > halfOrder then n - s else s)"

definition sign_input :: "'a btc_lib \<Rightarrow> bytes \<Rightarrow> bool list \<Rightarrow> nat \<Rightarrow> BitcoinInputSignature
    \<Rightarrow> TxIn \<Rightarrow> plan_error + TxIn" where
  "sign_input lib pubKeyBytes witness i sig txin =
     (case big_hex (stripHexPrefix (bis_R sig)) of
        None \<Rightarrow> Inl (BadR i)
      | Some r \<Rightarrow>
          (case big_hex (stripHexPrefix (bis_S sig)) of
             None \<Rightarrow> Inl (BadS i)
           | Some s0 \<Rightarrow>
               (let s = low_s (groupOrder lib) s0;
                    sigWithHashType = derSerialize lib r s @ [0x01] in
                if i < length witness \<and> witness ! i
                then Inr (txin\<lparr>in_Witness := [sigWithHashType, pubKeyBytes], in_SigScript := []\<rparr>)
                else case buildScript lib [PushData sigWithHashType, PushData pubKeyBytes] of
                    None \<Rightarrow> Inl (SigScriptFailed i)
                  | Some sigScript \<Rightarrow> Inr (txin\<lparr>in_SigScript := sigScript\<rparr>))))"

fun sign_inputs :: "'a btc_lib \<Rightarrow> bytes \<Rightarrow> bool list \<Rightarrow> nat \<Rightarrow> BitcoinInputSignature list
    \<Rightarrow> MsgTx \<Rightarrow> plan_error + MsgTx" where
  "sign_inputs lib pk witness i [] tx = Inr tx"
| "sign_inputs lib pk witness i (sig # sigs) tx =
     res_bind (sign_input lib pk witness i sig (msg_TxIn tx ! i)) (\<lambda>txin.
       sign_inputs lib pk witness (Suc i) sigs (tx\<lparr>msg_TxIn := (msg_TxIn tx)[i := txin]\<rparr>))"

definition plan_amount :: "int list \<Rightarrow> nat \<Rightarrow> int" where
  "plan_amount amts i = (if i < length amts then amts ! i else 0)"

fun verify_inputs :: "'a btc_lib \<Rightarrow> MsgTx \<Rightarrow> int list \<Rightarrow> nat \<Rightarrow> string list \<Rightarrow> plan_error option" where
  "verify_inputs lib tx amts i [] = None"
| "verify_inputs lib tx amts i (p # ps) =
     (case hex_decode p of
        None \<Rightarrow> Some (PrevScriptHex i)
      | Some prevScript \<Rightarrow>
          (case runEngine lib prevScript tx i (plan_amount amts i) of
             EngineNotBuilt \<Rightarrow> Some (EngineFailed i)
           | ScriptFails \<Rightarrow> Some (InputNotSatisfied i)
           | EngineOk \<Rightarrow> verify_inputs lib tx amts (Suc i) ps))"

definition AssembleBitcoinTransaction ::
  "'a btc_lib \<Rightarrow> BitcoinSigningPlan option \<Rightarrow> BitcoinInputSignature list \<Rightarrow> string \<Rightarrow> plan_error + bytes" where
  "AssembleBitcoinTransaction lib plan_opt sigs pubKeyHex =
     (case plan_opt of
        None \<Rightarrow> Inl NoPlan
      | Some plan \<Rightarrow>
          if length sigs \<noteq> length (plan_SigHashes plan)
          then Inl (SignatureCount (length sigs) (length (plan_SigHashes plan)))
          else case hex_decode (stripHexPrefix pubKeyHex) of
              None \<Rightarrow> Inl PubKeyHex
            | Some rawPubKey \<Rightarrow>
                (case parseCompressed lib rawPubKey of
                   None \<Rightarrow> Inl PubKeyInvalid
                 | Some pubKeyBytes \<Rightarrow>
                     (case hex_decode (plan_UnsignedTxHex plan) of
                        None \<Rightarrow> Inl UnsignedTxHex
                      | Some rawTx \<Rightarrow>
                          (case deserializeTx lib rawTx of
                             None \<Rightarrow> Inl UnsignedTxMalformed
                           | Some tx0 \<Rightarrow>
                               if length (msg_TxIn tx0) \<noteq> length sigs
                               then Inl (InputCount (length (msg_TxIn tx0)) (length sigs))
                               else
                                 res_bind (sign_inputs lib pubKeyBytes (plan_Witness plan) 0 sigs tx0) (\<lambda>tx.
                                   case verify_inputs lib tx (plan_Amounts plan) 0 (plan_PrevScripts plan) of
                                     Some e \<Rightarrow> Inl e
                                   | None \<Rightarrow>
                                       (case serializeTx lib tx of
                                          None \<Rightarrow> Inl SerializeFailed
                                        | Some buf \<Rightarrow> Inr buf))))))"

definition BitcoinAddressesForPubKey ::
  "'a btc_lib \<Rightarrow> string \<Rightarrow> string \<Rightarrow> plan_error + (string \<times> string)" where
  "BitcoinAddressesForPubKey lib pubKeyHex network =
     res_bind (res_err PlanNetwork (bitcoinNetParams network)) (\<lambda>params.
       case hex_decode (stripHexPrefix pubKeyHex) of
         None \<Rightarrow> Inl PubKeyHex
       | Some raw \<Rightarrow>
           (case parseCompressed lib raw of
              None \<Rightarrow> Inl PubKeyInvalid
            | Some compressed \<Rightarrow>
                (let h = hash160 lib compressed in
                 case witnessPubKeyHashAddress lib h params of
                   None \<Rightarrow> Inl WitnessAddress
                 | Some segwit \<Rightarrow>
                     (case pubKeyHashAddress lib h params of
                        None \<Rightarrow> Inl LegacyAddress
                      | Some legacy \<Rightarrow> Inr (segwit, legacy)))))"

definition BitcoinTxID :: "'a btc_lib \<Rightarrow> bytes \<Rightarrow> plan_error + string" where
  "BitcoinTxID lib signedTx =
     (case deserializeTx lib signedTx of
        None \<Rightarrow> Inl UnsignedTxMalformed
      | Some tx \<Rightarrow> Inr (txHashString lib tx))"



section \<open>What a plan contains\<close>

definition planned_in :: "'a btc_lib \<Rightarrow> BitcoinInput \<Rightarrow> TxIn \<Rightarrow> bool" where
  "planned_in lib x t \<longleftrightarrow> newHashFromStr lib (bin_Txid x) = Some (in_PrevHash t) \<and>
     0 \<le> bin_Vout x \<and> in_PrevIndex t = word_of_int (bin_Vout x) \<and>
     in_SigScript t = [] \<and> in_Witness t = [] \<and> in_Sequence t = 0xffffffff"

definition planned_out :: "'a btc_lib \<Rightarrow> btc_net \<Rightarrow> BitcoinOutput \<Rightarrow> TxOut \<Rightarrow> bool" where
  "planned_out lib params x t \<longleftrightarrow> out_Value t = bout_Amount x \<and> 0 < bout_Amount x \<and>
     dustThreshold (lib_btcd lib) (out_PkScript t) \<le> out_Value t \<and>
     (\<exists>addr. decodeAddress (lib_btcd lib) (bout_Address x) params = Some addr \<and>
        isForNet (lib_btcd lib) addr params \<and>
        payToAddrScript (lib_btcd lib) addr = Some (out_PkScript t))"

lemma plan_inputs_spec:
  "plan_inputs lib i xs = Inr ins \<Longrightarrow> list_all2 (planned_in lib) xs ins"
  by (induction xs arbitrary: i ins) (auto simp: planned_in_def res_simps split: option.splits if_splits)

lemma plan_output_spec: "plan_output lib params i x = Inr t \<Longrightarrow> planned_out lib params x t"
  by (auto simp: plan_output_def planned_out_def split: option.splits if_splits)

lemma foldl_i64: "foldl (\<lambda>t x. i64 (t + f x)) (i64 t0) xs = i64 (t0 + sum_list (map f xs))"
  by (induction xs arbitrary: t0) (simp_all add: add.assoc)

lemma total_in_eq: "total_in xs = i64 (sum_list (map bin_Amount xs))"
  using foldl_i64 [of bin_Amount 0 xs] by (simp add: total_in_def i64_def)

lemma plan_outputs_spec:
  "plan_outputs lib params i xs (i64 t0) = Inr (outs, t) \<Longrightarrow>
     list_all2 (planned_out lib params) xs outs \<and> t = i64 (t0 + sum_list (map bout_Amount xs))"
proof (induction xs arbitrary: i t0 outs)
  case (Cons x xs)
  then obtain o1 os where "plan_output lib params i x = Inr o1"
    "plan_outputs lib params (Suc i) xs (i64 (t0 + bout_Amount x)) = Inr (os, t)" "outs = o1 # os"
    by (auto simp: res_simps)
  with Cons.IH plan_output_spec show ?case by (fastforce simp: add.assoc)
qed auto

definition digest_entry :: "'a btc_lib \<Rightarrow> MsgTx \<Rightarrow> BitcoinInput list \<Rightarrow> BitcoinSigningPlan \<Rightarrow> nat \<Rightarrow> bool" where
  "digest_entry lib tx xs plan i \<longleftrightarrow>
     (\<exists>digest. plan_digest lib tx i (xs ! i) = Inr (digest, plan_Witness plan ! i) \<and>
        plan_SigHashes plan ! i = hex_encode digest \<and>
        plan_PrevScripts plan ! i = bin_Script (xs ! i) \<and>
        plan_Amounts plan ! i = bin_Amount (xs ! i))"

definition plan_len :: "BitcoinSigningPlan \<Rightarrow> nat \<Rightarrow> bool" where
  "plan_len plan n \<longleftrightarrow> length (plan_SigHashes plan) = n \<and> length (plan_PrevScripts plan) = n \<and>
     length (plan_Witness plan) = n \<and> length (plan_Amounts plan) = n"

lemma plan_digests_spec:
  assumes "plan_digests lib tx (length done_xs) xs plan = Inr plan'" "plan_len plan (length done_xs)"
    "\<forall>i < length done_xs. digest_entry lib tx (done_xs @ xs) plan i"
  shows "plan_len plan' (length (done_xs @ xs)) \<and>
    (\<forall>i < length (done_xs @ xs). digest_entry lib tx (done_xs @ xs) plan' i)"
  using assms
proof (induction xs arbitrary: done_xs plan)
  case Nil
  then show ?case by auto
next
  case (Cons x xs)
  obtain digest w where d: "plan_digest lib tx (length done_xs) x = Inr (digest, w)"
    and r: "plan_digests lib tx (Suc (length done_xs)) xs
         (plan\<lparr>plan_SigHashes := plan_SigHashes plan @ [hex_encode digest],
               plan_PrevScripts := plan_PrevScripts plan @ [bin_Script x],
               plan_Witness := plan_Witness plan @ [w],
               plan_Amounts := plan_Amounts plan @ [bin_Amount x]\<rparr>) = Inr plan'"
    using Cons.prems(1) by (auto simp: res_simps)
  let ?plan = "plan\<lparr>plan_SigHashes := plan_SigHashes plan @ [hex_encode digest],
               plan_PrevScripts := plan_PrevScripts plan @ [bin_Script x],
               plan_Witness := plan_Witness plan @ [w],
               plan_Amounts := plan_Amounts plan @ [bin_Amount x]\<rparr>"
  have e: "digest_entry lib tx ((done_xs @ [x]) @ xs) ?plan i" if "i < length (done_xs @ [x])" for i
  proof (cases "i < length done_xs")
    case True
    with Cons.prems(2,3) show ?thesis
      by (auto simp: digest_entry_def plan_len_def nth_append)
  next
    case False
    with that have "i = length done_xs" by simp
    with d Cons.prems(2) show ?thesis by (auto simp: digest_entry_def plan_len_def nth_append)
  qed
  have "plan_len ?plan (length (done_xs @ [x]))" using Cons.prems(2) by (simp add: plan_len_def)
  with Cons.IH [of "done_xs @ [x]" ?plan] r e show ?case by simp
qed

lemma Plan_Inr:
  assumes "PlanBitcoinTransaction lib req = Inr plan"
  obtains params ins outs buf where "bitcoinNetParams (bsr_Network req) = Inr params"
    "bsr_Inputs req \<noteq> []" "list_all2 (planned_in lib) (bsr_Inputs req) ins"
    "list_all2 (planned_out lib params) (bsr_Outputs req) outs"
    "fee_check (i64 (sum_list (map bin_Amount (bsr_Inputs req))))
       (i64 (sum_list (map bout_Amount (bsr_Outputs req)))) = None"
    "serializeTx lib \<lparr>msg_Version = 1, msg_TxIn = ins, msg_TxOut = outs, msg_LockTime = 0\<rparr> = Some buf"
    "plan_UnsignedTxHex plan = hex_encode buf"
    "plan_len plan (length (bsr_Inputs req))"
    "\<forall>i < length (bsr_Inputs req).
       digest_entry lib \<lparr>msg_Version = 1, msg_TxIn = ins, msg_TxOut = outs, msg_LockTime = 0\<rparr> (bsr_Inputs req) plan i"
proof -
  let ?empty = "\<lparr>plan_UnsignedTxHex = [], plan_SigHashes = [], plan_PrevScripts = [],
                    plan_Witness = [], plan_Amounts = []\<rparr>"
  obtain params where p: "bitcoinNetParams (bsr_Network req) = Inr params" and ne: "bsr_Inputs req \<noteq> []"
    using assms by (auto simp: PlanBitcoinTransaction_def res_simps split: if_splits)
  obtain ins where ins: "plan_inputs lib 0 (bsr_Inputs req) = Inr ins"
    using assms p by (cases "plan_inputs lib 0 (bsr_Inputs req)")
      (auto simp: PlanBitcoinTransaction_def split: if_splits)
  obtain outs t where outs: "plan_outputs lib params 0 (bsr_Outputs req) 0 = Inr (outs, t)"
    using assms p ins by (cases "plan_outputs lib params 0 (bsr_Outputs req) 0")
      (auto simp: PlanBitcoinTransaction_def split: if_splits)
  let ?tx = "\<lparr>msg_Version = 1, msg_TxIn = ins, msg_TxOut = outs, msg_LockTime = 0\<rparr>"
  have fee: "fee_check (total_in (bsr_Inputs req)) t = None"
    using assms p ins outs by (cases "fee_check (total_in (bsr_Inputs req)) t")
      (auto simp: PlanBitcoinTransaction_def split: if_splits)
  obtain plan1 where d: "plan_digests lib ?tx 0 (bsr_Inputs req) ?empty = Inr plan1"
    using assms p ins outs fee by (cases "plan_digests lib ?tx 0 (bsr_Inputs req) ?empty")
      (auto simp: PlanBitcoinTransaction_def split: if_splits)
  obtain buf where b: "serializeTx lib ?tx = Some buf" and plan: "plan = plan1\<lparr>plan_UnsignedTxHex := hex_encode buf\<rparr>"
    using assms p ins outs fee d by (cases "serializeTx lib ?tx")
      (auto simp: PlanBitcoinTransaction_def split: if_splits)
  have o: "list_all2 (planned_out lib params) (bsr_Outputs req) outs"
    "t = i64 (sum_list (map bout_Amount (bsr_Outputs req)))"
    using plan_outputs_spec [of lib params 0 "bsr_Outputs req" 0 outs t] outs by (simp_all add: i64_def)
  have "plan_len ?empty (length [])" by (simp add: plan_len_def)
  with plan_digests_spec [of lib ?tx "[]" "bsr_Inputs req" ?empty plan1] d
  have e: "plan_len plan1 (length (bsr_Inputs req))"
    "\<forall>i < length (bsr_Inputs req). digest_entry lib ?tx (bsr_Inputs req) plan1 i" by auto
  show thesis
    by (rule that [OF p ne plan_inputs_spec [OF ins] o(1) _ b])
      (use fee o(2) e plan in \<open>auto simp: total_in_eq plan_len_def digest_entry_def\<close>)
qed

text \<open>A plan commits to exactly the requested transaction. All its digests are computed, one per
  input and in input order, over the one unsigned transaction it carries; that transaction spends
  the requested outpoints and pays each requested address, on the right network and above dust,
  the requested amount, and nothing else.\<close>

theorem plan_commits_to_request:
  assumes "PlanBitcoinTransaction lib req = Inr plan"
  shows "\<exists>params tx buf. bitcoinNetParams (bsr_Network req) = Inr params \<and>
    list_all2 (planned_in lib) (bsr_Inputs req) (msg_TxIn tx) \<and>
    list_all2 (planned_out lib params) (bsr_Outputs req) (msg_TxOut tx) \<and>
    serializeTx lib tx = Some buf \<and> hex_decode (plan_UnsignedTxHex plan) = Some buf \<and>
    plan_len plan (length (bsr_Inputs req)) \<and>
    (\<forall>i < length (bsr_Inputs req). digest_entry lib tx (bsr_Inputs req) plan i)"
  using assms
proof (rule Plan_Inr)
  fix params ins outs buf
  assume h: "bitcoinNetParams (bsr_Network req) = Inr params"
    "list_all2 (planned_in lib) (bsr_Inputs req) ins"
    "list_all2 (planned_out lib params) (bsr_Outputs req) outs"
    "serializeTx lib \<lparr>msg_Version = 1, msg_TxIn = ins, msg_TxOut = outs, msg_LockTime = 0\<rparr> = Some buf"
    "plan_UnsignedTxHex plan = hex_encode buf" "plan_len plan (length (bsr_Inputs req))"
    "\<forall>i < length (bsr_Inputs req).
       digest_entry lib \<lparr>msg_Version = 1, msg_TxIn = ins, msg_TxOut = outs, msg_LockTime = 0\<rparr> (bsr_Inputs req) plan i"
  show ?thesis
    by (rule exI [of _ params], rule exI [of _ "\<lparr>msg_Version = 1, msg_TxIn = ins, msg_TxOut = outs, msg_LockTime = 0\<rparr>"],
        rule exI [of _ buf]) (use h in simp)
qed

text \<open>C25: When the inputs of a request state their amounts (their sum is positive), it has an output and its totals fit an
  \<^verbatim>\<open>int64\<close>, a plan for it pays no more to the miner than to its outputs and spends no more than its inputs state. (For
  a request whose inputs leave their amounts at zero nothing is claimed: the code does not check its fee.)\<close>

theorem plan_fee_sane:
  assumes "PlanBitcoinTransaction lib req = Inr plan"
    and "0 < sum_list (map bin_Amount (bsr_Inputs req))"
    and "sum_list (map bin_Amount (bsr_Inputs req)) < 2 ^ 63"
    and "sum_list (map bout_Amount (bsr_Outputs req)) < 2 ^ 63"
    and "bsr_Outputs req \<noteq> []"
  shows "sum_list (map bout_Amount (bsr_Outputs req)) \<le> sum_list (map bin_Amount (bsr_Inputs req)) \<and>
    sum_list (map bin_Amount (bsr_Inputs req)) - sum_list (map bout_Amount (bsr_Outputs req))
      \<le> sum_list (map bout_Amount (bsr_Outputs req))"
  using assms(1)
proof (rule Plan_Inr)
  fix params ins outs buf
  let ?i = "sum_list (map bin_Amount (bsr_Inputs req))" and ?o = "sum_list (map bout_Amount (bsr_Outputs req))"
  assume o: "list_all2 (planned_out lib params) (bsr_Outputs req) outs"
    and f: "fee_check (i64 ?i) (i64 ?o) = None"
  have pos: "\<forall>x \<in> set (bsr_Outputs req). 0 < bout_Amount x"
    using o by (auto simp: list_all2_conv_all_nth planned_out_def in_set_conv_nth)
  have "0 < ?o" using assms(5) pos
    by (cases "bsr_Outputs req") (auto intro!: add_pos_nonneg sum_list_nonneg simp: less_imp_le)
  moreover from this have "i64 ?o = ?o" "i64 ?i = ?i" "i64 (?i - ?o) = ?i - ?o"
    using assms(2-4) by (auto intro!: i64_id simp: in_i64_def)
  ultimately show ?thesis using f assms(2) by (auto simp: fee_check_def Let_def split: if_splits)
qed



section \<open>What assembly returns\<close>

text \<open>Placing signatures changes nothing but signature scripts and witnesses.\<close>

definition same_prevout :: "TxIn \<Rightarrow> TxIn \<Rightarrow> bool" where
  "same_prevout a b \<longleftrightarrow> in_PrevHash a = in_PrevHash b \<and> in_PrevIndex a = in_PrevIndex b \<and> in_Sequence a = in_Sequence b"

lemma sign_input_prevout: "sign_input lib pk w i sig t = Inr t' \<Longrightarrow> same_prevout t t'"
  by (auto simp: sign_input_def same_prevout_def Let_def split: option.splits if_splits)

lemma sign_input_witness:
  "sign_input lib pk w i sig t = Inr t' \<Longrightarrow> i < length w \<and> w ! i \<Longrightarrow> in_SigScript t' = []"
  by (auto simp: sign_input_def Let_def split: option.splits if_splits)

lemma same_prevout_refl [simp]: "same_prevout a a"
  by (simp add: same_prevout_def)

lemma same_prevout_trans: "same_prevout a b \<Longrightarrow> same_prevout b c \<Longrightarrow> same_prevout a c"
  by (simp add: same_prevout_def)

lemma sign_inputs_spec:
  assumes "sign_inputs lib pk w i sigs tx = Inr tx'" "i + length sigs \<le> length (msg_TxIn tx)"
  shows "msg_Version tx' = msg_Version tx \<and> msg_LockTime tx' = msg_LockTime tx \<and> msg_TxOut tx' = msg_TxOut tx \<and> length (msg_TxIn tx') = length (msg_TxIn tx) \<and>
    (\<forall>j < length (msg_TxIn tx). same_prevout (msg_TxIn tx ! j) (msg_TxIn tx' ! j)) \<and>
    (\<forall>j < length (msg_TxIn tx). j < i \<or> i + length sigs \<le> j \<longrightarrow> msg_TxIn tx' ! j = msg_TxIn tx ! j) \<and>
    (\<forall>j. i \<le> j \<and> j < i + length sigs \<and> j < length w \<and> w ! j \<longrightarrow> in_SigScript (msg_TxIn tx' ! j) = [])"
  using assms
proof (induction sigs arbitrary: i tx)
  case Nil
  then show ?case by auto
next
  case (Cons sig sigs)
  obtain t where t: "sign_input lib pk w i sig (msg_TxIn tx ! i) = Inr t"
    and r: "sign_inputs lib pk w (Suc i) sigs (tx\<lparr>msg_TxIn := (msg_TxIn tx)[i := t]\<rparr>) = Inr tx'"
    using Cons.prems(1) by (auto simp: res_simps)
  let ?tx = "tx\<lparr>msg_TxIn := (msg_TxIn tx)[i := t]\<rparr>"
  have l: "Suc i + length sigs \<le> length (msg_TxIn ?tx)" and il: "i < length (msg_TxIn tx)"
    using Cons.prems(2) by auto
  note ih = Cons.IH [OF r l]
  have same: "same_prevout (msg_TxIn tx ! j) (msg_TxIn ?tx ! j)" if "j < length (msg_TxIn tx)" for j
    using sign_input_prevout [OF t] that by (cases "j = i") simp_all
  have "msg_TxIn tx' ! i = t" using ih il by simp
  then have wi: "in_SigScript (msg_TxIn tx' ! i) = []" if "i < length w \<and> w ! i"
    using sign_input_witness [OF t that] by simp
  show ?case
  proof (intro conjI allI impI)
    show "msg_Version tx' = msg_Version tx" "msg_LockTime tx' = msg_LockTime tx" "msg_TxOut tx' = msg_TxOut tx" "length (msg_TxIn tx') = length (msg_TxIn tx)" using ih by auto
    show "same_prevout (msg_TxIn tx ! j) (msg_TxIn tx' ! j)" if "j < length (msg_TxIn tx)" for j
      using ih that by (intro same_prevout_trans [OF same [OF that]]) simp
    show "msg_TxIn tx' ! j = msg_TxIn tx ! j"
      if "j < length (msg_TxIn tx)" "j < i \<or> i + length (sig # sigs) \<le> j" for j
      using ih that by auto
    show "in_SigScript (msg_TxIn tx' ! j) = []"
      if "i \<le> j \<and> j < i + length (sig # sigs) \<and> j < length w \<and> w ! j" for j
      using ih wi that by (cases "j = i") auto
  qed
qed


lemma Assemble_Inr:
  assumes "AssembleBitcoinTransaction lib (Some plan) sigs pk = Inr raw"
  obtains rawTx tx0 tx where "hex_decode (plan_UnsignedTxHex plan) = Some rawTx"
    "deserializeTx lib rawTx = Some tx0" "serializeTx lib tx = Some raw"
    "length (msg_TxIn tx0) = length sigs" "length sigs = length (plan_SigHashes plan)"
    "verify_inputs lib tx (plan_Amounts plan) 0 (plan_PrevScripts plan) = None"
    "msg_TxOut tx = msg_TxOut tx0" "msg_Version tx = msg_Version tx0" "msg_LockTime tx = msg_LockTime tx0"
    "list_all2 same_prevout (msg_TxIn tx0) (msg_TxIn tx)"
    "\<forall>j < length sigs. j < length (plan_Witness plan) \<and> plan_Witness plan ! j \<longrightarrow>
       in_SigScript (msg_TxIn tx ! j) = []"
proof -
  obtain pkb rawTx tx0 tx where a: "hex_decode (plan_UnsignedTxHex plan) = Some rawTx"
    "deserializeTx lib rawTx = Some tx0" "length (msg_TxIn tx0) = length sigs"
    "length sigs = length (plan_SigHashes plan)"
    "sign_inputs lib pkb (plan_Witness plan) 0 sigs tx0 = Inr tx"
    "verify_inputs lib tx (plan_Amounts plan) 0 (plan_PrevScripts plan) = None"
    "serializeTx lib tx = Some raw"
    using assms
    by (auto simp: AssembleBitcoinTransaction_def res_simps split: if_splits option.splits)
  have "0 + length sigs \<le> length (msg_TxIn tx0)" using a(3) by simp
  note sp = sign_inputs_spec [OF a(5) this]
  show thesis
    by (rule that [OF a(1,2,7,3,4,6)]) (use sp a(3) in \<open>auto simp: list_all2_conv_all_nth\<close>)
qed


text \<open>Low-S normalisation is sound and canonical. For a group order \<open>n\<close> and any \<open>s\<close> in range the
  result is at most half the order, is \<open>s\<close> or its negation, and is the same for both of the two
  signatures that verify.\<close>

theorem low_s_canonical:
  assumes "0 \<le> s" "s \<le> n"
  shows "2 * low_s n s \<le> n \<and> 0 \<le> low_s n s \<and> (low_s n s = s \<or> low_s n s = n - s) \<and>
    low_s n (n - s) = low_s n s"
proof -
  have "drop_bit 1 n = n div 2" by (simp add: drop_bit_eq_div)
  then show ?thesis using assms by (auto simp: low_s_def Let_def)
qed

theorem low_s_canonical_witness: "2 * low_s 13 9 \<le> 13 \<and> low_s 13 (13 - 9) = low_s 13 9"
  using low_s_canonical [of 9 13] by simp

text \<open>What the code relies on from btcd's wire format: a transaction with inputs reads back.\<close>

definition wire_ok :: "'a btc_lib \<Rightarrow> bool" where
  "wire_ok lib \<longleftrightarrow> (\<forall>tx b. msg_TxIn tx \<noteq> [] \<and> serializeTx lib tx = Some b \<longrightarrow> deserializeTx lib b = Some tx)"

text \<open>C27: From request to broadcast. What planning and assembly together return is a transaction that
  spends exactly the requested outpoints and pays exactly the requested outputs: the signatures of
  the committee cannot have redirected it.\<close>

theorem plan_then_assemble_pays_request:
  assumes wire: "wire_ok lib" and plan: "PlanBitcoinTransaction lib req = Inr plan"
    and asm: "AssembleBitcoinTransaction lib (Some plan) sigs pk = Inr raw"
  shows "\<exists>params tx ins. bitcoinNetParams (bsr_Network req) = Inr params \<and>
    serializeTx lib tx = Some raw \<and> length sigs = length (bsr_Inputs req) \<and> msg_Version tx = 1 \<and> msg_LockTime tx = 0 \<and>
    list_all2 (planned_out lib params) (bsr_Outputs req) (msg_TxOut tx) \<and>
    list_all2 (planned_in lib) (bsr_Inputs req) ins \<and> list_all2 same_prevout ins (msg_TxIn tx)"
  using plan
proof (rule Plan_Inr)
  fix params ins outs buf
  assume p: "bitcoinNetParams (bsr_Network req) = Inr params" "bsr_Inputs req \<noteq> []"
    "list_all2 (planned_in lib) (bsr_Inputs req) ins"
    "list_all2 (planned_out lib params) (bsr_Outputs req) outs"
    "serializeTx lib \<lparr>msg_Version = 1, msg_TxIn = ins, msg_TxOut = outs, msg_LockTime = 0\<rparr> = Some buf"
    "plan_UnsignedTxHex plan = hex_encode buf" "plan_len plan (length (bsr_Inputs req))"
  have "ins \<noteq> []" using p(2,3) by auto
  then have d: "deserializeTx lib buf = Some \<lparr>msg_Version = 1, msg_TxIn = ins, msg_TxOut = outs, msg_LockTime = 0\<rparr>"
    using wire p(5) by (auto simp: wire_ok_def)
  show ?thesis
    using asm
  proof (rule Assemble_Inr)
    fix rawTx tx0 tx
    assume a: "hex_decode (plan_UnsignedTxHex plan) = Some rawTx" "deserializeTx lib rawTx = Some tx0"
      "serializeTx lib tx = Some raw" "length sigs = length (plan_SigHashes plan)"
      "msg_TxOut tx = msg_TxOut tx0" "list_all2 same_prevout (msg_TxIn tx0) (msg_TxIn tx)"
      "msg_Version tx = msg_Version tx0" "msg_LockTime tx = msg_LockTime tx0"
    have "tx0 = \<lparr>msg_Version = 1, msg_TxIn = ins, msg_TxOut = outs, msg_LockTime = 0\<rparr>" using a(1,2) p(6) d by simp
    then show ?thesis using p a
      by (intro exI [of _ params] exI [of _ tx] exI [of _ ins]) (simp add: plan_len_def)
  qed
qed

section \<open>Selections can be planned\<close>

text \<open>What the code relies on from btcd: a pay-to-witness-pubkey-hash script is version 0 followed by
  a push of 20 bytes.\<close>

definition p2wpkh_ok :: "'a btcd \<Rightarrow> bool" where
  "p2wpkh_ok lib \<longleftrightarrow> (\<forall>s. isPayToWitnessPubKeyHash lib s \<longrightarrow> length s = 22 \<and> s ! 0 = 0x00 \<and> s ! 1 = 0x14)"

text \<open>The failures that do not depend on the choice of coins: malformed outpoints from the node, a
  fee above the amount sent, or the Bitcoin library failing.\<close>

definition late_error :: "plan_error \<Rightarrow> bool" where
  "late_error e \<longleftrightarrow> (\<exists>i. e \<in> {BadTxid i, NegativeVout i, NotWitnessProgram i, SigHashFailed i}) \<or>
     (\<exists>f t. e = FeeExceedsOutputs f t) \<or> e = SerializeFailed"

lemma plan_inputs_Inl: "plan_inputs lib i xs = Inl e \<Longrightarrow> late_error e"
  by (induction xs arbitrary: i) (auto simp: late_error_def res_simps split: option.splits if_splits)

lemma plan_output_script:
  assumes "scriptForAddress (lib_btcd lib) (bout_Address x) params = Inr script"
    "0 < bout_Amount x" "dustThreshold (lib_btcd lib) script \<le> bout_Amount x"
  shows "plan_output lib params i x = Inr \<lparr>out_Value = bout_Amount x, out_PkScript = script\<rparr>"
  using assms by (auto simp: scriptForAddress_def plan_output_def split: if_splits option.splits)

lemma plan_digest_spendable:
  assumes "p2wpkh_ok (lib_btcd lib)" "plan_digest lib tx i x = Inl e" "0 < bin_Amount x"
    "inputWeights (lib_btcd lib) (bin_Script x) = Inr bw"
  shows "late_error e"
  using assms
  by (auto simp: plan_digest_def inputWeights_def p2wpkh_ok_def isPayToPubKeyHash_def late_error_def
      split: option.splits if_splits)

lemma plan_digests_spendable:
  assumes "p2wpkh_ok (lib_btcd lib)" "plan_digests lib tx i xs plan = Inl e"
    "\<forall>x \<in> set xs. 0 < bin_Amount x \<and> (\<exists>bw. inputWeights (lib_btcd lib) (bin_Script x) = Inr bw)"
  shows "late_error e"
  using assms(2,3)
proof (induction xs arbitrary: i plan)
  case (Cons x xs)
  then show ?case using plan_digest_spendable [OF assms(1)] by (auto simp: res_simps)
qed simp

lemma spendable_inputs:
  assumes "set us \<subseteq> set (coins lib req)" "x \<in> set (bsr_Inputs (sel_Request (buildSelection req us t c f v b)))"
  shows "0 < bin_Amount x \<and> (\<exists>bw. inputWeights lib (bin_Script x) = Inr bw)"
proof -
  obtain u where u: "u \<in> set (coins lib req)" "bin_Amount x = utxo_Amount u" "bin_Script x = utxo_Script u"
    using assms by (auto simp: buildSelection_def)
  then have "is_spendable lib (min_conf req) u" by (simp only: set_coins)
  then show ?thesis using u by (auto simp: is_spendable_def split: sum.splits)
qed

text \<open>Planning never contradicts selection. A selection made within the range of \<^verbatim>\<open>int64\<close> is
  never refused by \<^const>\<open>PlanBitcoinTransaction\<close> for its outputs, their network or their size, for
  its balance, or for its inputs' scripts and amounts; what can still fail does not depend on which
  coins were chosen.\<close>

theorem selection_is_plannable:
  assumes lib: "p2wpkh_ok (lib_btcd lib)" and ok: "request_ok (lib_btcd lib) req dest chg"
    and sel: "SelectCoins (lib_btcd lib) req = Inr s"
    and plan: "PlanBitcoinTransaction lib (sel_Request s) = Inl e"
  shows "late_error e"
  using ok sel
proof (rule SelectCoins_decision)
  fix k us change
  let ?B = "lib_btcd lib"
  assume k: "k < length (coins ?B req)" and us: "us = take (Suc k) (coins ?B req)"
    and en: "enough ?B req dest chg us" and dd: "dustThreshold ?B dest \<le> csr_Amount req"
    and c: "change = amounts us - csr_Amount req - fee_for ?B req us [dest, chg]"
    and s: "s = (if dustThreshold ?B chg \<le> change
      then buildSelection req us (amounts us) change (fee_for ?B req us [dest, chg])
             (estimateVirtualSize ?B us [dest, chg]) False
      else buildSelection req us (amounts us) 0 (amounts us - csr_Amount req)
             (estimateVirtualSize ?B us [dest]) True)"
  note r = ok [unfolded request_ok_def]
  obtain params where p: "bitcoinNetParams (csr_Network req) = Inr params"
    "scriptForAddress ?B (csr_Destination req) params = Inr dest"
    "scriptForAddress ?B (csr_ChangeAddress req) params = Inr chg" using r by auto
  define ch where "ch = (if dustThreshold ?B chg \<le> change then change else 0)"
  have ins: "bsr_Network (sel_Request s) = csr_Network req" "bsr_Inputs (sel_Request s) \<noteq> []"
    "sum_list (map bin_Amount (bsr_Inputs (sel_Request s))) = amounts us"
    and outs: "bsr_Outputs (sel_Request s) = \<lparr>bout_Address = csr_Destination req, bout_Amount = csr_Amount req\<rparr> #
      (if ch > 0 then [\<lparr>bout_Address = csr_ChangeAddress req, bout_Amount = ch\<rparr>] else [])"
    using k us s dust_pos [of ?B chg] by (auto simp: sum_bin_amounts ch_def) (auto simp: buildSelection_def)
  have spend: "\<forall>x \<in> set (bsr_Inputs (sel_Request s)). 0 < bin_Amount x \<and> (\<exists>bw. inputWeights ?B (bin_Script x) = Inr bw)"
    using spendable_inputs [of us ?B req] set_take_subset [of "Suc k" "coins ?B req"] unfolding s us
    by (auto split: if_splits)
  have f: "0 < fee_for ?B req us [dest, chg]" by (rule fee_take(3)) (use r in simp)
  have a: "0 < csr_Amount req" "amounts us < 2 ^ 63"
    using r amounts_take(2) [of "Suc k" ?B req] by (auto simp: us)
  have tot: "csr_Amount req + ch \<le> amounts us" "0 \<le> ch"
    using en f c dust_pos [of ?B chg] by (auto simp: ch_def enough_def)
  have po: "\<exists>os. plan_outputs lib params 0 (bsr_Outputs (sel_Request s)) 0 = Inr (os, csr_Amount req + ch)"
    using p dd a tot dust_pos [of ?B chg]
    by (auto simp: outs plan_output_script ch_def i64_id in_i64_def)
  have "total_in (bsr_Inputs (sel_Request s)) = amounts us"
    using ins(3) a tot by (simp add: total_in_eq i64_id in_i64_def)
  moreover have "i64 (amounts us - (csr_Amount req + ch)) = amounts us - (csr_Amount req + ch)"
    using a tot by (intro i64_id) (simp add: in_i64_def)
  ultimately have fc: "fee_check (total_in (bsr_Inputs (sel_Request s))) (csr_Amount req + ch) = Some e' \<Longrightarrow> late_error e'" for e'
    using tot by (auto simp: fee_check_def Let_def late_error_def split: if_splits)
  show ?thesis
    using plan p(1) ins(1,2) po fc plan_digests_spendable [OF lib _ spend] plan_inputs_Inl
    unfolding PlanBitcoinTransaction_def
    by (auto simp: res_simps outs Let_def late_error_def [of SerializeFailed] split: option.splits)
qed


section \<open>Examples\<close>

definition demo_unsigned :: MsgTx where
  "demo_unsigned = \<lparr>msg_Version = 1, msg_TxIn = [\<lparr>in_PrevHash = str_bytes ''bb'', in_PrevIndex = 0, in_SigScript = [],
      in_Witness = [], in_Sequence = 0xffffffff\<rparr>], msg_TxOut = [\<lparr>out_Value = 20000, out_PkScript = demo_script\<rparr>,
      \<lparr>out_Value = 29718, out_PkScript = demo_script\<rparr>], msg_LockTime = 0\<rparr>"

definition demo_signed_tx :: MsgTx where
  "demo_signed_tx = \<lparr>msg_Version = 1, msg_TxIn = [\<lparr>in_PrevHash = str_bytes ''bb'', in_PrevIndex = 0, in_SigScript = [],
      in_Witness = [[0x30, 0x01], [0x02]], in_Sequence = 0xffffffff\<rparr>], msg_TxOut = msg_TxOut demo_unsigned, msg_LockTime = 0\<rparr>"

definition demo_btc :: "string btc_lib" where
  "demo_btc = \<lparr>lib_btcd = demo_btcd, newHashFromStr = (\<lambda>s. Some (str_bytes s)),
     calcWitnessSigHash = (\<lambda>s tx i a. Some [9]), calcSignatureHash = (\<lambda>s tx i. None),
     buildScript = (\<lambda>xs. Some []),
     serializeTx = (\<lambda>tx. if tx = demo_unsigned then Some [0] else if tx = demo_signed_tx then Some [1] else None),
     deserializeTx = (\<lambda>b. if b = [0] then Some demo_unsigned else if b = [1] then Some demo_signed_tx else None),
     parseCompressed = (\<lambda>b. Some [2]), derSerialize = (\<lambda>r s. [0x30]),
     runEngine = (\<lambda>s tx i a. EngineOk), txHashString = (\<lambda>tx. []), groupOrder = 13,
     hash160 = (\<lambda>b. b), witnessPubKeyHashAddress = (\<lambda>h n. None), pubKeyHashAddress = (\<lambda>h n. None)\<rparr>"

definition demo_signing_req :: BitcoinSigningRequest where
  "demo_signing_req = sel_Request (buildSelection (demo_req demo_wallet 20000 2)
     [demo_coin ''bb'' 50000] 50000 29718 282 141 False)"

definition demo_plan :: BitcoinSigningPlan where
  "demo_plan = \<lparr>plan_UnsignedTxHex = hex_encode [0], plan_SigHashes = [hex_encode [9]],
     plan_PrevScripts = [hex_encode demo_script], plan_Witness = [True], plan_Amounts = [50000]\<rparr>"

lemma demo_signing_req_eq:
  "demo_signing_req = \<lparr>bsr_Network = ''regtest'',
     bsr_Inputs = [\<lparr>bin_Txid = ''bb'', bin_Vout = 0, bin_Amount = 50000,
       bin_Script = hex_encode demo_script, bin_SegWit = False\<rparr>],
     bsr_Outputs = [\<lparr>bout_Address = ''dest'', bout_Amount = 20000\<rparr>, \<lparr>bout_Address = ''change'', bout_Amount = 29718\<rparr>]\<rparr>"
  by (simp add: demo_signing_req_def buildSelection_def demo_coin_def)

lemma demo_lib_btcd [simp]: "lib_btcd demo_btc = demo_btcd"
  by (simp add: demo_btc_def)

lemma demo_p2wpkh: "isPayToWitnessPubKeyHash demo_btcd demo_script" "demo_script \<noteq> []"
  "demo_script ! 0 = 0" "demo_script ! Suc 0 = 20"
  by (simp_all add: demo_btcd_def demo_script_def)

lemma demo_planned: "PlanBitcoinTransaction demo_btc demo_signing_req = Inr demo_plan"
proof -
  have out: "plan_output demo_btc n i \<lparr>bout_Address = a, bout_Amount = v\<rparr> =
      Inr \<lparr>out_Value = v, out_PkScript = demo_script\<rparr>" if "a = ''dest'' \<or> a = ''change''" "294 \<le> v" for n i a v
    using that by (intro plan_output_script [of demo_btc "\<lparr>bout_Address = a, bout_Amount = v\<rparr>", simplified]) auto
  have dig: "plan_digest demo_btc tx 0 \<lparr>bin_Txid = ''bb'', bin_Vout = 0, bin_Amount = 50000,
       bin_Script = hex_encode demo_script, bin_SegWit = False\<rparr> = Inr ([9], True)" for tx
    by (simp add: plan_digest_def demo_p2wpkh p2pkhScriptForWitnessProgram_def demo_btc_def)
  show ?thesis
    by (simp add: PlanBitcoinTransaction_def demo_signing_req_eq bitcoinNetParams_def out dig
        total_in_def fee_check_def i64_def demo_plan_def demo_unsigned_def demo_btc_def [THEN arg_cong, of newHashFromStr]
        demo_btc_def [THEN arg_cong, of serializeTx] Let_def)
qed

definition demo_sigs :: "BitcoinInputSignature list" where
  "demo_sigs = [\<lparr>bis_R = ''0x1'', bis_S = ''c''\<rparr>]"

lemma demo_assembled: "AssembleBitcoinTransaction demo_btc (Some demo_plan) demo_sigs [] = Inr [1]"
proof -
  have "demo_unsigned \<noteq> demo_signed_tx" by (simp add: demo_unsigned_def demo_signed_tx_def)
  moreover have "big_hex (stripHexPrefix ''0x1'') = Some 1" "big_hex (stripHexPrefix ''c'') = Some 12"
    by (simp_all add: big_hex_def stripHexPrefix_def hex_digits_nat_def unhex_def Let_def)
  then have "sign_inputs demo_btc [2] [True] 0 demo_sigs demo_unsigned = Inr demo_signed_tx"
    by (simp add: demo_sigs_def sign_input_def demo_btc_def demo_unsigned_def demo_signed_tx_def Let_def)
  ultimately show ?thesis
    by (simp add: AssembleBitcoinTransaction_def demo_plan_def stripHexPrefix_def demo_btc_def
        demo_sigs_def demo_unsigned_def [THEN arg_cong, of msg_TxIn])
qed

lemma demo_wire: "wire_ok demo_btc"
  by (auto simp: wire_ok_def demo_btc_def split: if_splits)

theorem plan_commits_to_request_witness:
  "\<exists>params tx buf. bitcoinNetParams ''regtest'' = Inr params \<and> serializeTx demo_btc tx = Some buf \<and>
     plan_len demo_plan 1 \<and> digest_entry demo_btc tx (bsr_Inputs demo_signing_req) demo_plan 0"
  using plan_commits_to_request [OF demo_planned] by (auto simp: demo_signing_req_eq)

theorem plan_fee_sane_witness:
  "(49718 :: int) \<le> 50000 \<and> PlanBitcoinTransaction demo_btc demo_signing_req = Inr demo_plan \<and>
     sum_list (map bout_Amount (bsr_Outputs demo_signing_req)) \<le> sum_list (map bin_Amount (bsr_Inputs demo_signing_req))"
  using demo_planned plan_fee_sane [OF demo_planned] by (simp add: demo_signing_req_eq)


theorem plan_then_assemble_pays_request_witness:
  "\<exists>params tx. serializeTx demo_btc tx = Some [1] \<and>
     list_all2 (planned_out demo_btc params) (bsr_Outputs demo_signing_req) (msg_TxOut tx)"
  using plan_then_assemble_pays_request [OF demo_wire demo_planned demo_assembled] by blast

text \<open>A wallet whose node reports a negative output index: the selection is fine, planning refuses it
  for the index, which is one of the failures the property allows.\<close>

definition demo_bad_wallet :: "UTXO list" where
  "demo_bad_wallet = [(demo_coin ''bb'' 50000)\<lparr>utxo_Vout := -1\<rparr>]"

lemma demo_bad_coins: "coins demo_btcd (demo_req demo_bad_wallet a r) = demo_bad_wallet"
  by (simp add: demo_bad_wallet_def sort_coins_def is_spendable_def inputWeights_def demo_coin_def
      demo_p2wpkh)

lemma demo_bad_vsize: "estimateVirtualSize demo_btcd demo_bad_wallet [demo_script, demo_script] = 141"
  by (simp add: estimateVirtualSize_def demo_bad_wallet_def input_size_def inputWeights_def
      demo_coin_def demo_p2wpkh Let_def size_consts)

lemma demo_bad_ok: "request_ok demo_btcd (demo_req demo_bad_wallet 20000 2) demo_script demo_script"
proof -
  have "amounts demo_bad_wallet = 50000" by (simp add: demo_bad_wallet_def)
  then show ?thesis
    unfolding request_ok_def demo_bad_coins
    by (simp add: fee_for_def demo_bad_vsize bitcoinNetParams_def)
qed

lemma demo_bad_select:
  "SelectCoins demo_btcd (demo_req demo_bad_wallet 20000 2) =
     Inr (buildSelection (demo_req demo_bad_wallet 20000 2) demo_bad_wallet 50000 29718 282 141 False)"
  unfolding SelectCoins_loop [OF demo_bad_ok] demo_bad_coins
  using demo_bad_vsize by (simp add: demo_bad_wallet_def i64_def Let_def)

theorem selection_is_plannable_witness:
  "late_error (NegativeVout 0) \<and> PlanBitcoinTransaction demo_btc (sel_Request
     (buildSelection (demo_req demo_bad_wallet 20000 2) demo_bad_wallet 50000 29718 282 141 False))
     = Inl (NegativeVout 0)"
proof -
  have p: "PlanBitcoinTransaction demo_btc (sel_Request
     (buildSelection (demo_req demo_bad_wallet 20000 2) demo_bad_wallet 50000 29718 282 141 False))
     = Inl (NegativeVout 0)"
    by (simp add: PlanBitcoinTransaction_def bitcoinNetParams_def buildSelection_def demo_bad_wallet_def
        demo_btc_def [THEN arg_cong, of newHashFromStr])
  moreover have "p2wpkh_ok (lib_btcd demo_btc)" by (simp add: p2wpkh_ok_def, simp add: demo_btcd_def)
  ultimately show ?thesis
    using selection_is_plannable [of demo_btc "demo_req demo_bad_wallet 20000 2" demo_script demo_script]
      demo_bad_ok demo_bad_select by simp
qed

end
