(* ===== verification/Sql.thy ===== *)
theory Sql
  imports Main
begin

text \<open>
  What the services see of PostgreSQL: a connection to tables on which statements and transactions are run. A
  database is a record that extends \<open>sql_conn\<close> by its tables. The next fault of the connection, if any, makes a
  statement fail without or with its effect; a statement the tables refuse (a constraint, a cast) fails without effect.
\<close>

datatype fault = FailBefore | FailAfter

record sql_conn =
  conn_faults :: "fault option list"

definition next_fault :: "'z sql_conn_scheme \<Rightarrow> fault option" where
  "next_fault db = (case conn_faults db of [] \<Rightarrow> None | f # _ \<Rightarrow> f)"

definition exec_statement ::
  "('z sql_conn_scheme \<Rightarrow> ('a \<times> 'z sql_conn_scheme) option) \<Rightarrow> 'z sql_conn_scheme \<Rightarrow> 'a option \<times> 'z sql_conn_scheme" where
  "exec_statement stmt db =
     (let db1 = db\<lparr>conn_faults := tl (conn_faults db)\<rparr> in
      case next_fault db of
        Some FailBefore \<Rightarrow> (None, db1)
      | Some FailAfter \<Rightarrow> (None, case stmt db1 of None \<Rightarrow> db1 | Some (_, db2) \<Rightarrow> db2)
      | None \<Rightarrow> (case stmt db1 of None \<Rightarrow> (None, db1) | Some (n, db2) \<Rightarrow> (Some n, db2)))"

definition query :: "('z sql_conn_scheme \<Rightarrow> 'a) \<Rightarrow> 'z sql_conn_scheme \<Rightarrow> 'a option \<times> 'z sql_conn_scheme" where
  "query q = exec_statement (\<lambda>db. Some (q db, db))"

text \<open>A transaction: begin, the body, commit. A body that fails is rolled back; a commit can fail before it or after.\<close>

definition transaction ::
  "'e \<Rightarrow> ('z sql_conn_scheme \<Rightarrow> ('e + 'a) \<times> 'z sql_conn_scheme) \<Rightarrow> 'z sql_conn_scheme \<Rightarrow> ('e + 'a) \<times> 'z sql_conn_scheme" where
  "transaction err fn db =
     (case query (\<lambda>_. ()) db of
        (None, db1) \<Rightarrow> (Inl err, db1)
      | (Some _, db1) \<Rightarrow>
          (case fn db1 of
             (Inl e, db2) \<Rightarrow> (Inl e, db1\<lparr>conn_faults := conn_faults db2\<rparr>)
           | (Inr x, db2) \<Rightarrow>
               (case next_fault db2 of
                  None \<Rightarrow> (Inr x, db2\<lparr>conn_faults := tl (conn_faults db2)\<rparr>)
                | Some FailBefore \<Rightarrow> (Inl err, db1\<lparr>conn_faults := tl (conn_faults db2)\<rparr>)
                | Some FailAfter \<Rightarrow> (Inl err, db2\<lparr>conn_faults := tl (conn_faults db2)\<rparr>))))"

text \<open>\<^verbatim>\<open>withTenant\<close>, which the services share: the tenant is set for the transaction before its body runs.\<close>

definition tenant_transaction ::
  "'e \<Rightarrow> string \<Rightarrow> ('z sql_conn_scheme \<Rightarrow> ('e + 'a) \<times> 'z sql_conn_scheme) \<Rightarrow> 'z sql_conn_scheme \<Rightarrow> ('e + 'a) \<times> 'z sql_conn_scheme" where
  "tenant_transaction err customerID fn =
     transaction err (\<lambda>db. case query (\<lambda>_. customerID) db of (None, db1) \<Rightarrow> (Inl err, db1) | (Some _, db1) \<Rightarrow> fn db1)"

text \<open>A text of bytes in UTF-8 split after \<open>n\<close> characters, the values of a \<open>TEXT\<close> column, which cannot hold a zero byte,
  and those of a \<open>VARCHAR\<close> column, where only spaces may be cut off.\<close>

fun split_chars :: "nat \<Rightarrow> string \<Rightarrow> string \<times> string" where
  "split_chars n [] = ([], [])"
| "split_chars n (c # cs) =
     (if (128 :: nat) \<le> of_char c \<and> of_char c < (192 :: nat) then (let (a, b) = split_chars n cs in (c # a, b))
      else if n = 0 then ([], c # cs)
      else (let (a, b) = split_chars (n - 1) cs in (c # a, b)))"

definition sql_text :: "string \<Rightarrow> string option" where
  "sql_text s = (if CHR 0x00 \<in> set s then None else Some s)"

definition varchar :: "nat \<Rightarrow> string \<Rightarrow> string option" where
  "varchar n s = (if CHR 0x00 \<in> set s then None else let (a, b) = split_chars n s in if list_all ((=) CHR '' '') b then Some a else None)"

text \<open>Text in ASCII that is short enough is kept as it is.\<close>

lemma split_chars_ascii: "\<forall>c\<in>set s. of_char c < (128 :: nat) \<Longrightarrow> length s \<le> n \<Longrightarrow> split_chars n s = (s, [])"
  by (induction s arbitrary: n) (auto simp: not_le)

lemma varchar_ascii: "\<forall>c\<in>set s. (0 :: nat) < of_char c \<and> of_char c < (128 :: nat) \<Longrightarrow> length s \<le> n \<Longrightarrow> varchar n s = Some s"
proof -
  assume a: "\<forall>c\<in>set s. (0 :: nat) < of_char c \<and> of_char c < (128 :: nat)" "length s \<le> n"
  then have "CHR 0x00 \<in> set s \<Longrightarrow> 0 < (of_char CHR 0x00 :: nat)" by blast
  then have "CHR 0x00 \<notin> set s" by (auto simp: of_char_def)
  then show ?thesis using a by (simp add: varchar_def split_chars_ascii)
qed

lemma exec_statement_Some:
  assumes "exec_statement stmt db = (Some x, db')"
  shows "stmt (db\<lparr>conn_faults := tl (conn_faults db)\<rparr>) = Some (x, db')"
  using assms by (auto simp: exec_statement_def Let_def split: option.splits fault.splits)

lemma exec_statement_effect:
  assumes "exec_statement stmt db = (r, db')"
  shows "db' = db\<lparr>conn_faults := tl (conn_faults db)\<rparr> \<or> (\<exists>x. stmt (db\<lparr>conn_faults := tl (conn_faults db)\<rparr>) = Some (x, db'))"
  using assms by (auto simp: exec_statement_def Let_def split: option.splits fault.splits prod.splits)

lemma transaction_cases:
  assumes "transaction err fn db = (r, db')"
  obtains (rolled_back) fs e where "db' = db\<lparr>conn_faults := fs\<rparr>" "r = Inl e"
    | (committed) fs0 fs x db2 where "fn (db\<lparr>conn_faults := fs0\<rparr>) = (Inr x, db2)" "db' = db2\<lparr>conn_faults := fs\<rparr>" "r = Inr x \<or> r = Inl err"
  using assms
  by (cases db) (auto simp: transaction_def query_def exec_statement_def Let_def split: option.splits fault.splits prod.splits sum.splits)

lemma exec_statement_fails_clean:
  assumes "conn_faults db = []"
  shows "exec_statement stmt db = (case stmt db of None \<Rightarrow> (None, db) | Some (x, db') \<Rightarrow> (Some x, db'))"
  using assms by (cases db) (auto simp: exec_statement_def next_fault_def Let_def split: option.split)

lemma query_result:
  "query q db = (r, db') \<Longrightarrow> db' = db\<lparr>conn_faults := tl (conn_faults db)\<rparr> \<and> (\<forall>x. r = Some x \<longrightarrow> x = q db')"
  by (auto simp: query_def exec_statement_def Let_def split: option.splits fault.splits)

lemma query_healthy [simp]: "conn_faults db = [] \<Longrightarrow> query q db = (Some (q db), db)"
  by (simp add: query_def exec_statement_fails_clean)

lemma tenant_cases:
  assumes "tenant_transaction err c fn db = (r, db')"
  obtains (rolled_back) fs e where "db' = db\<lparr>conn_faults := fs\<rparr>" "r = Inl e"
    | (committed) fs0 fs x db2 where "fn (db\<lparr>conn_faults := fs0\<rparr>) = (Inr x, db2)" "db' = db2\<lparr>conn_faults := fs\<rparr>" "r = Inr x \<or> r = Inl err"
  using assms unfolding tenant_transaction_def
proof (cases rule: transaction_cases)
  case (rolled_back fs e)
  then show ?thesis by (rule that(1))
next
  case (committed fs0 fs x db2)
  obtain y db1 where q: "query (\<lambda>_. c) (db\<lparr>conn_faults := fs0\<rparr>) = (Some y, db1)"
    using committed(1) by (auto split: prod.splits option.splits)
  then have "db1 = db\<lparr>conn_faults := tl fs0\<rparr>" using query_result [OF q] by simp
  then have "fn (db\<lparr>conn_faults := tl fs0\<rparr>) = (Inr x, db2)" using committed(1) q by simp
  then show ?thesis using committed(2,3) by (rule that(2))
qed

text \<open>A statement run for a tenant took effect or left the tables as they were.\<close>

lemma tenant_statement:
  assumes "tenant_transaction err c (\<lambda>db. case exec_statement stmt db of (None, db') \<Rightarrow> (Inl err, db') | (Some n, db') \<Rightarrow> (f n, db')) db = (r, db')"
  obtains (nothing) fs e where "db' = db\<lparr>conn_faults := fs\<rparr>" "r = Inl e"
    | (effect) fs0 fs n db2 y where "stmt (db\<lparr>conn_faults := fs0\<rparr>) = Some (n, db2)" "db' = db2\<lparr>conn_faults := fs\<rparr>" "f n = Inr y" "r = Inr y \<or> r = Inl err"
  using assms
proof (cases rule: tenant_cases)
  case (rolled_back fs e)
  then show ?thesis by (rule that(1))
next
  case (committed fs0 fs x db2)
  then obtain n where n: "exec_statement stmt (db\<lparr>conn_faults := fs0\<rparr>) = (Some n, db2)" "f n = Inr x"
    by (auto split: prod.splits option.splits)
  have "stmt (db\<lparr>conn_faults := tl fs0\<rparr>) = Some (n, db2)" using exec_statement_Some [OF n(1)] by simp
  then show ?thesis using that(2) n(2) committed(2,3) by blast
qed

lemma tenant_healthy:
  "conn_faults db = [] \<Longrightarrow> fn db = (r, db) \<Longrightarrow> tenant_transaction err c fn db = (r, db)"
  by (cases db) (auto simp: tenant_transaction_def transaction_def next_fault_def split: sum.split)

lemma tenant_commits:
  "conn_faults db = [] \<Longrightarrow> fn db = (Inr x, db2) \<Longrightarrow> conn_faults db2 = [] \<Longrightarrow> tenant_transaction err c fn db = (Inr x, db2)"
  by (cases db; cases db2) (simp add: tenant_transaction_def transaction_def next_fault_def)

lemma tenant_aborts:
  "conn_faults db = [] \<Longrightarrow> fn db = (Inl e, db2) \<Longrightarrow> conn_faults db2 = [] \<Longrightarrow> tenant_transaction err c fn db = (Inl e, db)"
  by (cases db) (simp add: tenant_transaction_def transaction_def)

end
