(* ===== verification/Approvals.thy ===== *)
theory Approvals
  imports OFB_Prelude Sql
begin

text \<open>
  The approval step of a settlement: \<^verbatim>\<open>workflows/approval.go\<close> (counting decisions as they arrive)
  and \<^verbatim>\<open>activities/approvals.go\<close> (the record in the database, its SQL statements written out on
  tables whose connection may fail before or after a statement took effect). Signals and the expiry timer are a sequence of events in the order the workflow's
  selector delivers them. Shown: an approved transfer has enough distinct approvers, none of them its
  initiator, both among the signals and in the database; the initiator's signals have no influence;
  one rejection rejects; the step ends at the latest when its timer fires; opening the record is
  idempotent and closing it never undoes a decision.
\<close>

record ApprovalDecisionSignal =
  ads_ApproverUserID :: string
  ads_Decision :: string

record ApprovalState =
  as_ApprovalID :: string
  as_Status :: string
  as_RequiredApprovals :: int
  as_ApprovedBy :: "string list"
  as_RejectedBy :: string

record OpenApprovalRequestResult =
  oar_ApprovalID :: string
  oar_RequiredApprovals :: int
  oar_ExpiresInSeconds :: int

record RecordedApprovalStatus =
  ras_Status :: string
  ras_DistinctApprovals :: int
  ras_RequiredApprovals :: int


section \<open>Counting decisions\<close>

type_synonym tally = "ApprovalState \<times> string set"

definition applyDecision :: "string \<Rightarrow> ApprovalDecisionSignal \<Rightarrow> tally \<Rightarrow> tally" where
  "applyDecision initiator d = (\<lambda>(state, seen).
     if ads_ApproverUserID d = '''' then (state, seen)
     else if initiator \<noteq> '''' \<and> ads_ApproverUserID d = initiator then (state, seen)
     else if ads_ApproverUserID d \<in> seen then (state, seen)
     else let seen' = insert (ads_ApproverUserID d) seen in
       if ads_Decision d = ''reject'' then
         (state\<lparr>as_RejectedBy := ads_ApproverUserID d, as_Status := ''rejected''\<rparr>, seen')
       else if ads_Decision d = ''approve'' then
         (let state' = state\<lparr>as_ApprovedBy := as_ApprovedBy state @ [ads_ApproverUserID d]\<rparr> in
          if int (length (as_ApprovedBy state')) \<ge> as_RequiredApprovals state'
          then (state'\<lparr>as_Status := ''approved''\<rparr>, seen') else (state', seen'))
       else (state, seen' - {ads_ApproverUserID d}))"

datatype approval_event = Signal ApprovalDecisionSignal | TimerFired

definition select_event :: "string \<Rightarrow> approval_event \<Rightarrow> tally \<Rightarrow> tally" where
  "select_event initiator e s =
     (case e of
        Signal d \<Rightarrow> applyDecision initiator d s
      | TimerFired \<Rightarrow>
          if as_Status (fst s) = ''pending'' then ((fst s)\<lparr>as_Status := ''expired''\<rparr>, snd s) else s)"

text \<open>The loop of \<^verbatim>\<open>awaitApprovals\<close>. \<^const>\<open>None\<close>: still waiting when the events run out.\<close>

fun await_loop :: "string \<Rightarrow> approval_event list \<Rightarrow> tally \<Rightarrow> tally option" where
  "await_loop initiator [] s = (if as_Status (fst s) = ''pending'' then None else Some s)"
| "await_loop initiator (e # es) s =
     (if as_Status (fst s) = ''pending'' then await_loop initiator es (select_event initiator e s)
      else Some s)"

definition required_approvals :: "OpenApprovalRequestResult \<Rightarrow> int" where
  "required_approvals opened =
     (if oar_RequiredApprovals opened < 1 then 1 else oar_RequiredApprovals opened)"

definition initial_tally :: "OpenApprovalRequestResult \<Rightarrow> tally" where
  "initial_tally opened =
     (\<lparr>as_ApprovalID = oar_ApprovalID opened, as_Status = ''pending'',
       as_RequiredApprovals = required_approvals opened, as_ApprovedBy = [], as_RejectedBy = ''''\<rparr>, {})"

text \<open>The activities the step executes, with the results they return after their retries.\<close>

datatype approval_call = OpenApprovalCall | GetRecordedCall | CloseApprovalCall string

record approval_env =
  env_open :: "string + OpenApprovalRequestResult"
  env_query_handler :: "string option"
  env_recorded :: "string + RecordedApprovalStatus"
  env_close :: "string \<Rightarrow> string option"

datatype approval_outcome = StillWaiting | ApprovalError string | Outcome string

definition confirm_outcome :: "approval_env \<Rightarrow> int \<Rightarrow> string \<Rightarrow> string + string" where
  "confirm_outcome env required outcome =
     (if outcome = ''approved'' then
        (case env_recorded env of
           Inl err \<Rightarrow> Inl err
         | Inr recorded \<Rightarrow>
             if ras_Status recorded \<noteq> ''approved'' \<or> ras_DistinctApprovals recorded < required
             then Inr ''rejected'' else Inr outcome)
      else Inr outcome)"

definition awaitApprovals ::
  "approval_env \<Rightarrow> string \<Rightarrow> approval_event list \<Rightarrow> approval_call list \<times> approval_outcome" where
  "awaitApprovals env initiator events =
     (case env_open env of
        Inl err \<Rightarrow> ([OpenApprovalCall], ApprovalError err)
      | Inr opened \<Rightarrow>
          (case env_query_handler env of
             Some err \<Rightarrow> ([OpenApprovalCall], ApprovalError err)
           | None \<Rightarrow>
               (case await_loop initiator events (initial_tally opened) of
                  None \<Rightarrow> ([OpenApprovalCall], StillWaiting)
                | Some (state, seen) \<Rightarrow>
                    (let reread = (if as_Status state = ''approved'' then [GetRecordedCall] else []) in
                     case confirm_outcome env (required_approvals opened) (as_Status state) of
                       Inl err \<Rightarrow> (OpenApprovalCall # reread, ApprovalError err)
                     | Inr outcome \<Rightarrow>
                         (OpenApprovalCall # reread @ [CloseApprovalCall outcome],
                          (case env_close env outcome of
                             Some err \<Rightarrow> ApprovalError err
                           | None \<Rightarrow> Outcome outcome))))))"


section \<open>The approval record\<close>

text \<open>The two tables the statements touch, the policy table they read and the keys of the tables they refer to. Times are
  those of the database clock in microseconds and \<open>fresh\<close> is the identifier the database generates for a new row.\<close>

record approval_row =
  row_approval_id :: string
  row_customer_id :: string
  row_initiated_by :: "string option"
  row_label :: string
  row_required :: int
  row_status :: string
  row_summary :: string
  row_expires_at :: int
  row_decided_at :: "int option"

record decision_row =
  dec_approval_id :: string
  dec_user_id :: string
  dec_decision :: string

record approval_db = sql_conn +
  db_requests :: "string \<Rightarrow> approval_row option"
  db_decisions :: "decision_row list"
  db_policies :: "string \<Rightarrow> (int option \<times> int option) option"
  db_customers :: "string \<Rightarrow> bool"
  db_users :: "string \<Rightarrow> bool"

record OpenApprovalRequestInput =
  oai_WorkflowID :: string
  oai_CustomerID :: string
  oai_InitiatedByUserID :: string
  oai_InitiatedByLabel :: string
  oai_ChainID :: int
  oai_To :: string
  oai_Value :: string
  oai_Data :: string
  oai_Country :: string
  oai_Reasons :: "string list"

text \<open>The summary as JSON text, and the casts to \<^verbatim>\<open>uuid\<close> and \<^verbatim>\<open>jsonb\<close>.\<close>

record approval_sql =
  asq_marshal :: "OpenApprovalRequestInput \<Rightarrow> string option"
  asq_uuid :: "string \<Rightarrow> string option"
  asq_jsonb :: "string \<Rightarrow> string option"

definition coalesce :: "'a option \<Rightarrow> 'a \<Rightarrow> 'a" where
  "coalesce x d = (case x of None \<Rightarrow> d | Some v \<Rightarrow> v)"

text \<open>The \<^verbatim>\<open>INSERT .. ON CONFLICT DO NOTHING\<close> with the casts and constraints of the table.\<close>

definition insert_request ::
  "approval_sql \<Rightarrow> int \<Rightarrow> string \<Rightarrow> OpenApprovalRequestInput \<Rightarrow> string option \<Rightarrow> string \<Rightarrow> string \<Rightarrow> approval_db
     \<Rightarrow> (unit \<times> approval_db) option" where
  "insert_request sql now fresh inp initiator label summary db =
     (case (asq_uuid sql (oai_CustomerID inp), varchar 255 (oai_WorkflowID inp),
            case initiator of None \<Rightarrow> Some None | Some u \<Rightarrow> map_option Some (asq_uuid sql u),
            varchar 255 label, asq_jsonb sql summary) of
        (Some customer, Some workflow, Some initiated_by, Some lbl, Some js) \<Rightarrow>
          (let p = db_policies db customer;
               required = coalesce (Option.bind p fst) 2;
               minutes = coalesce (Option.bind p snd) 60;
               row = \<lparr>row_approval_id = fresh, row_customer_id = customer, row_initiated_by = initiated_by, row_label = lbl,
                 row_required = required, row_status = ''pending'', row_summary = js, row_expires_at = now + minutes * 60 * 1000000,
                 row_decided_at = None\<rparr>
           in if db_requests db workflow \<noteq> None then Some ((), db)
              else if db_customers db customer \<and> (case initiated_by of None \<Rightarrow> True | Some u \<Rightarrow> db_users db u) \<and>
                 1 \<le> required \<and> required \<le> 10 \<and> 0 < minutes
              then Some ((), db\<lparr>db_requests := (db_requests db)(workflow \<mapsto> row)\<rparr>) else None)
      | _ \<Rightarrow> None)"

text \<open>The insertion, then the \<^verbatim>\<open>SELECT\<close> that reads the row back at \<open>later\<close>. A missing database connection is \<^const>\<open>None\<close>.\<close>

definition OpenApprovalRequest ::
  "approval_sql \<Rightarrow> int \<Rightarrow> int \<Rightarrow> string \<Rightarrow> OpenApprovalRequestInput \<Rightarrow> approval_db option
     \<Rightarrow> (string + OpenApprovalRequestResult) \<times> approval_db option" where
  "OpenApprovalRequest sql now later fresh inp dbo =
     (case dbo of
        None \<Rightarrow> (Inl ''no database'', None)
      | Some db \<Rightarrow>
          (case asq_marshal sql inp of
             None \<Rightarrow> (Inl ''json'', Some db)
           | Some summary \<Rightarrow>
               (let initiator = (if oai_InitiatedByUserID inp \<noteq> '''' then Some (oai_InitiatedByUserID inp) else None);
                    label = (if oai_InitiatedByLabel inp = '''' then ''api-key'' else oai_InitiatedByLabel inp)
                in case exec_statement (insert_request sql now fresh inp initiator label summary) db of
                     (None, db1) \<Rightarrow> (Inl ''opening the approval request'', Some db1)
                   | (Some _, db1) \<Rightarrow>
                       (case query (\<lambda>db. db_requests db (oai_WorkflowID inp)) db1 of
                          (Some (Some row), db2) \<Rightarrow>
                            (Inr \<lparr>oar_ApprovalID = row_approval_id row, oar_RequiredApprovals = row_required row,
                               oar_ExpiresInSeconds = max (row_expires_at row - later) 0 div 1000000\<rparr>, Some db2)
                        | (_, db2) \<Rightarrow> (Inl ''reading the approval request back'', Some db2)))))"

text \<open>\<^verbatim>\<open>COUNT(DISTINCT user_id)\<close> over approving rows of people other than the initiator.\<close>

definition approving_users :: "approval_db \<Rightarrow> approval_row \<Rightarrow> string list" where
  "approving_users db r =
     remdups (map dec_user_id (filter (\<lambda>d. dec_approval_id d = row_approval_id r \<and>
       dec_decision d = ''approve'' \<and> Some (dec_user_id d) \<noteq> row_initiated_by r) (db_decisions db)))"

definition GetRecordedApprovalStatus ::
  "string \<Rightarrow> approval_db option \<Rightarrow> (string + RecordedApprovalStatus) \<times> approval_db option" where
  "GetRecordedApprovalStatus workflowID dbo =
     (case dbo of
        None \<Rightarrow> (Inl ''no database'', None)
      | Some db \<Rightarrow>
          (case query (\<lambda>db. map_option (\<lambda>r. \<lparr>ras_Status = row_status r, ras_DistinctApprovals = int (length (approving_users db r)),
                 ras_RequiredApprovals = row_required r\<rparr>) (db_requests db workflowID)) db of
             (None, db1) \<Rightarrow> (Inl ''database error'', Some db1)
           | (Some None, db1) \<Rightarrow> (Inl (''no approval request recorded for '' @ workflowID), Some db1)
           | (Some (Some out), db1) \<Rightarrow> (Inr out, Some db1)))"

definition close_request :: "int \<Rightarrow> string \<Rightarrow> string \<Rightarrow> approval_db \<Rightarrow> (unit \<times> approval_db) option" where
  "close_request now workflowID status db =
     Some ((), db\<lparr>db_requests := (\<lambda>w. case db_requests db w of
       Some r \<Rightarrow> if w = workflowID \<and> row_status r = ''pending''
                 then Some (r\<lparr>row_status := status, row_decided_at := Some now\<rparr>) else Some r
     | None \<Rightarrow> None)\<rparr>)"

text \<open>The error, if any.\<close>

definition CloseApprovalRequest :: "int \<Rightarrow> string \<Rightarrow> string \<Rightarrow> approval_db option \<Rightarrow> string option \<times> approval_db option" where
  "CloseApprovalRequest now workflowID status dbo =
     (case dbo of
        None \<Rightarrow> (Some ''no database'', None)
      | Some db \<Rightarrow>
          if status \<noteq> ''expired'' \<and> status \<noteq> ''rejected'' then (None, Some db)
          else (case exec_statement (close_request now workflowID status) db of
                  (None, db1) \<Rightarrow> (Some ''database error'', Some db1)
                | (Some _, db1) \<Rightarrow> (None, Some db1)))"

section \<open>The count\<close>

definition tally_step :: "string \<Rightarrow> approval_event \<Rightarrow> tally \<Rightarrow> tally" where
  "tally_step initiator e s = (if as_Status (fst s) = ''pending'' then select_event initiator e s else s)"

lemma await_loop_fold:
  "await_loop initiator es s =
     (let s' = fold (tally_step initiator) es s in if as_Status (fst s') = ''pending'' then None else Some s')"
proof (induction es arbitrary: s)
  case (Cons e es)
  have "fold (tally_step initiator) es s = s" if "as_Status (fst s) \<noteq> ''pending''" for es
    using that by (induction es) (simp_all add: tally_step_def)
  then show ?case
    using Cons [of "tally_step initiator e s"]
    by (cases "as_Status (fst s) = ''pending''") (simp_all add: tally_step_def [of initiator e s] Let_def)
qed simp

text \<open>What holds of the state after every event: approvers are distinct people who have been seen,
  never nobody and never the initiator; approval means enough of them, waiting means not enough.\<close>

definition tally_inv :: "string \<Rightarrow> int \<Rightarrow> tally \<Rightarrow> bool" where
  "tally_inv initiator required = (\<lambda>(state, seen).
     distinct (as_ApprovedBy state) \<and> set (as_ApprovedBy state) \<subseteq> seen \<and> '''' \<notin> seen \<and>
     (initiator = '''' \<or> initiator \<notin> seen) \<and> as_RequiredApprovals state = required \<and> 1 \<le> required \<and>
     (as_Status state = ''approved'' \<longrightarrow> int (length (as_ApprovedBy state)) = required) \<and>
     (as_Status state = ''pending'' \<longrightarrow>
        int (length (as_ApprovedBy state)) < required \<and> seen = set (as_ApprovedBy state)))"

lemma tally_inv_step:
  assumes "tally_inv initiator required s"
  shows "tally_inv initiator required (tally_step initiator e s)"
proof (cases s)
  case (Pair state seen)
  then show ?thesis using assms
    by (cases e) (auto simp: tally_inv_def tally_step_def select_event_def applyDecision_def Let_def)
qed

interpretation counting: halting_machine "tally_step initiator" "tally_inv initiator required"
  "\<lambda>s. as_Status (fst s) \<noteq> ''pending''" for initiator required
  by unfold_locales (rule tally_inv_step, assumption, simp add: tally_step_def)

lemma initial_tally_inv: "tally_inv initiator (required_approvals opened) (initial_tally opened)"
  by (simp add: tally_inv_def initial_tally_def required_approvals_def)

lemma await_loop_inv:
  assumes "await_loop initiator es (initial_tally opened) = Some (state, seen)"
  shows "tally_inv initiator (required_approvals opened) (state, seen)"
  using counting.run_inv [OF initial_tally_inv, of initiator opened es] assms
  by (simp add: await_loop_fold Let_def split: if_splits)

text \<open>Everyone counted as approving sent an approving signal.\<close>

definition approved_by :: "approval_event list \<Rightarrow> string set" where
  "approved_by es = {ads_ApproverUserID d | d. Signal d \<in> set es \<and> ads_Decision d = ''approve''}"

lemma step_approvers:
  "set (as_ApprovedBy (fst (tally_step initiator e s))) \<subseteq> set (as_ApprovedBy (fst s)) \<union> approved_by [e]"
proof (cases s)
  case (Pair state seen)
  then show ?thesis
    by (cases e) (auto simp: tally_step_def select_event_def applyDecision_def approved_by_def Let_def)
qed

lemma run_approvers:
  "set (as_ApprovedBy (fst (fold (tally_step initiator) es s))) \<subseteq> set (as_ApprovedBy (fst s)) \<union> approved_by es"
proof (induction es arbitrary: s)
  case (Cons e es)
  have "approved_by (e # es) = approved_by [e] \<union> approved_by es" by (auto simp: approved_by_def)
  with Cons [of "tally_step initiator e s"] step_approvers [of initiator e s] show ?case by auto
qed simp

text \<open>Signals that the count ignores: without a sender, from the initiator, or with an unknown decision.\<close>

definition ineligible :: "string \<Rightarrow> approval_event \<Rightarrow> bool" where
  "ineligible initiator e = (case e of
     Signal d \<Rightarrow> ads_ApproverUserID d = '''' \<or> (initiator \<noteq> '''' \<and> ads_ApproverUserID d = initiator) \<or>
       (ads_Decision d \<noteq> ''approve'' \<and> ads_Decision d \<noteq> ''reject'')
   | TimerFired \<Rightarrow> False)"

lemma tally_step_ineligible: "ineligible initiator e \<Longrightarrow> tally_step initiator e s = s"
  by (cases e; cases s)
    (auto simp: ineligible_def tally_step_def select_event_def applyDecision_def Let_def)

lemma fold_filter_ineligible:
  "fold (tally_step initiator) (filter (\<lambda>e. \<not> ineligible initiator e) es) s = fold (tally_step initiator) es s"
  by (induction es arbitrary: s) (simp_all add: tally_step_ineligible)

lemma awaitApprovals_cong:
  assumes "\<And>s. fold (tally_step initiator) es s = fold (tally_step initiator) fs s"
  shows "awaitApprovals env initiator es = awaitApprovals env initiator fs"
proof -
  have "await_loop initiator es s = await_loop initiator fs s" for s
    by (simp only: await_loop_fold assms)
  then show ?thesis by (simp only: awaitApprovals_def)
qed

lemma awaitApprovals_approved:
  assumes "awaitApprovals env initiator es = (calls, Outcome ''approved'')"
  obtains opened recorded state seen where "env_open env = Inr opened" "env_recorded env = Inr recorded"
    "await_loop initiator es (initial_tally opened) = Some (state, seen)" "as_Status state = ''approved''"
    "ras_Status recorded = ''approved''" "required_approvals opened \<le> ras_DistinctApprovals recorded"
  using assms
  by (auto simp: awaitApprovals_def confirm_outcome_def Let_def split: sum.splits option.splits if_splits)


section \<open>Properties of the count\<close>

lemma approved_approvers:
  assumes "awaitApprovals env initiator es = (calls, Outcome ''approved'')"
  shows "\<exists>opened recorded approvers. env_open env = Inr opened \<and> env_recorded env = Inr recorded \<and>
    distinct approvers \<and> set approvers \<subseteq> approved_by es \<and> '''' \<notin> set approvers \<and>
    (initiator = '''' \<or> initiator \<notin> set approvers) \<and>
    1 \<le> length approvers \<and> oar_RequiredApprovals opened \<le> int (length approvers) \<and>
    ras_Status recorded = ''approved'' \<and> int (length approvers) \<le> ras_DistinctApprovals recorded"
  using assms
proof (rule awaitApprovals_approved)
  fix opened recorded state seen
  assume o: "env_open env = Inr opened" and r: "env_recorded env = Inr recorded"
    and l: "await_loop initiator es (initial_tally opened) = Some (state, seen)"
    and a: "as_Status state = ''approved''" "ras_Status recorded = ''approved''"
      "required_approvals opened \<le> ras_DistinctApprovals recorded"
  have i: "tally_inv initiator (required_approvals opened) (state, seen)" by (rule await_loop_inv [OF l])
  have "fold (tally_step initiator) es (initial_tally opened) = (state, seen)"
    using l by (simp add: await_loop_fold Let_def split: if_splits)
  then have "set (as_ApprovedBy state) \<subseteq> approved_by es"
    using run_approvers [of initiator es "initial_tally opened"] by (simp add: initial_tally_def)
  with i a o r show ?thesis
    by (intro exI [of _ opened] exI [of _ recorded] exI [of _ "as_ApprovedBy state"])
      (auto simp: tally_inv_def required_approvals_def split: if_splits)
qed

text \<open>C1: Dual control. The step approves only if at least the required number of distinct people, and
  at least one, sent an approving signal, none of them the initiator, and the database, read
  afterwards, holds the request as approved with at least as many distinct approvals.\<close>

theorem approval_needs_distinct_approvers:
  assumes "awaitApprovals env initiator es = (calls, Outcome ''approved'')"
  shows "\<exists>opened recorded approvers. env_open env = Inr opened \<and> env_recorded env = Inr recorded \<and>
    distinct approvers \<and> set approvers \<subseteq> approved_by es \<and> '''' \<notin> set approvers \<and>
    (initiator = '''' \<or> initiator \<notin> set approvers) \<and>
    1 \<le> length approvers \<and> oar_RequiredApprovals opened \<le> int (length approvers) \<and>
    ras_Status recorded = ''approved'' \<and> int (length approvers) \<le> ras_DistinctApprovals recorded"
  using assms by (rule approved_approvers)

text \<open>C2: Segregation of duties. Whatever the initiator signals, however often and whenever, and
  whatever is sent without a name or with an unknown decision, changes neither the outcome nor the
  calls the step makes: removing those signals leaves it exactly as it is.\<close>

theorem initiator_has_no_influence:
  "awaitApprovals env initiator (filter (\<lambda>e. \<not> ineligible initiator e) es) = awaitApprovals env initiator es"
  by (rule awaitApprovals_cong) (rule fold_filter_ineligible)

text \<open>The abstract contract: a set of people in favour and a verdict. People vote once; the poll closes
  on the first vote against, on the required number in favour, or on time.\<close>

type_synonym poll = "string set \<times> string"

definition poll_step :: "string \<Rightarrow> int \<Rightarrow> approval_event \<Rightarrow> poll \<Rightarrow> poll" where
  "poll_step initiator required e = (\<lambda>(yes, verdict).
     if verdict \<noteq> ''pending'' then (yes, verdict)
     else case e of
         TimerFired \<Rightarrow> (yes, ''expired'')
       | Signal d \<Rightarrow>
           if ineligible initiator e \<or> ads_ApproverUserID d \<in> yes then (yes, verdict)
           else if ads_Decision d = ''reject'' then (yes, ''rejected'')
           else let yes' = insert (ads_ApproverUserID d) yes in
             (yes', if required \<le> int (card yes') then ''approved'' else ''pending''))"

definition abs_poll :: "tally \<Rightarrow> poll" where
  "abs_poll = (\<lambda>(state, seen). (set (as_ApprovedBy state), as_Status state))"

lemma tally_refines_poll_step:
  assumes "tally_inv initiator required s"
  shows "abs_poll (tally_step initiator e s) = poll_step initiator required e (abs_poll s)"
proof (cases s)
  case (Pair state seen)
  have c: "card (insert u (set (as_ApprovedBy state))) = Suc (length (as_ApprovedBy state))"
    if "u \<notin> set (as_ApprovedBy state)" for u
    using that assms Pair by (simp add: tally_inv_def distinct_card)
  show ?thesis
    using assms Pair c
    by (cases e) (auto simp: abs_poll_def tally_step_def select_event_def applyDecision_def
        poll_step_def ineligible_def tally_inv_def Let_def)
qed

lemma run_refines_poll:
  "tally_inv initiator required s \<Longrightarrow>
     abs_poll (fold (tally_step initiator) es s) = fold (poll_step initiator required) es (abs_poll s)"
  by (induction es arbitrary: s) (simp_all add: tally_refines_poll_step counting.step_inv)

text \<open>The count refines a poll. For every sequence of signals and timer events the workflow's list
  of approvers and its table of people seen behave like a set of people in favour: the verdict is
  that of the abstract poll, and is still open exactly when the poll is.\<close>

theorem await_loop_refines_poll:
  "(case await_loop initiator es (initial_tally opened) of
      None \<Rightarrow> ''pending''
    | Some s \<Rightarrow> as_Status (fst s))
   = snd (fold (poll_step initiator (required_approvals opened)) es ({}, ''pending''))"
proof -
  let ?s = "fold (tally_step initiator) es (initial_tally opened)"
  have "abs_poll ?s = fold (poll_step initiator (required_approvals opened)) es (abs_poll (initial_tally opened))"
    by (rule run_refines_poll [OF initial_tally_inv])
  moreover have "snd (abs_poll ?s) = as_Status (fst ?s)" by (simp add: abs_poll_def split: prod.split)
  ultimately show ?thesis
    by (simp add: await_loop_fold Let_def abs_poll_def initial_tally_def)
qed

lemma fold_timer_ends: "TimerFired \<in> set es \<Longrightarrow> as_Status (fst (fold (tally_step initiator) es s)) \<noteq> ''pending''"
proof -
  assume "TimerFired \<in> set es"
  then obtain a b where es: "es = a @ TimerFired # b" by (auto dest: split_list)
  let ?t = "tally_step initiator TimerFired (fold (tally_step initiator) a s)"
  have "as_Status (fst ?t) \<noteq> ''pending''" by (simp add: tally_step_def select_event_def)
  then show ?thesis using counting.final_run [of ?t initiator b] by (simp add: es)
qed

text \<open>C3: The wait ends. Once the expiry timer has fired the step is never left waiting, whatever was
  signalled before or after.\<close>

theorem approval_step_ends:
  assumes "TimerFired \<in> set es"
  shows "snd (awaitApprovals env initiator es) \<noteq> StillWaiting"
  using fold_timer_ends [OF assms]
  by (auto simp: awaitApprovals_def await_loop_fold Let_def
      split: sum.splits option.splits prod.splits if_splits)

theorem approval_step_ends_witness:
  "snd (awaitApprovals \<lparr>env_open = Inr \<lparr>oar_ApprovalID = ''a'', oar_RequiredApprovals = 2, oar_ExpiresInSeconds = 60\<rparr>,
     env_query_handler = None, env_recorded = Inl ''none'', env_close = (\<lambda>_. None)\<rparr> ''ann'' [TimerFired]) \<noteq> StillWaiting"
  by (rule approval_step_ends) simp

text \<open>One rejection rejects. While the step is still waiting, the first decision of any person
  other than the initiator, when it is a rejection, decides the outcome for good: nothing that
  follows is counted and the record is closed as rejected.\<close>

theorem one_rejection_rejects:
  assumes "env_open env = Inr opened" "env_query_handler env = None" "env_close env ''rejected'' = None"
    and "fold (tally_step initiator) es (initial_tally opened) = (state, seen)" "as_Status state = ''pending''"
    and "ads_Decision d = ''reject''" "\<not> ineligible initiator (Signal d)" "ads_ApproverUserID d \<notin> seen"
  shows "awaitApprovals env initiator (es @ Signal d # fs)
    = ([OpenApprovalCall, CloseApprovalCall ''rejected''], Outcome ''rejected'')"
proof -
  let ?t = "tally_step initiator (Signal d) (state, seen)"
  have t: "as_Status (fst ?t) = ''rejected''"
    using assms(5-8) by (auto simp: tally_step_def select_event_def applyDecision_def ineligible_def Let_def)
  then have "fold (tally_step initiator) (es @ Signal d # fs) (initial_tally opened) = ?t"
    using assms(4) counting.final_run [of ?t initiator fs] by simp
  then show ?thesis
    using assms(1-3) t
    by (auto simp: awaitApprovals_def await_loop_fold Let_def confirm_outcome_def split: prod.split)
qed


section \<open>Properties of the record\<close>

text \<open>Opening is idempotent. After a request has been opened, opening it again, at any later time and even after the
  tenant's policy or the recorded decisions changed or the connection became faulty, changes no request in the database,
  and when it succeeds reports the same identifier, the same number of approvals and the same deadline.\<close>

lemma insert_request_present:
  assumes "insert_request sql now fresh inp i l s db = Some (u, db')"
  shows "\<exists>w. varchar 255 (oai_WorkflowID inp) = Some w \<and> db_requests db' w \<noteq> None"
  using assms by (auto simp: insert_request_def Let_def split: option.splits if_splits)

lemma insert_request_again:
  assumes "varchar 255 (oai_WorkflowID inp) = Some w" "db_requests db w \<noteq> None" "insert_request sql now fresh inp i l s db = Some (u, db')"
  shows "db' = db"
  using assms by (auto simp: insert_request_def Let_def split: option.splits if_splits)

lemma OpenApprovalRequest_Inr:
  assumes "OpenApprovalRequest sql now later fresh inp (Some db) = (Inr r, Some db')"
  obtains w row where "varchar 255 (oai_WorkflowID inp) = Some w" "db_requests db' w \<noteq> None" "db_requests db' (oai_WorkflowID inp) = Some row"
    "r = \<lparr>oar_ApprovalID = row_approval_id row, oar_RequiredApprovals = row_required row,
       oar_ExpiresInSeconds = max (row_expires_at row - later) 0 div 1000000\<rparr>"
proof -
  obtain i l s u db1 where e: "exec_statement (insert_request sql now fresh inp i l s) db = (Some u, db1)"
    and q: "\<exists>row. query (\<lambda>db. db_requests db (oai_WorkflowID inp)) db1 = (Some (Some row), db') \<and>
      r = \<lparr>oar_ApprovalID = row_approval_id row, oar_RequiredApprovals = row_required row,
        oar_ExpiresInSeconds = max (row_expires_at row - later) 0 div 1000000\<rparr>"
    using assms by (auto simp: OpenApprovalRequest_def Let_def split: option.splits prod.splits)
  obtain w where w: "varchar 255 (oai_WorkflowID inp) = Some w" "db_requests db1 w \<noteq> None"
    using insert_request_present [OF exec_statement_Some [OF e]] by blast
  then show ?thesis using q that query_result [of "\<lambda>db. db_requests db (oai_WorkflowID inp)" db1] by fastforce
qed

lemma OpenApprovalRequest_keeps:
  assumes "OpenApprovalRequest sql now later fresh inp (Some db) = (res, dbo)" "varchar 255 (oai_WorkflowID inp) = Some w"
    and "db_requests db w \<noteq> None"
  shows "\<exists>db'. dbo = Some db' \<and> db_requests db' = db_requests db"
proof -
  have e: "db_requests db1 = db_requests db" if "exec_statement (insert_request sql now fresh inp i l s) db = (u, db1)" for i l s u db1
    using exec_statement_effect [OF that]
  proof
    assume "\<exists>x. insert_request sql now fresh inp i l s (db\<lparr>conn_faults := tl (conn_faults db)\<rparr>) = Some (x, db1)"
    then have "db1 = db\<lparr>conn_faults := tl (conn_faults db)\<rparr>" using insert_request_again [OF assms(2)] assms(3) by auto
    then show ?thesis by simp
  qed simp
  have q: "db_requests db2 = db_requests db1" if "query f db1 = (u, db2)" for f :: "approval_db \<Rightarrow> approval_row option" and u db1 db2
    using query_result [OF that] by simp
  show ?thesis
    using assms(1) by (auto simp: OpenApprovalRequest_def Let_def dest!: e q split: option.splits prod.splits)
qed

theorem open_request_idempotent:
  assumes "OpenApprovalRequest sql now later fresh inp (Some db) = (Inr r, Some db1)"
    and "db2 = db1\<lparr>conn_faults := faults, db_policies := policies, db_decisions := decisions\<rparr>"
    and "OpenApprovalRequest sql now2 later2 fresh2 inp (Some db2) = (res, dbo)"
  shows "\<exists>db3 row. dbo = Some db3 \<and> db_requests db3 = db_requests db1 \<and> db_requests db1 (oai_WorkflowID inp) = Some row \<and>
    oar_ExpiresInSeconds r = max (row_expires_at row - later) 0 div 1000000 \<and>
    (\<forall>r2. res = Inr r2 \<longrightarrow> oar_ApprovalID r2 = oar_ApprovalID r \<and> oar_RequiredApprovals r2 = oar_RequiredApprovals r \<and>
       oar_ExpiresInSeconds r2 = max (row_expires_at row - later2) 0 div 1000000)"
proof -
  obtain w row where f: "varchar 255 (oai_WorkflowID inp) = Some w" "db_requests db1 w \<noteq> None" "db_requests db1 (oai_WorkflowID inp) = Some row"
    "r = \<lparr>oar_ApprovalID = row_approval_id row, oar_RequiredApprovals = row_required row,
       oar_ExpiresInSeconds = max (row_expires_at row - later) 0 div 1000000\<rparr>"
    using assms(1) by (rule OpenApprovalRequest_Inr)
  obtain db3 where db3: "dbo = Some db3" "db_requests db3 = db_requests db1"
    using OpenApprovalRequest_keeps [OF assms(3) f(1)] f(2) assms(2) by auto
  have "oar_ApprovalID r2 = oar_ApprovalID r \<and> oar_RequiredApprovals r2 = oar_RequiredApprovals r \<and>
       oar_ExpiresInSeconds r2 = max (row_expires_at row - later2) 0 div 1000000" if res: "res = Inr r2" for r2
    using assms(3) [unfolded db3(1) res] by (rule OpenApprovalRequest_Inr) (use db3(2) f(3,4) in simp)
  then show ?thesis using db3 f(3,4) by auto
qed

lemma length_approving_users:
  "length (approving_users db r) = card {dec_user_id d | d. d \<in> set (db_decisions db) \<and>
     dec_approval_id d = row_approval_id r \<and> dec_decision d = ''approve'' \<and> Some (dec_user_id d) \<noteq> row_initiated_by r}"
proof -
  have "set (approving_users db r) = {dec_user_id d | d. d \<in> set (db_decisions db) \<and>
     dec_approval_id d = row_approval_id r \<and> dec_decision d = ''approve'' \<and> Some (dec_user_id d) \<noteq> row_initiated_by r}"
    by (auto simp: approving_users_def)
  moreover have "distinct (approving_users db r)" by (simp add: approving_users_def)
  ultimately show ?thesis by (metis distinct_card)
qed

lemma recorded_status:
  assumes "fst (GetRecordedApprovalStatus workflowID (Some db)) = Inr out"
  shows "\<exists>row. db_requests db workflowID = Some row \<and> out = \<lparr>ras_Status = row_status row,
    ras_DistinctApprovals = int (length (approving_users db row)), ras_RequiredApprovals = row_required row\<rparr>"
  using assms
  by (auto simp: GetRecordedApprovalStatus_def query_def exec_statement_def approving_users_def Let_def
      split: option.splits prod.splits fault.splits)

text \<open>Signals alone approve nothing. When the re-read is the query on a database state, an approved
  outcome means that this database has the request marked approved and holds approving decisions of
  at least the required number of different people, the recorded initiator not among them.\<close>

theorem approved_only_with_recorded_decisions:
  assumes "awaitApprovals env initiator es = (calls, Outcome ''approved'')"
    and "env_recorded env = fst (GetRecordedApprovalStatus workflowID (Some db))"
  shows "\<exists>opened row. env_open env = Inr opened \<and> db_requests db workflowID = Some row \<and>
    row_status row = ''approved'' \<and>
    max 1 (oar_RequiredApprovals opened) \<le> int (card {dec_user_id d | d. d \<in> set (db_decisions db) \<and>
      dec_approval_id d = row_approval_id row \<and> dec_decision d = ''approve'' \<and>
      Some (dec_user_id d) \<noteq> row_initiated_by row})"
  using assms(1)
proof (rule awaitApprovals_approved)
  fix opened recorded state seen
  assume o: "env_open env = Inr opened" "env_recorded env = Inr recorded"
    "ras_Status recorded = ''approved''" "required_approvals opened \<le> ras_DistinctApprovals recorded"
  obtain row where "db_requests db workflowID = Some row"
    "recorded = \<lparr>ras_Status = row_status row, ras_DistinctApprovals = int (length (approving_users db row)),
       ras_RequiredApprovals = row_required row\<rparr>"
    using recorded_status [of workflowID db] o(2) assms(2) by auto
  then show ?thesis using o
    by (auto simp: required_approvals_def length_approving_users split: if_splits)
qed

text \<open>Closing never undoes a decision. Whatever outcome is reported, only a request that is still
  pending changes, only to expired or rejected, and no other request is touched.\<close>

theorem close_only_pending:
  assumes "CloseApprovalRequest now workflowID status (Some db) = (err, Some db2)" "db_requests db w = Some row"
  shows "\<exists>row2. db_requests db2 w = Some row2 \<and> db_decisions db2 = db_decisions db \<and>
    (row2 = row \<or> (w = workflowID \<and> row_status row = ''pending'' \<and>
       status \<in> {''expired'', ''rejected''} \<and> row2 = row\<lparr>row_status := status, row_decided_at := Some now\<rparr>))"
  using assms
  by (auto simp: CloseApprovalRequest_def close_request_def exec_statement_def Let_def split: if_splits option.splits fault.splits prod.splits)


section \<open>Examples\<close>

definition demo_yes :: "string \<Rightarrow> approval_event" where
  "demo_yes u = Signal \<lparr>ads_ApproverUserID = u, ads_Decision = ''approve''\<rparr>"

definition demo_row :: approval_row where
  "demo_row = \<lparr>row_approval_id = ''a1'', row_customer_id = ''c'', row_initiated_by = Some ''ann'', row_label = ''ann'',
     row_required = 2, row_status = ''approved'', row_summary = ''{}'', row_expires_at = 3600000000, row_decided_at = None\<rparr>"

definition demo_approval_db :: approval_db where
  "demo_approval_db = \<lparr>conn_faults = [], db_requests = [''w'' \<mapsto> demo_row],
     db_decisions = [\<lparr>dec_approval_id = ''a1'', dec_user_id = ''bob'', dec_decision = ''approve''\<rparr>,
       \<lparr>dec_approval_id = ''a1'', dec_user_id = ''eve'', dec_decision = ''approve''\<rparr>],
     db_policies = Map.empty, db_customers = (\<lambda>c. c = ''c''), db_users = (\<lambda>u. u \<in> {''ann'', ''bob'', ''eve''})\<rparr>"

definition demo_env :: approval_env where
  "demo_env = \<lparr>env_open = Inr \<lparr>oar_ApprovalID = ''a1'', oar_RequiredApprovals = 2, oar_ExpiresInSeconds = 3600\<rparr>,
     env_query_handler = None, env_recorded = fst (GetRecordedApprovalStatus ''w'' (Some demo_approval_db)),
     env_close = (\<lambda>_. None)\<rparr>"

lemma demo_approved:
  "awaitApprovals demo_env ''ann'' [demo_yes ''ann'', demo_yes ''bob'', demo_yes ''bob'', demo_yes ''eve'']
     = ([OpenApprovalCall, GetRecordedCall, CloseApprovalCall ''approved''], Outcome ''approved'')"
  by (simp add: awaitApprovals_def demo_env_def initial_tally_def required_approvals_def demo_yes_def
      select_event_def applyDecision_def confirm_outcome_def GetRecordedApprovalStatus_def
      demo_approval_db_def demo_row_def approving_users_def Let_def)

theorem approval_needs_distinct_approvers_witness:
  "\<exists>approvers. distinct approvers \<and> ''ann'' \<notin> set approvers \<and> 2 \<le> int (length approvers) \<and>
     set approvers \<subseteq> approved_by [demo_yes ''ann'', demo_yes ''bob'', demo_yes ''bob'', demo_yes ''eve'']"
proof -
  have "env_open demo_env = Inr \<lparr>oar_ApprovalID = ''a1'', oar_RequiredApprovals = 2, oar_ExpiresInSeconds = 3600\<rparr>"
    by (simp add: demo_env_def)
  then show ?thesis using approval_needs_distinct_approvers [OF demo_approved] by fastforce
qed

theorem approved_only_with_recorded_decisions_witness:
  "\<exists>row. db_requests demo_approval_db ''w'' = Some row \<and> row_status row = ''approved'' \<and>
     2 \<le> int (card {dec_user_id d | d. d \<in> set (db_decisions demo_approval_db) \<and>
      dec_approval_id d = row_approval_id row \<and> dec_decision d = ''approve'' \<and>
      Some (dec_user_id d) \<noteq> row_initiated_by row})"
proof -
  have e: "env_recorded demo_env = fst (GetRecordedApprovalStatus ''w'' (Some demo_approval_db))"
    "env_open demo_env = Inr \<lparr>oar_ApprovalID = ''a1'', oar_RequiredApprovals = 2, oar_ExpiresInSeconds = 3600\<rparr>"
    by (simp_all add: demo_env_def)
  show ?thesis using approved_only_with_recorded_decisions [OF demo_approved e(1)] e(2) by auto
qed

theorem one_rejection_rejects_witness:
  "awaitApprovals demo_env ''ann'' ([demo_yes ''bob''] @
     Signal \<lparr>ads_ApproverUserID = ''eve'', ads_Decision = ''reject''\<rparr> # [demo_yes ''zoe''])
   = ([OpenApprovalCall, CloseApprovalCall ''rejected''], Outcome ''rejected'')"
proof (rule one_rejection_rejects)
  show "env_open demo_env = Inr \<lparr>oar_ApprovalID = ''a1'', oar_RequiredApprovals = 2, oar_ExpiresInSeconds = 3600\<rparr>"
    "env_query_handler demo_env = None" "env_close demo_env ''rejected'' = None"
    by (simp_all add: demo_env_def)
  show "fold (tally_step ''ann'') [demo_yes ''bob''] (initial_tally
      \<lparr>oar_ApprovalID = ''a1'', oar_RequiredApprovals = 2, oar_ExpiresInSeconds = 3600\<rparr>)
    = (\<lparr>as_ApprovalID = ''a1'', as_Status = ''pending'', as_RequiredApprovals = 2,
        as_ApprovedBy = [''bob''], as_RejectedBy = []\<rparr>, {''bob''})"
    by (simp add: demo_yes_def initial_tally_def required_approvals_def tally_step_def select_event_def
        applyDecision_def Let_def)
qed (simp_all add: ineligible_def)

definition demo_approval_sql :: approval_sql where
  "demo_approval_sql = \<lparr>asq_marshal = (\<lambda>_. Some ''{}''), asq_uuid = Some, asq_jsonb = Some\<rparr>"

definition demo_open :: OpenApprovalRequestInput where
  "demo_open = \<lparr>oai_WorkflowID = ''w2'', oai_CustomerID = ''c'', oai_InitiatedByUserID = ''ann'', oai_InitiatedByLabel = [], oai_ChainID = 1,
     oai_To = ''0x1'', oai_Value = ''5'', oai_Data = [], oai_Country = ''CH'', oai_Reasons = []\<rparr>"

lemma demo_opened:
  "\<exists>db1. OpenApprovalRequest demo_approval_sql 0 1000000 ''b1'' demo_open (Some demo_approval_db) =
     (Inr \<lparr>oar_ApprovalID = ''b1'', oar_RequiredApprovals = 2, oar_ExpiresInSeconds = 3599\<rparr>, Some db1) \<and> conn_faults db1 = []"
proof -
  have "varchar 255 ''w2'' = Some ''w2''" "varchar 255 ''api-key'' = Some ''api-key''" by (rule varchar_ascii; simp)+
  then have "exec_statement (insert_request demo_approval_sql 0 ''b1'' demo_open (Some ''ann'') ''api-key'' ''{}'') demo_approval_db =
     (Some (), demo_approval_db\<lparr>db_requests := (db_requests demo_approval_db)(''w2'' \<mapsto> \<lparr>row_approval_id = ''b1'', row_customer_id = ''c'',
        row_initiated_by = Some ''ann'', row_label = ''api-key'', row_required = 2, row_status = ''pending'', row_summary = ''{}'',
        row_expires_at = 3600000000, row_decided_at = None\<rparr>)\<rparr>)"
    by (simp add: exec_statement_fails_clean demo_approval_db_def insert_request_def demo_approval_sql_def demo_open_def coalesce_def Let_def)
  then show ?thesis
    by (simp add: OpenApprovalRequest_def demo_approval_sql_def demo_open_def demo_approval_db_def Let_def)
qed

text \<open>A second attempt a minute later, after the tenant asked for five approvals, reports the terms of the first.\<close>

theorem open_request_idempotent_witness:
  "\<exists>db2 r2 dbo. OpenApprovalRequest demo_approval_sql 60000000 61000000 ''b9'' demo_open (Some db2) = (Inr r2, dbo) \<and>
     db_policies db2 ''c'' = Some (Some 5, None) \<and> oar_ApprovalID r2 = ''b1'' \<and> oar_RequiredApprovals r2 = 2"
proof -
  let ?r = "\<lparr>oar_ApprovalID = ''b1'', oar_RequiredApprovals = 2, oar_ExpiresInSeconds = 3599\<rparr>"
  obtain db1 where open1: "OpenApprovalRequest demo_approval_sql 0 1000000 ''b1'' demo_open (Some demo_approval_db) = (Inr ?r, Some db1)"
    using demo_opened by blast
  let ?db2 = "db1\<lparr>conn_faults := [], db_policies := [''c'' \<mapsto> (Some 5, None)], db_decisions := []\<rparr>"
  obtain w row where f: "varchar 255 (oai_WorkflowID demo_open) = Some w" "db_requests db1 w \<noteq> None"
      "db_requests db1 (oai_WorkflowID demo_open) = Some row" using open1 by (rule OpenApprovalRequest_Inr)
  have "varchar 255 ''api-key'' = Some ''api-key''" by (rule varchar_ascii) simp_all
  then have "insert_request demo_approval_sql 60000000 ''b9'' demo_open (Some ''ann'') ''api-key'' ''{}'' ?db2 = Some ((), ?db2)"
    using f(1,2) by (auto simp: insert_request_def demo_approval_sql_def demo_open_def Let_def)
  then have "exec_statement (insert_request demo_approval_sql 60000000 ''b9'' demo_open (Some ''ann'') ''api-key'' ''{}'') ?db2 = (Some (), ?db2)"
    by (simp add: exec_statement_fails_clean)
  then obtain r2 where open2: "OpenApprovalRequest demo_approval_sql 60000000 61000000 ''b9'' demo_open (Some ?db2) = (Inr r2, Some ?db2)"
    using f(3) by (simp add: OpenApprovalRequest_def demo_approval_sql_def demo_open_def Let_def)
  have "oar_ApprovalID r2 = oar_ApprovalID ?r \<and> oar_RequiredApprovals r2 = oar_RequiredApprovals ?r"
    using open_request_idempotent [OF open1 refl open2] by auto
  then show ?thesis using open2 by (intro exI [of _ ?db2] exI [of _ r2] exI [of _ "Some ?db2"]) simp
qed

theorem close_only_pending_witness:
  "\<exists>row2. db_requests demo_approval_db ''w'' = Some row2 \<and> (row2 = demo_row \<or> row_status demo_row = ''pending'')"
proof -
  have "CloseApprovalRequest 5 ''w'' ''approved'' (Some demo_approval_db) = (None, Some demo_approval_db)"
    by (simp add: CloseApprovalRequest_def)
  moreover have "db_requests demo_approval_db ''w'' = Some demo_row" by (simp add: demo_approval_db_def)
  ultimately show ?thesis using close_only_pending by blast
qed

end
