(* ===== verification/Key_Share.thy ===== *)
theory Key_Share
  imports Eth_Crypto
begin

text \<open>
  A party's key share and where it is kept: \<^verbatim>\<open>services/mpc-party/curve.go\<close> (curves, the tagged share, its
  public key and address), \<^verbatim>\<open>cosmos_address.go\<close>, and the two sealed stores \<^verbatim>\<open>vault_seal.go\<close> and
  \<^verbatim>\<open>file_seal.go\<close>.

  The save data of tss-lib is an abstract type; reading its public point, the hash functions, bech32, base58,
  the JSON codecs and AES-GCM are fields of a library record. Vault is a map from mount and path to an entry,
  the file store a map from path to bytes. The outcome of each call to Vault and to the file system is a field
  of a record given to each operation.
\<close>

section \<open>Curves\<close>

definition CurveSecp256k1 :: string where "CurveSecp256k1 = ''secp256k1''"
definition CurveEd25519 :: string where "CurveEd25519 = ''ed25519''"

datatype share_error =
    NoCurveForChain string
  | UnknownCurve string
  | NoPublicKey
  | NeedsSecp256k1 string
  | NotCompressed nat
  | NoPrefix
  | Bech32Fails
  | PointPanics eth_error
  | ShareNotJson
  | NoCurveTag
  | TagWithoutData
  | NoKeyFile
  | KeyFileStat
  | KeyFileWorldReadable nat
  | KeyFileInsideStore
  | KeyFileRead
  | KeyFileSize
  | BadFileName string
  | ShareMarshal
  | CipherKey
  | NoRandom
  | FileWrite
  | NoSealedFile
  | NotSealedFile
  | MalformedFile
  | DoesNotOpen
  | ContextNotJson
  | VaultClient
  | VaultWrite
  | VaultRead
  | NothingAtPath
  | MalformedEntry
  | SealingNotConfigured
  | NothingToRestoreFrom
  | WrongCurveShare string
  | FileStat
  | FileRemove
  | VaultDestroy

definition CurveForChain :: "string \<Rightarrow> share_error + string" where
  "CurveForChain blockchain =
     (if blockchain \<in> {''ethereum'', ''polygon'', ''arbitrum'', ''optimism'', ''base'', ''bsc'', ''avalanche''} then Inr CurveSecp256k1
      else if blockchain \<in> {''bitcoin'', ''bitcoin-testnet'', ''bitcoin-regtest''} then Inr CurveSecp256k1
      else if blockchain \<in> {''cosmos'', ''cosmos-hub'', ''osmosis''} then Inr CurveSecp256k1
      else if blockchain = ''solana'' then Inr CurveEd25519
      else Inl (NoCurveForChain blockchain))"

datatype elliptic = S256 | Edwards

definition ellipticCurve :: "string \<Rightarrow> share_error + elliptic" where
  "ellipticCurve c =
     (if c = CurveSecp256k1 then Inr S256 else if c = CurveEd25519 then Inr Edwards else Inl (UnknownCurve c))"


section \<open>Key shares\<close>

record 'sd KeyShare =
  ks_Curve :: string
  ks_ECDSA :: "'sd option"
  ks_EdDSA :: "'sd option"

record CeremonyContext =
  cc_Threshold :: int
  cc_TotalParties :: int
  cc_Curve :: string
  cc_Epoch :: int
  cc_PublicKeyHex :: string
  cc_Address :: string

record sealedFile =
  sf_Version :: int
  sf_Nonce :: string
  sf_Data :: string

record sealedPayload =
  sp_PartyID :: int
  sp_CeremonyID :: string
  sp_SaveData :: string
  sp_CeremonyContext :: string

record 'sd share_lib =
  sh_btcec :: btcec
  sd_pub :: "'sd \<Rightarrow> (nat \<times> nat) option"
  ed_serialize :: "nat \<Rightarrow> nat \<Rightarrow> bytes"
  base58_encode :: "bytes \<Rightarrow> string"
  hash_sha256 :: "bytes \<Rightarrow> bytes"
  ripemd160 :: "bytes \<Rightarrow> bytes"
  bech32_convert :: "bytes \<Rightarrow> bytes option"
  bech32_encode :: "string \<Rightarrow> bytes \<Rightarrow> string option"
  json_share :: "'sd KeyShare \<Rightarrow> string option"
  unjson_share :: "string \<Rightarrow> 'sd KeyShare option"
  json_cc :: "CeremonyContext \<Rightarrow> string"
  unjson_cc :: "string \<Rightarrow> CeremonyContext option"
  json_payload :: "sealedPayload \<Rightarrow> bytes"
  unjson_payload :: "bytes \<Rightarrow> sealedPayload option"
  json_file :: "sealedFile \<Rightarrow> bytes"
  unjson_file :: "bytes \<Rightarrow> sealedFile option"
  gcm_seal :: "bytes \<Rightarrow> bytes \<Rightarrow> bytes \<Rightarrow> bytes \<Rightarrow> bytes"
  gcm_open :: "bytes \<Rightarrow> bytes \<Rightarrow> bytes \<Rightarrow> bytes \<Rightarrow> bytes option"

text \<open>\<^verbatim>\<open>k.ECDSA == nil || k.ECDSA.ECDSAPub == nil\<close>, and the same for EdDSA.\<close>

definition pub_point :: "'sd share_lib \<Rightarrow> 'sd option \<Rightarrow> (nat \<times> nat) option" where
  "pub_point lib sd = Option.bind sd (sd_pub lib)"

definition PublicKey :: "'sd share_lib \<Rightarrow> 'sd KeyShare \<Rightarrow> share_error + (string \<times> string)" where
  "PublicKey lib k =
     (if ks_Curve k = CurveSecp256k1 then
        (case pub_point lib (ks_ECDSA k) of
           None \<Rightarrow> Inl NoPublicKey
         | Some (x, y) \<Rightarrow>
             res_bind (res_err PointPanics (MarshalPubkey x y)) (\<lambda>m.
             res_bind (res_err PointPanics (Address (sh_btcec lib) x y)) (\<lambda>a. Inr (hex_encode m, a))))
      else if ks_Curve k = CurveEd25519 then
        (case pub_point lib (ks_EdDSA k) of
           None \<Rightarrow> Inl NoPublicKey
         | Some (x, y) \<Rightarrow> (let e = ed_serialize lib x y in Inr (hex_encode e, base58_encode lib e)))
      else Inl (UnknownCurve (ks_Curve k)))"

definition cosmosPrefixes :: "string \<Rightarrow> string option" where
  "cosmosPrefixes = [''cosmos'' \<mapsto> ''cosmos'', ''cosmos-hub'' \<mapsto> ''cosmos'', ''osmosis'' \<mapsto> ''osmo'']"

definition CosmosAddress :: "'sd share_lib \<Rightarrow> bytes \<Rightarrow> string \<Rightarrow> share_error + string" where
  "CosmosAddress lib compressed prefix =
     (if length compressed \<noteq> 33 then Inl (NotCompressed (length compressed))
      else if prefix = '''' then Inl NoPrefix
      else case bech32_convert lib (ripemd160 lib (hash_sha256 lib compressed)) of
             None \<Rightarrow> Inl Bech32Fails
           | Some conv \<Rightarrow> (case bech32_encode lib prefix conv of None \<Rightarrow> Inl Bech32Fails | Some s \<Rightarrow> Inr s))"

definition AddressFor :: "'sd share_lib \<Rightarrow> 'sd KeyShare \<Rightarrow> string \<Rightarrow> string \<Rightarrow> share_error + string" where
  "AddressFor lib k blockchain fallback =
     (case cosmosPrefixes blockchain of
        None \<Rightarrow> Inr fallback
      | Some prefix \<Rightarrow>
          if ks_Curve k \<noteq> CurveSecp256k1 then Inl (NeedsSecp256k1 blockchain)
          else (case pub_point lib (ks_ECDSA k) of
                  None \<Rightarrow> Inl (NeedsSecp256k1 blockchain)
                | Some (x, y) \<Rightarrow>
                    res_bind (res_err PointPanics (CompressPubkey x y)) (\<lambda>c. CosmosAddress lib c prefix)))"

definition MarshalShare :: "'sd share_lib \<Rightarrow> 'sd KeyShare \<Rightarrow> share_error + string" where
  "MarshalShare lib share = (case json_share lib share of None \<Rightarrow> Inl ShareMarshal | Some s \<Rightarrow> Inr s)"

definition UnmarshalShare :: "'sd share_lib \<Rightarrow> string \<Rightarrow> share_error + 'sd KeyShare" where
  "UnmarshalShare lib raw =
     (case unjson_share lib raw of
        None \<Rightarrow> Inl ShareNotJson
      | Some share \<Rightarrow>
          if ks_Curve share = '''' then Inl NoCurveTag
          else if ks_Curve share = CurveSecp256k1 then
            (if ks_ECDSA share = None then Inl TagWithoutData else Inr share)
          else if ks_Curve share = CurveEd25519 then
            (if ks_EdDSA share = None then Inl TagWithoutData else Inr share)
          else Inl (UnknownCurve (ks_Curve share)))"


section \<open>The encrypted file store\<close>

definition sealedFileVersion :: int where "sealedFileVersion = 1"

record fileShareConfig =
  fc_dir :: string
  fc_keyFile :: string

text \<open>The host: what the environment variables, the file system and the key file hold.\<close>

record host =
  getenv :: "string \<Rightarrow> string"
  file_mode :: "string \<Rightarrow> nat option"
  file_abs :: "string \<Rightarrow> string option"
  file_bytes :: "string \<Rightarrow> bytes option"
  path_clean :: "string \<Rightarrow> string"

record io =
  io_vault_client :: bool
  io_vault_put :: bool
  io_vault_get :: bool
  io_vault_delete :: bool
  io_nonce :: "bytes option"
  io_mkdir :: bool
  io_temp :: bool
  io_chmod :: bool
  io_write :: bool
  io_sync :: bool
  io_close :: bool
  io_rename :: bool
  io_read :: bool
  io_stat :: bool
  io_open :: bool
  io_remove :: bool

record vault_entry =
  ve_party_id :: int
  ve_ceremony_id :: string
  ve_curve :: string
  ve_save_data :: string
  ve_ceremony_context :: "string option"

text \<open>Entries of the Vault are found by mount and path as the party writes them.\<close>

record store =
  st_vault :: "string \<times> string \<Rightarrow> vault_entry option option"
  st_files :: "string \<Rightarrow> bytes option"

definition fileShareConfigFromEnv :: "host \<Rightarrow> fileShareConfig option" where
  "fileShareConfigFromEnv h =
     (let dir = trim_space (getenv h ''SHARE_STORE_DIR'')
      in if dir = '''' then None
         else Some \<lparr>fc_dir = dir, fc_keyFile = trim_space (getenv h ''SHARE_STORE_KEY_FILE'')\<rparr>)"

text \<open>A key file whose mode gives other users any access is refused, and so is one inside the store.\<close>

definition inside_store :: "host \<Rightarrow> fileShareConfig \<Rightarrow> bool" where
  "inside_store h c =
     (case (file_abs h (fc_keyFile c), file_abs h (fc_dir c)) of
        (Some key, Some dir) \<Rightarrow> take (Suc (length dir)) key = dir @ ''/''
      | _ \<Rightarrow> False)"

definition loadShareKey :: "host \<Rightarrow> fileShareConfig \<Rightarrow> share_error + bytes" where
  "loadShareKey h c =
     (if fc_keyFile c = '''' then Inl NoKeyFile
      else case file_mode h (fc_keyFile c) of
             None \<Rightarrow> Inl KeyFileStat
           | Some mode \<Rightarrow>
               if mode mod 8 \<noteq> 0 then Inl (KeyFileWorldReadable mode)
               else if inside_store h c then Inl KeyFileInsideStore
               else case file_bytes h (fc_keyFile c) of
                      None \<Rightarrow> Inl KeyFileRead
                    | Some raw \<Rightarrow>
                        (let trimmed = trim_space (bytes_str raw);
                             rest = (if length raw = 32 then Inr raw else Inl KeyFileSize)
                         in if length trimmed = 64
                            then (case hex_decode trimmed of Some k \<Rightarrow> Inr k | None \<Rightarrow> rest)
                            else rest))"

definition fits_file_name :: "string \<Rightarrow> bool" where
  "fits_file_name s \<longleftrightarrow> s \<noteq> '''' \<and> CHR ''/'' \<notin> set s \<and> CHR 0x5C \<notin> set s \<and> CHR 0x00 \<notin> set s \<and>
     s \<noteq> ''.'' \<and> s \<noteq> ''..''"

text \<open>\<^verbatim>\<open>filepath.Join\<close> of the directory and two components that need no cleaning themselves.\<close>

definition file_join :: "host \<Rightarrow> string \<Rightarrow> string \<Rightarrow> string" where
  "file_join h dir p =
     (let c = path_clean h dir in
      if c = ''.'' then p else if c = ''/'' then ''/'' @ p else c @ ''/'' @ p)"

definition file_path :: "host \<Rightarrow> fileShareConfig \<Rightarrow> int \<Rightarrow> string \<Rightarrow> share_error + string" where
  "file_path h c partyID ceremonyID =
     (if \<not> fits_file_name ceremonyID then Inl (BadFileName ceremonyID)
      else Inr (file_join h (fc_dir c) (''party-'' @ dec_int partyID @ ''/'' @ ceremonyID @ ''.sealed'')))"

definition shareAAD :: "int \<Rightarrow> string \<Rightarrow> bytes" where
  "shareAAD partyID ceremonyID =
     str_bytes (''openfireblocks-share-v'' @ dec_int sealedFileVersion @ ''|party-'' @ dec_int partyID @ ''|'' @ ceremonyID)"

definition newGCM :: "bytes \<Rightarrow> share_error + bytes" where
  "newGCM key = (if length key \<in> {16, 24, 32} then Inr key else Inl CipherKey)"

definition gcm_NonceSize :: nat where "gcm_NonceSize = 12"

definition seal_payload ::
  "'sd share_lib \<Rightarrow> int \<Rightarrow> string \<Rightarrow> 'sd KeyShare \<Rightarrow> CeremonyContext option \<Rightarrow> share_error + bytes" where
  "seal_payload lib partyID ceremonyID share cc =
     res_bind (MarshalShare lib share) (\<lambda>raw.
       Inr (json_payload lib \<lparr>sp_PartyID = partyID, sp_CeremonyID = ceremonyID, sp_SaveData = raw,
              sp_CeremonyContext = (case cc of None \<Rightarrow> '''' | Some c \<Rightarrow> json_cc lib c)\<rparr>))"

text \<open>The temporary file is renamed over the target last, so a failure leaves the store as it was.\<close>

definition sealShareToFile ::
  "'sd share_lib \<Rightarrow> host \<Rightarrow> io \<Rightarrow> fileShareConfig \<Rightarrow> int \<Rightarrow> string \<Rightarrow> 'sd KeyShare \<Rightarrow> CeremonyContext option
     \<Rightarrow> store \<Rightarrow> share_error + store" where
  "sealShareToFile lib h io cfg partyID ceremonyID share cc st =
     res_bind (loadShareKey h cfg) (\<lambda>key.
     res_bind (file_path h cfg partyID ceremonyID) (\<lambda>path.
     res_bind (seal_payload lib partyID ceremonyID share cc) (\<lambda>plain.
     res_bind (newGCM key) (\<lambda>key.
     case io_nonce io of
       None \<Rightarrow> Inl NoRandom
     | Some nonce \<Rightarrow>
         (let out = json_file lib \<lparr>sf_Version = sealedFileVersion, sf_Nonce = hex_encode nonce,
                      sf_Data = hex_encode (gcm_seal lib key nonce plain (shareAAD partyID ceremonyID))\<rparr>
          in if \<not> (io_mkdir io \<and> io_temp io \<and> io_chmod io \<and> io_write io \<and> io_sync io \<and> io_close io \<and> io_rename io)
             then Inl FileWrite
             else Inr (st\<lparr>st_files := (st_files st)(path \<mapsto> out)\<rparr>))))))"

definition parse_context :: "'sd share_lib \<Rightarrow> string \<Rightarrow> share_error + CeremonyContext option" where
  "parse_context lib raw =
     (if raw = '''' then Inr None
      else case unjson_cc lib raw of None \<Rightarrow> Inl ContextNotJson | Some cc \<Rightarrow> Inr (Some cc))"

definition open_sealed ::
  "'sd share_lib \<Rightarrow> bytes \<Rightarrow> int \<Rightarrow> string \<Rightarrow> bytes \<Rightarrow> share_error + sealedPayload" where
  "open_sealed lib key partyID ceremonyID blob =
     (case unjson_file lib blob of
        None \<Rightarrow> Inl NotSealedFile
      | Some f \<Rightarrow>
          if sf_Version f \<noteq> sealedFileVersion then Inl NotSealedFile
          else case (hex_decode (sf_Nonce f), hex_decode (sf_Data f), newGCM key) of
                 (Some nonce, Some data, Inr key) \<Rightarrow>
                   if length nonce \<noteq> gcm_NonceSize then Inl MalformedFile
                   else (case gcm_open lib key nonce data (shareAAD partyID ceremonyID) of
                           None \<Rightarrow> Inl DoesNotOpen
                         | Some plain \<Rightarrow>
                             (case unjson_payload lib plain of
                                None \<Rightarrow> Inl MalformedFile
                              | Some p \<Rightarrow> if sp_PartyID p \<noteq> partyID \<or> sp_CeremonyID p \<noteq> ceremonyID
                                         then Inl MalformedFile else Inr p))
               | _ \<Rightarrow> Inl MalformedFile)"

definition loadShareFromFile ::
  "'sd share_lib \<Rightarrow> host \<Rightarrow> io \<Rightarrow> fileShareConfig \<Rightarrow> int \<Rightarrow> string \<Rightarrow> store
     \<Rightarrow> share_error + ('sd KeyShare \<times> CeremonyContext option)" where
  "loadShareFromFile lib h io cfg partyID ceremonyID st =
     res_bind (loadShareKey h cfg) (\<lambda>key.
     res_bind (file_path h cfg partyID ceremonyID) (\<lambda>path.
     case (if io_read io then st_files st path else None) of
       None \<Rightarrow> Inl NoSealedFile
     | Some blob \<Rightarrow>
         res_bind (open_sealed lib key partyID ceremonyID blob) (\<lambda>p.
         res_bind (UnmarshalShare lib (sp_SaveData p)) (\<lambda>share.
         res_bind (parse_context lib (sp_CeremonyContext p)) (\<lambda>cc. Inr (share, cc))))))"

definition retireShareFile ::
  "host \<Rightarrow> io \<Rightarrow> fileShareConfig \<Rightarrow> int \<Rightarrow> string \<Rightarrow> store \<Rightarrow> (share_error + unit) \<times> store" where
  "retireShareFile h io cfg partyID ceremonyID st =
     (case file_path h cfg partyID ceremonyID of
        Inl e \<Rightarrow> (Inl e, st)
      | Inr path \<Rightarrow>
          (case st_files st path of
             None \<Rightarrow> if io_stat io then (Inr (), st) else (Inl FileStat, st)
           | Some b \<Rightarrow>
               if \<not> io_stat io then (Inl FileStat, st)
               else (let st = (if io_open io \<and> io_write io
                               then st\<lparr>st_files := (st_files st)(path \<mapsto> replicate (length b) 0)\<rparr> else st)
                     in if io_remove io then (Inr (), st\<lparr>st_files := (st_files st)(path := None)\<rparr>)
                        else (Inl FileRemove, st))))"


section \<open>Vault\<close>

record vaultShareConfig =
  vc_addr :: string
  vc_token :: string
  vc_mount :: string
  vc_keyPath :: string

definition orDefaultVault :: "string \<Rightarrow> string \<Rightarrow> string" where
  "orDefaultVault v def = (if v = '''' then def else v)"

definition vaultShareConfigFromEnv :: "host \<Rightarrow> int \<Rightarrow> string \<Rightarrow> vaultShareConfig option" where
  "vaultShareConfigFromEnv h partyID ceremonyID =
     (if getenv h ''VAULT_ADDR'' = '''' then None
      else Some \<lparr>vc_addr = getenv h ''VAULT_ADDR'', vc_token = getenv h ''VAULT_TOKEN'',
             vc_mount = orDefaultVault (getenv h ''VAULT_KV_MOUNT'') ''secret'',
             vc_keyPath = orDefaultVault (getenv h ''VAULT_KEY_SHARE_PATH'') ''openfireblocks/mpc-party''
               @ ''/party-'' @ dec_int partyID @ ''/'' @ ceremonyID\<rparr>)"

definition SealKeyShareWithContext ::
  "'sd share_lib \<Rightarrow> host \<Rightarrow> io \<Rightarrow> int \<Rightarrow> string \<Rightarrow> 'sd KeyShare \<Rightarrow> CeremonyContext option \<Rightarrow> store
     \<Rightarrow> share_error + (bool \<times> store)" where
  "SealKeyShareWithContext lib h io partyID ceremonyID share cc st =
     (case vaultShareConfigFromEnv h partyID ceremonyID of
        None \<Rightarrow>
          (case fileShareConfigFromEnv h of
             Some fcfg \<Rightarrow> res_bind (sealShareToFile lib h io fcfg partyID ceremonyID share cc st) (\<lambda>st. Inr (True, st))
           | None \<Rightarrow> Inr (False, st))
      | Some cfg \<Rightarrow>
          if \<not> io_vault_client io then Inl VaultClient
          else res_bind (MarshalShare lib share) (\<lambda>raw.
            if \<not> io_vault_put io then Inl VaultWrite
            else Inr (True, st\<lparr>st_vault := (st_vault st)((vc_mount cfg, vc_keyPath cfg) \<mapsto>
                   Some \<lparr>ve_party_id = partyID, ve_ceremony_id = ceremonyID, ve_curve = ks_Curve share,
                         ve_save_data = raw, ve_ceremony_context = map_option (json_cc lib) cc\<rparr>)\<rparr>)))"

definition SealKeyShare ::
  "'sd share_lib \<Rightarrow> host \<Rightarrow> io \<Rightarrow> int \<Rightarrow> string \<Rightarrow> 'sd KeyShare \<Rightarrow> store \<Rightarrow> share_error + (bool \<times> store)" where
  "SealKeyShare lib h io partyID ceremonyID share st = SealKeyShareWithContext lib h io partyID ceremonyID share None st"

definition vault_read :: "io \<Rightarrow> vaultShareConfig \<Rightarrow> store \<Rightarrow> share_error + vault_entry" where
  "vault_read io cfg st =
     (if \<not> io_vault_client io then Inl VaultClient
      else case (if io_vault_get io then st_vault st (vc_mount cfg, vc_keyPath cfg) else None) of
             None \<Rightarrow> Inl VaultRead
           | Some None \<Rightarrow> Inl NothingAtPath
           | Some (Some e) \<Rightarrow> if ve_save_data e = '''' then Inl MalformedEntry else Inr e)"

definition LoadKeyShare ::
  "'sd share_lib \<Rightarrow> host \<Rightarrow> io \<Rightarrow> int \<Rightarrow> string \<Rightarrow> store \<Rightarrow> share_error + 'sd" where
  "LoadKeyShare lib h io partyID ceremonyID st =
     (case vaultShareConfigFromEnv h partyID ceremonyID of
        None \<Rightarrow> Inl SealingNotConfigured
      | Some cfg \<Rightarrow>
          res_bind (vault_read io cfg st) (\<lambda>e.
          res_bind (UnmarshalShare lib (ve_save_data e)) (\<lambda>share.
            case ks_ECDSA share of
              None \<Rightarrow> Inl (WrongCurveShare (ks_Curve share))
            | Some sd \<Rightarrow> if ks_Curve share \<noteq> CurveSecp256k1 then Inl (WrongCurveShare (ks_Curve share)) else Inr sd)))"

definition LoadSealedShare ::
  "'sd share_lib \<Rightarrow> host \<Rightarrow> io \<Rightarrow> int \<Rightarrow> string \<Rightarrow> store
     \<Rightarrow> share_error + ('sd KeyShare \<times> CeremonyContext option)" where
  "LoadSealedShare lib h io partyID ceremonyID st =
     (case vaultShareConfigFromEnv h partyID ceremonyID of
        None \<Rightarrow>
          (case fileShareConfigFromEnv h of
             Some fcfg \<Rightarrow> loadShareFromFile lib h io fcfg partyID ceremonyID st
           | None \<Rightarrow> Inl NothingToRestoreFrom)
      | Some cfg \<Rightarrow>
          res_bind (vault_read io cfg st) (\<lambda>e.
          res_bind (UnmarshalShare lib (ve_save_data e)) (\<lambda>share.
          res_bind (case ve_ceremony_context e of None \<Rightarrow> Inr None | Some raw \<Rightarrow> parse_context lib raw) (\<lambda>cc.
            Inr (share, cc)))))"

definition RetireSealedShare ::
  "host \<Rightarrow> io \<Rightarrow> int \<Rightarrow> string \<Rightarrow> store \<Rightarrow> (share_error + bool) \<times> store" where
  "RetireSealedShare h io partyID ceremonyID st =
     (case vaultShareConfigFromEnv h partyID ceremonyID of
        None \<Rightarrow>
          (case fileShareConfigFromEnv h of
             Some fcfg \<Rightarrow>
               (case retireShareFile h io fcfg partyID ceremonyID st of
                  (Inl e, st) \<Rightarrow> (Inl e, st)
                | (Inr _, st) \<Rightarrow> (Inr True, st))
           | None \<Rightarrow> (Inr False, st))
      | Some cfg \<Rightarrow>
          if \<not> io_vault_client io then (Inl VaultClient, st)
          else if \<not> io_vault_delete io then (Inl VaultDestroy, st)
          else (Inr True, st\<lparr>st_vault := (st_vault st)((vc_mount cfg, vc_keyPath cfg) := None)\<rparr>))"

section \<open>Distinct names\<close>

lemma no_char_in_dec_int:
  assumes "\<not> is_digit c" "c \<noteq> CHR ''-''"
  shows "c \<notin> set (dec_int x)"
proof -
  have "c \<notin> set (dec_nat n)" for n
    using dec_nat_digits [of n] assms(1) by (auto simp: list_all_iff)
  then show ?thesis using assms(2) by (simp add: dec_int_def)
qed

lemma party_name_inj:
  assumes "\<not> is_digit c" "c \<noteq> CHR ''-''" "dec_int p @ c # a = dec_int q @ c # b"
  shows "p = q \<and> a = b"
  using append_sep_inj [OF no_char_in_dec_int no_char_in_dec_int assms(3)] assms(1,2) by (auto dest: dec_int_inj)

lemma shareAAD_inj: "shareAAD p c = shareAAD q d \<Longrightarrow> p = q \<and> c = d"
proof -
  assume "shareAAD p c = shareAAD q d"
  then have "dec_int p @ CHR ''|'' # c = dec_int q @ CHR ''|'' # d"
    unfolding shareAAD_def by (auto dest!: str_bytes_inj)
  then show ?thesis by (rule party_name_inj [rotated 2]) (simp_all add: is_digit_def)
qed

lemma file_path_inj:
  assumes "file_path h cfg p c = Inr x" "file_path h cfg q d = Inr x"
  shows "p = q \<and> c = d"
proof -
  have "dec_int p @ CHR ''/'' # c @ ''.sealed'' = dec_int q @ CHR ''/'' # d @ ''.sealed''"
    using assms by (auto simp: file_path_def file_join_def Let_def split: if_splits)
  then have "p = q \<and> c @ ''.sealed'' = d @ ''.sealed''"
    by (rule party_name_inj [rotated 2]) (simp_all add: is_digit_def)
  then show ?thesis by simp
qed

lemma vault_path_inj:
  assumes "vaultShareConfigFromEnv h p c = Some x" "vaultShareConfigFromEnv h q d = Some y" "vc_keyPath x = vc_keyPath y"
  shows "p = q \<and> c = d"
proof -
  have "dec_int p @ CHR ''/'' # c = dec_int q @ CHR ''/'' # d"
    using assms by (auto simp: vaultShareConfigFromEnv_def split: if_splits)
  then show ?thesis by (rule party_name_inj [rotated 2]) (simp_all add: is_digit_def)
qed

lemma loadShareKey_32: "loadShareKey h cfg = Inr key \<Longrightarrow> length key = 32"
  by (auto simp: loadShareKey_def Let_def dest: hex_decode_length split: if_splits option.splits)


section \<open>The contract of a sealed store\<close>

datatype ('e, 'k, 'v) keeper_op = Put 'e 'k 'v | Del 'e 'k

fun last_kept :: "'k \<Rightarrow> 'v option \<Rightarrow> ('e, 'k, 'v) keeper_op list \<Rightarrow> 'v option" where
  "last_kept k v [] = v"
| "last_kept k v (Put e k' x # ops) = last_kept k (if k = k' then Some x else v) ops"
| "last_kept k v (Del e k' # ops) = last_kept k (if k = k' then None else v) ops"

fun keeper_step :: "('e \<Rightarrow> 'k \<Rightarrow> 'v \<Rightarrow> 's \<Rightarrow> 's) \<Rightarrow> ('e \<Rightarrow> 'k \<Rightarrow> 's \<Rightarrow> 's) \<Rightarrow> ('e, 'k, 'v) keeper_op \<Rightarrow> 's \<Rightarrow> 's" where
  "keeper_step put del (Put e k v) s = put e k v s"
| "keeper_step put del (Del e k) s = del e k s"

fun keeper_op_ok :: "('e \<Rightarrow> bool) \<Rightarrow> ('k \<Rightarrow> bool) \<Rightarrow> ('v \<Rightarrow> bool) \<Rightarrow> ('e, 'k, 'v) keeper_op \<Rightarrow> bool" where
  "keeper_op_ok env_ok key_ok val_ok (Put e k v) \<longleftrightarrow> env_ok e \<and> key_ok k \<and> val_ok v"
| "keeper_op_ok env_ok key_ok val_ok (Del e k) \<longleftrightarrow> env_ok e \<and> key_ok k"

locale share_keeper =
  fixes put :: "'e \<Rightarrow> 'k \<Rightarrow> 'v \<Rightarrow> 's \<Rightarrow> 's" and del :: "'e \<Rightarrow> 'k \<Rightarrow> 's \<Rightarrow> 's" and get :: "'e \<Rightarrow> 'k \<Rightarrow> 's \<Rightarrow> 'v option"
    and env_ok :: "'e \<Rightarrow> bool" and key_ok :: "'k \<Rightarrow> bool" and val_ok :: "'v \<Rightarrow> bool"
  assumes get_put: "env_ok e \<Longrightarrow> env_ok e' \<Longrightarrow> key_ok k \<Longrightarrow> val_ok v \<Longrightarrow> get e' k (put e k v s) = Some v"
    and get_put_other: "env_ok e \<Longrightarrow> env_ok e' \<Longrightarrow> key_ok k \<Longrightarrow> key_ok k' \<Longrightarrow> k \<noteq> k' \<Longrightarrow>
      get e' k' (put e k v s) = get e' k' s"
    and get_del: "env_ok e \<Longrightarrow> env_ok e' \<Longrightarrow> key_ok k \<Longrightarrow> get e' k (del e k s) = None"
    and get_del_other: "env_ok e \<Longrightarrow> env_ok e' \<Longrightarrow> key_ok k \<Longrightarrow> key_ok k' \<Longrightarrow> k \<noteq> k' \<Longrightarrow>
      get e' k' (del e k s) = get e' k' s"
begin

lemma get_run:
  "env_ok e' \<Longrightarrow> key_ok k \<Longrightarrow> list_all (keeper_op_ok env_ok key_ok val_ok) ops \<Longrightarrow>
     get e' k (fold (keeper_step put del) ops s) = last_kept k (get e' k s) ops"
proof (induction ops arbitrary: s)
  case (Cons op ops)
  then show ?case by (cases op) (auto simp: get_put get_put_other get_del get_del_other)
qed simp

lemma deleted_stays_deleted:
  assumes "env_ok e'" "env_ok e" "key_ok k" "list_all (keeper_op_ok env_ok key_ok val_ok) ops"
    "\<forall>e k' v. Put e k' v \<in> set ops \<longrightarrow> k' \<noteq> k"
  shows "get e' k (fold (keeper_step put del) ops (del e k s)) = None"
proof -
  have "last_kept k None ops = None"
    using assms(5)
  proof (induction ops)
    case (Cons op ops)
    then show ?case by (cases op) auto
  qed simp
  then show ?thesis using assms(1-4) by (simp add: get_run get_del)
qed

end

text \<open>Both stores fulfil the contract. The laws of the codecs and of AES-GCM that they rely on, and that a store
  is configured and its key readable, are part of the condition on the key.\<close>

definition codec_ok :: "'sd share_lib \<Rightarrow> bool" where
  "codec_ok lib \<longleftrightarrow>
     (\<forall>share s. json_share lib share = Some s \<longrightarrow> s \<noteq> '''' \<and> unjson_share lib s = Some share) \<and>
     (\<forall>cc. json_cc lib cc \<noteq> '''' \<and> unjson_cc lib (json_cc lib cc) = Some cc) \<and>
     (\<forall>p. unjson_payload lib (json_payload lib p) = Some p) \<and>
     (\<forall>f. unjson_file lib (json_file lib f) = Some f) \<and>
     (\<forall>key nonce plain aad. gcm_open lib key nonce (gcm_seal lib key nonce plain aad) aad = Some plain)"

definition store_ready :: "'sd share_lib \<Rightarrow> host \<Rightarrow> string \<Rightarrow> bool" where
  "store_ready lib h ceremonyID \<longleftrightarrow> codec_ok lib \<and>
     (getenv h ''VAULT_ADDR'' \<noteq> '''' \<or>
      (\<exists>cfg key. fileShareConfigFromEnv h = Some cfg \<and> loadShareKey h cfg = Inr key \<and> fits_file_name ceremonyID))"

definition io_ok :: "io \<Rightarrow> bool" where
  "io_ok io \<longleftrightarrow> io_vault_client io \<and> io_vault_put io \<and> io_vault_get io \<and> io_vault_delete io \<and>
     (case io_nonce io of None \<Rightarrow> False | Some n \<Rightarrow> length n = gcm_NonceSize) \<and>
     io_mkdir io \<and> io_temp io \<and> io_chmod io \<and> io_write io \<and> io_sync io \<and> io_close io \<and> io_rename io \<and>
     io_read io \<and> io_stat io \<and> io_open io \<and> io_remove io"

definition tagged :: "'sd share_lib \<Rightarrow> 'sd KeyShare \<Rightarrow> bool" where
  "tagged lib share \<longleftrightarrow> json_share lib share \<noteq> None \<and>
     (ks_Curve share = CurveSecp256k1 \<and> ks_ECDSA share \<noteq> None \<or> ks_Curve share = CurveEd25519 \<and> ks_EdDSA share \<noteq> None)"

definition put_share ::
  "'sd share_lib \<Rightarrow> host \<Rightarrow> io \<Rightarrow> int \<times> string \<Rightarrow> 'sd KeyShare \<times> CeremonyContext option \<Rightarrow> store \<Rightarrow> store" where
  "put_share lib h io k v st =
     (case SealKeyShareWithContext lib h io (fst k) (snd k) (fst v) (snd v) st of Inl _ \<Rightarrow> st | Inr (_, st') \<Rightarrow> st')"

definition get_share ::
  "'sd share_lib \<Rightarrow> host \<Rightarrow> io \<Rightarrow> int \<times> string \<Rightarrow> store \<Rightarrow> ('sd KeyShare \<times> CeremonyContext option) option" where
  "get_share lib h io k st = (case LoadSealedShare lib h io (fst k) (snd k) st of Inl _ \<Rightarrow> None | Inr v \<Rightarrow> Some v)"

definition del_share :: "host \<Rightarrow> io \<Rightarrow> int \<times> string \<Rightarrow> store \<Rightarrow> store" where
  "del_share h io k st = snd (RetireSealedShare h io (fst k) (snd k) st)"

lemma UnmarshalShare_tagged:
  assumes "codec_ok lib" "tagged lib share"
  obtains raw where "json_share lib share = Some raw" "raw \<noteq> ''''" "UnmarshalShare lib raw = Inr share"
proof -
  obtain raw where r: "json_share lib share = Some raw" using assms(2) by (auto simp: tagged_def)
  then have "raw \<noteq> ''''" "unjson_share lib raw = Some share" using assms(1) by (auto simp: codec_ok_def)
  then show ?thesis
    using that r assms(2) by (auto simp: UnmarshalShare_def tagged_def CurveSecp256k1_def CurveEd25519_def)
qed

lemma parse_context_json: "codec_ok lib \<Longrightarrow>
  parse_context lib (case cc of None \<Rightarrow> '''' | Some c \<Rightarrow> json_cc lib c) = Inr cc"
  by (cases cc) (auto simp: parse_context_def codec_ok_def)

lemma open_sealed_file:
  assumes "codec_ok lib" "length key = 32" "length nonce = gcm_NonceSize"
  shows "open_sealed lib key p c (json_file lib \<lparr>sf_Version = sealedFileVersion, sf_Nonce = hex_encode nonce,
      sf_Data = hex_encode (gcm_seal lib key nonce (json_payload lib \<lparr>sp_PartyID = p, sp_CeremonyID = c,
        sp_SaveData = raw, sp_CeremonyContext = ctx\<rparr>) (shareAAD p c))\<rparr>)
    = Inr \<lparr>sp_PartyID = p, sp_CeremonyID = c, sp_SaveData = raw, sp_CeremonyContext = ctx\<rparr>"
  using assms by (simp add: open_sealed_def codec_ok_def newGCM_def)

lemma vault_configured:
  "getenv h ''VAULT_ADDR'' \<noteq> '''' \<Longrightarrow> \<exists>cfg. vaultShareConfigFromEnv h p c = Some cfg \<and>
     vc_mount cfg = orDefaultVault (getenv h ''VAULT_KV_MOUNT'') ''secret''"
  by (simp add: vaultShareConfigFromEnv_def)

lemma vault_unconfigured: "getenv h ''VAULT_ADDR'' = '''' \<Longrightarrow> vaultShareConfigFromEnv h p c = None"
  by (simp add: vaultShareConfigFromEnv_def)

text \<open>What sealing and retiring do to the store, and what loading reads from it, per backend.\<close>

lemma put_share_vault:
  assumes "vaultShareConfigFromEnv h (fst k) (snd k) = Some cfg" "io_ok io" "json_share lib (fst v) = Some raw"
  shows "put_share lib h io k v st = st\<lparr>st_vault := (st_vault st)((vc_mount cfg, vc_keyPath cfg) \<mapsto>
     Some \<lparr>ve_party_id = fst k, ve_ceremony_id = snd k, ve_curve = ks_Curve (fst v),
           ve_save_data = raw, ve_ceremony_context = map_option (json_cc lib) (snd v)\<rparr>)\<rparr>"
  using assms by (simp add: put_share_def SealKeyShareWithContext_def MarshalShare_def io_ok_def)

lemma put_share_file:
  assumes "getenv h ''VAULT_ADDR'' = ''''" "fileShareConfigFromEnv h = Some cfg" "loadShareKey h cfg = Inr key"
    "file_path h cfg (fst k) (snd k) = Inr path" "io_ok io" "io_nonce io = Some nonce" "json_share lib (fst v) = Some raw"
  shows "put_share lib h io k v st = st\<lparr>st_files := (st_files st)(path \<mapsto>
     json_file lib \<lparr>sf_Version = sealedFileVersion, sf_Nonce = hex_encode nonce,
      sf_Data = hex_encode (gcm_seal lib key nonce (json_payload lib \<lparr>sp_PartyID = fst k, sp_CeremonyID = snd k,
        sp_SaveData = raw, sp_CeremonyContext = (case snd v of None \<Rightarrow> '''' | Some c \<Rightarrow> json_cc lib c)\<rparr>)
        (shareAAD (fst k) (snd k)))\<rparr>)\<rparr>"
  using assms loadShareKey_32 [OF assms(3)]
  by (simp add: put_share_def SealKeyShareWithContext_def vault_unconfigured sealShareToFile_def seal_payload_def
      MarshalShare_def newGCM_def io_ok_def Let_def)

lemma put_share_fails:
  "json_share lib (fst v) = None \<Longrightarrow> put_share lib h io k v st = st"
  by (auto simp: put_share_def SealKeyShareWithContext_def sealShareToFile_def seal_payload_def MarshalShare_def
      split: option.splits sum.splits simp: res_bind_def)

lemma store_backend:
  assumes "store_ready lib h c"
  obtains (vault) "getenv h ''VAULT_ADDR'' \<noteq> ''''"
  | (files) cfg key where "getenv h ''VAULT_ADDR'' = ''''" "fileShareConfigFromEnv h = Some cfg"
      "loadShareKey h cfg = Inr key" "fits_file_name c"
  using assms by (auto simp: store_ready_def)

lemma file_path_fits: "fits_file_name c \<Longrightarrow> \<exists>path. file_path h cfg p c = Inr path"
  by (simp add: file_path_def)

lemma get_share_vault:
  assumes "vaultShareConfigFromEnv h (fst k) (snd k) = Some cfg" "io_ok io"
  shows "get_share lib h io k st =
    (case st_vault st (vc_mount cfg, vc_keyPath cfg) of
       Some (Some e) \<Rightarrow>
         if ve_save_data e = '''' then None
         else (case UnmarshalShare lib (ve_save_data e) of
                 Inl _ \<Rightarrow> None
               | Inr share \<Rightarrow>
                   (case (case ve_ceremony_context e of None \<Rightarrow> Inr None | Some raw \<Rightarrow> parse_context lib raw) of
                      Inl _ \<Rightarrow> None | Inr cc \<Rightarrow> Some (share, cc)))
     | _ \<Rightarrow> None)"
  using assms by (auto simp: get_share_def LoadSealedShare_def vault_read_def io_ok_def res_bind_def split: option.splits sum.splits)

lemma get_share_file:
  assumes "getenv h ''VAULT_ADDR'' = ''''" "fileShareConfigFromEnv h = Some cfg" "loadShareKey h cfg = Inr key"
    "file_path h cfg (fst k) (snd k) = Inr path" "io_ok io"
  shows "get_share lib h io k st =
    (case st_files st path of
       None \<Rightarrow> None
     | Some blob \<Rightarrow>
         (case res_bind (open_sealed lib key (fst k) (snd k) blob) (\<lambda>p.
               res_bind (UnmarshalShare lib (sp_SaveData p)) (\<lambda>share.
               res_bind (parse_context lib (sp_CeremonyContext p)) (\<lambda>cc. Inr (share, cc)))) of
            Inl _ \<Rightarrow> None | Inr v \<Rightarrow> Some v))"
  using assms by (auto simp: get_share_def LoadSealedShare_def vault_unconfigured loadShareFromFile_def io_ok_def split: option.splits)

lemma put_same:
  assumes "io_ok e" "io_ok e'" "store_ready lib h (snd k)" "tagged lib (fst v)"
  shows "get_share lib h e' k (put_share lib h e k v st) = Some v"
proof -
  have codec: "codec_ok lib" using assms(3) by (simp add: store_ready_def)
  obtain raw where raw: "json_share lib (fst v) = Some raw" "raw \<noteq> ''''" "UnmarshalShare lib raw = Inr (fst v)"
    by (rule UnmarshalShare_tagged [OF codec assms(4)])
  from assms(3) show ?thesis
  proof (cases rule: store_backend)
    case vault
    then obtain cfg where "vaultShareConfigFromEnv h (fst k) (snd k) = Some cfg" using vault_configured by blast
    then show ?thesis
      using raw codec assms(1,2) parse_context_json [OF codec, of "snd v"]
      by (cases v) (auto simp: put_share_vault get_share_vault split: option.splits)
  next
    case (files cfg key)
    then obtain path where p: "file_path h cfg (fst k) (snd k) = Inr path" using file_path_fits by blast
    obtain nonce where n: "io_nonce e = Some nonce" "length nonce = gcm_NonceSize"
      using assms(1) by (auto simp: io_ok_def split: option.splits)
    show ?thesis
      by (simp add: put_share_file [OF files(1-3) p assms(1) n(1) raw(1)] get_share_file [OF files(1-3) p assms(2)]
          open_sealed_file [OF codec loadShareKey_32 [OF files(3)] n(2)] raw(3) parse_context_json [OF codec])
  qed
qed

lemma put_other:
  assumes "io_ok e" "io_ok e'" "store_ready lib h (snd k)" "store_ready lib h (snd k')" "k \<noteq> k'"
  shows "get_share lib h e' k' (put_share lib h e k v st) = get_share lib h e' k' st"
proof (cases "json_share lib (fst v)")
  case None
  then show ?thesis by (simp add: put_share_fails)
next
  case (Some raw)
  from assms(3) show ?thesis
  proof (cases rule: store_backend)
    case vault
    then obtain cfg cfg' where c: "vaultShareConfigFromEnv h (fst k) (snd k) = Some cfg"
      "vaultShareConfigFromEnv h (fst k') (snd k') = Some cfg'" using vault_configured by metis
    then have "vc_keyPath cfg \<noteq> vc_keyPath cfg'"
      using vault_path_inj [OF c] assms(5) by (auto simp: prod_eq_iff)
    then show ?thesis
      by (simp add: put_share_vault [where raw = raw, OF c(1) assms(1) Some] get_share_vault [OF c(2) assms(2)])
  next
    case (files cfg key)
    then have f': "fits_file_name (snd k')" using assms(4) by (simp add: store_ready_def)
    obtain path path' where p: "file_path h cfg (fst k) (snd k) = Inr path" "file_path h cfg (fst k') (snd k') = Inr path'"
      using files(4) f' file_path_fits by metis
    then have "path \<noteq> path'" using file_path_inj [of h cfg "fst k" "snd k" path "fst k'" "snd k'"] assms(5)
      by (auto simp: prod_eq_iff)
    obtain nonce where n: "io_nonce e = Some nonce" using assms(1) by (auto simp: io_ok_def split: option.splits)
    show ?thesis
      using \<open>path \<noteq> path'\<close>
      by (simp add: put_share_file [OF files(1-3) p(1) assms(1) n Some] get_share_file [OF files(1-3) p(2) assms(2)])
  qed
qed

lemma del_share_vault:
  assumes "vaultShareConfigFromEnv h (fst k) (snd k) = Some cfg" "io_ok io"
  shows "del_share h io k st = st\<lparr>st_vault := (st_vault st)((vc_mount cfg, vc_keyPath cfg) := None)\<rparr>"
  using assms by (simp add: del_share_def RetireSealedShare_def io_ok_def)

lemma del_share_file:
  assumes "getenv h ''VAULT_ADDR'' = ''''" "fileShareConfigFromEnv h = Some cfg"
    "file_path h cfg (fst k) (snd k) = Inr path" "io_ok io"
  shows "st_files (del_share h io k st) = (st_files st)(path := None)"
  using assms by (auto simp: del_share_def RetireSealedShare_def vault_unconfigured retireShareFile_def io_ok_def
      Let_def fun_upd_idem split: option.splits)

lemma del_same:
  assumes "io_ok e" "io_ok e'" "store_ready lib h (snd k)"
  shows "get_share lib h e' k (del_share h e k st) = None"
  using assms(3)
proof (cases rule: store_backend)
  case vault
  then obtain cfg where c: "vaultShareConfigFromEnv h (fst k) (snd k) = Some cfg" using vault_configured by blast
  show ?thesis by (simp add: del_share_vault [OF c assms(1)] get_share_vault [OF c assms(2)])
next
  case (files cfg key)
  then obtain path where p: "file_path h cfg (fst k) (snd k) = Inr path" using file_path_fits by blast
  show ?thesis by (simp add: get_share_file [OF files(1-3) p assms(2)] del_share_file [OF files(1,2) p assms(1)])
qed

lemma del_other:
  assumes "io_ok e" "io_ok e'" "store_ready lib h (snd k)" "store_ready lib h (snd k')" "k \<noteq> k'"
  shows "get_share lib h e' k' (del_share h e k st) = get_share lib h e' k' st"
  using assms(3)
proof (cases rule: store_backend)
  case vault
  then obtain cfg cfg' where c: "vaultShareConfigFromEnv h (fst k) (snd k) = Some cfg"
    "vaultShareConfigFromEnv h (fst k') (snd k') = Some cfg'" using vault_configured by metis
  then have "vc_keyPath cfg \<noteq> vc_keyPath cfg'"
    using vault_path_inj [OF c] assms(5) by (auto simp: prod_eq_iff)
  then show ?thesis by (simp add: del_share_vault [OF c(1) assms(1)] get_share_vault [OF c(2) assms(2)])
next
  case (files cfg key)
  then have f': "fits_file_name (snd k')" using assms(4) by (simp add: store_ready_def)
  obtain path path' where p: "file_path h cfg (fst k) (snd k) = Inr path" "file_path h cfg (fst k') (snd k') = Inr path'"
    using files(4) f' file_path_fits by metis
  then have "path \<noteq> path'" using file_path_inj [of h cfg "fst k" "snd k" path "fst k'" "snd k'"] assms(5)
    by (auto simp: prod_eq_iff)
  then show ?thesis
    by (simp add: get_share_file [OF files(1-3) p(2) assms(2)] del_share_file [OF files(1,2) p(1) assms(1)])
qed

interpretation shares: share_keeper "put_share lib h" "del_share h" "get_share lib h" io_ok
  "\<lambda>k. store_ready lib h (snd k)" "\<lambda>v. tagged lib (fst v)"
  by unfold_locales (rule put_same put_other del_same del_other; assumption)+


section \<open>Properties of the sealed stores\<close>

text \<open>C38: A share is where it was last put. After any sequence of seals and retirements that reach the store,
  for any parties and ceremonies, loading a ceremony's share returns exactly the share and context last
  sealed under that party and ceremony, and nothing when it has been retired since; operations on other parties
  and ceremonies do not matter. It holds for Vault and for the encrypted file store.\<close>

theorem sealed_share_history:
  assumes "io_ok io" "store_ready lib h ceremonyID"
    and "list_all (keeper_op_ok io_ok (\<lambda>k. store_ready lib h (snd k)) (\<lambda>v. tagged lib (fst v))) ops"
    and "last_kept (partyID, ceremonyID) (get_share lib h io (partyID, ceremonyID) st) ops = kept"
  shows "(case kept of
      Some v \<Rightarrow> LoadSealedShare lib h io partyID ceremonyID (fold (keeper_step (put_share lib h) (del_share h)) ops st) = Inr v
    | None \<Rightarrow> \<exists>e. LoadSealedShare lib h io partyID ceremonyID (fold (keeper_step (put_share lib h) (del_share h)) ops st) = Inl e)"
proof -
  have "get_share lib h io (partyID, ceremonyID) (fold (keeper_step (put_share lib h) (del_share h)) ops st) = kept"
    using shares.get_run [OF assms(1) _ assms(3), where k = "(partyID, ceremonyID)" and s = st] assms(2,4) by simp
  then show ?thesis by (auto simp: get_share_def split: option.splits sum.splits)
qed

text \<open>A sealed file is no other party's share. A file sealed for one party and ceremony, put at the path of
  another party or ceremony under the same key, does not open there, because AES-GCM opens a ciphertext only
  with the associated data it was sealed with.\<close>

theorem foreign_sealed_file_refused:
  assumes codec: "codec_ok lib"
    and binding: "\<forall>key nonce plain aad aad'. aad' \<noteq> aad \<longrightarrow> gcm_open lib key nonce (gcm_seal lib key nonce plain aad) aad' = None"
    and key: "loadShareKey h cfg = Inr key" and io: "io_ok io"
    and seal: "sealShareToFile lib h io cfg p c share cc st = Inr sealed" "file_path h cfg p c = Inr path"
    and move: "(p, c) \<noteq> (q, d)" "file_path h cfg q d = Inr target"
      "st_files moved target = st_files sealed path"
  shows "loadShareFromFile lib h io cfg q d moved = Inl DoesNotOpen"
proof -
  obtain nonce where n: "io_nonce io = Some nonce" "length nonce = gcm_NonceSize"
    using io by (auto simp: io_ok_def split: option.splits)
  obtain plain where f: "st_files sealed path = Some (json_file lib \<lparr>sf_Version = sealedFileVersion,
      sf_Nonce = hex_encode nonce, sf_Data = hex_encode (gcm_seal lib key nonce plain (shareAAD p c))\<rparr>)"
    using seal key n by (auto simp: sealShareToFile_def newGCM_def Let_def res_simps split: if_splits)
  have "shareAAD q d \<noteq> shareAAD p c" using move(1) shareAAD_inj by blast
  then have "open_sealed lib key q d (json_file lib \<lparr>sf_Version = sealedFileVersion,
      sf_Nonce = hex_encode nonce, sf_Data = hex_encode (gcm_seal lib key nonce plain (shareAAD p c))\<rparr>) = Inl DoesNotOpen"
    using codec binding n(2) loadShareKey_32 [OF key] by (simp add: open_sealed_def codec_ok_def newGCM_def)
  then show ?thesis
    using key move io f by (simp add: loadShareFromFile_def io_ok_def)
qed

section \<open>Examples\<close>

definition demo_enc_nat :: "nat option \<Rightarrow> string" where
  "demo_enc_nat x = enc_str (case x of None \<Rightarrow> '''' | Some n \<Rightarrow> dec_nat n)"

definition demo_dec_nat :: "string \<Rightarrow> nat option" where
  "demo_dec_nat s = (if s = '''' then None else Some (digits_nat s))"

lemma demo_dec_enc_nat [simp]: "demo_dec_nat (case x of None \<Rightarrow> '''' | Some n \<Rightarrow> dec_nat n) = x"
  by (cases x) (simp_all add: demo_dec_nat_def)

text \<open>A lawful library on numbers as save data; its cipher keeps the associated data beside the text.\<close>

definition demo_share_lib :: "nat share_lib" where
  "demo_share_lib = \<lparr>sh_btcec = demo_lib, sd_pub = (\<lambda>n. Some (n, 7)), ed_serialize = (\<lambda>x y. nat_bytes x),
     base58_encode = hex_encode, hash_sha256 = id, ripemd160 = id, bech32_convert = Some,
     bech32_encode = (\<lambda>p b. Some (p @ hex_encode b)),
     json_share = (\<lambda>k. Some (enc_str (ks_Curve k) @ demo_enc_nat (ks_ECDSA k) @ demo_enc_nat (ks_EdDSA k))),
     unjson_share = (\<lambda>t. let (c, t) = dec_str t; (a, t) = dec_str t; (b, t) = dec_str t in
       Some \<lparr>ks_Curve = c, ks_ECDSA = demo_dec_nat a, ks_EdDSA = demo_dec_nat b\<rparr>),
     json_cc = (\<lambda>c. enc_str (dec_int (cc_Threshold c)) @ enc_str (dec_int (cc_TotalParties c)) @ enc_str (cc_Curve c)
       @ enc_str (dec_int (cc_Epoch c)) @ enc_str (cc_PublicKeyHex c) @ cc_Address c),
     unjson_cc = (\<lambda>t. let (a, t) = dec_str t; (b, t) = dec_str t; (c, t) = dec_str t; (d, t) = dec_str t; (e, t) = dec_str t in
       case (big_dec a, big_dec b, big_dec d) of
         (Some a, Some b, Some d) \<Rightarrow> Some \<lparr>cc_Threshold = a, cc_TotalParties = b, cc_Curve = c, cc_Epoch = d,
           cc_PublicKeyHex = e, cc_Address = t\<rparr>
       | _ \<Rightarrow> None),
     json_payload = (\<lambda>p. str_bytes (enc_str (dec_int (sp_PartyID p)) @ enc_str (sp_CeremonyID p) @ enc_str (sp_SaveData p)
       @ sp_CeremonyContext p)),
     unjson_payload = (\<lambda>b. let (a, t) = dec_str (bytes_str b); (c, t) = dec_str t; (s, t) = dec_str t in
       map_option (\<lambda>a. \<lparr>sp_PartyID = a, sp_CeremonyID = c, sp_SaveData = s, sp_CeremonyContext = t\<rparr>) (big_dec a)),
     json_file = (\<lambda>f. str_bytes (enc_str (dec_int (sf_Version f)) @ enc_str (sf_Nonce f) @ sf_Data f)),
     unjson_file = (\<lambda>b. let (a, t) = dec_str (bytes_str b); (n, t) = dec_str t in
       map_option (\<lambda>a. \<lparr>sf_Version = a, sf_Nonce = n, sf_Data = t\<rparr>) (big_dec a)),
     gcm_seal = (\<lambda>k n p a. str_bytes (enc_str (bytes_str a) @ bytes_str p)),
     gcm_open = (\<lambda>k n d a. let (a', t) = dec_str (bytes_str d) in if a' = bytes_str a then Some (str_bytes t) else None)\<rparr>"

lemma demo_codec_ok: "codec_ok demo_share_lib"
  by (simp add: codec_ok_def demo_share_lib_def demo_enc_nat_def)

lemma bytes_str_inj: "bytes_str a = bytes_str b \<Longrightarrow> a = b"
  by (metis str_bytes_bytes_str)

lemma demo_gcm_binding:
  "\<forall>key nonce plain aad aad'. aad' \<noteq> aad \<longrightarrow>
     gcm_open demo_share_lib key nonce (gcm_seal demo_share_lib key nonce plain aad) aad' = None"
  by (auto simp: demo_share_lib_def dest: bytes_str_inj)

definition demo_io :: io where
  "demo_io = \<lparr>io_vault_client = True, io_vault_put = True, io_vault_get = True, io_vault_delete = True,
     io_nonce = Some (replicate 12 0), io_mkdir = True, io_temp = True, io_chmod = True, io_write = True, io_sync = True,
     io_close = True, io_rename = True, io_read = True, io_stat = True, io_open = True, io_remove = True\<rparr>"

definition demo_host :: host where
  "demo_host = \<lparr>getenv = (\<lambda>v. if v = ''SHARE_STORE_DIR'' then ''/shares'' else if v = ''SHARE_STORE_KEY_FILE'' then ''/key'' else ''''),
     file_mode = (\<lambda>_. Some 256), file_abs = Some, file_bytes = (\<lambda>_. Some (replicate 32 5)), path_clean = id\<rparr>"

definition demo_cfg :: fileShareConfig where
  "demo_cfg = \<lparr>fc_dir = ''/shares'', fc_keyFile = ''/key''\<rparr>"

definition demo_share :: "nat KeyShare" where
  "demo_share = \<lparr>ks_Curve = CurveSecp256k1, ks_ECDSA = Some 9, ks_EdDSA = None\<rparr>"

definition demo_cc :: CeremonyContext where
  "demo_cc = \<lparr>cc_Threshold = 1, cc_TotalParties = 3, cc_Curve = CurveSecp256k1, cc_Epoch = 0, cc_PublicKeyHex = ''04'', cc_Address = ''0x''\<rparr>"

definition empty_store :: store where
  "empty_store = \<lparr>st_vault = (\<lambda>_. None), st_files = (\<lambda>_. None)\<rparr>"

lemma demo_io_ok: "io_ok demo_io"
  by (simp add: io_ok_def demo_io_def gcm_NonceSize_def)

lemma demo_config: "fileShareConfigFromEnv demo_host = Some demo_cfg"
  by code_simp

lemma demo_key: "loadShareKey demo_host demo_cfg = Inr (replicate 32 5)"
  by code_simp

lemma demo_ready: "fits_file_name c \<Longrightarrow> store_ready demo_share_lib demo_host c"
  using demo_config demo_key by (auto simp: store_ready_def demo_codec_ok)

lemma demo_tagged: "tagged demo_share_lib demo_share"
  by (simp add: tagged_def demo_share_lib_def demo_share_def)

theorem sealed_share_history_witness:
  "LoadSealedShare demo_share_lib demo_host demo_io 1 ''k1''
     (fold (keeper_step (put_share demo_share_lib demo_host) (del_share demo_host))
        [Put demo_io (1, ''k1'') (demo_share, Some demo_cc), Del demo_io (2, ''k1'')] empty_store) = Inr (demo_share, Some demo_cc)"
proof -
  have r: "store_ready demo_share_lib demo_host ''k1''" by (rule demo_ready) (simp add: fits_file_name_def)
  show ?thesis
    using sealed_share_history [OF demo_io_ok r, where partyID = 1 and st = empty_store
        and ops = "[Put demo_io (1, ''k1'') (demo_share, Some demo_cc), Del demo_io (2, ''k1'')]"]
    by (simp add: r demo_io_ok demo_tagged)
qed

theorem foreign_sealed_file_refused_witness:
  "\<exists>sealed. sealShareToFile demo_share_lib demo_host demo_io demo_cfg 1 ''k1'' demo_share (Some demo_cc) empty_store = Inr sealed \<and>
     loadShareFromFile demo_share_lib demo_host demo_io demo_cfg 2 ''k1''
       (empty_store\<lparr>st_files := [''/shares/party-2/k1.sealed'' \<mapsto> the (st_files sealed ''/shares/party-1/k1.sealed'')]\<rparr>)
     = Inl DoesNotOpen"
proof -
  have p: "file_path demo_host demo_cfg 1 ''k1'' = Inr ''/shares/party-1/k1.sealed''"
    "file_path demo_host demo_cfg 2 ''k1'' = Inr ''/shares/party-2/k1.sealed''" by code_simp+
  obtain sealed where s: "sealShareToFile demo_share_lib demo_host demo_io demo_cfg 1 ''k1'' demo_share (Some demo_cc) empty_store
      = Inr sealed" and f: "st_files sealed ''/shares/party-1/k1.sealed'' \<noteq> None"
    using demo_io_ok demo_key p(1) demo_tagged
    by (auto simp: sealShareToFile_def seal_payload_def MarshalShare_def newGCM_def tagged_def Let_def demo_io_def)
  have "loadShareFromFile demo_share_lib demo_host demo_io demo_cfg 2 ''k1''
       (empty_store\<lparr>st_files := [''/shares/party-2/k1.sealed'' \<mapsto> the (st_files sealed ''/shares/party-1/k1.sealed'')]\<rparr>)
     = Inl DoesNotOpen"
    by (rule foreign_sealed_file_refused [OF demo_codec_ok demo_gcm_binding demo_key demo_io_ok s p(1) _ p(2)]) (use f in auto)
  with s show ?thesis by blast
qed

end
