(* ===== verification/Ceremony_Auth.thy ===== *)
theory Ceremony_Auth
  imports Go_Text
begin

text \<open>
  Who may start a ceremony and who may speak in one: \<^verbatim>\<open>services/mpc-party/authorizer.go\<close> (the party's
  verifier), \<^verbatim>\<open>services/temporal-worker/activities/ceremony_authorization.go\<close> (the worker's signer) and
  \<^verbatim>\<open>services/mpc-party/peer_identity.go\<close> (the sender of a protocol message).

  Signature schemes, SHA-256, key parsing, base64 and the JSON codec are fields of a library record.
  Times are nanoseconds since the epoch. Environment values are ASCII text.
\<close>

section \<open>The request that is signed\<close>

record AuthorizationRequest =
  ar_Operation :: string
  ar_CeremonyID :: string
  ar_MessageHash :: string
  ar_IssuedAt :: int

definition newline :: char where "newline = CHR 0x0A"

definition canonical :: "AuthorizationRequest \<Rightarrow> bytes" where
  "canonical r = str_bytes (str_join [newline]
     [''openfireblocks-authorization-v1'', ar_Operation r, ar_CeremonyID r, ar_MessageHash r, dec_int (ar_IssuedAt r)])"

datatype 'k spki = EcdsaKey string 'k | OtherKey

record 'k auth_lib =
  ed25519_verify :: "bytes \<Rightarrow> bytes \<Rightarrow> bytes \<Rightarrow> bool"
  ecdsa_verify :: "'k \<Rightarrow> bytes \<Rightarrow> bytes \<Rightarrow> bool"
  sha256 :: "bytes \<Rightarrow> bytes"
  parse_spki :: "bytes \<Rightarrow> 'k spki option"
  base64_decode :: "string \<Rightarrow> bytes option"
  base64_encode :: "bytes \<Rightarrow> string"
  auth_marshal :: "AuthorizationRequest \<Rightarrow> string"
  auth_unmarshal :: "string \<Rightarrow> AuthorizationRequest option"


section \<open>The party's verifier\<close>

record 'k Authorizer =
  au_algorithm :: string
  au_ed25519 :: bytes
  au_p256 :: "'k option"
  au_maxAge :: int

datatype auth_error =
    KeyNotHexOrBase64
  | Ed25519KeySize nat
  | NotDerKey
  | NotP256Key
  | UnknownAlgorithm string
  | NoOperationOrCeremony
  | TooOld int
  | FromTheFuture int
  | SignatureNotHex
  | DoesNotVerify
  | NoneSupplied
  | NotReadable
  | WrongOperation string
  | WrongCeremony string
  | DifferentMessage
  | VerifyPanics

definition second :: int where "second = 10 ^ 9"

definition decodeKeyBytes :: "'k auth_lib \<Rightarrow> string \<Rightarrow> auth_error + bytes" where
  "decodeKeyBytes lib s =
     (case hex_decode (trim_prefix ''0x'' s) of
        Some (b # bs) \<Rightarrow> Inr (b # bs)
      | _ \<Rightarrow> (case base64_decode lib s of None \<Rightarrow> Inl KeyNotHexOrBase64 | Some b \<Rightarrow> Inr b))"

text \<open>The age limit: five minutes, or the configured number of seconds when it scans as a positive
  number. The product with a second is a \<^verbatim>\<open>time.Duration\<close>, 64 bits wide.\<close>

definition env_maxAge :: "(string \<Rightarrow> string) \<Rightarrow> int" where
  "env_maxAge getenv =
     (let v = trim_space (getenv ''CEREMONY_AUTHORIZER_MAX_AGE_SECONDS'')
      in if v = '''' then 300 * second
         else (case sscan_int v of
                 None \<Rightarrow> 300 * second
               | Some s \<Rightarrow> if 0 < s then i64 (s * second) else 300 * second))"

definition AuthorizerFromEnv ::
  "'k auth_lib \<Rightarrow> (string \<Rightarrow> string) \<Rightarrow> auth_error + 'k Authorizer option" where
  "AuthorizerFromEnv lib getenv =
     (let raw = trim_space (getenv ''CEREMONY_AUTHORIZER_PUBKEY'');
          alg = trim_space (getenv ''CEREMONY_AUTHORIZER_ALG'');
          alg = (if alg = '''' then ''ed25519'' else alg);
          a = \<lparr>au_algorithm = alg, au_ed25519 = [], au_p256 = None, au_maxAge = env_maxAge getenv\<rparr>
      in if raw = '''' then Inr None
         else if alg = ''ed25519'' then
           res_bind (decodeKeyBytes lib raw) (\<lambda>key.
             if length key \<noteq> 32 then Inl (Ed25519KeySize (length key))
             else Inr (Some (a\<lparr>au_ed25519 := key\<rparr>)))
         else if alg = ''ecdsa-p256'' then
           res_bind (decodeKeyBytes lib raw) (\<lambda>der.
             case parse_spki lib der of
               None \<Rightarrow> Inl NotDerKey
             | Some (EcdsaKey curve k) \<Rightarrow>
                 if curve = ''P-256'' then Inr (Some (a\<lparr>au_p256 := Some k\<rparr>)) else Inl NotP256Key
             | Some OtherKey \<Rightarrow> Inl NotP256Key)
         else Inl (UnknownAlgorithm alg))"

text \<open>\<^verbatim>\<open>time.Since(time.Unix(issued, 0))\<close>: the seconds are shifted to the internal epoch in 64 bits, and the
  difference saturates at the range of \<^verbatim>\<open>time.Duration\<close>.\<close>

definition unixToInternal :: int where "unixToInternal = 62135596800"

definition saturate :: "int \<Rightarrow> int" where
  "saturate d = max (- (2 ^ 63)) (min (2 ^ 63 - 1) d)"

definition time_since :: "int \<Rightarrow> int \<Rightarrow> int" where
  "time_since now issued = saturate (now - (i64 (issued + unixToInternal) - unixToInternal) * second)"

text \<open>\<^verbatim>\<open>ed25519.Verify\<close> panics on a key of the wrong length, and \<^verbatim>\<open>ecdsa.VerifyASN1\<close> on no key.\<close>

definition Verify ::
  "'k auth_lib \<Rightarrow> int \<Rightarrow> 'k Authorizer option \<Rightarrow> AuthorizationRequest \<Rightarrow> string \<Rightarrow> auth_error + unit" where
  "Verify lib now au req signatureHex =
     (case au of
        None \<Rightarrow> Inr ()
      | Some a \<Rightarrow>
          if ar_Operation req = '''' \<or> ar_CeremonyID req = '''' then Inl NoOperationOrCeremony
          else let age = time_since now (ar_IssuedAt req) in
            if au_maxAge a < age then Inl (TooOld age)
            else if age < - 30 * second then Inl (FromTheFuture (- age))
            else (case hex_decode (trim_prefix ''0x'' signatureHex) of
                    None \<Rightarrow> Inl SignatureNotHex
                  | Some sig \<Rightarrow>
                      if au_algorithm a = ''ed25519'' then
                        if length (au_ed25519 a) \<noteq> 32 then Inl VerifyPanics
                        else if ed25519_verify lib (au_ed25519 a) (canonical req) sig then Inr ()
                        else Inl DoesNotVerify
                      else if au_algorithm a = ''ecdsa-p256'' then
                        (case au_p256 a of
                           None \<Rightarrow> Inl VerifyPanics
                         | Some k \<Rightarrow> if ecdsa_verify lib k (sha256 lib (canonical req)) sig then Inr ()
                                     else Inl DoesNotVerify)
                      else Inl (UnknownAlgorithm (au_algorithm a))))"

definition requireAuthorization ::
  "'k auth_lib \<Rightarrow> int \<Rightarrow> 'k Authorizer option \<Rightarrow> string \<Rightarrow> string \<Rightarrow> string \<Rightarrow> string \<Rightarrow> string
     \<Rightarrow> auth_error + unit" where
  "requireAuthorization lib now au op ceremonyID messageHash authJSON signature =
     (if au = None then Inr ()
      else if authJSON = '''' \<or> signature = '''' then Inl NoneSupplied
      else case auth_unmarshal lib authJSON of
             None \<Rightarrow> Inl NotReadable
           | Some req \<Rightarrow>
               if ar_Operation req \<noteq> op then Inl (WrongOperation (ar_Operation req))
               else if ar_CeremonyID req \<noteq> ceremonyID then Inl (WrongCeremony (ar_CeremonyID req))
               else if messageHash \<noteq> '''' \<and> \<not> equal_fold (ar_MessageHash req) messageHash then Inl DifferentMessage
               else Verify lib now au req signature)"

record auth_posture =
  posture_enabled :: bool
  posture_algorithm :: string
  posture_max_age_seconds :: int

definition Describe :: "'k Authorizer option \<Rightarrow> auth_posture" where
  "Describe au =
     (case au of
        None \<Rightarrow> \<lparr>posture_enabled = False, posture_algorithm = '''', posture_max_age_seconds = 0\<rparr>
      | Some a \<Rightarrow> \<lparr>posture_enabled = True, posture_algorithm = au_algorithm a,
                   posture_max_age_seconds = sgn (au_maxAge a) * (\<bar>au_maxAge a\<bar> div second)\<rparr>)"


section \<open>The worker's signer\<close>

definition canonicalAuthorizationBytes :: "AuthorizationRequest \<Rightarrow> bytes" where
  "canonicalAuthorizationBytes r = str_bytes (str_join [newline]
     [''openfireblocks-authorization-v1'', ar_Operation r, ar_CeremonyID r, ar_MessageHash r, dec_int (ar_IssuedAt r)])"

datatype 's private_key = EdPrivate bytes | EcPrivate string 's | OtherPrivate

datatype http_result = HttpFails string | HttpUnreadable int | HttpResponse int string string

record 's sign_lib =
  ed25519_sign :: "bytes \<Rightarrow> bytes \<Rightarrow> bytes"
  ed25519_from_seed :: "bytes \<Rightarrow> bytes"
  ecdsa_sign :: "'s \<Rightarrow> bytes \<Rightarrow> bytes option"
  pem_decode :: "bytes \<Rightarrow> bytes option"
  parse_pkcs8 :: "bytes \<Rightarrow> 's private_key option"
  parse_ec :: "bytes \<Rightarrow> (string \<times> 's) option"
  http_post :: "string \<Rightarrow> string \<Rightarrow> string \<Rightarrow> string \<Rightarrow> http_result"
  read_file :: "string \<Rightarrow> bytes option"

datatype 's localSigner = LocalEd25519 bytes | LocalP256 's

datatype 's ceremonySigner = ExternalSigner string string | Local "'s localSigner"

datatype sign_error =
    SignerUnreachable string
  | SignerUnreadable int
  | SignerRefused string
  | SignerStatus int
  | SignerEmpty
  | EcdsaSignFails
  | KeyFileUnreadable
  | KeyUnusable
  | KeyWrongCurve string
  | KeyWrongType
  | KeyNotPemHexBase64
  | KeyWrongSize nat

definition externalSigner_sign ::
  "'k auth_lib \<Rightarrow> 's sign_lib \<Rightarrow> string \<Rightarrow> string \<Rightarrow> bytes \<Rightarrow> sign_error + string" where
  "externalSigner_sign lib sl url token m =
     (case http_post sl url token (base64_encode lib m) ''openfireblocks-ceremony-authorization'' of
        HttpFails e \<Rightarrow> Inl (SignerUnreachable e)
      | HttpUnreadable code \<Rightarrow> Inl (SignerUnreadable code)
      | HttpResponse code signature err \<Rightarrow>
          if code < 200 \<or> 300 \<le> code then
            if err \<noteq> '''' then Inl (SignerRefused err) else Inl (SignerStatus code)
          else if signature = '''' then Inl SignerEmpty
          else Inr signature)"

definition localSigner_sign :: "'k auth_lib \<Rightarrow> 's sign_lib \<Rightarrow> 's localSigner \<Rightarrow> bytes \<Rightarrow> sign_error + string" where
  "localSigner_sign lib sl s m =
     (case s of
        LocalEd25519 sk \<Rightarrow> Inr (hex_encode (ed25519_sign sl sk m))
      | LocalP256 sk \<Rightarrow>
          (case ecdsa_sign sl sk (sha256 lib m) of
             None \<Rightarrow> Inl EcdsaSignFails
           | Some sig \<Rightarrow> Inr (hex_encode sig)))"

definition sign :: "'k auth_lib \<Rightarrow> 's sign_lib \<Rightarrow> 's ceremonySigner \<Rightarrow> bytes \<Rightarrow> sign_error + string" where
  "sign lib sl s m =
     (case s of ExternalSigner url token \<Rightarrow> externalSigner_sign lib sl url token m
              | Local l \<Rightarrow> localSigner_sign lib sl l m)"

definition newLocalSigner :: "'k auth_lib \<Rightarrow> 's sign_lib \<Rightarrow> bytes \<Rightarrow> sign_error + 's localSigner" where
  "newLocalSigner lib sl raw =
     (case pem_decode sl raw of
        Some block \<Rightarrow>
          (let key = (case parse_pkcs8 sl block of
                        Some k \<Rightarrow> Some k
                      | None \<Rightarrow> map_option (\<lambda>(c, k). EcPrivate c k) (parse_ec sl block))
           in case key of
                None \<Rightarrow> Inl KeyUnusable
              | Some (EdPrivate k) \<Rightarrow> Inr (LocalEd25519 k)
              | Some (EcPrivate curve k) \<Rightarrow> if curve \<noteq> ''P-256'' then Inl (KeyWrongCurve curve) else Inr (LocalP256 k)
              | Some OtherPrivate \<Rightarrow> Inl KeyWrongType)
      | None \<Rightarrow>
          (let trimmed = trim_space (bytes_str raw);
               decoded = (case hex_decode (trim_prefix ''0x'' trimmed) of
                            Some (b # bs) \<Rightarrow> Some (b # bs)
                          | _ \<Rightarrow> base64_decode lib trimmed)
           in case decoded of
                None \<Rightarrow> Inl KeyNotPemHexBase64
              | Some d \<Rightarrow> if length d = 32 then Inr (LocalEd25519 (ed25519_from_seed sl d))
                         else if length d = 64 then Inr (LocalEd25519 d)
                         else Inl (KeyWrongSize (length d))))"

definition newCeremonyAuthorizer ::
  "'k auth_lib \<Rightarrow> 's sign_lib \<Rightarrow> (string \<Rightarrow> string) \<Rightarrow> sign_error + 's ceremonySigner option" where
  "newCeremonyAuthorizer lib sl getenv =
     (let url = trim_space (getenv ''CEREMONY_AUTHORIZER_SIGNER_URL'');
          keyRef = trim_space (getenv ''CEREMONY_AUTHORIZER_KEY_FILE'');
          inline = trim_space (getenv ''CEREMONY_AUTHORIZER_KEY'')
      in if url \<noteq> '''' then Inr (Some (ExternalSigner url (trim_space (getenv ''CEREMONY_AUTHORIZER_SIGNER_TOKEN''))))
         else if keyRef = '''' \<and> inline = '''' then Inr None
         else if keyRef \<noteq> '''' then
           (case read_file sl keyRef of
              None \<Rightarrow> Inl KeyFileUnreadable
            | Some raw \<Rightarrow> res_bind (newLocalSigner lib sl raw) (\<lambda>s. Inr (Some (Local s))))
         else res_bind (newLocalSigner lib sl (str_bytes inline)) (\<lambda>s. Inr (Some (Local s))))"

definition authorize ::
  "'k auth_lib \<Rightarrow> 's sign_lib \<Rightarrow> int \<Rightarrow> 's ceremonySigner option \<Rightarrow> string \<Rightarrow> string \<Rightarrow> string
     \<Rightarrow> sign_error + (string \<times> string)" where
  "authorize lib sl now c operation ceremonyID messageHash =
     (case c of
        None \<Rightarrow> Inr ('''', '''')
      | Some signer \<Rightarrow>
          (let req = \<lparr>ar_Operation = operation, ar_CeremonyID = ceremonyID, ar_MessageHash = messageHash,
                      ar_IssuedAt = now div second\<rparr>
           in res_bind (sign lib sl signer (canonicalAuthorizationBytes req)) (\<lambda>signature.
                Inr (auth_marshal lib req, signature))))"


section \<open>The sender of a protocol message\<close>

text \<open>The pattern \<^verbatim>\<open>^party-(\d+)(\.|$)\<close>: the longest run of digits after the prefix, followed by a dot or
  the end. A shorter run would be followed by a digit, so no other match exists.\<close>

definition partyCNPattern :: "string \<Rightarrow> string option" where
  "partyCNPattern cn =
     (if take 6 cn = ''party-''
      then let ds = takeWhile is_digit (drop 6 cn); rest = dropWhile is_digit (drop 6 cn)
           in if ds \<noteq> [] \<and> (rest = [] \<or> hd rest = CHR ''.'') then Some ds else None
      else None)"

datatype peer_error = NotOverTLS | NoClientCertificate | NotAParty string | NoUsableNumber string
  | WrongParty int string

definition partyIDFromCommonName :: "string \<Rightarrow> peer_error + int" where
  "partyIDFromCommonName cn =
     (case partyCNPattern cn of
        None \<Rightarrow> Inl (NotAParty cn)
      | Some ds \<Rightarrow>
          (case atoi ds of
             None \<Rightarrow> Inl (NoUsableNumber cn)
           | Some n \<Rightarrow> if n \<le> 0 then Inl (NoUsableNumber cn) else Inr n))"

text \<open>A request carries the common names of the verified peer certificates, leaf first, or no TLS state.\<close>

definition peerEnforcementDisabled :: "(string \<Rightarrow> string) \<Rightarrow> bool" where
  "peerEnforcementDisabled getenv \<longleftrightarrow> getenv ''TSS_ALLOW_UNAUTHENTICATED_PEERS'' = ''1''"

definition authenticatePeer ::
  "(string \<Rightarrow> string) \<Rightarrow> string list option \<Rightarrow> int \<Rightarrow> peer_error + unit" where
  "authenticatePeer getenv tls claimed =
     (if peerEnforcementDisabled getenv then Inr ()
      else case tls of
             None \<Rightarrow> Inl NotOverTLS
           | Some [] \<Rightarrow> Inl NoClientCertificate
           | Some (cn # _) \<Rightarrow>
               res_bind (partyIDFromCommonName cn) (\<lambda>actual.
                 if actual \<noteq> claimed then Inl (WrongParty actual cn) else Inr ()))"

section \<open>Properties of authorization\<close>

definition newline_free :: "AuthorizationRequest \<Rightarrow> bool" where
  "newline_free r \<longleftrightarrow> newline \<notin> set (ar_Operation r) \<and> newline \<notin> set (ar_CeremonyID r) \<and>
     newline \<notin> set (ar_MessageHash r)"

lemma newline_not_in_dec_int [simp]: "newline \<notin> set (dec_int x)"
proof -
  have "newline \<notin> set (dec_nat n)" for n
    using dec_nat_digits [of n] by (auto simp: list_all_iff is_digit_def newline_def)
  then show ?thesis by (simp add: dec_int_def newline_def)
qed

lemma canonical_binds:
  assumes "newline_free r" "canonical r = canonical r'"
  shows "r' = r"
proof -
  let ?f = "\<lambda>r. [''openfireblocks-authorization-v1'', ar_Operation r, ar_CeremonyID r, ar_MessageHash r,
                  dec_int (ar_IssuedAt r)]"
  have j: "str_join [newline] (?f r) = str_join [newline] (?f r')"
    using assms(2) unfolding canonical_def by (rule str_bytes_inj)
  have "?f r = ?f r'"
    by (rule str_join_binds [OF _ _ _ j]) (use assms(1) newline_not_in_dec_int in \<open>auto simp: newline_free_def newline_def\<close>)
  then show ?thesis by (auto dest: dec_int_inj intro: AuthorizationRequest.equality)
qed

lemma canonical_agree: "canonicalAuthorizationBytes r = canonical r"
  by (simp add: canonicalAuthorizationBytes_def canonical_def)

text \<open>What the configured key accepts, and the rule a signing service follows: it has signed the
  canonical bytes of the requests it issued and of nothing else.\<close>

definition accepts :: "'k auth_lib \<Rightarrow> 'k Authorizer \<Rightarrow> bytes \<Rightarrow> bytes \<Rightarrow> bool" where
  "accepts lib a m sig \<longleftrightarrow>
     (if au_algorithm a = ''ed25519'' then ed25519_verify lib (au_ed25519 a) m sig
      else case au_p256 a of None \<Rightarrow> False | Some k \<Rightarrow> ecdsa_verify lib k (sha256 lib m) sig)"

definition only_issued :: "'k auth_lib \<Rightarrow> 'k Authorizer \<Rightarrow> AuthorizationRequest set \<Rightarrow> bool" where
  "only_issued lib a issued \<longleftrightarrow>
     (\<forall>m sig. accepts lib a m sig \<longrightarrow> m \<in> canonical ` issued) \<and> (\<forall>r \<in> issued. newline_free r)"

lemma Verify_Inr:
  assumes "Verify lib now (Some a) req sighex = Inr ()"
  obtains sig where "hex_decode (trim_prefix ''0x'' sighex) = Some sig" "accepts lib a (canonical req) sig"
    "- 30 * second \<le> time_since now (ar_IssuedAt req)" "time_since now (ar_IssuedAt req) \<le> au_maxAge a"
    "ar_Operation req \<noteq> ''''" "ar_CeremonyID req \<noteq> ''''"
  using assms by (auto simp: Verify_def accepts_def Let_def split: if_splits option.splits)

lemma require_issued:
  assumes "requireAuthorization lib now (Some a) op cid mh authJSON sig = Inr ()"
    and "only_issued lib a issued"
  shows "\<exists>r \<in> issued. ar_Operation r = op \<and> ar_CeremonyID r = cid \<and> op \<noteq> '''' \<and> cid \<noteq> '''' \<and>
    (mh \<noteq> '''' \<longrightarrow> equal_fold (ar_MessageHash r) mh) \<and>
    - 30 * second \<le> time_since now (ar_IssuedAt r) \<and> time_since now (ar_IssuedAt r) \<le> au_maxAge a"
proof -
  obtain req where r: "ar_Operation req = op" "ar_CeremonyID req = cid"
      "mh \<noteq> '''' \<longrightarrow> equal_fold (ar_MessageHash req) mh" and v: "Verify lib now (Some a) req sig = Inr ()"
    using assms(1) by (auto simp: requireAuthorization_def split: if_splits option.splits)
  from v obtain s where s: "accepts lib a (canonical req) s" and t:
      "- 30 * second \<le> time_since now (ar_IssuedAt req)" "time_since now (ar_IssuedAt req) \<le> au_maxAge a"
      "ar_Operation req \<noteq> ''''" "ar_CeremonyID req \<noteq> ''''"
    by (rule Verify_Inr)
  from s assms(2) obtain i where i: "i \<in> issued" "canonical i = canonical req" "newline_free i"
    unfolding only_issued_def by (metis imageE)
  then have "req = i" using canonical_binds by blast
  with i(1) r t show ?thesis by auto
qed

text \<open>No ceremony starts on an authorization issued for another one. When a party that has an
  authorising key accepts, and that key has signed nothing but the issued requests, then a request was
  issued for exactly this operation and this ceremony, for this message when one is to be signed, no
  longer ago than the age limit and at most thirty seconds ahead of the party's clock.\<close>

theorem authorized_start_was_issued:
  assumes "requireAuthorization lib now (Some a) op cid mh authJSON sig = Inr ()"
    and "only_issued lib a issued"
  shows "\<exists>r \<in> issued. ar_Operation r = op \<and> ar_CeremonyID r = cid \<and> op \<noteq> '''' \<and> cid \<noteq> '''' \<and>
    (mh \<noteq> '''' \<longrightarrow> equal_fold (ar_MessageHash r) mh) \<and>
    - 30 * second \<le> time_since now (ar_IssuedAt r) \<and> time_since now (ar_IssuedAt r) \<le> au_maxAge a"
  using assms by (rule require_issued)

text \<open>A key read from the environment is complete, so checking a signature with it cannot panic.\<close>

lemma AuthorizerFromEnv_Some:
  assumes "AuthorizerFromEnv lib getenv = Inr (Some a)"
  shows "(au_algorithm a = ''ed25519'' \<and> length (au_ed25519 a) = 32 \<or>
     au_algorithm a = ''ecdsa-p256'' \<and> (\<exists>k. au_p256 a = Some k)) \<and> au_maxAge a = env_maxAge getenv"
  using assms
  by (cases "decodeKeyBytes lib (trim_space (getenv ''CEREMONY_AUTHORIZER_PUBKEY''))")
     (auto simp: AuthorizerFromEnv_def Let_def split: if_splits option.split_asm spki.split_asm)

text \<open>C39: A configured verifier decides every request: whatever the environment holds, an authorizer built
  from it carries the key its algorithm needs, so \<^const>\<open>Verify\<close> neither panics nor meets an algorithm it
  does not know, and an accepted signature is one that this key accepts for the canonical bytes.\<close>

theorem configured_authorizer_decides:
  assumes "AuthorizerFromEnv lib getenv = Inr (Some a)"
  shows "(\<forall>alg. Verify lib now (Some a) req sig \<notin> {Inl VerifyPanics, Inl (UnknownAlgorithm alg)}) \<and>
    (Verify lib now (Some a) req sig = Inr () \<longrightarrow>
       (\<exists>s. hex_decode (trim_prefix ''0x'' sig) = Some s \<and> accepts lib a (canonical req) s))"
proof -
  have "Verify lib now (Some a) req sig \<notin> {Inl VerifyPanics, Inl (UnknownAlgorithm alg)}" for alg
    using AuthorizerFromEnv_Some [OF assms] by (auto simp: Verify_def Let_def split: if_splits option.splits)
  then show ?thesis by (auto elim: Verify_Inr)
qed

lemma time_since_fresh:
  assumes "0 \<le> issued" "issued < 2 ^ 62" "issued * second \<le> now" "now < issued * second + second"
    "now \<le> later" "later \<le> issued * second + lim" "lim < 2 ^ 63"
  shows "0 \<le> time_since later issued \<and> time_since later issued \<le> lim"
proof -
  have "in_i64 (issued + unixToInternal)" using assms(1,2) by (simp add: in_i64_def unixToInternal_def)
  then have "time_since later issued = saturate (later - issued * second)"
    by (simp add: time_since_def i64_id)
  then show ?thesis using assms by (simp add: saturate_def)
qed

definition json_ok :: "'k auth_lib \<Rightarrow> bool" where
  "json_ok lib \<longleftrightarrow> (\<forall>r. auth_marshal lib r \<noteq> '''' \<and> auth_unmarshal lib (auth_marshal lib r) = Some r)"

text \<open>The two signers produce what the verifier reads: hexadecimal text of a signature over the
  canonical bytes. For the local keys this follows from the scheme; an external signer has to do it.\<close>

definition signer_matches :: "'k auth_lib \<Rightarrow> 's sign_lib \<Rightarrow> 's ceremonySigner \<Rightarrow> 'k Authorizer \<Rightarrow> bool" where
  "signer_matches lib sl s a \<longleftrightarrow>
     (\<forall>m h. sign lib sl s m = Inr h \<longrightarrow>
        h \<noteq> '''' \<and> (\<exists>b. hex_decode (trim_prefix ''0x'' h) = Some b \<and> accepts lib a m b))"

lemma local_ed25519_matches:
  assumes "au_algorithm a = ''ed25519''"
    and "\<forall>m. ed25519_sign sl sk m \<noteq> [] \<and> ed25519_verify lib (au_ed25519 a) m (ed25519_sign sl sk m)"
  shows "signer_matches lib sl (Local (LocalEd25519 sk)) a"
proof -
  have "hex_encode b \<noteq> ''''" if "b \<noteq> []" for b
    using that by (cases b) auto
  then show ?thesis
    using assms by (auto simp: signer_matches_def sign_def localSigner_sign_def accepts_def)
qed

text \<open>What the worker attaches, the party accepts. An authorization that \<^const>\<open>authorize\<close> returns for an
  operation, ceremony and message is accepted by a party configured with the matching key for the same
  operation, ceremony and message, at any moment from its creation until the age limit has passed.\<close>

theorem worker_authorization_accepted:
  assumes cfg: "AuthorizerFromEnv lib getenv = Inr (Some a)"
    and auth: "authorize lib sl now (Some s) op cid mh = Inr (body, sig)"
    and laws: "json_ok lib" "signer_matches lib sl s a"
    and named: "op \<noteq> ''''" "cid \<noteq> ''''"
    and clock: "0 \<le> now" "now < 2 ^ 62" "now \<le> later" "later \<le> (now div second) * second + au_maxAge a"
      "au_maxAge a < 2 ^ 63"
  shows "requireAuthorization lib later (Some a) op cid mh body sig = Inr ()"
proof -
  let ?r = "\<lparr>ar_Operation = op, ar_CeremonyID = cid, ar_MessageHash = mh, ar_IssuedAt = now div second\<rparr>"
  have s: "sign lib sl s (canonical ?r) = Inr sig" "body = auth_marshal lib ?r"
    using auth by (auto simp: authorize_def Let_def res_simps canonical_agree)
  then obtain b where b: "sig \<noteq> ''''" "hex_decode (trim_prefix ''0x'' sig) = Some b" "accepts lib a (canonical ?r) b"
    using laws(2) unfolding signer_matches_def by blast
  have div: "(now div second) * second \<le> now" "now < (now div second) * second + second" "0 \<le> now div second"
    "now div second < 2 ^ 62"
    using clock(1,2) by (simp_all add: second_def pos_imp_zdiv_nonneg_iff)
  have "0 \<le> time_since later (now div second) \<and> time_since later (now div second) \<le> au_maxAge a"
    by (rule time_since_fresh) (use div clock in auto)
  then have "Verify lib later (Some a) ?r sig = Inr ()"
    using b named AuthorizerFromEnv_Some [OF cfg]
    by (auto simp: Verify_def accepts_def Let_def second_def split: option.splits)
  then show ?thesis
    using laws(1) s(2) b(1) by (simp add: requireAuthorization_def json_ok_def)
qed


section \<open>Properties of peer identity\<close>

lemma partyCNPattern_Some:
  "partyCNPattern cn = Some ds \<longleftrightarrow>
     ds \<noteq> [] \<and> list_all is_digit ds \<and>
     (\<exists>rest. cn = ''party-'' @ ds @ rest \<and> (rest = [] \<or> hd rest = CHR ''.''))" (is "?l = ?r")
proof
  assume l: ?l
  let ?rest = "dropWhile is_digit (drop 6 cn)"
  have h: "take 6 cn = ''party-''" "ds = takeWhile is_digit (drop 6 cn)" "ds \<noteq> []"
    "?rest = [] \<or> hd ?rest = CHR ''.''"
    using l unfolding partyCNPattern_def Let_def by (simp_all split: if_splits)
  have "cn = ''party-'' @ ds @ ?rest"
    using append_take_drop_id [of 6 cn] unfolding h(1) h(2) by simp
  moreover have "list_all is_digit ds"
    unfolding h(2) list_all_iff by (auto dest: set_takeWhileD)
  ultimately show ?r using h(3,4) by blast
next
  assume ?r
  then obtain rest where r: "ds \<noteq> []" "list_all is_digit ds" "cn = ''party-'' @ ds @ rest"
    "rest = [] \<or> hd rest = CHR ''.''" by blast
  have n: "takeWhile is_digit rest = []" "dropWhile is_digit rest = rest"
    using r(4) by (cases rest; auto simp: is_digit_def)+
  have "takeWhile is_digit (ds @ rest) = ds" "dropWhile is_digit (ds @ rest) = rest"
    using r(2) n by (simp_all add: takeWhile_append2 dropWhile_append2 list_all_iff)
  then show ?l using r by (simp add: partyCNPattern_def Let_def)
qed

text \<open>C40: A party speaks only as itself. With enforcement on, a message is accepted exactly when the leaf
  certificate's common name is \<^verbatim>\<open>party-\<close> followed by a number and then a dot or nothing, and that
  number is the claimed sender; no TLS, no certificate and every other name are refused.\<close>

theorem authenticatePeer_iff:
  assumes "\<not> peerEnforcementDisabled getenv"
  shows "authenticatePeer getenv tls claimed = Inr () \<longleftrightarrow>
    (\<exists>ds rest certs. tls = Some ((''party-'' @ ds @ rest) # certs) \<and> ds \<noteq> [] \<and> list_all is_digit ds \<and>
       (rest = [] \<or> hd rest = CHR ''.'') \<and> claimed = int (digits_nat ds) \<and> 0 < claimed \<and> claimed < 2 ^ 63)"
proof -
  have id: "partyIDFromCommonName cn = Inr n \<longleftrightarrow>
      (\<exists>ds rest. cn = ''party-'' @ ds @ rest \<and> ds \<noteq> [] \<and> list_all is_digit ds \<and>
         (rest = [] \<or> hd rest = CHR ''.'') \<and> n = int (digits_nat ds) \<and> 0 < n \<and> n < 2 ^ 63)" for cn n
  proof -
    have "partyIDFromCommonName cn = Inr n \<longleftrightarrow> (\<exists>ds. partyCNPattern cn = Some ds \<and> atoi ds = Some n \<and> 0 < n)"
      by (auto simp: partyIDFromCommonName_def split: option.splits)
    also have "\<dots> \<longleftrightarrow> (\<exists>ds. partyCNPattern cn = Some ds \<and> n = int (digits_nat ds) \<and> 0 < n \<and> n < 2 ^ 63)"
      by (rule ex_cong1) (auto simp: partyCNPattern_Some atoi_digits in_i64_def split: if_splits)
    finally show ?thesis unfolding partyCNPattern_Some by blast
  qed
  show ?thesis
    using assms by (auto simp: authenticatePeer_def res_simps id split: option.splits list.splits if_splits)
qed

section \<open>Examples\<close>

definition demo_marshal :: "AuthorizationRequest \<Rightarrow> string" where
  "demo_marshal r = enc_str (ar_Operation r) @ enc_str (ar_CeremonyID r) @ enc_str (ar_MessageHash r) @ dec_int (ar_IssuedAt r)"

definition demo_unmarshal :: "string \<Rightarrow> AuthorizationRequest option" where
  "demo_unmarshal t = (let (op, t) = dec_str t; (cid, t) = dec_str t; (mh, t) = dec_str t in
     map_option (\<lambda>i. \<lparr>ar_Operation = op, ar_CeremonyID = cid, ar_MessageHash = mh, ar_IssuedAt = i\<rparr>) (big_dec t))"

text \<open>A library in which the only signature is the byte 1, accepted for the messages of a given set.\<close>

definition demo_auth :: "(bytes \<Rightarrow> bool) \<Rightarrow> unit auth_lib" where
  "demo_auth ok = \<lparr>ed25519_verify = (\<lambda>k m s. ok m \<and> s = [1]), ecdsa_verify = (\<lambda>_ _ _. False), sha256 = id,
     parse_spki = (\<lambda>_. None), base64_decode = (\<lambda>_. None), base64_encode = (\<lambda>_. ''''),
     auth_marshal = demo_marshal, auth_unmarshal = demo_unmarshal\<rparr>"

definition demo_sign_lib :: "unit sign_lib" where
  "demo_sign_lib = \<lparr>ed25519_sign = (\<lambda>_ _. [1]), ed25519_from_seed = id, ecdsa_sign = (\<lambda>_ _. None), pem_decode = (\<lambda>_. None),
     parse_pkcs8 = (\<lambda>_. None), parse_ec = (\<lambda>_. None), http_post = (\<lambda>_ _ _ _. HttpFails ''''), read_file = (\<lambda>_. None)\<rparr>"

definition demo_authorizer :: "unit Authorizer" where
  "demo_authorizer = \<lparr>au_algorithm = ''ed25519'', au_ed25519 = replicate 32 7, au_p256 = None, au_maxAge = 300 * second\<rparr>"

definition demo_getenv :: "string \<Rightarrow> string" where
  "demo_getenv v = (if v = ''CEREMONY_AUTHORIZER_PUBKEY'' then hex_encode (replicate 32 7) else '''')"

definition demo_auth_req :: AuthorizationRequest where
  "demo_auth_req = \<lparr>ar_Operation = ''sign'', ar_CeremonyID = ''c1'', ar_MessageHash = ''ab'', ar_IssuedAt = 1000\<rparr>"

lemma demo_json_ok: "json_ok (demo_auth ok)"
  by (simp add: json_ok_def demo_auth_def demo_marshal_def demo_unmarshal_def)

lemma demo_fromEnv: "AuthorizerFromEnv (demo_auth ok) demo_getenv = Inr (Some demo_authorizer)"
proof -
  have k: "trim_space (hex_encode (replicate 32 7)) = hex_encode (replicate 32 7)" by code_simp
  have "hex_encode (replicate 32 7) \<noteq> ''''" by code_simp
  moreover have "\<exists>b bs. (replicate 32 7 :: bytes) = b # bs" by (simp add: numeral_eq_Suc)
  then obtain b bs where b: "(replicate 32 7 :: bytes) = b # bs" by blast
  have "decodeKeyBytes (demo_auth ok) (hex_encode (replicate 32 7)) = Inr (replicate 32 7)"
    unfolding decodeKeyBytes_def by (simp only: hex_encode_no_prefix hex_decode_encode b option.simps list.simps)
  ultimately show ?thesis
    by (simp add: AuthorizerFromEnv_def demo_getenv_def k trim_space_def [of "''''"] demo_authorizer_def
        env_maxAge_def Let_def)
qed

lemma demo_sig: "hex_decode (trim_prefix ''0x'' ''01'') = Some [1]"
  by code_simp

lemma demo_require:
  "requireAuthorization (demo_auth (\<lambda>m. m = canonical demo_auth_req)) (1001 * second) (Some demo_authorizer)
     ''sign'' ''c1'' ''AB'' (demo_marshal demo_auth_req) ''01'' = Inr ()"
proof -
  have f: "equal_fold ''ab'' ''AB''" by code_simp
  have t: "time_since (1001 * second) 1000 = second" by code_simp
  have u: "demo_unmarshal (demo_marshal demo_auth_req) = Some demo_auth_req" "demo_marshal demo_auth_req \<noteq> ''''"
    by (simp_all add: demo_unmarshal_def demo_marshal_def)
  have v: "Verify (demo_auth (\<lambda>m. m = canonical demo_auth_req)) (1001 * second) (Some demo_authorizer) demo_auth_req ''01'' = Inr ()"
    using t demo_sig by (simp add: Verify_def demo_auth_def demo_authorizer_def demo_auth_req_def second_def Let_def)
  have l: "auth_unmarshal (demo_auth ok) = demo_unmarshal" for ok by (simp add: demo_auth_def)
  show ?thesis
    using v f u by (simp add: requireAuthorization_def l demo_auth_req_def)
qed

theorem authorized_start_was_issued_witness:
  "\<exists>r \<in> {demo_auth_req}. ar_Operation r = ''sign'' \<and> ar_CeremonyID r = ''c1'' \<and> ''sign'' \<noteq> '''' \<and> ''c1'' \<noteq> '''' \<and>
    (''AB'' \<noteq> '''' \<longrightarrow> equal_fold (ar_MessageHash r) ''AB'') \<and>
    - 30 * second \<le> time_since (1001 * second) (ar_IssuedAt r) \<and>
    time_since (1001 * second) (ar_IssuedAt r) \<le> au_maxAge demo_authorizer"
proof (rule authorized_start_was_issued [OF demo_require])
  have "newline_free demo_auth_req" by (simp add: newline_free_def demo_auth_req_def newline_def)
  then show "only_issued (demo_auth (\<lambda>m. m = canonical demo_auth_req)) demo_authorizer {demo_auth_req}"
    by (simp add: only_issued_def accepts_def demo_auth_def demo_authorizer_def)
qed

theorem configured_authorizer_decides_witness:
  "(\<forall>alg. Verify (demo_auth (\<lambda>_. True)) 0 (Some demo_authorizer) demo_auth_req ''01''
      \<notin> {Inl VerifyPanics, Inl (UnknownAlgorithm alg)})"
  using configured_authorizer_decides [OF demo_fromEnv] by blast

theorem worker_authorization_accepted_witness:
  "requireAuthorization (demo_auth (\<lambda>_. True)) (1200 * second) (Some demo_authorizer) ''sign'' ''c1'' ''ab''
     (demo_marshal demo_auth_req) ''01'' = Inr ()"
proof (rule worker_authorization_accepted [OF demo_fromEnv, where sl = demo_sign_lib and now = "1000 * second"
      and s = "Local (LocalEd25519 [])"])
  have "hex_encode [1] = ''01''" by code_simp
  then show "authorize (demo_auth (\<lambda>_. True)) demo_sign_lib (1000 * second) (Some (Local (LocalEd25519 []))) ''sign'' ''c1'' ''ab''
      = Inr (demo_marshal demo_auth_req, ''01'')"
    by (simp add: authorize_def sign_def localSigner_sign_def demo_sign_lib_def demo_auth_def second_def
        demo_auth_req_def Let_def)
  show "signer_matches (demo_auth (\<lambda>_. True)) demo_sign_lib (Local (LocalEd25519 [])) demo_authorizer"
    by (rule local_ed25519_matches) (simp_all add: demo_authorizer_def demo_sign_lib_def demo_auth_def)
qed (simp_all add: demo_json_ok second_def demo_authorizer_def)

theorem authenticatePeer_iff_witness:
  "authenticatePeer (\<lambda>_. '''') (Some [''party-2.internal'']) 2 = Inr () \<and>
   authenticatePeer (\<lambda>_. '''') (Some [''party-2.internal'']) 3 \<noteq> Inr ()"
proof -
  have e: "\<not> peerEnforcementDisabled (\<lambda>_. '''')" by (simp add: peerEnforcementDisabled_def)
  have "authenticatePeer (\<lambda>_. '''') (Some [''party-2.internal'']) 2 = Inr ()"
    by (subst authenticatePeer_iff [OF e], rule exI [of _ "''2''"], rule exI [of _ "''.internal''"])
       (simp add: is_digit_def digits_nat_def)
  then show ?thesis by (auto simp: authenticatePeer_def e res_simps)
qed

end
