(* ===== verification/Party_State.thy ===== *)
theory Party_State
  imports Key_Share Ceremony_Auth "HOL-Library.AList" "HOL-Library.Multiset"
begin

text \<open>
  What a party of \<^verbatim>\<open>services/mpc-party\<close> keeps in memory: the ceremonies of \<^verbatim>\<open>tss_party.go\<close>, \<^verbatim>\<open>tss_signing.go\<close>
  and \<^verbatim>\<open>tss_resharing.go\<close>, the identities of committee members, and the relaying of protocol messages
  (\<^verbatim>\<open>relayTSSMessage\<close>, \<^verbatim>\<open>relayPending\<close>, \<^verbatim>\<open>postTSSEnvelope\<close>).

  The manager's maps hold pointers, and a goroutine keeps the pointer of the ceremony it drives even after the
  map entry was replaced or dropped. A registry therefore has two levels: names to references and references to
  objects. tss-lib itself is a record of functions: sorting identities, building, starting and feeding its local
  parties. A Go map from party number to endpoint is a list of pairs with distinct keys; its order stands for
  the order of iteration, which Go leaves open.
\<close>

section \<open>Registries\<close>

record 'a registry =
  reg_ids :: "string \<Rightarrow> nat option"
  reg_obj :: "nat \<Rightarrow> 'a option"
  reg_next :: nat

definition reg_empty :: "'a registry" where
  "reg_empty = \<lparr>reg_ids = (\<lambda>_. None), reg_obj = (\<lambda>_. None), reg_next = 0\<rparr>"

definition reg_new :: "string \<Rightarrow> 'a \<Rightarrow> 'a registry \<Rightarrow> 'a registry" where
  "reg_new i x r = \<lparr>reg_ids = (reg_ids r)(i \<mapsto> reg_next r), reg_obj = (reg_obj r)(reg_next r \<mapsto> x),
     reg_next = Suc (reg_next r)\<rparr>"

definition reg_find :: "string \<Rightarrow> 'a registry \<Rightarrow> 'a option" where
  "reg_find i r = Option.bind (reg_ids r i) (reg_obj r)"

definition reg_update :: "nat \<Rightarrow> ('a \<Rightarrow> 'a) \<Rightarrow> 'a registry \<Rightarrow> 'a registry" where
  "reg_update k f r = r\<lparr>reg_obj := (reg_obj r)(k := map_option f (reg_obj r k))\<rparr>"

definition reg_update_id :: "string \<Rightarrow> ('a \<Rightarrow> 'a) \<Rightarrow> 'a registry \<Rightarrow> 'a registry" where
  "reg_update_id i f r = (case reg_ids r i of None \<Rightarrow> r | Some k \<Rightarrow> reg_update k f r)"

definition reg_drop :: "string \<Rightarrow> 'a registry \<Rightarrow> 'a registry" where
  "reg_drop i r = r\<lparr>reg_ids := (reg_ids r)(i := None)\<rparr>"

text \<open>No two names share an object, and references are below the next one.\<close>

definition reg_wf :: "'a registry \<Rightarrow> bool" where
  "reg_wf r \<longleftrightarrow> inj_on (reg_ids r) (dom (reg_ids r)) \<and> (\<forall>i k. reg_ids r i = Some k \<longrightarrow> k < reg_next r) \<and>
     (\<forall>k. reg_obj r k \<noteq> None \<longleftrightarrow> k < reg_next r)"

lemma reg_wf_empty [simp]: "reg_wf reg_empty"
  by (simp add: reg_wf_def reg_empty_def)

lemma reg_wf_new [simp]: "reg_wf r \<Longrightarrow> reg_wf (reg_new i x r)"
  by (auto simp: reg_wf_def reg_new_def inj_on_def less_Suc_eq dom_def split: if_splits; metis less_irrefl)

lemma reg_wf_update [simp]: "reg_wf r \<Longrightarrow> reg_wf (reg_update k f r)"
  by (simp add: reg_wf_def reg_update_def)

lemma reg_wf_update_id [simp]: "reg_wf r \<Longrightarrow> reg_wf (reg_update_id i f r)"
  by (simp add: reg_update_id_def split: option.split)

lemma reg_wf_drop [simp]: "reg_wf r \<Longrightarrow> reg_wf (reg_drop i r)"
  by (auto simp: reg_wf_def reg_drop_def inj_on_def dom_def split: if_splits)

lemma reg_find_new: "reg_wf r \<Longrightarrow> reg_find j (reg_new i x r) = (if j = i then Some x else reg_find j r)"
  by (cases "reg_ids r j") (auto simp: reg_find_def reg_new_def reg_wf_def)

lemma reg_find_drop [simp]: "reg_find j (reg_drop i r) = (if j = i then None else reg_find j r)"
  by (simp add: reg_find_def reg_drop_def)

lemma reg_find_update: "reg_find j (reg_update k f r) =
    (if reg_ids r j = Some k then map_option f (reg_find j r) else reg_find j r)"
  by (cases "reg_ids r j") (auto simp: reg_find_def reg_update_def)

lemma reg_find_update_id: "reg_wf r \<Longrightarrow> reg_find j (reg_update_id i f r) =
    (if j = i then map_option f (reg_find j r) else reg_find j r)"
  by (auto simp: reg_update_id_def reg_find_update reg_wf_def inj_on_def dom_def split: option.splits)
     (simp add: reg_find_def)

lemma reg_ids_simps [simp]: "reg_ids (reg_update k f r) = reg_ids r" "reg_ids (reg_update_id i f r) = reg_ids r"
  by (simp_all add: reg_update_def reg_update_id_def split: option.split)


section \<open>Identities\<close>

record PartyID =
  pid_Id :: string
  pid_Moniker :: string
  pid_Key :: int

type_synonym peers = "(int \<times> string) list"

record ('sd, 'p) tss =
  SortPartyIDs :: "PartyID list \<Rightarrow> PartyID list"
  tss_keygen :: "elliptic \<Rightarrow> PartyID list \<Rightarrow> PartyID \<Rightarrow> int \<Rightarrow> 'p"
  tss_signing :: "elliptic \<Rightarrow> PartyID list \<Rightarrow> PartyID \<Rightarrow> int \<Rightarrow> 'sd \<Rightarrow> nat \<Rightarrow> 'p"
  tss_resharing :: "elliptic \<Rightarrow> PartyID list \<Rightarrow> PartyID list \<Rightarrow> PartyID \<Rightarrow> int \<Rightarrow> 'sd \<Rightarrow> 'p"
  tss_reshare_new :: "elliptic \<Rightarrow> PartyID list \<Rightarrow> PartyID list \<Rightarrow> PartyID \<Rightarrow> int \<Rightarrow> 'p"
  tss_start :: "'p \<Rightarrow> string option"
  tss_update :: "'p \<Rightarrow> bytes \<Rightarrow> PartyID \<Rightarrow> bool \<Rightarrow> 'p \<times> string option"
  tss_base64 :: "string \<Rightarrow> bytes option"
  tss_encode64 :: "bytes \<Rightarrow> string"

text \<open>\<^verbatim>\<open>tss.NewPartyID\<close> keeps the bytes of the key, and those of a \<^verbatim>\<open>big.Int\<close> are the bytes of its magnitude.\<close>

definition NewPartyID :: "string \<Rightarrow> string \<Rightarrow> int \<Rightarrow> PartyID" where
  "NewPartyID i moniker key = \<lparr>pid_Id = i, pid_Moniker = moniker, pid_Key = \<bar>key\<bar>\<rparr>"

definition partyKey :: "int \<Rightarrow> int" where
  "partyKey partyID = partyID"

definition deterministicPartyIDs :: "('sd, 'p) tss \<Rightarrow> peers \<Rightarrow> PartyID list" where
  "deterministicPartyIDs t peers = SortPartyIDs t
     (map (\<lambda>(i, _). NewPartyID (dec_int i) (''party'' @ dec_int i) (partyKey i)) peers)"

definition findPartyIDByKey :: "PartyID list \<Rightarrow> int \<Rightarrow> PartyID option" where
  "findPartyIDByKey ids key = find (\<lambda>i. pid_Key i = key) ids"

definition findPartyID :: "PartyID list \<Rightarrow> int \<Rightarrow> PartyID option" where
  "findPartyID ids partyID = find (\<lambda>i. pid_Key i = partyKey partyID) ids"

definition committeeEpochStride :: int where "committeeEpochStride = 1000000"

definition committeeKey :: "int \<Rightarrow> int \<Rightarrow> int" where
  "committeeKey node epoch = i64 (i64 (epoch * committeeEpochStride) + node)"

definition committeePartyIDs :: "('sd, 'p) tss \<Rightarrow> peers \<Rightarrow> int \<Rightarrow> PartyID list" where
  "committeePartyIDs t peers epoch =
     (if epoch = 0 then deterministicPartyIDs t peers
      else SortPartyIDs t (map (\<lambda>(i, _). NewPartyID (''e'' @ dec_int epoch @ ''-'' @ dec_int i)
             (''party'' @ dec_int i @ ''.e'' @ dec_int epoch) (committeeKey i epoch)) peers))"

text \<open>\<^verbatim>\<open>KeyInt().Int64()\<close>; a non-positive key belongs to no node.\<close>

definition nodeForPartyKey :: "PartyID \<Rightarrow> int \<times> int" where
  "nodeForPartyKey i =
     (let key = i64 (pid_Key i) in
      if key \<le> 0 then (- 1, 0) else (key mod committeeEpochStride, key div committeeEpochStride))"

definition findPartyIDByNode :: "PartyID list \<Rightarrow> int \<Rightarrow> PartyID option" where
  "findPartyIDByNode ids node = find (\<lambda>i. fst (nodeForPartyKey i) = node) ids"


section \<open>Ceremonies\<close>

datatype ceremonyStatus = ceremonyPending | ceremonyInProgress | ceremonyCompleted | ceremonyFailed

datatype party_error =
    NotInPeers int
  | NotAMajority int int
  | ShareError share_error
  | SelfNotResolved int
  | PreParams string
  | LocalPartyStart string
  | RelayFailed party_error
  | ProtocolError string
  | SerializeFailed
  | NoEndpoint int
  | DeliveryFailed int string
  | PublicKeyNotDerived share_error
  | SealingFailed share_error
  | CeremonyNotReady
  | SigningNotReady
  | ResharingNotReady
  | UnknownSender int
  | WireBytesNotBase64
  | UpdateFailed string
  | UnknownCeremony string
  | NothingToSign
  | NotCompleted string ceremonyStatus
  | DigestSize nat
  | CommitteeSize int nat
  | NotInCommittee int
  | CommitteeNotInDKG string
  | NoDestination
  | UnrecognisedParty
  | ResharingExists string
  | NoPeers string
  | NotInBothCommittees string
  | NoShareForCurve
  | KeyChanged string string
  | AlreadyLoaded string
  | NoContext string
  | WrongPartyCount string int nat
  | NotAmongEndpoints int
  | RestoredOtherKey string string
  | Panics

record ('sd, 'p) tssKeygenCeremony =
  kc_status :: ceremonyStatus
  kc_error :: "party_error option"
  kc_selfPartyID :: int
  kc_threshold :: int
  kc_sortedIDs :: "PartyID list"
  kc_peers :: peers
  kc_localParty :: "'p option"
  kc_curve :: string
  kc_blockchain :: string
  kc_epoch :: int
  kc_saveData :: "'sd KeyShare option"
  kc_publicKeyHex :: string
  kc_address :: string
  kc_sealed :: bool

record 'p tssSigningCeremony =
  sc_status :: ceremonyStatus
  sc_error :: "party_error option"
  sc_selfPartyID :: int
  sc_committee :: "PartyID list"
  sc_peers :: peers
  sc_localParty :: "'p option"
  sc_curve :: string
  sc_signature :: string

record ('sd, 'p) tssResharingCeremony =
  rc_status :: ceremonyStatus
  rc_error :: "party_error option"
  rc_selfPartyID :: int
  rc_threshold :: int
  rc_curve :: string
  rc_peers :: peers
  rc_oldSorted :: "PartyID list"
  rc_newSorted :: "PartyID list"
  rc_newEpoch :: int
  rc_oldParty :: "'p option"
  rc_newParty :: "'p option"
  rc_sourceCeremonyID :: string
  rc_expectedPublicKey :: string
  rc_expectedAddress :: string
  rc_saveData :: "'sd KeyShare option"
  rc_sealed :: bool

record ('sd, 'p) TSSPartyManager =
  m_partyID :: int
  m_ceremonies :: "('sd, 'p) tssKeygenCeremony registry"
  m_resharings :: "('sd, 'p) tssResharingCeremony registry"
  m_signings :: "'p tssSigningCeremony registry"

definition NewTSSPartyManager :: "int \<Rightarrow> ('sd, 'p) TSSPartyManager" where
  "NewTSSPartyManager partyID = \<lparr>m_partyID = partyID, m_ceremonies = reg_empty, m_resharings = reg_empty, m_signings = reg_empty\<rparr>"


section \<open>Relaying\<close>

record tss_message =
  tm_wire :: "bytes option"
  tm_broadcast :: bool
  tm_to :: "PartyID list"
  tm_from :: PartyID
  tm_toOld :: bool
  tm_toOldAndNew :: bool

text \<open>A post is retried while the peer answers 503 before the deadline. Each observation is one attempt: no
  response, or a status code with whether the deadline is still ahead. Running out of observations is waiting.\<close>

datatype post_attempt = RequestFails string | Status int bool

datatype post_outcome = Delivered | PostFails string | PeerReturned int | StillTrying

fun postTSSEnvelope :: "post_attempt list \<Rightarrow> post_outcome" where
  "postTSSEnvelope [] = StillTrying"
| "postTSSEnvelope (RequestFails e # _) = PostFails e"
| "postTSSEnvelope (Status code early # rest) =
     (if code = 200 then Delivered
      else if code = 503 \<and> early then postTSSEnvelope rest
      else PeerReturned code)"

definition peerIndexByKey :: "PartyID list \<Rightarrow> (int \<times> PartyID) list" where
  "peerIndexByKey ids = fold (\<lambda>i out. AList.update (fst (nodeForPartyKey i)) i out) ids []"

definition relay_targets :: "int \<Rightarrow> peers \<Rightarrow> PartyID list \<Rightarrow> tss_message \<Rightarrow> int list" where
  "relay_targets self peers sortedIDs msg =
     (if tm_broadcast msg then filter (\<lambda>i. i \<noteq> self) (map fst peers)
      else concat (map (\<lambda>to. map fst (filter (\<lambda>(_, i). pid_Key i = pid_Key to) (peerIndexByKey sortedIDs))) (tm_to msg)))"

fun deliver_all :: "peers \<Rightarrow> (string \<Rightarrow> string option) \<Rightarrow> int list \<Rightarrow> party_error option \<times> string list" where
  "deliver_all peers post [] = (None, [])"
| "deliver_all peers post (i # targets) =
     (case map_of peers i of
        None \<Rightarrow> (Some (NoEndpoint i), [])
      | Some url \<Rightarrow>
          (case post url of
             Some e \<Rightarrow> (Some (DeliveryFailed i e), [])
           | None \<Rightarrow> (let (err, sent) = deliver_all peers post targets in (err, url # sent))))"

definition relayTSSMessage ::
  "int \<Rightarrow> peers \<Rightarrow> PartyID list \<Rightarrow> tss_message \<Rightarrow> (string \<Rightarrow> string option) \<Rightarrow> party_error option \<times> string list" where
  "relayTSSMessage self peers sortedIDs msg post = deliver_all peers post (relay_targets self peers sortedIDs msg)"

text \<open>\<^verbatim>\<open>relayPending\<close> sends what is queued on the out channel, in order, up to the first failure.\<close>

fun relayPending :: "(tss_message \<Rightarrow> party_error option \<times> 'a list) \<Rightarrow> tss_message list \<Rightarrow> party_error option \<times> 'a list" where
  "relayPending relay [] = (None, [])"
| "relayPending relay (msg # queue) =
     (case relay msg of
        (Some e, sent) \<Rightarrow> (Some e, sent)
      | (None, sent) \<Rightarrow> (let (err, rest) = relayPending relay queue in (err, sent @ rest)))"

section \<open>Properties of identities\<close>

text \<open>What tss-lib documents of \<^verbatim>\<open>SortPartyIDs\<close>: the same identities, in the order of their keys.\<close>

definition sort_ok :: "('sd, 'p) tss \<Rightarrow> bool" where
  "sort_ok t \<longleftrightarrow> (\<forall>xs. mset (SortPartyIDs t xs) = mset xs \<and> sorted (map pid_Key (SortPartyIDs t xs)))"

text \<open>Party numbers and epochs for which the key of a node is unambiguous.\<close>

definition node_ok :: "int \<Rightarrow> bool" where
  "node_ok node \<longleftrightarrow> 0 < node \<and> node < committeeEpochStride"

definition epoch_ok :: "int \<Rightarrow> bool" where
  "epoch_ok epoch \<longleftrightarrow> 0 \<le> epoch \<and> epoch < 2 ^ 40"

lemma committeeKey_exact: "node_ok node \<Longrightarrow> epoch_ok epoch \<Longrightarrow> committeeKey node epoch = epoch * committeeEpochStride + node"
  by (simp add: committeeKey_def node_ok_def epoch_ok_def committeeEpochStride_def i64_id in_i64_def)

lemma nodeForPartyKey_committeeKey:
  assumes "node_ok node" "epoch_ok epoch" "pid_Key i = committeeKey node epoch"
  shows "nodeForPartyKey i = (node, epoch)"
proof -
  have k: "pid_Key i = epoch * committeeEpochStride + node" "in_i64 (pid_Key i)" "0 < pid_Key i"
    using assms by (auto simp: committeeKey_exact node_ok_def epoch_ok_def committeeEpochStride_def in_i64_def)
  then show ?thesis
    using assms(1) by (auto simp: nodeForPartyKey_def i64_id Let_def node_ok_def committeeEpochStride_def)
qed

lemma committeeKey_inj:
  "node_ok a \<Longrightarrow> node_ok b \<Longrightarrow> epoch_ok e \<Longrightarrow> epoch_ok f \<Longrightarrow> committeeKey a e = committeeKey b f \<Longrightarrow> a = b \<and> e = f"
  using nodeForPartyKey_committeeKey [of a e "\<lparr>pid_Id = '''', pid_Moniker = '''', pid_Key = committeeKey a e\<rparr>"]
    nodeForPartyKey_committeeKey [of b f "\<lparr>pid_Id = '''', pid_Moniker = '''', pid_Key = committeeKey a e\<rparr>"] by simp

definition member :: "int \<Rightarrow> int \<Rightarrow> PartyID" where
  "member epoch i =
     (if epoch = 0 then NewPartyID (dec_int i) (''party'' @ dec_int i) (partyKey i)
      else NewPartyID (''e'' @ dec_int epoch @ ''-'' @ dec_int i) (''party'' @ dec_int i @ ''.e'' @ dec_int epoch) (committeeKey i epoch))"

lemma committeePartyIDs_member: "committeePartyIDs t peers epoch = SortPartyIDs t (map (member epoch) (map fst peers))"
  by (simp add: committeePartyIDs_def deterministicPartyIDs_def member_def comp_def case_prod_unfold)

lemma pid_Key_member: "node_ok i \<Longrightarrow> epoch_ok epoch \<Longrightarrow> pid_Key (member epoch i) = committeeKey i epoch"
  using committeeKey_exact [of i epoch]
  by (auto simp: member_def NewPartyID_def partyKey_def node_ok_def epoch_ok_def committeeEpochStride_def)

lemma node_member: "node_ok i \<Longrightarrow> epoch_ok epoch \<Longrightarrow> nodeForPartyKey (member epoch i) = (i, epoch)"
  by (rule nodeForPartyKey_committeeKey) (simp_all add: pid_Key_member)

definition peers_ok :: "peers \<Rightarrow> bool" where
  "peers_ok peers \<longleftrightarrow> distinct (map fst peers) \<and> (\<forall>i \<in> set (map fst peers). node_ok i)"

lemma peers_ok_node: "peers_ok peers \<Longrightarrow> (i, url) \<in> set peers \<Longrightarrow> node_ok i"
  by (auto simp: peers_ok_def)

lemma member_key_inj:
  "node_ok a \<Longrightarrow> node_ok b \<Longrightarrow> epoch_ok epoch \<Longrightarrow> pid_Key (member epoch a) = pid_Key (member epoch b) \<Longrightarrow> a = b"
  using committeeKey_inj [of a b epoch epoch] by (simp add: pid_Key_member)

lemma set_committee: "sort_ok t \<Longrightarrow> set (committeePartyIDs t peers epoch) = member epoch ` set (map fst peers)"
  unfolding committeePartyIDs_member sort_ok_def by (metis list.set_map set_mset_mset)

lemma length_committee: "sort_ok t \<Longrightarrow> length (committeePartyIDs t peers epoch) = length peers"
  unfolding committeePartyIDs_member sort_ok_def by (metis length_map size_mset)

lemma committee_memberE:
  assumes "y \<in> set (committeePartyIDs t peers epoch)" "sort_ok t" "peers_ok peers"
  obtains j where "j \<in> fst ` set peers" "node_ok j" "y = member epoch j"
proof -
  obtain j where "j \<in> fst ` set peers" "y = member epoch j" using assms(1,2) by (auto simp: set_committee)
  then show ?thesis using that assms(3) by (auto simp: peers_ok_def)
qed

lemma find_eq_Some_unique:
  assumes "x \<in> set xs" "P x" "\<forall>y \<in> set xs. P y \<longrightarrow> y = x"
  shows "find P xs = Some x"
  using assms
proof (induction xs)
  case (Cons a xs)
  show ?case
  proof (cases "P a")
    case True
    then have "a = x" using Cons.prems(3) by simp
    then show ?thesis using True by simp
  next
    case False
    then have "x \<in> set xs" using Cons.prems(1,2) by auto
    then have "find P xs = Some x" by (rule Cons.IH) (use Cons.prems in auto)
    then show ?thesis using False by simp
  qed
qed simp

lemma findPartyIDByKey_member:
  assumes "sort_ok t" "peers_ok peers" "epoch_ok epoch" "i \<in> set (map fst peers)"
  shows "findPartyIDByKey (committeePartyIDs t peers epoch) (committeeKey i epoch) = Some (member epoch i)"
  unfolding findPartyIDByKey_def
proof (rule find_eq_Some_unique)
  have i: "node_ok i" using assms(2,4) by (auto dest: peers_ok_node)
  show "member epoch i \<in> set (committeePartyIDs t peers epoch)" using assms(1,4) by (auto simp: set_committee)
  show "pid_Key (member epoch i) = committeeKey i epoch" by (rule pid_Key_member [OF i assms(3)])
  then show "\<forall>y \<in> set (committeePartyIDs t peers epoch). pid_Key y = committeeKey i epoch \<longrightarrow> y = member epoch i"
    using i assms(1-3) by (auto elim!: committee_memberE dest: member_key_inj)
qed

lemma findPartyIDByNode_member:
  assumes "sort_ok t" "peers_ok peers" "epoch_ok epoch" "i \<in> set (map fst peers)"
  shows "findPartyIDByNode (committeePartyIDs t peers epoch) i = Some (member epoch i)"
  unfolding findPartyIDByNode_def
proof (rule find_eq_Some_unique)
  have i: "node_ok i" using assms(2,4) by (auto dest: peers_ok_node)
  show "member epoch i \<in> set (committeePartyIDs t peers epoch)" using assms(1,4) by (auto simp: set_committee)
  show "fst (nodeForPartyKey (member epoch i)) = i" using i assms(3) by (simp add: node_member)
  show "\<forall>y \<in> set (committeePartyIDs t peers epoch). fst (nodeForPartyKey y) = i \<longrightarrow> y = member epoch i"
    using assms(1-3) by (auto elim!: committee_memberE simp: node_member)
qed

lemma findPartyID_other_epoch:
  assumes "sort_ok t" "peers_ok peers" "epoch_ok epoch" "epoch \<noteq> 0" "node_ok i"
  shows "findPartyID (committeePartyIDs t peers epoch) i = None"
proof -
  have "pid_Key (member epoch j) \<noteq> i" if "node_ok j" for j
    using that assms(3-5)
    by (auto simp: pid_Key_member committeeKey_exact node_ok_def epoch_ok_def committeeEpochStride_def)
  then show ?thesis
    using assms(1,2) by (auto simp: findPartyID_def find_None_iff partyKey_def elim!: committee_memberE)
qed

lemma committee_nodes_agree:
  assumes "sort_ok t" "peers_ok peers" "epoch_ok epoch" "mset (map fst peers) = mset (map fst peers')"
  shows "committeePartyIDs t peers epoch = committeePartyIDs t peers' epoch"
proof -
  let ?xs = "committeePartyIDs t peers epoch" and ?ys = "committeePartyIDs t peers' epoch"
  have m: "mset ?xs = mset ?ys"
    using assms(1,4) unfolding committeePartyIDs_member sort_ok_def by (metis (no_types) mset_map)
  have inj: "inj_on pid_Key (set ?xs)"
    using assms(1-3) by (auto intro!: inj_onI elim!: committee_memberE dest: member_key_inj)
  have "sorted (map pid_Key ?xs)" "sorted (map pid_Key ?ys)"
    using assms(1) by (auto simp: committeePartyIDs_member sort_ok_def)
  then have keys: "map pid_Key ?xs = map pid_Key ?ys"
    using m by (metis mset_map properties_for_sort sorted_sort_id)
  have "set ?xs = set ?ys" using m by (metis set_mset_mset)
  then have "inj_on pid_Key (set ?xs \<union> set ?ys)" using inj by simp
  with keys show ?thesis by (rule map_inj_on)
qed

text \<open>Every process arrives at the same committee. Whatever order the map of peers is iterated in, in any
  refresh epoch, the sorted identities are the same list.\<close>

theorem committee_ids_agree:
  assumes "sort_ok t" "peers_ok peers" "epoch_ok epoch" "mset peers = mset peers'"
  shows "committeePartyIDs t peers epoch = committeePartyIDs t peers' epoch"
  using assms(1-3) by (rule committee_nodes_agree) (simp add: assms(4))

lemma peerIndexByKey_distinct:
  assumes "distinct (map (fst \<circ> nodeForPartyKey) ids)"
  shows "peerIndexByKey ids = map (\<lambda>i. (fst (nodeForPartyKey i), i)) ids"
proof -
  have app: "AList.update k v acc = acc @ [(k, v)]" if "k \<notin> fst ` set acc" for k v and acc :: "(int \<times> PartyID) list"
    using that by (induction acc) auto
  have "fold (\<lambda>i out. AList.update (fst (nodeForPartyKey i)) i out) ids acc
      = acc @ map (\<lambda>i. (fst (nodeForPartyKey i), i)) ids"
    if "distinct (map (fst \<circ> nodeForPartyKey) ids)" "\<forall>i \<in> set ids. fst (nodeForPartyKey i) \<notin> fst ` set acc" for acc
    using that
  proof (induction ids arbitrary: acc)
    case (Cons a ids)
    have "fold (\<lambda>i out. AList.update (fst (nodeForPartyKey i)) i out) ids (acc @ [(fst (nodeForPartyKey a), a)])
        = (acc @ [(fst (nodeForPartyKey a), a)]) @ map (\<lambda>i. (fst (nodeForPartyKey i), i)) ids"
    proof (rule Cons.IH)
      have "fst (nodeForPartyKey a) \<notin> (fst \<circ> nodeForPartyKey) ` set ids" using Cons.prems(1) by simp
      then have "\<forall>i \<in> set ids. fst (nodeForPartyKey i) \<noteq> fst (nodeForPartyKey a)" by (metis comp_apply imageI)
      then show "\<forall>i \<in> set ids. fst (nodeForPartyKey i) \<notin> fst ` set (acc @ [(fst (nodeForPartyKey a), a)])"
        using Cons.prems(2) by simp
    qed (use Cons.prems(1) in simp)
    then show ?case using Cons.prems(2) by (simp add: app)
  qed simp
  from this [of "[]"] assms show ?thesis by (simp add: peerIndexByKey_def)
qed

lemma distinct_nodes_committee:
  assumes "sort_ok t" "peers_ok peers" "epoch_ok epoch"
  shows "distinct (map (fst \<circ> nodeForPartyKey) (committeePartyIDs t peers epoch))"
proof -
  have n: "map (fst \<circ> nodeForPartyKey) (map (member epoch) (map fst peers)) = map fst peers"
    using assms(2,3) by (auto simp: peers_ok_def node_member)
  have "mset (committeePartyIDs t peers epoch) = mset (map (member epoch) (map fst peers))"
    using assms(1) unfolding committeePartyIDs_member sort_ok_def by blast
  then have "mset (map (fst \<circ> nodeForPartyKey) (committeePartyIDs t peers epoch))
      = mset (map (fst \<circ> nodeForPartyKey) (map (member epoch) (map fst peers)))"
    by (simp only: mset_map)
  then have "mset (map (fst \<circ> nodeForPartyKey) (committeePartyIDs t peers epoch)) = mset (map fst peers)"
    by (simp only: n)
  then show ?thesis using assms(2) by (metis mset_eq_imp_distinct_iff peers_ok_def)
qed

lemma distinct_singleton_set: "distinct ys \<Longrightarrow> set ys = {x} \<Longrightarrow> ys = [x]"
proof (cases ys)
  case (Cons y zs)
  assume d: "distinct ys" "set ys = {x}"
  then have "y = x" "set zs \<subseteq> {x}" "y \<notin> set zs" using Cons by auto
  then have "zs = []" by (cases zs) auto
  with Cons \<open>y = x\<close> show ?thesis by simp
qed simp

lemma filter_unique:
  assumes "distinct xs" "x \<in> set xs" "P x" "\<forall>y \<in> set xs. P y \<longrightarrow> y = x"
  shows "filter P xs = [x]"
proof (rule distinct_singleton_set)
  have "{y \<in> set xs. P y} = {x}" using assms(2-4) by blast
  then show "set (filter P xs) = {x}" by simp
qed (rule distinct_filter [OF assms(1)])

lemma relay_targets_direct:
  assumes "sort_ok t" "peers_ok peers" "epoch_ok epoch" "\<not> tm_broadcast msg"
    "tm_to msg = map (member epoch) nodes" "set nodes \<subseteq> set (map fst peers)"
  shows "relay_targets self peers (committeePartyIDs t peers epoch) msg = nodes"
proof -
  let ?ids = "committeePartyIDs t peers epoch"
  note d = distinct_nodes_committee [OF assms(1-3)]
  have di: "distinct ?ids" using d distinct_map by blast
  have ok: "node_ok n" if "n \<in> set nodes" for n using that assms(2,6) by (auto simp: peers_ok_def)
  have "filter (\<lambda>i. pid_Key i = pid_Key (member epoch n)) ?ids = [member epoch n]" if n: "n \<in> set nodes" for n
  proof (rule filter_unique [OF di])
    show "member epoch n \<in> set ?ids" using n assms(1,6) by (auto simp: set_committee)
    show "\<forall>y \<in> set ?ids. pid_Key y = pid_Key (member epoch n) \<longrightarrow> y = member epoch n"
      using ok [OF n] assms(1-3) by (auto elim!: committee_memberE dest: member_key_inj)
  qed simp
  moreover have "fst (nodeForPartyKey (member epoch n)) = n" if "n \<in> set nodes" for n
    using ok [OF that] assms(3) by (simp add: node_member)
  ultimately have "map (\<lambda>to. map fst (filter (\<lambda>(_, i). pid_Key i = pid_Key to) (peerIndexByKey ?ids))) (map (member epoch) nodes)
      = map (\<lambda>n. [n]) nodes"
    by (auto simp: peerIndexByKey_distinct [OF d] filter_map comp_def)
  moreover have "concat (map (\<lambda>n. [n]) ns) = ns" for ns :: "int list" by (induction ns) auto
  ultimately show ?thesis unfolding relay_targets_def assms(5) using assms(4) by (simp only: if_False simp_thms)
qed

lemma deliver_all_sent:
  "deliver_all peers post targets = (None, sent) \<Longrightarrow>
     sent = map (\<lambda>i. the (map_of peers i)) targets \<and> (\<forall>i \<in> set targets. map_of peers i \<noteq> None)"
  by (induction targets arbitrary: sent) (auto simp: Let_def split: option.splits prod.splits)

text \<open>A relayed message reaches its addressees and nobody else. When relaying reports success, a broadcast
  was posted once to every other peer and never to the sender itself, and a message addressed to members of
  the committee was posted to exactly the endpoints of those members, in order; this holds in every epoch, where
  the key of a member is no longer its party number.\<close>

theorem relay_reaches_addressees:
  assumes "sort_ok t" "peers_ok peers" "epoch_ok epoch"
    and "relayTSSMessage self peers (committeePartyIDs t peers epoch) msg post = (None, sent)"
    and "tm_to msg = map (member epoch) nodes" "set nodes \<subseteq> set (map fst peers)"
  shows "sent = (if tm_broadcast msg then map snd (filter (\<lambda>(i, _). i \<noteq> self) peers)
    else map (\<lambda>i. the (map_of peers i)) nodes)"
proof (cases "tm_broadcast msg")
  case True
  have "sent = map (\<lambda>i. the (map_of peers i)) (filter (\<lambda>i. i \<noteq> self) (map fst peers))"
    using assms(4) True deliver_all_sent by (simp add: relayTSSMessage_def relay_targets_def)
  also have "\<dots> = map snd (filter (\<lambda>(i, _). i \<noteq> self) peers)"
    using assms(2) by (auto simp: filter_map comp_def peers_ok_def case_prod_unfold)
  finally show ?thesis using True by simp
next
  case False
  then show ?thesis
    using assms(4) deliver_all_sent relay_targets_direct [OF assms(1-3) False assms(5,6)]
    by (simp add: relayTSSMessage_def)
qed

section \<open>Examples\<close>

text \<open>A lawful tss-lib whose local parties are numbers: each accepted message counts one up.\<close>

definition demo_tss :: "(nat, nat) tss" where
  "demo_tss = \<lparr>SortPartyIDs = sort_key pid_Key, tss_keygen = (\<lambda>_ _ _ _. 0), tss_signing = (\<lambda>_ _ _ _ _ _. 0),
     tss_resharing = (\<lambda>_ _ _ _ _ _. 0), tss_reshare_new = (\<lambda>_ _ _ _ _. 0), tss_start = (\<lambda>_. None), tss_update = (\<lambda>p _ _ _. (Suc p, None)),
     tss_base64 = hex_decode, tss_encode64 = hex_encode\<rparr>"

definition demo_peers :: peers where
  "demo_peers = [(2, ''http://two''), (1, ''http://one''), (3, ''http://three'')]"

lemma demo_sort_ok: "sort_ok demo_tss"
  by (simp add: sort_ok_def demo_tss_def)

lemma demo_peers_ok: "peers_ok demo_peers"
  by (simp add: peers_ok_def demo_peers_def node_ok_def committeeEpochStride_def)

theorem committee_ids_agree_witness:
  "committeePartyIDs demo_tss demo_peers 2 = committeePartyIDs demo_tss (rev demo_peers) 2"
  by (rule committee_ids_agree [OF demo_sort_ok demo_peers_ok]) (simp_all add: epoch_ok_def)

definition demo_direct :: tss_message where
  "demo_direct = \<lparr>tm_wire = Some [1], tm_broadcast = False, tm_to = map (member 1) [3, 2], tm_from = member 1 1,
     tm_toOld = False, tm_toOldAndNew = False\<rparr>"

theorem relay_reaches_addressees_witness:
  "relayTSSMessage 1 demo_peers (committeePartyIDs demo_tss demo_peers 1) demo_direct (\<lambda>_. None)
     = (None, [''http://three'', ''http://two''])"
proof -
  have e: "epoch_ok 1" by (simp add: epoch_ok_def)
  have n: "set [3, 2] \<subseteq> set (map fst demo_peers)" by (simp add: demo_peers_def)
  have "relay_targets 1 demo_peers (committeePartyIDs demo_tss demo_peers 1) demo_direct = [3, 2]"
    by (rule relay_targets_direct [OF demo_sort_ok demo_peers_ok e _ _ n]) (simp_all add: demo_direct_def)
  then obtain sent where s: "relayTSSMessage 1 demo_peers (committeePartyIDs demo_tss demo_peers 1) demo_direct (\<lambda>_. None) = (None, sent)"
    by (simp add: relayTSSMessage_def demo_peers_def)
  have "sent = [''http://three'', ''http://two'']"
    using relay_reaches_addressees [OF demo_sort_ok demo_peers_ok e s _ n] by (simp add: demo_direct_def demo_peers_def)
  with s show ?thesis by simp
qed

end
