(* ===== verification/Party_Keygen.thy ===== *)
theory Party_Keygen
  imports Party_State
begin

text \<open>
  Distributed key generation at one party: \<^verbatim>\<open>services/mpc-party/tss_party.go\<close>. Each operation of the manager is
  one step on its state; the goroutine of a ceremony is \<^verbatim>\<open>runKeygen\<close>, which builds and starts the local party, and
  \<^verbatim>\<open>driveKeygen\<close>, which consumes what arrives on the channels of tss-lib. A step runs without interleaving.
\<close>

section \<open>Operations\<close>

record tssMessageEnvelope =
  env_CeremonyID :: string
  env_FromPartyID :: int
  env_IsBroadcast :: bool
  env_WireBytes :: string

definition failCeremony :: "string \<Rightarrow> party_error \<Rightarrow> ('sd, 'p) TSSPartyManager \<Rightarrow> ('sd, 'p) TSSPartyManager" where
  "failCeremony ceremonyID err m =
     m\<lparr>m_ceremonies := reg_update_id ceremonyID (\<lambda>c. c\<lparr>kc_status := ceremonyFailed, kc_error := Some err\<rparr>) (m_ceremonies m)\<rparr>"

text \<open>The majority rule is checked in machine integers. On success the ceremony is registered, with no local party
  yet, and the reference and the own identity are what the goroutine is given.\<close>

definition startKeygen ::
  "('sd, 'p) tss \<Rightarrow> string \<Rightarrow> int \<Rightarrow> peers \<Rightarrow> string \<Rightarrow> string \<Rightarrow> ('sd, 'p) TSSPartyManager
     \<Rightarrow> party_error + (nat \<times> PartyID \<times> ('sd, 'p) TSSPartyManager)" where
  "startKeygen t ceremonyID threshold peers curve blockchain m =
     (let n = int (length peers) in
      if map_of peers (m_partyID m) = None then Inl (NotInPeers (m_partyID m))
      else if 2 \<le> n \<and> i64 (threshold + 1) < n div 2 + 1 then Inl (NotAMajority threshold n)
      else case ellipticCurve curve of
             Inl e \<Rightarrow> Inl (ShareError e)
           | Inr _ \<Rightarrow>
               (let ids = deterministicPartyIDs t peers in
                case findPartyID ids (m_partyID m) of
                  None \<Rightarrow> Inl (SelfNotResolved (m_partyID m))
                | Some self \<Rightarrow>
                    Inr (reg_next (m_ceremonies m), self,
                      m\<lparr>m_ceremonies := reg_new ceremonyID
                         \<lparr>kc_status = ceremonyInProgress, kc_error = None, kc_selfPartyID = m_partyID m,
                          kc_threshold = threshold, kc_sortedIDs = ids, kc_peers = peers, kc_localParty = None,
                          kc_curve = curve, kc_blockchain = blockchain, kc_epoch = 0, kc_saveData = None,
                          kc_publicKeyHex = '''', kc_address = '''', kc_sealed = False\<rparr> (m_ceremonies m)\<rparr>)))"

definition StartKeygen ::
  "('sd, 'p) tss \<Rightarrow> string \<Rightarrow> int \<Rightarrow> peers \<Rightarrow> string \<Rightarrow> ('sd, 'p) TSSPartyManager
     \<Rightarrow> party_error + (nat \<times> PartyID \<times> ('sd, 'p) TSSPartyManager)" where
  "StartKeygen t ceremonyID threshold peers curve m = startKeygen t ceremonyID threshold peers curve '''' m"

definition StartKeygenForChain ::
  "('sd, 'p) tss \<Rightarrow> string \<Rightarrow> int \<Rightarrow> peers \<Rightarrow> string \<Rightarrow> ('sd, 'p) TSSPartyManager
     \<Rightarrow> party_error + (nat \<times> PartyID \<times> ('sd, 'p) TSSPartyManager)" where
  "StartKeygenForChain t ceremonyID threshold peers blockchain m =
     (case CurveForChain blockchain of
        Inl e \<Rightarrow> Inl (ShareError e)
      | Inr curve \<Rightarrow> startKeygen t ceremonyID threshold peers curve blockchain m)"

definition startLocalParty ::
  "('sd, 'p) tss \<Rightarrow> string \<Rightarrow> nat \<Rightarrow> 'p \<Rightarrow> ('sd, 'p) TSSPartyManager \<Rightarrow> bool \<times> ('sd, 'p) TSSPartyManager" where
  "startLocalParty t ceremonyID ref p m =
     (case tss_start t p of
        Some e \<Rightarrow> (False, failCeremony ceremonyID (LocalPartyStart e) m)
      | None \<Rightarrow> (True, m\<lparr>m_ceremonies := reg_update ref (\<lambda>c. c\<lparr>kc_localParty := Some p\<rparr>) (m_ceremonies m)\<rparr>))"

text \<open>\<^verbatim>\<open>preParams\<close> is what the pool answers. The result says whether the goroutine goes on to drive the protocol.\<close>

definition runKeygen ::
  "('sd, 'p) tss \<Rightarrow> string \<Rightarrow> nat \<Rightarrow> PartyID \<Rightarrow> string option \<Rightarrow> ('sd, 'p) TSSPartyManager
     \<Rightarrow> bool \<times> ('sd, 'p) TSSPartyManager" where
  "runKeygen t ceremonyID ref self preParamsErr m =
     (case reg_obj (m_ceremonies m) ref of
        None \<Rightarrow> (False, m)
      | Some c \<Rightarrow>
          (case ellipticCurve (kc_curve c) of
             Inl e \<Rightarrow> (False, failCeremony ceremonyID (ShareError e) m)
           | Inr ec \<Rightarrow>
               (let p = tss_keygen t ec (kc_sortedIDs c) self (kc_threshold c) in
                if kc_curve c = CurveSecp256k1 then
                  (case preParamsErr of
                     Some e \<Rightarrow> (False, failCeremony ceremonyID (PreParams e) m)
                   | None \<Rightarrow> startLocalParty t ceremonyID ref p m)
                else startLocalParty t ceremonyID ref p m)))"

definition relayMessage ::
  "('sd, 'p) tss \<Rightarrow> string \<Rightarrow> ('sd, 'p) tssKeygenCeremony \<Rightarrow> (string \<Rightarrow> tssMessageEnvelope \<Rightarrow> string option) \<Rightarrow> tss_message
     \<Rightarrow> party_error option \<times> string list" where
  "relayMessage t ceremonyID c post msg =
     (case tm_wire msg of
        None \<Rightarrow> (Some SerializeFailed, [])
      | Some data \<Rightarrow>
          (let envelope = \<lparr>env_CeremonyID = ceremonyID, env_FromPartyID = kc_selfPartyID c,
                           env_IsBroadcast = tm_broadcast msg, env_WireBytes = tss_encode64 t data\<rparr>
           in relayTSSMessage (kc_selfPartyID c) (kc_peers c) (kc_sortedIDs c) msg (\<lambda>url. post url envelope)))"

definition completeCeremony ::
  "'sd share_lib \<Rightarrow> host \<Rightarrow> io \<Rightarrow> string \<Rightarrow> nat \<Rightarrow> 'sd KeyShare \<Rightarrow> ('sd, 'p) TSSPartyManager \<times> store
     \<Rightarrow> ('sd, 'p) TSSPartyManager \<times> store" where
  "completeCeremony lib h io ceremonyID ref share w =
     (let (m, st) = w in
      case reg_obj (m_ceremonies m) ref of
        None \<Rightarrow> (m, st)
      | Some c \<Rightarrow>
          (case res_bind (PublicKey lib share) (\<lambda>(pub, address).
                 res_bind (AddressFor lib share (kc_blockchain c) address) (\<lambda>address. Inr (pub, address))) of
             Inl e \<Rightarrow> (failCeremony ceremonyID (PublicKeyNotDerived e) m, st)
           | Inr (pub, address) \<Rightarrow>
               (case SealKeyShareWithContext lib h io (kc_selfPartyID c) ceremonyID share
                       (Some \<lparr>cc_Threshold = kc_threshold c, cc_TotalParties = int (length (kc_sortedIDs c)),
                              cc_Curve = kc_curve c, cc_Epoch = kc_epoch c, cc_PublicKeyHex = pub, cc_Address = address\<rparr>) st of
                  Inl e \<Rightarrow> (failCeremony ceremonyID (SealingFailed e) m, st)
                | Inr (sealed, st) \<Rightarrow>
                    (m\<lparr>m_ceremonies := reg_update ref (\<lambda>c. c\<lparr>kc_status := ceremonyCompleted, kc_saveData := Some share,
                        kc_publicKeyHex := pub, kc_address := address, kc_sealed := sealed\<rparr>) (m_ceremonies m)\<rparr>, st))))"

text \<open>What the driver receives: an outgoing message, a protocol error, or the result together with the messages
  still queued when it is taken.\<close>

datatype 'sd keygen_event = OutMessage tss_message | ErrEvent string | EndEvent 'sd "tss_message list"

definition wrap_share :: "string \<Rightarrow> 'sd \<Rightarrow> 'sd KeyShare" where
  "wrap_share curve save =
     (if curve = CurveSecp256k1 then \<lparr>ks_Curve = CurveSecp256k1, ks_ECDSA = Some save, ks_EdDSA = None\<rparr>
      else \<lparr>ks_Curve = CurveEd25519, ks_ECDSA = None, ks_EdDSA = Some save\<rparr>)"

fun driveKeygen ::
  "('sd, 'p) tss \<Rightarrow> 'sd share_lib \<Rightarrow> host \<Rightarrow> io \<Rightarrow> string \<Rightarrow> nat \<Rightarrow> ('sd, 'p) tssKeygenCeremony
     \<Rightarrow> (string \<Rightarrow> tssMessageEnvelope \<Rightarrow> string option) \<Rightarrow> 'sd keygen_event list
     \<Rightarrow> ('sd, 'p) TSSPartyManager \<times> store \<Rightarrow> ('sd, 'p) TSSPartyManager \<times> store" where
  "driveKeygen t lib h io ceremonyID ref c post [] w = w"
| "driveKeygen t lib h io ceremonyID ref c post (OutMessage msg # es) w =
     (case relayMessage t ceremonyID c post msg of
        (Some e, _) \<Rightarrow> (failCeremony ceremonyID (RelayFailed e) (fst w), snd w)
      | (None, _) \<Rightarrow> driveKeygen t lib h io ceremonyID ref c post es w)"
| "driveKeygen t lib h io ceremonyID ref c post (ErrEvent e # es) w =
     (failCeremony ceremonyID (ProtocolError e) (fst w), snd w)"
| "driveKeygen t lib h io ceremonyID ref c post (EndEvent save queue # es) w =
     (case relayPending (relayMessage t ceremonyID c post) queue of
        (Some e, _) \<Rightarrow> (failCeremony ceremonyID (RelayFailed e) (fst w), snd w)
      | (None, _) \<Rightarrow> completeCeremony lib h io ceremonyID ref (wrap_share (kc_curve c) save) w)"

definition HandleIncomingMessage ::
  "('sd, 'p) tss \<Rightarrow> tssMessageEnvelope \<Rightarrow> ('sd, 'p) TSSPartyManager \<Rightarrow> (party_error + unit) \<times> ('sd, 'p) TSSPartyManager" where
  "HandleIncomingMessage t env m =
     (case reg_find (env_CeremonyID env) (m_ceremonies m) of
        None \<Rightarrow> (Inl CeremonyNotReady, m)
      | Some c \<Rightarrow>
          (case kc_localParty c of
             None \<Rightarrow> (Inl CeremonyNotReady, m)
           | Some p \<Rightarrow>
               (case findPartyID (kc_sortedIDs c) (env_FromPartyID env) of
                  None \<Rightarrow> (Inl (UnknownSender (env_FromPartyID env)), m)
                | Some from \<Rightarrow>
                    (case tss_base64 t (env_WireBytes env) of
                       None \<Rightarrow> (Inl WireBytesNotBase64, m)
                     | Some wire \<Rightarrow>
                         (let (p', err) = tss_update t p wire from (env_IsBroadcast env);
                              m = m\<lparr>m_ceremonies := reg_update_id (env_CeremonyID env)
                                     (\<lambda>c. c\<lparr>kc_localParty := Some p'\<rparr>) (m_ceremonies m)\<rparr>
                          in (case err of Some e \<Rightarrow> (Inl (UpdateFailed e), m) | None \<Rightarrow> (Inr (), m)))))))"

record KeygenStatusResult =
  ksr_CeremonyID :: string
  ksr_PartyID :: int
  ksr_Status :: ceremonyStatus
  ksr_Error :: "party_error option"
  ksr_PublicKey :: string
  ksr_Address :: string
  ksr_Sealed :: bool

definition GetStatus :: "string \<Rightarrow> ('sd, 'p) TSSPartyManager \<Rightarrow> party_error + KeygenStatusResult" where
  "GetStatus ceremonyID m =
     (case reg_find ceremonyID (m_ceremonies m) of
        None \<Rightarrow> Inl (UnknownCeremony ceremonyID)
      | Some c \<Rightarrow> Inr \<lparr>ksr_CeremonyID = ceremonyID, ksr_PartyID = kc_selfPartyID c, ksr_Status = kc_status c,
          ksr_Error = kc_error c, ksr_PublicKey = kc_publicKeyHex c, ksr_Address = kc_address c, ksr_Sealed = kc_sealed c\<rparr>)"

definition Forget :: "string \<Rightarrow> ('sd, 'p) TSSPartyManager \<Rightarrow> bool \<times> ('sd, 'p) TSSPartyManager" where
  "Forget ceremonyID m =
     (case reg_find ceremonyID (m_ceremonies m) of
        None \<Rightarrow> (False, m)
      | Some c \<Rightarrow> (True, m\<lparr>m_ceremonies := reg_drop ceremonyID
          (reg_update_id ceremonyID (\<lambda>c. c\<lparr>kc_saveData := None\<rparr>) (m_ceremonies m))\<rparr>))"


section \<open>Properties\<close>

lemma startKeygen_Inr:
  assumes "startKeygen t cid threshold peers curve chain m = Inr (ref, self, m')"
  shows "map_of peers (m_partyID m) \<noteq> None" "2 \<le> length peers \<Longrightarrow> int (length peers) div 2 + 1 \<le> i64 (threshold + 1)"
    "\<exists>ec. ellipticCurve curve = Inr ec" "findPartyID (deterministicPartyIDs t peers) (m_partyID m) = Some self"
    "ref = reg_next (m_ceremonies m)"
  using assms by (auto simp: startKeygen_def Let_def split: if_splits sum.splits option.splits)

text \<open>C33: No minority can spend. When a party accepts a key generation for two or more members, any two groups of
  members that are large enough to sign (\<^verbatim>\<open>threshold+1\<close>) have a member in common, so no two disjoint groups can both
  sign, and every group that can sign is more than half of the committee.\<close>

theorem signing_groups_intersect:
  assumes "startKeygen t cid threshold peers curve chain m = Inr r"
    and "distinct (map fst peers)" "2 \<le> length peers" "in_i64 (threshold + 1)"
    and "A \<subseteq> fst ` set peers" "B \<subseteq> fst ` set peers"
    and "threshold + 1 \<le> int (card A)" "threshold + 1 \<le> int (card B)"
  shows "A \<inter> B \<noteq> {} \<and> int (length peers) < 2 * int (card A)"
proof -
  obtain ref self m' where r: "r = (ref, self, m')" by (cases r)
  let ?n = "length peers"
  have n: "card (fst ` set peers) = ?n" using assms(2) by (metis distinct_card length_map list.set_map)
  have maj: "int ?n div 2 + 1 \<le> threshold + 1"
    using startKeygen_Inr(2) [OF assms(1) [unfolded r] assms(3)] assms(4) by (simp add: i64_id)
  then have half: "int ?n < 2 * int (card A)" "int ?n < 2 * int (card B)" using assms(7,8) by linarith+
  have fin: "finite A" "finite B" using assms(5,6) finite_subset by blast+
  have "A \<inter> B \<noteq> {}"
  proof
    assume "A \<inter> B = {}"
    then have "card A + card B = card (A \<union> B)" using fin by (simp add: card_Un_disjoint)
    also have "\<dots> \<le> ?n" using assms(5,6) n by (metis Un_subset_iff card_mono finite_imageI finite_set)
    finally show False using half by linarith
  qed
  with half show ?thesis by simp
qed

theorem signing_groups_intersect_witness:
  "{1, 2} \<inter> {2, 3} \<noteq> ({} :: int set) \<and> int (length demo_peers) < 2 * int (card {1, 2 :: int})"
proof -
  obtain r where r: "startKeygen demo_tss ''k'' 1 demo_peers CurveSecp256k1 '''' (NewTSSPartyManager 1) = Inr r"
    by (simp add: startKeygen_def NewTSSPartyManager_def demo_peers_def ellipticCurve_def i64_def
        findPartyID_def deterministicPartyIDs_def demo_tss_def NewPartyID_def partyKey_def Let_def)
  show ?thesis
    by (rule signing_groups_intersect [OF r]) (auto simp: demo_peers_def in_i64_def)
qed

end
