(* ===== verification/Party_Signing.thy ===== *)
theory Party_Signing
  imports Party_Keygen
begin

text \<open>
  Threshold signing at one party: \<^verbatim>\<open>services/mpc-party/tss_signing.go\<close>.
\<close>

section \<open>Operations\<close>

record tssSignMessageEnvelope =
  sen_SignID :: string
  sen_FromPartyID :: int
  sen_IsBroadcast :: bool
  sen_WireBytes :: string

definition failSigning :: "string \<Rightarrow> party_error \<Rightarrow> ('sd, 'p) TSSPartyManager \<Rightarrow> ('sd, 'p) TSSPartyManager" where
  "failSigning signID err m =
     m\<lparr>m_signings := reg_update_id signID (\<lambda>c. c\<lparr>sc_status := ceremonyFailed, sc_error := Some err\<rparr>) (m_signings m)\<rparr>"

text \<open>The members of the key's committee that were asked for, as fresh identities, and their endpoints.\<close>

definition select_committee :: "int list \<Rightarrow> PartyID list \<Rightarrow> PartyID list" where
  "select_committee wanted ids = filter (\<lambda>i. fst (nodeForPartyKey i) \<in> set wanted) ids"

definition committee_peers :: "peers \<Rightarrow> PartyID list \<Rightarrow> peers" where
  "committee_peers full ids =
     fold (\<lambda>i out. let n = fst (nodeForPartyKey i) in
             AList.update n (case map_of full n of None \<Rightarrow> '''' | Some url \<Rightarrow> url) out) ids []"

definition StartSigning ::
  "('sd, 'p) tss \<Rightarrow> string \<Rightarrow> string \<Rightarrow> bytes \<Rightarrow> int list \<Rightarrow> ('sd, 'p) TSSPartyManager
     \<Rightarrow> party_error + (nat \<times> PartyID \<times> int \<times> 'sd KeyShare \<times> ('sd, 'p) TSSPartyManager)" where
  "StartSigning t signID keygenCeremonyID messageHash committeeIDs m =
     (if messageHash = [] then Inl NothingToSign
      else case reg_find keygenCeremonyID (m_ceremonies m) of
        None \<Rightarrow> Inl (UnknownCeremony keygenCeremonyID)
      | Some kc \<Rightarrow>
          (case (kc_status kc, kc_saveData kc) of
             (ceremonyCompleted, Some share) \<Rightarrow>
               if ks_Curve share = CurveSecp256k1 \<and> length messageHash \<noteq> 32 then Inl (DigestSize (length messageHash))
               else if int (length committeeIDs) \<noteq> i64 (kc_threshold kc + 1)
                 then Inl (CommitteeSize (i64 (kc_threshold kc + 1)) (length committeeIDs))
               else if m_partyID m \<notin> set committeeIDs then Inl (NotInCommittee (m_partyID m))
               else (let chosen = select_committee committeeIDs (kc_sortedIDs kc);
                         committee = SortPartyIDs t chosen;
                         peers = committee_peers (kc_peers kc) chosen
                     in if length committee \<noteq> length committeeIDs then Inl (CommitteeNotInDKG keygenCeremonyID)
                        else case findPartyIDByKey committee (committeeKey (m_partyID m) (kc_epoch kc)) of
                               None \<Rightarrow> Inl (SelfNotResolved (m_partyID m))
                             | Some self \<Rightarrow>
                                 Inr (reg_next (m_signings m), self, kc_threshold kc, share,
                                   m\<lparr>m_signings := reg_new signID
                                      \<lparr>sc_status = ceremonyInProgress, sc_error = None, sc_selfPartyID = m_partyID m,
                                       sc_committee = committee, sc_peers = peers, sc_localParty = None,
                                       sc_curve = ks_Curve share, sc_signature = ''''\<rparr> (m_signings m)\<rparr>))
           | (status, _) \<Rightarrow> Inl (NotCompleted keygenCeremonyID status)))"

text \<open>The share is dereferenced without a check: a share without data for its curve is a panic.\<close>

definition runSigning ::
  "('sd, 'p) tss \<Rightarrow> string \<Rightarrow> nat \<Rightarrow> PartyID \<Rightarrow> int \<Rightarrow> 'sd KeyShare \<Rightarrow> bytes \<Rightarrow> ('sd, 'p) TSSPartyManager
     \<Rightarrow> party_error + (bool \<times> ('sd, 'p) TSSPartyManager)" where
  "runSigning t signID ref self threshold share messageHash m =
     (case reg_obj (m_signings m) ref of
        None \<Rightarrow> Inr (False, m)
      | Some c \<Rightarrow>
          (case ellipticCurve (ks_Curve share) of
             Inl e \<Rightarrow> Inr (False, failSigning signID (ShareError e) m)
           | Inr ec \<Rightarrow>
               (case (if ks_Curve share = CurveSecp256k1 then ks_ECDSA share else ks_EdDSA share) of
                  None \<Rightarrow> Inl Panics
                | Some sd \<Rightarrow>
                    (let p = tss_signing t ec (sc_committee c) self threshold sd (bytes_nat messageHash) in
                     case tss_start t p of
                       Some e \<Rightarrow> Inr (False, failSigning signID (LocalPartyStart e) m)
                     | None \<Rightarrow> Inr (True, m\<lparr>m_signings := reg_update ref (\<lambda>c. c\<lparr>sc_localParty := Some p\<rparr>) (m_signings m)\<rparr>)))))"

definition relaySignMessage ::
  "('sd, 'p) tss \<Rightarrow> string \<Rightarrow> 'p tssSigningCeremony \<Rightarrow> (string \<Rightarrow> tssSignMessageEnvelope \<Rightarrow> string option) \<Rightarrow> tss_message
     \<Rightarrow> party_error option \<times> string list" where
  "relaySignMessage t signID c post msg =
     (case tm_wire msg of
        None \<Rightarrow> (Some SerializeFailed, [])
      | Some data \<Rightarrow>
          (let envelope = \<lparr>sen_SignID = signID, sen_FromPartyID = sc_selfPartyID c,
                           sen_IsBroadcast = tm_broadcast msg, sen_WireBytes = tss_encode64 t data\<rparr>
           in relayTSSMessage (sc_selfPartyID c) (sc_peers c) (sc_committee c) msg (\<lambda>url. post url envelope)))"

text \<open>\<^verbatim>\<open>copy(sig[end-len(b):end], b)\<close>: the slice bound is negative, a panic, when \<open>b\<close> is longer than \<open>end\<close>.\<close>

definition copy_before :: "nat \<Rightarrow> bytes \<Rightarrow> bytes \<Rightarrow> party_error + bytes" where
  "copy_before e b sig =
     (if e < length b then Inl Panics else Inr (take (e - length b) sig @ b @ drop e sig))"

definition encode_signature :: "string \<Rightarrow> bytes \<Rightarrow> bytes \<Rightarrow> bytes \<Rightarrow> bytes \<Rightarrow> party_error + bytes" where
  "encode_signature curve r s recovery encoded =
     (if curve = CurveEd25519 then Inr encoded
      else res_bind (copy_before 32 r (replicate 65 0)) (\<lambda>sig.
           res_bind (copy_before 64 s sig) (\<lambda>sig.
             Inr (case recovery of [] \<Rightarrow> sig | v # _ \<Rightarrow> sig[64 := v]))))"

definition completeSigning ::
  "nat \<Rightarrow> bytes \<Rightarrow> bytes \<Rightarrow> bytes \<Rightarrow> bytes \<Rightarrow> ('sd, 'p) TSSPartyManager \<Rightarrow> party_error + ('sd, 'p) TSSPartyManager" where
  "completeSigning ref r s recovery encoded m =
     (case reg_obj (m_signings m) ref of
        None \<Rightarrow> Inr m
      | Some c \<Rightarrow>
          res_bind (encode_signature (sc_curve c) r s recovery encoded) (\<lambda>sig.
            Inr (m\<lparr>m_signings := reg_update ref (\<lambda>c. c\<lparr>sc_status := ceremonyCompleted,
              sc_signature := hex_encode sig\<rparr>) (m_signings m)\<rparr>)))"

datatype sign_event = SignOut tss_message | SignErr string | SignEnd bytes bytes bytes bytes "tss_message list"

fun driveSigning ::
  "('sd, 'p) tss \<Rightarrow> string \<Rightarrow> nat \<Rightarrow> 'p tssSigningCeremony \<Rightarrow> (string \<Rightarrow> tssSignMessageEnvelope \<Rightarrow> string option)
     \<Rightarrow> sign_event list \<Rightarrow> ('sd, 'p) TSSPartyManager \<Rightarrow> party_error + ('sd, 'p) TSSPartyManager" where
  "driveSigning t signID ref c post [] m = Inr m"
| "driveSigning t signID ref c post (SignOut msg # es) m =
     (case relaySignMessage t signID c post msg of
        (Some e, _) \<Rightarrow> Inr (failSigning signID (RelayFailed e) m)
      | (None, _) \<Rightarrow> driveSigning t signID ref c post es m)"
| "driveSigning t signID ref c post (SignErr e # es) m = Inr (failSigning signID (ProtocolError e) m)"
| "driveSigning t signID ref c post (SignEnd r s recovery encoded queue # es) m =
     (case relayPending (relaySignMessage t signID c post) queue of
        (Some e, _) \<Rightarrow> Inr (failSigning signID (RelayFailed e) m)
      | (None, _) \<Rightarrow> completeSigning ref r s recovery encoded m)"

definition HandleIncomingSignMessage ::
  "('sd, 'p) tss \<Rightarrow> tssSignMessageEnvelope \<Rightarrow> ('sd, 'p) TSSPartyManager \<Rightarrow> (party_error + unit) \<times> ('sd, 'p) TSSPartyManager" where
  "HandleIncomingSignMessage t env m =
     (case reg_find (sen_SignID env) (m_signings m) of
        None \<Rightarrow> (Inl SigningNotReady, m)
      | Some c \<Rightarrow>
          (case sc_localParty c of
             None \<Rightarrow> (Inl SigningNotReady, m)
           | Some p \<Rightarrow>
               (case findPartyIDByNode (sc_committee c) (sen_FromPartyID env) of
                  None \<Rightarrow> (Inl (UnknownSender (sen_FromPartyID env)), m)
                | Some from \<Rightarrow>
                    (case tss_base64 t (sen_WireBytes env) of
                       None \<Rightarrow> (Inl WireBytesNotBase64, m)
                     | Some wire \<Rightarrow>
                         (let (p', err) = tss_update t p wire from (sen_IsBroadcast env);
                              m = m\<lparr>m_signings := reg_update_id (sen_SignID env)
                                     (\<lambda>c. c\<lparr>sc_localParty := Some p'\<rparr>) (m_signings m)\<rparr>
                          in (case err of Some e \<Rightarrow> (Inl (UpdateFailed e), m) | None \<Rightarrow> (Inr (), m)))))))"

record SigningStatusResult =
  ssr_SignID :: string
  ssr_PartyID :: int
  ssr_Status :: ceremonyStatus
  ssr_Error :: "party_error option"
  ssr_Signature :: string

definition GetSigningStatus :: "string \<Rightarrow> ('sd, 'p) TSSPartyManager \<Rightarrow> party_error + SigningStatusResult" where
  "GetSigningStatus signID m =
     (case reg_find signID (m_signings m) of
        None \<Rightarrow> Inl (UnknownCeremony signID)
      | Some c \<Rightarrow> Inr \<lparr>ssr_SignID = signID, ssr_PartyID = sc_selfPartyID c, ssr_Status = sc_status c,
          ssr_Error = sc_error c, ssr_Signature = sc_signature c\<rparr>)"


section \<open>Properties\<close>

lemma StartSigning_Inr:
  assumes "StartSigning t signID cid messageHash ids m = Inr (ref, self, threshold, share, m')"
  obtains kc where "messageHash \<noteq> []" "reg_find cid (m_ceremonies m) = Some kc" "kc_status kc = ceremonyCompleted"
    "kc_saveData kc = Some share" "threshold = kc_threshold kc"
    "ks_Curve share = CurveSecp256k1 \<Longrightarrow> length messageHash = 32"
    "int (length ids) = i64 (kc_threshold kc + 1)" "m_partyID m \<in> set ids"
    "length (SortPartyIDs t (select_committee ids (kc_sortedIDs kc))) = length ids"
    "findPartyIDByKey (SortPartyIDs t (select_committee ids (kc_sortedIDs kc))) (committeeKey (m_partyID m) (kc_epoch kc)) = Some self"
    "ref = reg_next (m_signings m)"
    "m' = m\<lparr>m_signings := reg_new signID
        \<lparr>sc_status = ceremonyInProgress, sc_error = None, sc_selfPartyID = m_partyID m,
         sc_committee = SortPartyIDs t (select_committee ids (kc_sortedIDs kc)),
         sc_peers = committee_peers (kc_peers kc) (select_committee ids (kc_sortedIDs kc)), sc_localParty = None,
         sc_curve = ks_Curve share, sc_signature = ''''\<rparr> (m_signings m)\<rparr>"
  using assms
  by (auto simp: StartSigning_def Let_def split: if_splits option.splits ceremonyStatus.splits prod.splits)

lemma filter_members:
  "(\<And>i. i \<in> set N \<Longrightarrow> fst (nodeForPartyKey (member e i)) = i) \<Longrightarrow>
     filter (\<lambda>i. fst (nodeForPartyKey i) \<in> W) (map (member e) N) = map (member e) (filter (\<lambda>i. i \<in> W) N)"
  by (induction N) auto

text \<open>A selection that has as many members as were asked for consists of exactly those members.\<close>

lemma selected_committee:
  assumes "sort_ok t" "peers_ok peers" "epoch_ok e"
    and len: "length (SortPartyIDs t (select_committee ids (committeePartyIDs t peers e))) = length ids"
  shows "distinct ids" "set ids \<subseteq> set (map fst peers)"
    "mset (SortPartyIDs t (select_committee ids (committeePartyIDs t peers e))) = mset (map (member e) ids)"
proof -
  let ?N = "map fst peers"
  let ?F = "filter (\<lambda>i. i \<in> set ids) ?N"
  have nodes: "fst (nodeForPartyKey (member e i)) = i" if "i \<in> set ?N" for i
    using that assms(2,3) by (auto simp: node_member peers_ok_def)
  have ms: "mset (committeePartyIDs t peers e) = mset (map (member e) ?N)"
    using assms(1) unfolding committeePartyIDs_member sort_ok_def by blast
  have "mset (select_committee ids (committeePartyIDs t peers e))
      = filter_mset (\<lambda>i. fst (nodeForPartyKey i) \<in> set ids) (mset (map (member e) ?N))"
    unfolding select_committee_def mset_filter ms ..
  also have "\<dots> = mset (map (member e) ?F)"
    unfolding mset_filter [symmetric] using nodes by (simp only: filter_members)
  finally have chosen: "mset (SortPartyIDs t (select_committee ids (committeePartyIDs t peers e))) = mset (map (member e) ?F)"
    using assms(1) by (simp add: sort_ok_def)
  have dF: "distinct ?F" using assms(2) by (simp add: peers_ok_def)
  have "length ?F = length ids" using len chosen by (metis length_map size_mset)
  moreover have "card (set ids) \<le> length ids" by (rule card_length)
  moreover have "set ?F \<subseteq> set ids" by auto
  ultimately have eq: "set ?F = set ids" "card (set ids) = length ids"
    using dF distinct_card [OF dF] card_seteq [of "set ids" "set ?F"] card_mono [of "set ids" "set ?F"]
    by (simp_all add: le_antisym)
  show d: "distinct ids" using eq(2) by (rule card_distinct)
  show "set ids \<subseteq> set ?N" using eq(1) by auto
  have "mset ?F = mset ids" using dF d eq(1) by (metis set_eq_iff_mset_eq_distinct)
  then show "mset (SortPartyIDs t (select_committee ids (committeePartyIDs t peers e))) = mset (map (member e) ids)"
    unfolding chosen by (simp only: mset_map)
qed

text \<open>C34: A signing committee is exactly the one asked for. When signing starts with a key whose committee stands at
  its refresh epoch, the requested party numbers are distinct members of the key's committee, exactly
  \<^verbatim>\<open>threshold+1\<close> of them, this party among them; the committee that signs consists of these members at the key's
  epoch, and the share used is the one the completed key generation or refresh stored.\<close>

theorem signing_committee_exact:
  assumes "StartSigning t signID cid messageHash ids m = Inr (ref, self, threshold, share, m')"
    and "reg_find cid (m_ceremonies m) = Some kc" "kc_sortedIDs kc = committeePartyIDs t (kc_peers kc) (kc_epoch kc)"
    and "sort_ok t" "peers_ok (kc_peers kc)" "epoch_ok (kc_epoch kc)" "in_i64 (kc_threshold kc + 1)"
    and "reg_wf (m_signings m)"
  shows "distinct ids \<and> set ids \<subseteq> set (map fst (kc_peers kc)) \<and> int (length ids) = kc_threshold kc + 1 \<and>
    m_partyID m \<in> set ids \<and> kc_saveData kc = Some share \<and> self = member (kc_epoch kc) (m_partyID m) \<and>
    (\<exists>sc. reg_find signID (m_signings m') = Some sc \<and> mset (sc_committee sc) = mset (map (member (kc_epoch kc)) ids))"
  using assms(1)
proof (rule StartSigning_Inr)
  fix kc'
  assume f: "reg_find cid (m_ceremonies m) = Some kc'" "kc_saveData kc' = Some share"
    and len: "int (length ids) = i64 (kc_threshold kc' + 1)"
      "length (SortPartyIDs t (select_committee ids (kc_sortedIDs kc'))) = length ids"
    and self: "m_partyID m \<in> set ids"
      "findPartyIDByKey (SortPartyIDs t (select_committee ids (kc_sortedIDs kc'))) (committeeKey (m_partyID m) (kc_epoch kc')) = Some self"
    and m': "m' = m\<lparr>m_signings := reg_new signID
        \<lparr>sc_status = ceremonyInProgress, sc_error = None, sc_selfPartyID = m_partyID m,
         sc_committee = SortPartyIDs t (select_committee ids (kc_sortedIDs kc')),
         sc_peers = committee_peers (kc_peers kc') (select_committee ids (kc_sortedIDs kc')), sc_localParty = None,
         sc_curve = ks_Curve share, sc_signature = ''''\<rparr> (m_signings m)\<rparr>"
  have k: "kc' = kc" using f assms(2) by simp
  let ?e = "kc_epoch kc"
  have len': "length (SortPartyIDs t (select_committee ids (committeePartyIDs t (kc_peers kc) ?e))) = length ids"
    using len(2) unfolding k assms(3) .
  note sel = selected_committee [OF assms(4-6) len']
  have d: "distinct ids" and sub: "set ids \<subseteq> set (map fst (kc_peers kc))"
    and com: "mset (SortPartyIDs t (select_committee ids (kc_sortedIDs kc))) = mset (map (member ?e) ids)"
    using sel unfolding assms(3) by blast+
  have nodes: "node_ok i" if "i \<in> set (map fst (kc_peers kc))" for i
    using that assms(5) by (auto simp: peers_ok_def)
  have "self = member ?e (m_partyID m)"
  proof -
    have "self \<in> set (SortPartyIDs t (select_committee ids (kc_sortedIDs kc)))"
      "pid_Key self = committeeKey (m_partyID m) ?e"
      using self(2) unfolding k findPartyIDByKey_def find_Some_iff by auto
    moreover have "set (SortPartyIDs t (select_committee ids (kc_sortedIDs kc))) = member ?e ` set ids"
      using com by (metis list.set_map set_mset_mset)
    ultimately obtain i where i: "i \<in> set ids" "self = member ?e i" by auto
    then have "i = m_partyID m"
      using \<open>pid_Key self = committeeKey (m_partyID m) ?e\<close> sub self(1) nodes assms(6)
      by (metis committeeKey_inj pid_Key_member subsetD)
    with i show ?thesis by simp
  qed
  moreover have "reg_find signID (m_signings m') = Some
        \<lparr>sc_status = ceremonyInProgress, sc_error = None, sc_selfPartyID = m_partyID m,
         sc_committee = SortPartyIDs t (select_committee ids (kc_sortedIDs kc)),
         sc_peers = committee_peers (kc_peers kc) (select_committee ids (kc_sortedIDs kc)), sc_localParty = None,
         sc_curve = ks_Curve share, sc_signature = ''''\<rparr>"
    unfolding m' k using assms(8) by (simp add: reg_find_new)
  ultimately show ?thesis
    using d sub com self(1) f(2) len(1) assms(7) unfolding k by (simp add: i64_id)
qed

lemma encode_signature_layout:
  assumes "curve \<noteq> CurveEd25519" "length r \<le> 32" "length s \<le> 32"
  shows "encode_signature curve r s (v # rest) encoded
    = Inr (replicate (32 - length r) 0 @ r @ replicate (32 - length s) 0 @ s @ [v])"
proof -
  have d: "drop 32 (replicate 65 (0 :: byte)) = replicate 33 0" "take (32 - length r) (replicate 65 (0 :: byte)) = replicate (32 - length r) 0"
    by (simp_all add: drop_replicate take_replicate)
  let ?x = "replicate (32 - length r) (0 :: byte) @ r"
  have x: "length ?x = 32" using assms(2) by simp
  have one: "copy_before 32 r (replicate 65 0) = Inr (?x @ replicate 33 0)"
    using assms(2) d by (simp add: copy_before_def)
  have "take (64 - length s) (?x @ replicate 33 0) = ?x @ replicate (32 - length s) 0"
    using x assms(3) by (simp add: take_append take_replicate)
  moreover have "drop 64 (?x @ replicate 33 0) = [0]"
    using x by (simp add: drop_append drop_replicate)
  ultimately have two: "copy_before 64 s (?x @ replicate 33 0) = Inr ((?x @ replicate (32 - length s) 0 @ s) @ [0])"
    using assms(3) by (simp add: copy_before_def)
  have "length (?x @ replicate (32 - length s) 0 @ s) = 64" using x assms(3) by simp
  then have "((?x @ replicate (32 - length s) 0 @ s) @ [0])[64 := v] = (?x @ replicate (32 - length s) 0 @ s) @ [v]"
    by (metis list_update_length)
  then show ?thesis using assms(1) one two by (simp add: encode_signature_def)
qed

lemma bytes_nat_zeros: "bytes_nat (replicate n 0 @ b) = bytes_nat b"
  by (induction n) (simp_all add: bytes_nat_Cons)

text \<open>The recorded signature has the layout the chain reads. On secp256k1 it is 65 bytes: \<^verbatim>\<open>R\<close> and \<^verbatim>\<open>S\<close>
  right-aligned in 32 bytes each, with their values kept however short they are, then the recovery byte. It is
  recorded as its hexadecimal text, which decodes to these bytes.\<close>

theorem signature_layout:
  assumes "reg_obj (m_signings m) ref = Some c" "sc_curve c \<noteq> CurveEd25519" "length r \<le> 32" "length s \<le> 32"
  shows "\<exists>m' c' sig. completeSigning ref r s (v # rest) encoded m = Inr m' \<and> reg_obj (m_signings m') ref = Some c' \<and>
    sc_status c' = ceremonyCompleted \<and> hex_decode (sc_signature c') = Some sig \<and> length sig = 65 \<and>
    bytes_nat (take 32 sig) = bytes_nat r \<and> bytes_nat (take 32 (drop 32 sig)) = bytes_nat s \<and> sig ! 64 = v"
proof -
  let ?r = "replicate (32 - length r) (0 :: byte) @ r" and ?s = "replicate (32 - length s) (0 :: byte) @ s"
  have len: "length ?r = 32" "length ?s = 32" using assms(3,4) by simp_all
  let ?sig = "?r @ ?s @ [v]"
  have "take 32 ?sig = ?r" "take 32 (drop 32 ?sig) = ?s" "?sig ! 64 = v" "length ?sig = 65"
    using len by (simp_all add: nth_append del: replicate_append_same append_assoc)
  then have "bytes_nat (take 32 ?sig) = bytes_nat r \<and> bytes_nat (take 32 (drop 32 ?sig)) = bytes_nat s \<and> ?sig ! 64 = v \<and> length ?sig = 65"
    by (simp only: bytes_nat_zeros simp_thms)
  then show ?thesis
    using assms by (simp add: completeSigning_def encode_signature_layout reg_update_def)
qed


section \<open>Examples\<close>

definition demo_keygen :: "int \<Rightarrow> (nat, nat) tssKeygenCeremony" where
  "demo_keygen epoch = \<lparr>kc_status = ceremonyCompleted, kc_error = None, kc_selfPartyID = 1, kc_threshold = 1,
     kc_sortedIDs = committeePartyIDs demo_tss demo_peers epoch, kc_peers = demo_peers, kc_localParty = None,
     kc_curve = CurveEd25519, kc_blockchain = ''solana'', kc_epoch = epoch,
     kc_saveData = Some (wrap_share CurveEd25519 9), kc_publicKeyHex = ''09'', kc_address = ''09'', kc_sealed = True\<rparr>"

definition demo_manager :: "int \<Rightarrow> (nat, nat) TSSPartyManager" where
  "demo_manager epoch = (NewTSSPartyManager 1)\<lparr>m_ceremonies := reg_new ''k1'' (demo_keygen epoch) reg_empty\<rparr>"

lemma demo_find: "reg_find ''k1'' (m_ceremonies (demo_manager epoch)) = Some (demo_keygen epoch)"
  by (simp add: demo_manager_def reg_find_new)

lemma demo_start_signing:
  "hash \<noteq> [] \<Longrightarrow> StartSigning demo_tss signID ''k1'' hash [3, 1] (demo_manager 1) =
    Inr (0, member 1 1, 1, wrap_share CurveEd25519 9, (demo_manager 1)\<lparr>m_signings := reg_new signID
        \<lparr>sc_status = ceremonyInProgress, sc_error = None, sc_selfPartyID = 1, sc_committee = map (member 1) [1, 3],
         sc_peers = [(1, ''http://one''), (3, ''http://three'')], sc_localParty = None,
         sc_curve = CurveEd25519, sc_signature = ''''\<rparr> reg_empty\<rparr>)"
proof -
  assume h: "hash \<noteq> []"
  have c: "committeePartyIDs demo_tss demo_peers 1 = map (member 1) [1, 2, 3]" by code_simp
  have s: "select_committee [3, 1] (map (member 1) [1, 2, 3]) = map (member 1) [1, 3]" by code_simp
  have o: "SortPartyIDs demo_tss (map (member 1) [1, 3]) = map (member 1) [1, 3]" by code_simp
  have p: "committee_peers demo_peers (map (member 1) [1, 3]) = [(1, ''http://one''), (3, ''http://three'')]" by code_simp
  have f: "findPartyIDByKey (map (member 1) [1, 3]) (committeeKey 1 1) = Some (member 1 1)" by code_simp
  have m: "m_partyID (demo_manager 1) = 1" "m_signings (demo_manager 1) = reg_empty"
    by (simp_all add: demo_manager_def NewTSSPartyManager_def)
  have k: "kc_status (demo_keygen 1) = ceremonyCompleted" "kc_saveData (demo_keygen 1) = Some (wrap_share CurveEd25519 9)"
    "kc_threshold (demo_keygen 1) = 1" "kc_sortedIDs (demo_keygen 1) = map (member 1) [1, 2, 3]"
    "kc_peers (demo_keygen 1) = demo_peers" "kc_epoch (demo_keygen 1) = 1"
    by (simp_all only: demo_keygen_def c tssKeygenCeremony.simps)
  have w: "ks_Curve (wrap_share CurveEd25519 9) = CurveEd25519" "CurveEd25519 \<noteq> CurveSecp256k1" "i64 2 = 2"
    by (simp_all add: wrap_share_def CurveEd25519_def CurveSecp256k1_def i64_def)
  show ?thesis
    unfolding StartSigning_def demo_find m k prod.case option.case ceremonyStatus.case w(1) Let_def s o p f
    using h by (simp add: w reg_empty_def)
qed

theorem signing_committee_exact_witness:
  "distinct [3, 1 :: int] \<and> int (length [3, 1 :: int]) = kc_threshold (demo_keygen 1) + 1 \<and>
    member 1 1 = member (kc_epoch (demo_keygen 1)) (m_partyID (demo_manager 1))"
  using signing_committee_exact [OF demo_start_signing [of "[7]"] demo_find]
  by (simp add: demo_keygen_def demo_sort_ok demo_peers_ok epoch_ok_def in_i64_def demo_manager_def NewTSSPartyManager_def)

definition demo_session :: "nat tssSigningCeremony" where
  "demo_session = \<lparr>sc_status = ceremonyInProgress, sc_error = None, sc_selfPartyID = 1,
     sc_committee = [], sc_peers = [], sc_localParty = None, sc_curve = CurveSecp256k1, sc_signature = ''''\<rparr>"

theorem signature_layout_witness:
  "\<exists>m' c' sig. completeSigning 0 [5] [6, 7] [1] [] ((demo_manager 1)\<lparr>m_signings := reg_new ''s'' demo_session reg_empty\<rparr>) = Inr m' \<and>
    reg_obj (m_signings m') 0 = Some c' \<and> sc_status c' = ceremonyCompleted \<and> hex_decode (sc_signature c') = Some sig \<and>
    length sig = 65 \<and> bytes_nat (take 32 sig) = bytes_nat [5] \<and> bytes_nat (take 32 (drop 32 sig)) = bytes_nat [6, 7] \<and> sig ! 64 = 1"
proof (rule signature_layout)
  show "reg_obj (m_signings ((demo_manager 1)\<lparr>m_signings := reg_new ''s'' demo_session reg_empty\<rparr>)) 0 = Some demo_session"
    by (simp add: reg_new_def reg_empty_def)
qed (simp_all add: demo_session_def CurveEd25519_def CurveSecp256k1_def)

end
