(* ===== verification/Party_Resharing.thy ===== *)
theory Party_Resharing
  imports Party_Signing
begin

text \<open>
  Proactive refresh of a key's shares and the restoring of a ceremony from sealed material:
  \<^verbatim>\<open>services/mpc-party/tss_resharing.go\<close>. A refresh runs two local parties on each node, one per committee.
\<close>

section \<open>Refresh\<close>

record tssReshareMessageEnvelope =
  ren_ReshareID :: string
  ren_FromPartyID :: int
  ren_IsBroadcast :: bool
  ren_WireBytes :: string
  ren_ToOldCommittee :: bool
  ren_FromOldCommittee :: bool

definition failResharing :: "string \<Rightarrow> party_error \<Rightarrow> ('sd, 'p) TSSPartyManager \<Rightarrow> ('sd, 'p) TSSPartyManager" where
  "failResharing reshareID err m =
     m\<lparr>m_resharings := reg_update_id reshareID (\<lambda>c. c\<lparr>rc_status := ceremonyFailed, rc_error := Some err\<rparr>) (m_resharings m)\<rparr>"

definition StartResharing ::
  "('sd, 'p) tss \<Rightarrow> string \<Rightarrow> string \<Rightarrow> peers \<Rightarrow> ('sd, 'p) TSSPartyManager
     \<Rightarrow> party_error + (nat \<times> 'sd KeyShare \<times> ('sd, 'p) TSSPartyManager)" where
  "StartResharing t reshareID sourceCeremonyID peers m =
     (if reg_find reshareID (m_resharings m) \<noteq> None then Inl (ResharingExists reshareID)
      else case reg_find sourceCeremonyID (m_ceremonies m) of
        None \<Rightarrow> Inl (UnknownCeremony sourceCeremonyID)
      | Some source \<Rightarrow>
          (case (kc_status source, kc_saveData source) of
             (ceremonyCompleted, Some share) \<Rightarrow>
               if peers = [] then Inl (NoPeers reshareID)
               else (let epoch = kc_epoch source;
                         oldSorted = committeePartyIDs t peers epoch;
                         newSorted = committeePartyIDs t peers (i64 (epoch + 1))
                     in if findPartyIDByKey oldSorted (committeeKey (m_partyID m) epoch) = None
                        then Inl (NotInCommittee (m_partyID m))
                        else Inr (reg_next (m_resharings m), share,
                          m\<lparr>m_resharings := reg_new reshareID
                             \<lparr>rc_status = ceremonyInProgress, rc_error = None, rc_selfPartyID = m_partyID m,
                              rc_threshold = kc_threshold source, rc_curve = kc_curve source, rc_peers = peers,
                              rc_oldSorted = oldSorted, rc_newSorted = newSorted, rc_newEpoch = i64 (epoch + 1),
                              rc_oldParty = None, rc_newParty = None, rc_sourceCeremonyID = sourceCeremonyID,
                              rc_expectedPublicKey = kc_publicKeyHex source, rc_expectedAddress = kc_address source,
                              rc_saveData = None, rc_sealed = False\<rparr> (m_resharings m)\<rparr>))
           | (status, _) \<Rightarrow> Inl (NotCompleted sourceCeremonyID status)))"

text \<open>Both parties are started before either is published.\<close>

definition startResharingParties ::
  "('sd, 'p) tss \<Rightarrow> string \<Rightarrow> nat \<Rightarrow> 'p \<Rightarrow> 'p \<Rightarrow> ('sd, 'p) TSSPartyManager \<Rightarrow> bool \<times> ('sd, 'p) TSSPartyManager" where
  "startResharingParties t reshareID ref oldParty newParty m =
     (case (tss_start t newParty, tss_start t oldParty) of
        (None, None) \<Rightarrow> (True, m\<lparr>m_resharings := reg_update ref
            (\<lambda>c. c\<lparr>rc_oldParty := Some oldParty, rc_newParty := Some newParty\<rparr>) (m_resharings m)\<rparr>)
      | (Some e, _) \<Rightarrow> (False, failResharing reshareID (LocalPartyStart e) m)
      | (None, Some e) \<Rightarrow> (False, failResharing reshareID (LocalPartyStart e) m))"

definition runResharing ::
  "('sd, 'p) tss \<Rightarrow> string \<Rightarrow> nat \<Rightarrow> 'sd KeyShare \<Rightarrow> ('sd, 'p) TSSPartyManager \<Rightarrow> bool \<times> ('sd, 'p) TSSPartyManager" where
  "runResharing t reshareID ref share m =
     (case reg_obj (m_resharings m) ref of
        None \<Rightarrow> (False, m)
      | Some c \<Rightarrow>
          (case ellipticCurve (rc_curve c) of
             Inl e \<Rightarrow> (False, failResharing reshareID (ShareError e) m)
           | Inr ec \<Rightarrow>
               (case (findPartyID (rc_oldSorted c) (rc_selfPartyID c),
                      findPartyIDByKey (rc_newSorted c) (committeeKey (rc_selfPartyID c) (rc_newEpoch c))) of
                  (Some oldSelf, Some newSelf) \<Rightarrow>
                    (case (if rc_curve c = CurveSecp256k1 then ks_ECDSA share else ks_EdDSA share) of
                       None \<Rightarrow> (False, failResharing reshareID NoShareForCurve m)
                     | Some sd \<Rightarrow>
                         startResharingParties t reshareID ref
                           (tss_resharing t ec (rc_oldSorted c) (rc_newSorted c) oldSelf (rc_threshold c) sd)
                           (tss_reshare_new t ec (rc_oldSorted c) (rc_newSorted c) newSelf (rc_threshold c)) m)
                | _ \<Rightarrow> (False, failResharing reshareID (NotInBothCommittees reshareID) m))))"

text \<open>A destination on the own node is handed over in the process, every other one is posted.\<close>

datatype reshare_delivery = ToSelf tssReshareMessageEnvelope | Posted string tssReshareMessageEnvelope

definition reshare_deliver ::
  "('sd, 'p) tssResharingCeremony \<Rightarrow> (string \<Rightarrow> tssReshareMessageEnvelope \<Rightarrow> string option) \<Rightarrow> int
     \<Rightarrow> tssReshareMessageEnvelope \<Rightarrow> party_error + reshare_delivery" where
  "reshare_deliver c post node envelope =
     (if node = rc_selfPartyID c then Inr (ToSelf envelope)
      else case map_of (rc_peers c) node of
             None \<Rightarrow> Inl (NoEndpoint node)
           | Some url \<Rightarrow> (case post url envelope of
                            Some e \<Rightarrow> Inl (DeliveryFailed node e)
                          | None \<Rightarrow> Inr (Posted url envelope)))"

fun reshare_targets ::
  "('sd, 'p) tssResharingCeremony \<Rightarrow> (string \<Rightarrow> tssReshareMessageEnvelope \<Rightarrow> string option)
     \<Rightarrow> (bool \<Rightarrow> tssReshareMessageEnvelope) \<Rightarrow> bool \<Rightarrow> bool \<Rightarrow> PartyID list
     \<Rightarrow> party_error option \<times> reshare_delivery list" where
  "reshare_targets c post envelope toOld toNew [] = (None, [])"
| "reshare_targets c post envelope toOld toNew (to # targets) =
     (let (node, toEpoch) = nodeForPartyKey to;
          isNewID = (toEpoch = rc_newEpoch c);
          go = reshare_targets c post envelope toOld toNew targets
      in if node < 0 then (Some UnrecognisedParty, [])
         else if isNewID \<and> toNew then
           (case reshare_deliver c post node (envelope False) of
              Inl e \<Rightarrow> (Some e, []) | Inr d \<Rightarrow> (fst go, d # snd go))
         else if \<not> isNewID \<and> toOld then
           (case reshare_deliver c post node (envelope True) of
              Inl e \<Rightarrow> (Some e, []) | Inr d \<Rightarrow> (fst go, d # snd go))
         else go)"

definition relayReshareMessage ::
  "('sd, 'p) tss \<Rightarrow> string \<Rightarrow> ('sd, 'p) tssResharingCeremony \<Rightarrow> (string \<Rightarrow> tssReshareMessageEnvelope \<Rightarrow> string option)
     \<Rightarrow> tss_message \<Rightarrow> party_error option \<times> reshare_delivery list" where
  "relayReshareMessage t reshareID c post msg =
     (case tm_wire msg of
        None \<Rightarrow> (Some SerializeFailed, [])
      | Some data \<Rightarrow>
          if tm_to msg = [] then (Some NoDestination, [])
          else (let fromIsNew = (snd (nodeForPartyKey (tm_from msg)) = rc_newEpoch c);
                    envelope = (\<lambda>toOld. \<lparr>ren_ReshareID = reshareID, ren_FromPartyID = rc_selfPartyID c,
                       ren_IsBroadcast = tm_broadcast msg, ren_WireBytes = tss_encode64 t data,
                       ren_ToOldCommittee = toOld, ren_FromOldCommittee = \<not> fromIsNew\<rparr>);
                    toOld = (tm_toOld msg \<or> tm_toOldAndNew msg);
                    toNew = (\<not> tm_toOld msg \<or> tm_toOldAndNew msg)
                in reshare_targets c post envelope toOld toNew (tm_to msg)))"

definition completeResharing ::
  "'sd share_lib \<Rightarrow> host \<Rightarrow> io \<Rightarrow> string \<Rightarrow> nat \<Rightarrow> 'sd KeyShare \<Rightarrow> ('sd, 'p) TSSPartyManager \<times> store
     \<Rightarrow> ('sd, 'p) TSSPartyManager \<times> store" where
  "completeResharing lib h io reshareID ref share w =
     (let (m, st) = w in
      case reg_obj (m_resharings m) ref of
        None \<Rightarrow> (m, st)
      | Some c \<Rightarrow>
          (case PublicKey lib share of
             Inl e \<Rightarrow> (failResharing reshareID (PublicKeyNotDerived e) m, st)
           | Inr (publicKey, address) \<Rightarrow>
               if publicKey \<noteq> rc_expectedPublicKey c
               then (failResharing reshareID (KeyChanged publicKey (rc_expectedPublicKey c)) m, st)
               else (let address = (if rc_expectedAddress c \<noteq> '''' then rc_expectedAddress c else address);
                         (sealed, st) = (case SealKeyShareWithContext lib h io (rc_selfPartyID c) (rc_sourceCeremonyID c) share
                             (Some \<lparr>cc_Threshold = rc_threshold c, cc_TotalParties = int (length (rc_newSorted c)),
                                    cc_Curve = rc_curve c, cc_Epoch = rc_newEpoch c, cc_PublicKeyHex = publicKey,
                                    cc_Address = address\<rparr>) st of
                             Inl _ \<Rightarrow> (False, st) | Inr r \<Rightarrow> r)
                     in (m\<lparr>m_resharings := reg_update ref (\<lambda>c. c\<lparr>rc_saveData := Some share, rc_status := ceremonyCompleted,
                              rc_sealed := sealed\<rparr>) (m_resharings m),
                          m_ceremonies := reg_update_id (rc_sourceCeremonyID c) (\<lambda>source. source\<lparr>kc_saveData := Some share,
                              kc_sortedIDs := rc_newSorted c, kc_epoch := rc_newEpoch c\<rparr>) (m_ceremonies m)\<rparr>, st))))"

datatype 'sd reshare_event = ReshareOut tss_message | ReshareErr string | OldEnd | NewEnd 'sd "tss_message list"

fun driveResharing ::
  "('sd, 'p) tss \<Rightarrow> 'sd share_lib \<Rightarrow> host \<Rightarrow> io \<Rightarrow> string \<Rightarrow> nat \<Rightarrow> ('sd, 'p) tssResharingCeremony
     \<Rightarrow> (string \<Rightarrow> tssReshareMessageEnvelope \<Rightarrow> string option) \<Rightarrow> 'sd reshare_event list
     \<Rightarrow> ('sd, 'p) TSSPartyManager \<times> store \<Rightarrow> ('sd, 'p) TSSPartyManager \<times> store" where
  "driveResharing t lib h io reshareID ref c post [] w = w"
| "driveResharing t lib h io reshareID ref c post (ReshareOut msg # es) w =
     (case fst (relayReshareMessage t reshareID c post msg) of
        Some e \<Rightarrow> (failResharing reshareID (RelayFailed e) (fst w), snd w)
      | None \<Rightarrow> driveResharing t lib h io reshareID ref c post es w)"
| "driveResharing t lib h io reshareID ref c post (ReshareErr e # es) w =
     (failResharing reshareID (ProtocolError e) (fst w), snd w)"
| "driveResharing t lib h io reshareID ref c post (OldEnd # es) w = driveResharing t lib h io reshareID ref c post es w"
| "driveResharing t lib h io reshareID ref c post (NewEnd save queue # es) w =
     (case fst (relayPending (relayReshareMessage t reshareID c post) queue) of
        Some e \<Rightarrow> (failResharing reshareID (RelayFailed e) (fst w), snd w)
      | None \<Rightarrow> completeResharing lib h io reshareID ref (wrap_share (rc_curve c) save) w)"

definition HandleIncomingReshareMessage ::
  "('sd, 'p) tss \<Rightarrow> tssReshareMessageEnvelope \<Rightarrow> ('sd, 'p) TSSPartyManager
     \<Rightarrow> (party_error + unit) \<times> ('sd, 'p) TSSPartyManager" where
  "HandleIncomingReshareMessage t env m =
     (case reg_find (ren_ReshareID env) (m_resharings m) of
        None \<Rightarrow> (Inl ResharingNotReady, m)
      | Some c \<Rightarrow>
          (case (if ren_ToOldCommittee env then rc_oldParty c else rc_newParty c) of
             None \<Rightarrow> (Inl ResharingNotReady, m)
           | Some p \<Rightarrow>
               (case (if ren_FromOldCommittee env
                      then findPartyIDByKey (rc_oldSorted c) (committeeKey (ren_FromPartyID env) (i64 (rc_newEpoch c - 1)))
                      else findPartyIDByKey (rc_newSorted c) (committeeKey (ren_FromPartyID env) (rc_newEpoch c))) of
                  None \<Rightarrow> (Inl (UnknownSender (ren_FromPartyID env)), m)
                | Some from \<Rightarrow>
                    (case tss_base64 t (ren_WireBytes env) of
                       None \<Rightarrow> (Inl WireBytesNotBase64, m)
                     | Some wire \<Rightarrow>
                         (let (p', err) = tss_update t p wire from (ren_IsBroadcast env);
                              m = m\<lparr>m_resharings := reg_update_id (ren_ReshareID env)
                                     (\<lambda>c. if ren_ToOldCommittee env then c\<lparr>rc_oldParty := Some p'\<rparr>
                                          else c\<lparr>rc_newParty := Some p'\<rparr>) (m_resharings m)\<rparr>
                          in (case err of Some e \<Rightarrow> (Inl (UpdateFailed e), m) | None \<Rightarrow> (Inr (), m)))))))"

record ResharingStatusResult =
  rsr_ReshareID :: string
  rsr_SourceCeremonyID :: string
  rsr_Status :: ceremonyStatus
  rsr_Curve :: string
  rsr_Address :: string
  rsr_KeyUnchanged :: bool
  rsr_Sealed :: bool
  rsr_Error :: "party_error option"

definition GetResharingStatus :: "string \<Rightarrow> ('sd, 'p) TSSPartyManager \<Rightarrow> party_error + ResharingStatusResult" where
  "GetResharingStatus reshareID m =
     (case reg_find reshareID (m_resharings m) of
        None \<Rightarrow> Inl (UnknownCeremony reshareID)
      | Some c \<Rightarrow>
          (let completed = (rc_status c = ceremonyCompleted) in
           Inr \<lparr>rsr_ReshareID = reshareID, rsr_SourceCeremonyID = rc_sourceCeremonyID c, rsr_Status = rc_status c,
             rsr_Curve = rc_curve c, rsr_Address = (if completed then rc_expectedAddress c else ''''),
             rsr_KeyUnchanged = completed, rsr_Sealed = rc_sealed c, rsr_Error = rc_error c\<rparr>))"


section \<open>Restore\<close>

definition RestoreCeremony ::
  "('sd, 'p) tss \<Rightarrow> 'sd share_lib \<Rightarrow> host \<Rightarrow> io \<Rightarrow> string \<Rightarrow> peers \<Rightarrow> store \<Rightarrow> ('sd, 'p) TSSPartyManager
     \<Rightarrow> party_error + ('sd, 'p) TSSPartyManager" where
  "RestoreCeremony t lib h io ceremonyID peers st m =
     (if reg_find ceremonyID (m_ceremonies m) \<noteq> None then Inl (AlreadyLoaded ceremonyID)
      else case LoadSealedShare lib h io (m_partyID m) ceremonyID st of
        Inl e \<Rightarrow> Inl (ShareError e)
      | Inr (_, None) \<Rightarrow> Inl (NoContext ceremonyID)
      | Inr (share, Some cc) \<Rightarrow>
          if int (length peers) \<noteq> cc_TotalParties cc then Inl (WrongPartyCount ceremonyID (cc_TotalParties cc) (length peers))
          else (let ids = committeePartyIDs t peers (cc_Epoch cc) in
            if findPartyIDByNode ids (m_partyID m) = None then Inl (NotAmongEndpoints (m_partyID m))
            else case PublicKey lib share of
              Inl e \<Rightarrow> Inl (PublicKeyNotDerived e)
            | Inr (pub, address) \<Rightarrow>
                if cc_PublicKeyHex cc \<noteq> '''' \<and> \<not> equal_fold pub (cc_PublicKeyHex cc)
                then Inl (RestoredOtherKey pub (cc_PublicKeyHex cc))
                else if cc_PublicKeyHex cc = '''' \<and> cc_Address cc \<noteq> '''' \<and> address \<noteq> cc_Address cc
                then Inl (RestoredOtherKey address (cc_Address cc))
                else Inr (m\<lparr>m_ceremonies := reg_new ceremonyID
                   \<lparr>kc_status = ceremonyCompleted, kc_error = None, kc_selfPartyID = m_partyID m,
                    kc_threshold = cc_Threshold cc, kc_sortedIDs = ids, kc_peers = peers, kc_localParty = None,
                    kc_curve = cc_Curve cc, kc_blockchain = '''', kc_epoch = cc_Epoch cc, kc_saveData = Some share,
                    kc_publicKeyHex = pub,
                    kc_address = (if cc_PublicKeyHex cc \<noteq> '''' \<and> cc_Address cc \<noteq> '''' then cc_Address cc else address),
                    kc_sealed = True\<rparr> (m_ceremonies m)\<rparr>)))"

section \<open>Properties\<close>

lemma StartResharing_Inr:
  assumes "StartResharing t rid cid peers m = Inr (ref, share, m')"
  obtains source where "reg_find rid (m_resharings m) = None" "reg_find cid (m_ceremonies m) = Some source"
    "kc_status source = ceremonyCompleted" "kc_saveData source = Some share" "peers \<noteq> []"
    "findPartyIDByKey (committeePartyIDs t peers (kc_epoch source)) (committeeKey (m_partyID m) (kc_epoch source)) \<noteq> None"
    "ref = reg_next (m_resharings m)"
    "m' = m\<lparr>m_resharings := reg_new rid
       \<lparr>rc_status = ceremonyInProgress, rc_error = None, rc_selfPartyID = m_partyID m,
        rc_threshold = kc_threshold source, rc_curve = kc_curve source, rc_peers = peers,
        rc_oldSorted = committeePartyIDs t peers (kc_epoch source),
        rc_newSorted = committeePartyIDs t peers (i64 (kc_epoch source + 1)), rc_newEpoch = i64 (kc_epoch source + 1),
        rc_oldParty = None, rc_newParty = None, rc_sourceCeremonyID = cid,
        rc_expectedPublicKey = kc_publicKeyHex source, rc_expectedAddress = kc_address source,
        rc_saveData = None, rc_sealed = False\<rparr> (m_resharings m)\<rparr>"
  using assms
  by (auto simp: StartResharing_def Let_def split: if_splits option.splits ceremonyStatus.splits)

lemma reg_find_empty [simp]: "reg_find i reg_empty = None"
  by (simp add: reg_find_def reg_empty_def)

lemma reg_new_obj: "reg_obj (reg_new i x r) (reg_next r) = Some x" "reg_ids (reg_new i x r) i = Some (reg_next r)"
  by (simp_all add: reg_new_def)

text \<open>C35: A key can be refreshed only once. A refresh of a key that has been refreshed before is accepted and then
  always fails: the goroutine looks its own old identity up under its bare party number, while the old committee
  of a refreshed key is numbered in a later epoch, so it concludes that this party is in no committee.\<close>

theorem second_refresh_fails:
  assumes "sort_ok t" "peers_ok peers" "node_ok (m_partyID m)" "reg_wf (m_resharings m)"
    and "StartResharing t rid cid peers m = Inr (ref, share, m')"
    and "reg_find cid (m_ceremonies m) = Some source" "1 \<le> kc_epoch source" "epoch_ok (kc_epoch source)"
    and "ellipticCurve (kc_curve source) = Inr ec"
  shows "\<exists>m'' c. runResharing t rid ref share m' = (False, m'') \<and> reg_find rid (m_resharings m'') = Some c \<and>
    rc_status c = ceremonyFailed \<and> rc_error c = Some (NotInBothCommittees rid)"
  using assms(5)
proof (rule StartResharing_Inr)
  fix source'
  assume h: "reg_find cid (m_ceremonies m) = Some source'" "ref = reg_next (m_resharings m)"
    and m': "m' = m\<lparr>m_resharings := reg_new rid
       \<lparr>rc_status = ceremonyInProgress, rc_error = None, rc_selfPartyID = m_partyID m,
        rc_threshold = kc_threshold source', rc_curve = kc_curve source', rc_peers = peers,
        rc_oldSorted = committeePartyIDs t peers (kc_epoch source'),
        rc_newSorted = committeePartyIDs t peers (i64 (kc_epoch source' + 1)), rc_newEpoch = i64 (kc_epoch source' + 1),
        rc_oldParty = None, rc_newParty = None, rc_sourceCeremonyID = cid,
        rc_expectedPublicKey = kc_publicKeyHex source', rc_expectedAddress = kc_address source',
        rc_saveData = None, rc_sealed = False\<rparr> (m_resharings m)\<rparr>"
  have s: "source' = source" using h(1) assms(6) by simp
  have "findPartyID (committeePartyIDs t peers (kc_epoch source)) (m_partyID m) = None"
    by (rule findPartyID_other_epoch) (use assms in auto)
  then show ?thesis
    unfolding m' h(2) runResharing_def s
    by (simp add: reg_new_obj assms(9) failResharing_def reg_find_update_id assms(4) reg_find_new)
qed

text \<open>What restoring needs of the sealed context, and what it then loads.\<close>

lemma restore_sealed:
  assumes "reg_find cid (m_ceremonies m) = None" "get_share lib h io (m_partyID m, cid) st = Some (share, Some cc)"
    and "PublicKey lib share = Inr (cc_PublicKeyHex cc, address)"
    and "int (length peers) = cc_TotalParties cc"
    and "sort_ok t" "peers_ok peers" "epoch_ok (cc_Epoch cc)" "m_partyID m \<in> set (map fst peers)"
    and "cc_PublicKeyHex cc \<noteq> ''''"
  shows "\<exists>kc. RestoreCeremony t lib h io cid peers st m = Inr (m\<lparr>m_ceremonies := reg_new cid kc (m_ceremonies m)\<rparr>) \<and>
    kc_status kc = ceremonyCompleted \<and> kc_saveData kc = Some share \<and> kc_epoch kc = cc_Epoch cc \<and>
    kc_sortedIDs kc = committeePartyIDs t peers (cc_Epoch cc) \<and> kc_threshold kc = cc_Threshold cc \<and>
    kc_curve kc = cc_Curve cc \<and> kc_publicKeyHex kc = cc_PublicKeyHex cc"
proof -
  have l: "LoadSealedShare lib h io (m_partyID m) cid st = Inr (share, Some cc)"
    using assms(2) by (simp add: get_share_def split: sum.splits)
  have n: "findPartyIDByNode (committeePartyIDs t peers (cc_Epoch cc)) (m_partyID m) \<noteq> None"
    using findPartyIDByNode_member [OF assms(5-8)] by simp
  let ?kc = "\<lparr>kc_status = ceremonyCompleted, kc_error = None, kc_selfPartyID = m_partyID m,
    kc_threshold = cc_Threshold cc, kc_sortedIDs = committeePartyIDs t peers (cc_Epoch cc), kc_peers = peers, kc_localParty = None,
    kc_curve = cc_Curve cc, kc_blockchain = '''', kc_epoch = cc_Epoch cc, kc_saveData = Some share,
    kc_publicKeyHex = cc_PublicKeyHex cc, kc_address = (if cc_Address cc \<noteq> '''' then cc_Address cc else address),
    kc_sealed = True\<rparr>"
  have "RestoreCeremony t lib h io cid peers st m = Inr (m\<lparr>m_ceremonies := reg_new cid ?kc (m_ceremonies m)\<rparr>)"
    using assms(1,3,4,9) l n by (simp add: RestoreCeremony_def Let_def)
  then show ?thesis by (intro exI [of _ ?kc]) simp
qed

definition refreshed_context :: "('sd, 'p) tssResharingCeremony \<Rightarrow> string \<Rightarrow> string \<Rightarrow> CeremonyContext" where
  "refreshed_context c pub address = \<lparr>cc_Threshold = rc_threshold c, cc_TotalParties = int (length (rc_newSorted c)),
     cc_Curve = rc_curve c, cc_Epoch = rc_newEpoch c, cc_PublicKeyHex = pub,
     cc_Address = (if rc_expectedAddress c \<noteq> '''' then rc_expectedAddress c else address)\<rparr>"

lemma completeResharing_store:
  assumes "reg_obj (m_resharings m) ref = Some c" "PublicKey lib share = Inr (rc_expectedPublicKey c, address)"
  shows "snd (completeResharing lib h io rid ref share (m, st))
    = put_share lib h io (rc_selfPartyID c, rc_sourceCeremonyID c) (share, Some (refreshed_context c (rc_expectedPublicKey c) address)) st"
  using assms by (auto simp: completeResharing_def put_share_def refreshed_context_def Let_def split: sum.splits prod.splits)

text \<open>A refreshed key survives a restart. After a refresh completed at a party and its store took the share, a
  fresh process of that party that is given the endpoints of the same members, in any order, restores the key:
  completed, with the refreshed share, at the new epoch and with the new committee identities, the same threshold
  and curve, and the public key the refresh was required to keep.\<close>

theorem refresh_survives_restart:
  fixes t :: "('sd, 'p) tss" and m :: "('sd, 'p) TSSPartyManager"
  assumes c: "reg_obj (m_resharings m) ref = Some c" "PublicKey lib share = Inr (rc_expectedPublicKey c, address)"
    and run: "completeResharing lib h io rid ref share (m, st) = (m', st')"
    and store: "io_ok io" "io_ok io'" "store_ready lib h (rc_sourceCeremonyID c)" "tagged lib share"
    and ids: "sort_ok t" "epoch_ok (rc_newEpoch c)" "rc_newSorted c = committeePartyIDs t (rc_peers c) (rc_newEpoch c)"
      "rc_selfPartyID c \<in> set (map fst (rc_peers c))" "rc_expectedPublicKey c \<noteq> ''''"
    and peers: "peers_ok peers" "mset (map fst peers) = mset (map fst (rc_peers c))"
  shows "\<exists>m'' kc. RestoreCeremony t lib h io' (rc_sourceCeremonyID c) peers st' (NewTSSPartyManager (rc_selfPartyID c)) = Inr m'' \<and>
    reg_find (rc_sourceCeremonyID c) (m_ceremonies m'') = Some kc \<and>
    kc_status kc = ceremonyCompleted \<and> kc_saveData kc = Some share \<and> kc_epoch kc = rc_newEpoch c \<and>
    kc_sortedIDs kc = rc_newSorted c \<and> kc_threshold kc = rc_threshold c \<and> kc_curve kc = rc_curve c \<and>
    kc_publicKeyHex kc = rc_expectedPublicKey c"
proof -
  let ?m = "NewTSSPartyManager (rc_selfPartyID c) :: ('sd, 'p) TSSPartyManager" and ?cid = "rc_sourceCeremonyID c"
  let ?cc = "refreshed_context c (rc_expectedPublicKey c) address"
  have fresh: "reg_find ?cid (m_ceremonies ?m) = None" "m_partyID ?m = rc_selfPartyID c" "m_ceremonies ?m = reg_empty"
    by (simp_all add: NewTSSPartyManager_def reg_find_def reg_empty_def)
  have "st' = put_share lib h io (rc_selfPartyID c, ?cid) (share, Some ?cc) st"
    using completeResharing_store [OF c, where h = h and io = io and rid = rid and st = st] run by simp
  then have g: "get_share lib h io' (m_partyID ?m, ?cid) st' = Some (share, Some ?cc)"
    using shares.get_put [OF store(1,2), where k = "(rc_selfPartyID c, ?cid)" and v = "(share, Some ?cc)"] store(3,4) fresh(2)
    by simp
  have len: "int (length peers) = cc_TotalParties ?cc"
    using arg_cong [OF peers(2), of size] ids(1,3) by (simp add: refreshed_context_def length_committee)
  have self: "m_partyID ?m \<in> set (map fst peers)" using ids(4) peers(2) fresh(2) by (metis set_mset_mset)
  have agree: "committeePartyIDs t peers (rc_newEpoch c) = rc_newSorted c"
    using committee_nodes_agree [OF ids(1) peers(1) ids(2) peers(2)] ids(3) by simp
  have cc: "cc_PublicKeyHex ?cc = rc_expectedPublicKey c" "cc_Epoch ?cc = rc_newEpoch c" "cc_Threshold ?cc = rc_threshold c"
    "cc_Curve ?cc = rc_curve c" by (simp_all add: refreshed_context_def)
  have pub: "PublicKey lib share = Inr (cc_PublicKeyHex ?cc, address)" using c(2) cc(1) by simp
  have ep: "epoch_ok (cc_Epoch ?cc)" "cc_PublicKeyHex ?cc \<noteq> ''''" using ids(2,5) cc by simp_all
  from restore_sealed [OF fresh(1) g pub len ids(1) peers(1) ep(1) self ep(2)]
  show ?thesis unfolding cc agree fresh(3) by (auto simp: reg_find_new)
qed

section \<open>Examples\<close>

theorem second_refresh_fails_witness:
  "\<exists>ref share m' m'' c. StartResharing demo_tss ''r1'' ''k1'' demo_peers (demo_manager 1) = Inr (ref, share, m') \<and>
     runResharing demo_tss ''r1'' ref share m' = (False, m'') \<and> reg_find ''r1'' (m_resharings m'') = Some c \<and>
     rc_status c = ceremonyFailed \<and> rc_error c = Some (NotInBothCommittees ''r1'')"
proof -
  have e: "epoch_ok 1" by (simp add: epoch_ok_def)
  have f: "findPartyIDByKey (committeePartyIDs demo_tss demo_peers 1) (committeeKey 1 1) \<noteq> None"
    using findPartyIDByKey_member [OF demo_sort_ok demo_peers_ok e, of 1] by (simp add: demo_peers_def)
  have k: "kc_status (demo_keygen 1) = ceremonyCompleted" "kc_saveData (demo_keygen 1) = Some (wrap_share CurveEd25519 9)"
    "kc_epoch (demo_keygen 1) = 1" "kc_curve (demo_keygen 1) = CurveEd25519" by (simp_all add: demo_keygen_def)
  have m: "m_partyID (demo_manager 1) = 1" "m_resharings (demo_manager 1) = reg_empty" "demo_peers \<noteq> []"
    by (simp_all add: demo_manager_def NewTSSPartyManager_def demo_peers_def)
  obtain ref share m' where s: "StartResharing demo_tss ''r1'' ''k1'' demo_peers (demo_manager 1) = Inr (ref, share, m')"
    using f by (auto simp: StartResharing_def demo_find k m Let_def)
  have "\<exists>m'' c. runResharing demo_tss ''r1'' ref share m' = (False, m'') \<and> reg_find ''r1'' (m_resharings m'') = Some c \<and>
     rc_status c = ceremonyFailed \<and> rc_error c = Some (NotInBothCommittees ''r1'')"
    by (rule second_refresh_fails [OF demo_sort_ok demo_peers_ok _ _ s demo_find])
       (simp_all add: m k e node_ok_def committeeEpochStride_def ellipticCurve_def CurveEd25519_def CurveSecp256k1_def)
  with s show ?thesis by blast
qed

definition demo_reshare :: "(nat, nat) tssResharingCeremony" where
  "demo_reshare = \<lparr>rc_status = ceremonyInProgress, rc_error = None, rc_selfPartyID = 1, rc_threshold = 1, rc_curve = CurveEd25519,
     rc_peers = demo_peers, rc_oldSorted = committeePartyIDs demo_tss demo_peers 0, rc_newSorted = committeePartyIDs demo_tss demo_peers 1,
     rc_newEpoch = 1, rc_oldParty = None, rc_newParty = None, rc_sourceCeremonyID = ''k1'', rc_expectedPublicKey = ''09'',
     rc_expectedAddress = ''09'', rc_saveData = None, rc_sealed = False\<rparr>"

definition demo_refreshing :: "(nat, nat) TSSPartyManager" where
  "demo_refreshing = (demo_manager 0)\<lparr>m_resharings := reg_new ''r1'' demo_reshare reg_empty\<rparr>"

lemma demo_refresh_obj: "reg_obj (m_resharings demo_refreshing) 0 = Some demo_reshare"
  by (simp add: demo_refreshing_def reg_new_def reg_empty_def)

lemma demo_refresh_pub: "PublicKey demo_share_lib (wrap_share CurveEd25519 9) = Inr (''09'', ''09'')"
  by code_simp

lemma demo_refresh_tagged: "tagged demo_share_lib (wrap_share CurveEd25519 9)"
  by (simp add: tagged_def demo_share_lib_def wrap_share_def CurveEd25519_def CurveSecp256k1_def)

lemma demo_k1_ready: "store_ready demo_share_lib demo_host ''k1''"
  by (rule demo_ready) (simp add: fits_file_name_def)

theorem refresh_survives_restart_witness:
  "\<exists>m' st' m'' kc. completeResharing demo_share_lib demo_host demo_io ''r1'' 0 (wrap_share CurveEd25519 9) (demo_refreshing, empty_store) = (m', st') \<and>
    RestoreCeremony demo_tss demo_share_lib demo_host demo_io ''k1'' (rev demo_peers) st' (NewTSSPartyManager 1) = Inr m'' \<and>
    reg_find ''k1'' (m_ceremonies m'') = Some kc \<and> kc_epoch kc = 1 \<and> kc_saveData kc = Some (wrap_share CurveEd25519 9)"
proof -
  obtain m' st' where c: "completeResharing demo_share_lib demo_host demo_io ''r1'' 0 (wrap_share CurveEd25519 9) (demo_refreshing, empty_store) = (m', st')"
    by (metis prod.exhaust)
  have d: "rc_expectedPublicKey demo_reshare = ''09''" "rc_sourceCeremonyID demo_reshare = ''k1''" "rc_selfPartyID demo_reshare = 1"
    "rc_newEpoch demo_reshare = 1" "rc_peers demo_reshare = demo_peers"
    "rc_newSorted demo_reshare = committeePartyIDs demo_tss demo_peers 1" by (simp_all add: demo_reshare_def)
  have p: "peers_ok (rev demo_peers)" by (simp add: peers_ok_def demo_peers_def node_ok_def committeeEpochStride_def)
  have pub: "PublicKey demo_share_lib (wrap_share CurveEd25519 9) = Inr (rc_expectedPublicKey demo_reshare, ''09'')"
    unfolding d by (rule demo_refresh_pub)
  have "\<exists>m'' kc. RestoreCeremony demo_tss demo_share_lib demo_host demo_io (rc_sourceCeremonyID demo_reshare) (rev demo_peers) st'
      (NewTSSPartyManager (rc_selfPartyID demo_reshare)) = Inr m'' \<and>
    reg_find (rc_sourceCeremonyID demo_reshare) (m_ceremonies m'') = Some kc \<and>
    kc_status kc = ceremonyCompleted \<and> kc_saveData kc = Some (wrap_share CurveEd25519 9) \<and> kc_epoch kc = rc_newEpoch demo_reshare \<and>
    kc_sortedIDs kc = rc_newSorted demo_reshare \<and> kc_threshold kc = rc_threshold demo_reshare \<and>
    kc_curve kc = rc_curve demo_reshare \<and> kc_publicKeyHex kc = rc_expectedPublicKey demo_reshare"
    by (rule refresh_survives_restart [OF demo_refresh_obj pub c demo_io_ok demo_io_ok _ demo_refresh_tagged demo_sort_ok])
       (simp_all add: d p demo_k1_ready epoch_ok_def, simp add: demo_peers_def)
  then show ?thesis unfolding d using c by blast
qed

end
