(* ===== verification/Party_Handlers.thy ===== *)
theory Party_Handlers
  imports Party_Resharing
begin

text \<open>
  The HTTP surface of a party: \<^verbatim>\<open>services/mpc-party/tss_handlers.go\<close> and the routes of \<^verbatim>\<open>main.go\<close>. A handler gets
  the decoded body, or nothing when it does not decode, and answers a status code with the reason of a refusal.
  Starting handlers also launch the goroutine of the ceremony, whose steps are separate operations.
\<close>

section \<open>Handlers\<close>

datatype handler_error =
    MethodNotAllowed
  | InvalidRequest
  | FieldsRequired
  | InvalidPeerID string
  | NotAuthorized auth_error
  | NotAuthenticated peer_error
  | ChainUnknown share_error
  | CurveMismatch string string
  | ManagerError party_error
  | RetireError share_error

type_synonym response = "int \<times> handler_error option"

record tssKeygenStartRequest =
  kgr_CeremonyID :: string
  kgr_Threshold :: int
  kgr_Peers :: "(string \<times> string) list"
  kgr_Curve :: string
  kgr_Blockchain :: string
  kgr_Authorization :: string
  kgr_AuthorizationSignature :: string

record tssSignStartRequest =
  sgr_SignID :: string
  sgr_KeygenCeremonyID :: string
  sgr_MessageHashHex :: string
  sgr_CommitteePartyIDs :: "int list"
  sgr_Authorization :: string
  sgr_AuthorizationSignature :: string

record tssReshareStartRequest =
  rsq_ReshareID :: string
  rsq_SourceCeremonyID :: string
  rsq_Peers :: peers
  rsq_Authorization :: string
  rsq_AuthorizationSignature :: string

record tssRestoreRequest =
  rst_CeremonyID :: string
  rst_Peers :: peers
  rst_Authorization :: string
  rst_AuthorizationSignature :: string

record tssRetireRequest =
  rtr_CeremonyID :: string
  rtr_Authorization :: string
  rtr_AuthorizationSignature :: string

record ('k, 'sd, 'p) party_env =
  pe_auth :: "'k auth_lib"
  pe_authorizer :: "'k Authorizer option"
  pe_tss :: "('sd, 'p) tss"
  pe_lib :: "'sd share_lib"
  pe_host :: host

text \<open>Peer numbers are scanned from the keys of a JSON object; keys that scan to the same number overwrite.\<close>

fun parse_peers :: "(string \<times> string) list \<Rightarrow> peers \<Rightarrow> handler_error + peers" where
  "parse_peers [] out = Inr out"
| "parse_peers ((idStr, url) # rest) out =
     (case sscan_int idStr of
        None \<Rightarrow> Inl (InvalidPeerID idStr)
      | Some i \<Rightarrow> parse_peers rest (AList.update i url out))"

definition HandleTSSKeygenStart ::
  "('k, 'sd, 'p) party_env \<Rightarrow> int \<Rightarrow> bool \<Rightarrow> tssKeygenStartRequest option \<Rightarrow> ('sd, 'p) TSSPartyManager
     \<Rightarrow> response \<times> ('sd, 'p) TSSPartyManager" where
  "HandleTSSKeygenStart e now post body m =
     (if \<not> post then ((405, Some MethodNotAllowed), m)
      else case body of
        None \<Rightarrow> ((400, Some InvalidRequest), m)
      | Some req \<Rightarrow>
          if kgr_CeremonyID req = '''' \<or> kgr_Threshold req \<le> 0 \<or> kgr_Peers req = [] then ((400, Some FieldsRequired), m)
          else case parse_peers (kgr_Peers req) [] of
            Inl err \<Rightarrow> ((400, Some err), m)
          | Inr peers \<Rightarrow>
              (let curve = (if kgr_Curve req = '''' then CurveSecp256k1 else kgr_Curve req) in
               case requireAuthorization (pe_auth e) now (pe_authorizer e) ''keygen'' (kgr_CeremonyID req) ''''
                      (kgr_Authorization req) (kgr_AuthorizationSignature req) of
                 Inl err \<Rightarrow> ((403, Some (NotAuthorized err)), m)
               | Inr _ \<Rightarrow>
                   if kgr_Blockchain req = '''' then
                     (case StartKeygen (pe_tss e) (kgr_CeremonyID req) (kgr_Threshold req) peers curve m of
                        Inl err \<Rightarrow> ((500, Some (ManagerError err)), m)
                      | Inr (_, _, m') \<Rightarrow> ((202, None), m'))
                   else
                     (case CurveForChain (kgr_Blockchain req) of
                        Inl err \<Rightarrow> ((400, Some (ChainUnknown err)), m)
                      | Inr want \<Rightarrow>
                          if kgr_Curve req \<noteq> '''' \<and> kgr_Curve req \<noteq> want
                          then ((400, Some (CurveMismatch want (kgr_Curve req))), m)
                          else (case StartKeygenForChain (pe_tss e) (kgr_CeremonyID req) (kgr_Threshold req) peers (kgr_Blockchain req) m of
                                  Inl err \<Rightarrow> ((500, Some (ManagerError err)), m)
                                | Inr (_, _, m') \<Rightarrow> ((202, None), m')))))"

definition HandleTSSKeygenMessage ::
  "('k, 'sd, 'p) party_env \<Rightarrow> string list option \<Rightarrow> bool \<Rightarrow> tssMessageEnvelope option \<Rightarrow> ('sd, 'p) TSSPartyManager
     \<Rightarrow> response \<times> ('sd, 'p) TSSPartyManager" where
  "HandleTSSKeygenMessage e tls post body m =
     (if \<not> post then ((405, Some MethodNotAllowed), m)
      else case body of
        None \<Rightarrow> ((400, Some InvalidRequest), m)
      | Some env \<Rightarrow>
          (case authenticatePeer (getenv (pe_host e)) tls (env_FromPartyID env) of
             Inl err \<Rightarrow> ((403, Some (NotAuthenticated err)), m)
           | Inr _ \<Rightarrow>
               (case HandleIncomingMessage (pe_tss e) env m of
                  (Inl err, m') \<Rightarrow> ((if err = CeremonyNotReady then 503 else 500, Some (ManagerError err)), m')
                | (Inr _, m') \<Rightarrow> ((200, None), m'))))"

definition HandleTSSSignStart ::
  "('k, 'sd, 'p) party_env \<Rightarrow> int \<Rightarrow> bool \<Rightarrow> tssSignStartRequest option \<Rightarrow> ('sd, 'p) TSSPartyManager
     \<Rightarrow> response \<times> ('sd, 'p) TSSPartyManager" where
  "HandleTSSSignStart e now post body m =
     (if \<not> post then ((405, Some MethodNotAllowed), m)
      else case body of
        None \<Rightarrow> ((400, Some InvalidRequest), m)
      | Some req \<Rightarrow>
          if sgr_SignID req = '''' \<or> sgr_KeygenCeremonyID req = '''' \<or> sgr_CommitteePartyIDs req = []
          then ((400, Some FieldsRequired), m)
          else case hex_decode (sgr_MessageHashHex req) of
            None \<Rightarrow> ((400, Some InvalidRequest), m)
          | Some hash \<Rightarrow>
              (case requireAuthorization (pe_auth e) now (pe_authorizer e) ''sign'' (sgr_SignID req) (sgr_MessageHashHex req)
                      (sgr_Authorization req) (sgr_AuthorizationSignature req) of
                 Inl err \<Rightarrow> ((403, Some (NotAuthorized err)), m)
               | Inr _ \<Rightarrow>
                   (case StartSigning (pe_tss e) (sgr_SignID req) (sgr_KeygenCeremonyID req) hash (sgr_CommitteePartyIDs req) m of
                      Inl err \<Rightarrow> ((500, Some (ManagerError err)), m)
                    | Inr (_, _, _, _, m') \<Rightarrow> ((202, None), m'))))"

definition HandleTSSSignMessage ::
  "('k, 'sd, 'p) party_env \<Rightarrow> string list option \<Rightarrow> bool \<Rightarrow> tssSignMessageEnvelope option \<Rightarrow> ('sd, 'p) TSSPartyManager
     \<Rightarrow> response \<times> ('sd, 'p) TSSPartyManager" where
  "HandleTSSSignMessage e tls post body m =
     (if \<not> post then ((405, Some MethodNotAllowed), m)
      else case body of
        None \<Rightarrow> ((400, Some InvalidRequest), m)
      | Some env \<Rightarrow>
          (case authenticatePeer (getenv (pe_host e)) tls (sen_FromPartyID env) of
             Inl err \<Rightarrow> ((403, Some (NotAuthenticated err)), m)
           | Inr _ \<Rightarrow>
               (case HandleIncomingSignMessage (pe_tss e) env m of
                  (Inl err, m') \<Rightarrow> ((if err = SigningNotReady then 503 else 500, Some (ManagerError err)), m')
                | (Inr _, m') \<Rightarrow> ((200, None), m'))))"

definition HandleTSSReshareStart ::
  "('k, 'sd, 'p) party_env \<Rightarrow> int \<Rightarrow> bool \<Rightarrow> tssReshareStartRequest option \<Rightarrow> ('sd, 'p) TSSPartyManager
     \<Rightarrow> response \<times> ('sd, 'p) TSSPartyManager" where
  "HandleTSSReshareStart e now post body m =
     (if \<not> post then ((405, Some MethodNotAllowed), m)
      else case body of
        None \<Rightarrow> ((400, Some InvalidRequest), m)
      | Some req \<Rightarrow>
          if rsq_ReshareID req = '''' \<or> rsq_SourceCeremonyID req = '''' then ((400, Some FieldsRequired), m)
          else (case requireAuthorization (pe_auth e) now (pe_authorizer e) ''reshare'' (rsq_ReshareID req) ''''
                      (rsq_Authorization req) (rsq_AuthorizationSignature req) of
                 Inl err \<Rightarrow> ((403, Some (NotAuthorized err)), m)
               | Inr _ \<Rightarrow>
                   (case StartResharing (pe_tss e) (rsq_ReshareID req) (rsq_SourceCeremonyID req) (rsq_Peers req) m of
                      Inl err \<Rightarrow> ((400, Some (ManagerError err)), m)
                    | Inr (_, _, m') \<Rightarrow> ((202, None), m'))))"

definition HandleTSSReshareMessage ::
  "('k, 'sd, 'p) party_env \<Rightarrow> string list option \<Rightarrow> bool \<Rightarrow> tssReshareMessageEnvelope option \<Rightarrow> ('sd, 'p) TSSPartyManager
     \<Rightarrow> response \<times> ('sd, 'p) TSSPartyManager" where
  "HandleTSSReshareMessage e tls post body m =
     (if \<not> post then ((405, Some MethodNotAllowed), m)
      else case body of
        None \<Rightarrow> ((400, Some InvalidRequest), m)
      | Some env \<Rightarrow>
          (case authenticatePeer (getenv (pe_host e)) tls (ren_FromPartyID env) of
             Inl err \<Rightarrow> ((403, Some (NotAuthenticated err)), m)
           | Inr _ \<Rightarrow>
               (case HandleIncomingReshareMessage (pe_tss e) env m of
                  (Inl err, m') \<Rightarrow> ((if err = ResharingNotReady then 503 else 500, Some (ManagerError err)), m')
                | (Inr _, m') \<Rightarrow> ((200, None), m'))))"

definition HandleTSSRestore ::
  "('k, 'sd, 'p) party_env \<Rightarrow> io \<Rightarrow> int \<Rightarrow> bool \<Rightarrow> tssRestoreRequest option \<Rightarrow> store \<Rightarrow> ('sd, 'p) TSSPartyManager
     \<Rightarrow> response \<times> ('sd, 'p) TSSPartyManager" where
  "HandleTSSRestore e io now post body st m =
     (if \<not> post then ((405, Some MethodNotAllowed), m)
      else case body of
        None \<Rightarrow> ((400, Some InvalidRequest), m)
      | Some req \<Rightarrow>
          (case requireAuthorization (pe_auth e) now (pe_authorizer e) ''restore'' (rst_CeremonyID req) ''''
                  (rst_Authorization req) (rst_AuthorizationSignature req) of
             Inl err \<Rightarrow> ((403, Some (NotAuthorized err)), m)
           | Inr _ \<Rightarrow>
               (case RestoreCeremony (pe_tss e) (pe_lib e) (pe_host e) io (rst_CeremonyID req) (rst_Peers req) st m of
                  Inl err \<Rightarrow> ((400, Some (ManagerError err)), m)
                | Inr m' \<Rightarrow>
                    (case GetStatus (rst_CeremonyID req) m' of
                       Inl err \<Rightarrow> ((500, Some (ManagerError err)), m')
                     | Inr _ \<Rightarrow> ((200, None), m')))))"

definition HandleTSSRetire ::
  "('k, 'sd, 'p) party_env \<Rightarrow> io \<Rightarrow> int \<Rightarrow> tssRetireRequest option \<Rightarrow> store \<Rightarrow> ('sd, 'p) TSSPartyManager
     \<Rightarrow> response \<times> ('sd, 'p) TSSPartyManager \<times> store" where
  "HandleTSSRetire e io now body st m =
     (case body of
        None \<Rightarrow> ((400, Some InvalidRequest), m, st)
      | Some req \<Rightarrow>
          if rtr_CeremonyID req = '''' then ((400, Some InvalidRequest), m, st)
          else (case requireAuthorization (pe_auth e) now (pe_authorizer e) ''retire'' (rtr_CeremonyID req) ''''
                  (rtr_Authorization req) (rtr_AuthorizationSignature req) of
             Inl err \<Rightarrow> ((403, Some (NotAuthorized err)), m, st)
           | Inr _ \<Rightarrow>
               (let (_, m') = Forget (rtr_CeremonyID req) m in
                case RetireSealedShare (pe_host e) io (m_partyID m) (rtr_CeremonyID req) st of
                  (Inl err, st') \<Rightarrow> ((502, Some (RetireError err)), m', st')
                | (Inr _, st') \<Rightarrow> ((200, None), m', st'))))"

text \<open>The routes that can change state, all registered for \<^verbatim>\<open>POST\<close>.\<close>

datatype party_request =
    KeygenStart "tssKeygenStartRequest option"
  | KeygenMessage "tssMessageEnvelope option"
  | KeygenRestore "tssRestoreRequest option"
  | SharesRetire "tssRetireRequest option"
  | ReshareStart "tssReshareStartRequest option"
  | ReshareMessage "tssReshareMessageEnvelope option"
  | SignStart "tssSignStartRequest option"
  | SignMessage "tssSignMessageEnvelope option"

definition route ::
  "('k, 'sd, 'p) party_env \<Rightarrow> io \<Rightarrow> int \<Rightarrow> string list option \<Rightarrow> party_request \<Rightarrow> ('sd, 'p) TSSPartyManager \<times> store
     \<Rightarrow> response \<times> ('sd, 'p) TSSPartyManager \<times> store" where
  "route e io now tls r w =
     (let (m, st) = w in
      case r of
        KeygenStart b \<Rightarrow> (let (rsp, m') = HandleTSSKeygenStart e now True b m in (rsp, m', st))
      | KeygenMessage b \<Rightarrow> (let (rsp, m') = HandleTSSKeygenMessage e tls True b m in (rsp, m', st))
      | KeygenRestore b \<Rightarrow> (let (rsp, m') = HandleTSSRestore e io now True b st m in (rsp, m', st))
      | SharesRetire b \<Rightarrow> HandleTSSRetire e io now b st m
      | ReshareStart b \<Rightarrow> (let (rsp, m') = HandleTSSReshareStart e now True b m in (rsp, m', st))
      | ReshareMessage b \<Rightarrow> (let (rsp, m') = HandleTSSReshareMessage e tls True b m in (rsp, m', st))
      | SignStart b \<Rightarrow> (let (rsp, m') = HandleTSSSignStart e now True b m in (rsp, m', st))
      | SignMessage b \<Rightarrow> (let (rsp, m') = HandleTSSSignMessage e tls True b m in (rsp, m', st)))"

section \<open>Properties\<close>

text \<open>What a request has to be authorized for (operation, ceremony and message), or else who it claims to come from.\<close>

fun request_authority :: "party_request \<Rightarrow> (string \<times> string \<times> string) option" where
  "request_authority (KeygenStart (Some q)) = Some (''keygen'', kgr_CeremonyID q, '''')"
| "request_authority (KeygenRestore (Some q)) = Some (''restore'', rst_CeremonyID q, '''')"
| "request_authority (SharesRetire (Some q)) = Some (''retire'', rtr_CeremonyID q, '''')"
| "request_authority (ReshareStart (Some q)) = Some (''reshare'', rsq_ReshareID q, '''')"
| "request_authority (SignStart (Some q)) = Some (''sign'', sgr_SignID q, sgr_MessageHashHex q)"
| "request_authority _ = None"

fun request_sender :: "party_request \<Rightarrow> int option" where
  "request_sender (KeygenMessage (Some q)) = Some (env_FromPartyID q)"
| "request_sender (SignMessage (Some q)) = Some (sen_FromPartyID q)"
| "request_sender (ReshareMessage (Some q)) = Some (ren_FromPartyID q)"
| "request_sender _ = None"

lemma changed_keygen: "HandleTSSKeygenStart e now post body m = (rsp, m') \<Longrightarrow> m' \<noteq> m \<Longrightarrow>
    \<exists>q. body = Some q \<and> requireAuthorization (pe_auth e) now (pe_authorizer e) ''keygen'' (kgr_CeremonyID q) ''''
      (kgr_Authorization q) (kgr_AuthorizationSignature q) = Inr ()"
  by (auto simp: HandleTSSKeygenStart_def Let_def split: if_splits option.splits sum.splits)

lemma changed_sign: "HandleTSSSignStart e now post body m = (rsp, m') \<Longrightarrow> m' \<noteq> m \<Longrightarrow>
    \<exists>q. body = Some q \<and> requireAuthorization (pe_auth e) now (pe_authorizer e) ''sign'' (sgr_SignID q) (sgr_MessageHashHex q)
      (sgr_Authorization q) (sgr_AuthorizationSignature q) = Inr ()"
  by (auto simp: HandleTSSSignStart_def Let_def split: if_splits option.splits sum.splits)

lemma changed_reshare: "HandleTSSReshareStart e now post body m = (rsp, m') \<Longrightarrow> m' \<noteq> m \<Longrightarrow>
    \<exists>q. body = Some q \<and> requireAuthorization (pe_auth e) now (pe_authorizer e) ''reshare'' (rsq_ReshareID q) ''''
      (rsq_Authorization q) (rsq_AuthorizationSignature q) = Inr ()"
  by (auto simp: HandleTSSReshareStart_def Let_def split: if_splits option.splits sum.splits)

lemma changed_restore: "HandleTSSRestore e io now post body st m = (rsp, m') \<Longrightarrow> m' \<noteq> m \<Longrightarrow>
    \<exists>q. body = Some q \<and> requireAuthorization (pe_auth e) now (pe_authorizer e) ''restore'' (rst_CeremonyID q) ''''
      (rst_Authorization q) (rst_AuthorizationSignature q) = Inr ()"
  by (auto simp: HandleTSSRestore_def Let_def split: if_splits option.splits sum.splits)

lemma changed_retire: "HandleTSSRetire e io now body st m = (rsp, m', st') \<Longrightarrow> (m', st') \<noteq> (m, st) \<Longrightarrow>
    \<exists>q. body = Some q \<and> requireAuthorization (pe_auth e) now (pe_authorizer e) ''retire'' (rtr_CeremonyID q) ''''
      (rtr_Authorization q) (rtr_AuthorizationSignature q) = Inr ()"
  by (auto simp: HandleTSSRetire_def Let_def split: if_splits option.splits sum.splits)

lemmas changed = changed_keygen changed_sign changed_reshare changed_restore changed_retire

lemma changed_message:
  "HandleTSSKeygenMessage e tls post kb m = (rsp, m') \<Longrightarrow> m' \<noteq> m \<Longrightarrow>
     \<exists>q. kb = Some q \<and> authenticatePeer (getenv (pe_host e)) tls (env_FromPartyID q) = Inr ()"
  "HandleTSSSignMessage e tls post sb m = (rsp, m') \<Longrightarrow> m' \<noteq> m \<Longrightarrow>
     \<exists>q. sb = Some q \<and> authenticatePeer (getenv (pe_host e)) tls (sen_FromPartyID q) = Inr ()"
  "HandleTSSReshareMessage e tls post rb m = (rsp, m') \<Longrightarrow> m' \<noteq> m \<Longrightarrow>
     \<exists>q. rb = Some q \<and> authenticatePeer (getenv (pe_host e)) tls (ren_FromPartyID q) = Inr ()"
  by (auto simp: HandleTSSKeygenMessage_def HandleTSSSignMessage_def HandleTSSReshareMessage_def Let_def
      split: if_splits option.splits sum.splits)

lemma route_changed:
  assumes "route e io now tls r (m, st) = (rsp, m', st')" "(m', st') \<noteq> (m, st)"
  shows "(\<exists>op cid mh auth sig. request_authority r = Some (op, cid, mh) \<and>
      requireAuthorization (pe_auth e) now (pe_authorizer e) op cid mh auth sig = Inr ()) \<or>
    (request_authority r = None \<and> (\<exists>from. request_sender r = Some from \<and>
      authenticatePeer (getenv (pe_host e)) tls from = Inr ()))"
  using assms
  by (cases r) (auto simp: route_def dest!: changed changed_message split: prod.splits, blast+)

lemma authenticatePeer_leaf:
  assumes "authenticatePeer env tls from = Inr ()" "\<not> peerEnforcementDisabled env"
  shows "\<exists>cn certs. tls = Some (cn # certs) \<and> partyIDFromCommonName cn = Inr from"
  using assms by (auto simp: authenticatePeer_def res_simps split: option.splits list.splits if_splits)

text \<open>C31: Nothing reaches a party's keys unauthorized, at a party that is configured for it. At a party with an authorising
  key configured, with the check of peer certificates not switched off, and provided the key accepts only what it
  issued (its signatures are not forged), every request that changes anything, in memory or in the sealed store, is
  either a ceremony operation for which the key issued an authorization, not too old, naming that operation, that
  ceremony and (for signing) that message, or a protocol message whose claimed sender is the party named by the
  certificate it arrived under. (A party without an authorising key, which is the default, starts what it is asked to.)\<close>

theorem state_changes_are_authorized:
  assumes "pe_authorizer e = Some a" "only_issued (pe_auth e) a issued" "\<not> peerEnforcementDisabled (getenv (pe_host e))"
    and "route e io now tls r (m, st) = (rsp, m', st')" "(m', st') \<noteq> (m, st)"
  shows "case request_authority r of
      Some (op, cid, mh) \<Rightarrow> \<exists>q \<in> issued. ar_Operation q = op \<and> ar_CeremonyID q = cid \<and>
        (mh \<noteq> '''' \<longrightarrow> equal_fold (ar_MessageHash q) mh) \<and> time_since now (ar_IssuedAt q) \<le> au_maxAge a
    | None \<Rightarrow> \<exists>from cn certs. request_sender r = Some from \<and> tls = Some (cn # certs) \<and> partyIDFromCommonName cn = Inr from"
  using route_changed [OF assms(4,5)]
proof
  assume "\<exists>op cid mh auth sig. request_authority r = Some (op, cid, mh) \<and>
      requireAuthorization (pe_auth e) now (pe_authorizer e) op cid mh auth sig = Inr ()"
  then obtain op cid mh auth sig where h: "request_authority r = Some (op, cid, mh)"
    "requireAuthorization (pe_auth e) now (Some a) op cid mh auth sig = Inr ()"
    using assms(1) by auto
  from require_issued [OF h(2) assms(2)] h(1) show ?thesis by auto
next
  assume "request_authority r = None \<and> (\<exists>from. request_sender r = Some from \<and>
      authenticatePeer (getenv (pe_host e)) tls from = Inr ())"
  then show ?thesis using authenticatePeer_leaf [OF _ assms(3)] by fastforce
qed

lemma Forget_finds: "reg_wf (m_ceremonies m) \<Longrightarrow> reg_find cid (m_ceremonies (snd (Forget cid m))) = None"
  by (simp add: Forget_def split: option.split)

lemma retire_ok:
  assumes "HandleTSSRetire e io now (Some req) st m = ((200, err), m', st')"
  shows "m' = snd (Forget (rtr_CeremonyID req) m)" "st' = del_share (pe_host e) io (m_partyID m, rtr_CeremonyID req) st"
  using assms by (auto simp: HandleTSSRetire_def del_share_def Let_def split: if_splits sum.splits prod.splits)

text \<open>C32: A retired key cannot sign again. After a retirement is reported done, this party refuses every signing
  and refresh with that key, and cannot restore it: the share is neither in memory nor in the store, whichever store
  is configured and whatever had been sealed before.\<close>

theorem retired_key_unusable:
  assumes "HandleTSSRetire e io now (Some req) st m = ((200, err), m', st')"
    and "io_ok io" "io_ok io'" "store_ready (pe_lib e) (pe_host e) (rtr_CeremonyID req)" "reg_wf (m_ceremonies m)"
  shows "(\<forall>signID hash ids. \<exists>x. StartSigning (pe_tss e) signID (rtr_CeremonyID req) hash ids m' = Inl x) \<and>
    (\<forall>rid peers. \<exists>x. StartResharing (pe_tss e) rid (rtr_CeremonyID req) peers m' = Inl x) \<and>
    (\<forall>peers. \<exists>x. RestoreCeremony (pe_tss e) (pe_lib e) (pe_host e) io' (rtr_CeremonyID req) peers st' m' = Inl x)"
proof -
  let ?cid = "rtr_CeremonyID req"
  note r = retire_ok [OF assms(1)]
  have f: "reg_find ?cid (m_ceremonies m') = None" unfolding r(1) by (rule Forget_finds [OF assms(5)])
  have p: "m_partyID m' = m_partyID m" unfolding r(1) by (simp add: Forget_def split: option.split)
  have "get_share (pe_lib e) (pe_host e) io' (m_partyID m, ?cid) st' = None"
    unfolding r(2) using shares.get_del [OF assms(2,3), where k = "(m_partyID m, ?cid)"] assms(4) by simp
  then obtain x where "LoadSealedShare (pe_lib e) (pe_host e) io' (m_partyID m') ?cid st' = Inl x"
    unfolding p by (auto simp: get_share_def split: sum.splits)
  then show ?thesis using f by (simp add: StartSigning_def StartResharing_def RestoreCeremony_def)
qed

text \<open>C37: An authorization does not say with which key to sign. It names the signing session and the message only;
  when it is accepted for one key, it is accepted unchanged for any other key of this party that a committee of the
  requested size can sign with, so the one who relays the request chooses the key.\<close>

theorem sign_authorization_not_bound_to_key:
  assumes "HandleTSSSignStart e now True (Some req) m = ((202, None), m')"
    and "StartSigning (pe_tss e) (sgr_SignID req) other (the (hex_decode (sgr_MessageHashHex req))) ids m = Inr (ref, self, t, share, m'')"
    and "other \<noteq> ''''"
  shows "HandleTSSSignStart e now True (Some (req\<lparr>sgr_KeygenCeremonyID := other, sgr_CommitteePartyIDs := ids\<rparr>)) m = ((202, None), m'')"
proof -
  have "ids \<noteq> []" using assms(2) by (rule StartSigning_Inr) auto
  then show ?thesis
    using assms by (auto simp: HandleTSSSignStart_def split: if_splits option.splits sum.splits)
qed

lemma Forget_resharings [simp]: "m_resharings (snd (Forget cid m)) = m_resharings m" "m_partyID (snd (Forget cid m)) = m_partyID m"
  by (simp_all add: Forget_def split: option.split)

text \<open>C36: A refresh in flight undoes a retirement. When a key is retired while a refresh of it is still running at
  the party, completing the refresh seals a share of the retired key again without looking whether the key still
  exists, and the key can then be restored and used.\<close>

theorem refresh_undoes_retirement:
  assumes "HandleTSSRetire e io now (Some req) st m = ((200, err), m', st')"
    and "reg_obj (m_resharings m) ref = Some c" "rc_sourceCeremonyID c = rtr_CeremonyID req" "rc_selfPartyID c = m_partyID m"
    and "PublicKey (pe_lib e) share = Inr (rc_expectedPublicKey c, address)" "rc_expectedPublicKey c \<noteq> ''''"
    and "completeResharing (pe_lib e) (pe_host e) io' rid ref share (m', st') = (m'', st'')"
    and "io_ok io'" "store_ready (pe_lib e) (pe_host e) (rtr_CeremonyID req)" "tagged (pe_lib e) share"
    and "sort_ok (pe_tss e)" "peers_ok (rc_peers c)" "epoch_ok (rc_newEpoch c)" "m_partyID m \<in> set (map fst (rc_peers c))"
      "rc_newSorted c = committeePartyIDs (pe_tss e) (rc_peers c) (rc_newEpoch c)" "reg_wf (m_ceremonies m)"
  shows "\<exists>restored kc. RestoreCeremony (pe_tss e) (pe_lib e) (pe_host e) io' (rtr_CeremonyID req) (rc_peers c) st'' m'' = Inr restored \<and>
    reg_find (rtr_CeremonyID req) (m_ceremonies restored) = Some kc \<and> kc_status kc = ceremonyCompleted \<and> kc_saveData kc = Some share"
proof -
  let ?cid = "rtr_CeremonyID req" and ?cc = "refreshed_context c (rc_expectedPublicKey c) address"
  note r = retire_ok [OF assms(1)]
  have c: "reg_obj (m_resharings m') ref = Some c" using assms(2) by (simp add: r(1))
  have wf: "reg_wf (m_ceremonies m')" using assms(16) by (simp add: r(1) Forget_def split: option.split)
  have none: "reg_find ?cid (m_ceremonies m') = None" unfolding r(1) by (rule Forget_finds [OF assms(16)])
  have m'': "m_ceremonies m'' = reg_update_id ?cid (\<lambda>source. source\<lparr>kc_saveData := Some share,
      kc_sortedIDs := rc_newSorted c, kc_epoch := rc_newEpoch c\<rparr>) (m_ceremonies m')" "m_partyID m'' = m_partyID m"
    using assms(7) c assms(3,5) by (auto simp: completeResharing_def r(1) Let_def split: sum.splits prod.splits)
  have f: "reg_find ?cid (m_ceremonies m'') = None" using none wf by (simp add: m''(1) reg_find_update_id)
  have wf'': "reg_wf (m_ceremonies m'')" using wf by (simp add: m''(1))
  have "st'' = put_share (pe_lib e) (pe_host e) io' (m_partyID m, ?cid) (share, Some ?cc) st'"
    using completeResharing_store [OF c assms(5), where h = "pe_host e" and io = io' and rid = rid and st = st'] assms(3,4,7) by simp
  then have g: "get_share (pe_lib e) (pe_host e) io' (m_partyID m'', ?cid) st'' = Some (share, Some ?cc)"
    using shares.get_put [OF assms(8,8), where k = "(m_partyID m, ?cid)" and v = "(share, Some ?cc)"] assms(9,10) m''(2) by simp
  have cc: "cc_PublicKeyHex ?cc = rc_expectedPublicKey c" "cc_Epoch ?cc = rc_newEpoch c"
    "int (length (rc_peers c)) = cc_TotalParties ?cc"
    using assms(11,15) by (simp_all add: refreshed_context_def length_committee)
  have "\<exists>kc. RestoreCeremony (pe_tss e) (pe_lib e) (pe_host e) io' ?cid (rc_peers c) st'' m''
      = Inr (m''\<lparr>m_ceremonies := reg_new ?cid kc (m_ceremonies m'')\<rparr>) \<and>
    kc_status kc = ceremonyCompleted \<and> kc_saveData kc = Some share \<and> kc_epoch kc = cc_Epoch ?cc \<and>
    kc_sortedIDs kc = committeePartyIDs (pe_tss e) (rc_peers c) (cc_Epoch ?cc) \<and> kc_threshold kc = cc_Threshold ?cc \<and>
    kc_curve kc = cc_Curve ?cc \<and> kc_publicKeyHex kc = cc_PublicKeyHex ?cc"
    by (rule restore_sealed [OF f g _ cc(3) assms(11,12)]) (use assms(5,6,13,14) cc m''(2) in simp_all)
  then show ?thesis using wf'' by (auto simp: reg_find_new)
qed

section \<open>Examples\<close>

definition demo_party :: "unit Authorizer option \<Rightarrow> (bytes \<Rightarrow> bool) \<Rightarrow> (unit, nat, nat) party_env" where
  "demo_party au ok = \<lparr>pe_auth = demo_auth ok, pe_authorizer = au, pe_tss = demo_tss, pe_lib = demo_share_lib, pe_host = demo_host\<rparr>"

lemma demo_party_simps [simp]: "pe_auth (demo_party au ok) = demo_auth ok" "pe_authorizer (demo_party au ok) = au"
  "pe_tss (demo_party au ok) = demo_tss" "pe_lib (demo_party au ok) = demo_share_lib" "pe_host (demo_party au ok) = demo_host"
  by (simp_all add: demo_party_def)

definition demo_sign_request :: tssSignStartRequest where
  "demo_sign_request = \<lparr>sgr_SignID = ''c1'', sgr_KeygenCeremonyID = ''k1'', sgr_MessageHashHex = ''AB'',
     sgr_CommitteePartyIDs = [3, 1], sgr_Authorization = demo_marshal demo_auth_req, sgr_AuthorizationSignature = ''01''\<rparr>"

lemma StartSigning_same_key:
  assumes s: "StartSigning t sid k hash ids m = Inr (ref, self, thr, share, m1)"
    and k: "reg_find k' C = reg_find k (m_ceremonies m)"
  shows "StartSigning t sid k' hash ids (m\<lparr>m_ceremonies := C\<rparr>) = Inr (ref, self, thr, share, m1\<lparr>m_ceremonies := C\<rparr>)"
proof -
  obtain kc where kc: "reg_find k (m_ceremonies m) = Some kc" "kc_status kc = ceremonyCompleted" "kc_saveData kc = Some share"
    using s by (rule StartSigning_Inr) blast
  show ?thesis
    using s unfolding StartSigning_def k kc by (auto simp: Let_def kc k split: if_splits option.splits)
qed

lemma demo_hash: "hex_decode ''AB'' = Some [0xab]"
  by code_simp

lemma demo_sign_start:
  "\<exists>m'. HandleTSSSignStart (demo_party (Some demo_authorizer) (\<lambda>m. m = canonical demo_auth_req)) (1001 * second) True
     (Some demo_sign_request) (demo_manager 1) = ((202, None), m') \<and> m' \<noteq> demo_manager 1"
proof -
  obtain m' where s: "StartSigning demo_tss ''c1'' ''k1'' [0xab] [3, 1] (demo_manager 1) = Inr (0, member 1 1, 1, wrap_share CurveEd25519 9, m')"
    and f: "reg_find ''c1'' (m_signings m') \<noteq> None"
    using demo_start_signing [of "[0xab]" "''c1''"] by (simp add: reg_find_new)
  have "m' \<noteq> demo_manager 1" using f by (auto simp: demo_manager_def NewTSSPartyManager_def)
  then show ?thesis
    using s demo_require demo_hash by (simp add: HandleTSSSignStart_def demo_sign_request_def)
qed

theorem state_changes_are_authorized_witness:
  "\<exists>q \<in> {demo_auth_req}. ar_Operation q = ''sign'' \<and> ar_CeremonyID q = ''c1'' \<and> equal_fold (ar_MessageHash q) ''AB''"
proof -
  let ?e = "demo_party (Some demo_authorizer) (\<lambda>m. m = canonical demo_auth_req)"
  obtain m' where h: "HandleTSSSignStart ?e (1001 * second) True (Some demo_sign_request) (demo_manager 1) = ((202, None), m')"
    and n: "m' \<noteq> demo_manager 1" using demo_sign_start by blast
  have "newline_free demo_auth_req" by (simp add: newline_free_def demo_auth_req_def newline_def)
  then have i: "only_issued (pe_auth ?e) demo_authorizer {demo_auth_req}"
    by (simp add: only_issued_def accepts_def demo_auth_def demo_authorizer_def)
  have p: "\<not> peerEnforcementDisabled (getenv (pe_host ?e))" by (simp add: peerEnforcementDisabled_def demo_host_def)
  have r: "route ?e demo_io (1001 * second) None (SignStart (Some demo_sign_request)) (demo_manager 1, empty_store)
      = ((202, None), m', empty_store)" using h by (simp add: route_def)
  show ?thesis
    using state_changes_are_authorized [OF _ i p r] n by (simp add: demo_sign_request_def)
qed

theorem sign_authorization_not_bound_to_key_witness:
  "\<exists>m' m''. HandleTSSSignStart (demo_party (Some demo_authorizer) (\<lambda>m. m = canonical demo_auth_req)) (1001 * second) True
     (Some (demo_sign_request\<lparr>sgr_KeygenCeremonyID := ''k2''\<rparr>))
     ((demo_manager 1)\<lparr>m_ceremonies := reg_new ''k2'' (demo_keygen 1) (m_ceremonies (demo_manager 1))\<rparr>) = ((202, None), m') \<and>
   HandleTSSSignStart (demo_party (Some demo_authorizer) (\<lambda>m. m = canonical demo_auth_req)) (1001 * second) True
     (Some demo_sign_request)
     ((demo_manager 1)\<lparr>m_ceremonies := reg_new ''k2'' (demo_keygen 1) (m_ceremonies (demo_manager 1))\<rparr>) = ((202, None), m'')"
proof -
  let ?m = "(demo_manager 1)\<lparr>m_ceremonies := reg_new ''k2'' (demo_keygen 1) (m_ceremonies (demo_manager 1))\<rparr>"
  let ?e = "demo_party (Some demo_authorizer) (\<lambda>m. m = canonical demo_auth_req)"
  have wf: "reg_wf (m_ceremonies (demo_manager 1))" by (simp add: demo_manager_def)
  have same: "reg_find ''k2'' (m_ceremonies ?m) = reg_find ''k1'' (m_ceremonies (demo_manager 1))"
    "reg_find ''k1'' (m_ceremonies ?m) = reg_find ''k1'' (m_ceremonies (demo_manager 1))"
    using wf by (simp_all add: reg_find_new demo_find)
  obtain ref self t share m0 where base: "StartSigning demo_tss ''c1'' ''k1'' [0xab] [3, 1] (demo_manager 1) = Inr (ref, self, t, share, m0)"
    using demo_start_signing [of "[0xab]" "''c1''"] by simp
  obtain m1 m2 where k: "StartSigning demo_tss ''c1'' ''k1'' [0xab] [3, 1] ?m = Inr (ref, self, t, share, m1)"
    "StartSigning demo_tss ''c1'' ''k2'' [0xab] [3, 1] ?m = Inr (ref, self, t, share, m2)"
    using StartSigning_same_key [OF base, of "''k1''" "m_ceremonies ?m"] StartSigning_same_key [OF base, of "''k2''" "m_ceremonies ?m"] same
    by simp
  have one: "HandleTSSSignStart ?e (1001 * second) True (Some demo_sign_request) ?m = ((202, None), m1)"
    using k(1) demo_require demo_hash by (simp add: HandleTSSSignStart_def demo_sign_request_def)
  have "HandleTSSSignStart ?e (1001 * second) True
      (Some (demo_sign_request\<lparr>sgr_KeygenCeremonyID := ''k2'', sgr_CommitteePartyIDs := [3, 1]\<rparr>)) ?m = ((202, None), m2)"
    by (rule sign_authorization_not_bound_to_key [OF one]) (use k(2) demo_hash in \<open>simp_all add: demo_sign_request_def\<close>)
  then show ?thesis using one by (auto simp: demo_sign_request_def)
qed

definition demo_retire :: tssRetireRequest where
  "demo_retire = \<lparr>rtr_CeremonyID = ''k1'', rtr_Authorization = '''', rtr_AuthorizationSignature = ''''\<rparr>"

lemma demo_retire_ok:
  assumes "m_partyID m = 1"
  shows "HandleTSSRetire (demo_party None ok) demo_io 0 (Some demo_retire) empty_store m
    = ((200, None), snd (Forget ''k1'' m), empty_store)"
proof -
  have "file_path demo_host demo_cfg 1 ''k1'' = Inr ''/shares/party-1/k1.sealed''" by code_simp
  then have "RetireSealedShare demo_host demo_io 1 ''k1'' empty_store = (Inr True, empty_store)"
    using demo_config by (simp add: RetireSealedShare_def vault_unconfigured demo_host_def retireShareFile_def empty_store_def demo_io_def)
  then show ?thesis
    using assms by (simp add: HandleTSSRetire_def demo_retire_def requireAuthorization_def split: prod.split)
qed

theorem retired_key_unusable_witness:
  "\<forall>signID hash ids. \<exists>x. StartSigning demo_tss signID ''k1'' hash ids (snd (Forget ''k1'' (demo_manager 1))) = Inl x"
  using retired_key_unusable [OF demo_retire_ok [of "demo_manager 1"] demo_io_ok demo_io_ok] demo_k1_ready
  by (simp add: demo_retire_def demo_manager_def NewTSSPartyManager_def)

theorem refresh_undoes_retirement_witness:
  "\<exists>m'' st'' restored kc. completeResharing demo_share_lib demo_host demo_io ''r1'' 0 (wrap_share CurveEd25519 9)
       (snd (Forget ''k1'' demo_refreshing), empty_store) = (m'', st'') \<and>
     RestoreCeremony demo_tss demo_share_lib demo_host demo_io ''k1'' demo_peers st'' m'' = Inr restored \<and>
     reg_find ''k1'' (m_ceremonies restored) = Some kc \<and> kc_status kc = ceremonyCompleted \<and>
     kc_saveData kc = Some (wrap_share CurveEd25519 9)"
proof -
  obtain m'' st'' where c: "completeResharing demo_share_lib demo_host demo_io ''r1'' 0 (wrap_share CurveEd25519 9)
      (snd (Forget ''k1'' demo_refreshing), empty_store) = (m'', st'')" by (metis prod.exhaust)
  have m: "m_partyID demo_refreshing = 1" "reg_wf (m_ceremonies demo_refreshing)"
    by (simp_all add: demo_refreshing_def demo_manager_def NewTSSPartyManager_def)
  have d: "rc_expectedPublicKey demo_reshare = ''09''" "rc_sourceCeremonyID demo_reshare = ''k1''" "rc_selfPartyID demo_reshare = 1"
    "rc_newEpoch demo_reshare = 1" "rc_peers demo_reshare = demo_peers"
    "rc_newSorted demo_reshare = committeePartyIDs demo_tss demo_peers 1" by (simp_all add: demo_reshare_def)
  have "1 \<in> set (map fst demo_peers)" by (simp add: demo_peers_def)
  then show ?thesis
    using refresh_undoes_retirement [OF demo_retire_ok [OF m(1), of "\<lambda>_. True"] demo_refresh_obj, where io' = demo_io and rid = "''r1''"
        and share = "wrap_share CurveEd25519 9" and address = "''09''" and m'' = m'' and st'' = st'']
      demo_refresh_pub demo_k1_ready demo_refresh_tagged demo_sort_ok demo_peers_ok demo_io_ok c m
    by (auto simp: d demo_retire_def epoch_ok_def)
qed

end
