(* ===== verification/Eth_Rpc.thy ===== *)
theory Eth_Rpc
  imports Go_Text
begin

text \<open>
  The Ethereum JSON-RPC client that the worker and the settlement service share (\<^verbatim>\<open>internal/ethrpc/ethrpc.go\<close>,
  the same text in both). The node is a parameter: a function from method and parameters to what the HTTP exchange
  and the JSON decoding of its envelope yield, threading the state of the outside world. Quantities are read with
  the semantics of \<^verbatim>\<open>big.Int\<close>: any sign and any number of hex digits, cut to 64 bits where the client asks for
  a \<^verbatim>\<open>uint64\<close>.
\<close>

section \<open>Hexadecimal quantities\<close>

text \<open>\<^verbatim>\<open>new(big.Int).SetString(s, 16)\<close>: an optional sign, then hex digits to the end, of any length.\<close>

definition hex_nat :: "string \<Rightarrow> nat" where
  "hex_nat s = foldl (\<lambda>a c. a * 16 + the (unhex c)) 0 s"

definition big_hex :: "string \<Rightarrow> int option" where
  "big_hex s =
     (let u = (if take 1 s = ''-'' \<or> take 1 s = ''+'' then drop 1 s else s)
      in if u = [] \<or> \<not> list_all (\<lambda>c. unhex c \<noteq> None) u then None
         else Some (if take 1 s = ''-'' then - int (hex_nat u) else int (hex_nat u)))"

text \<open>\<^verbatim>\<open>big.Int.Uint64\<close>: the low 64 bits of the magnitude.\<close>

definition big_uint64 :: "int \<Rightarrow> u64" where
  "big_uint64 v = of_int \<bar>v\<bar>"

definition hexUint :: "string \<Rightarrow> u64" where
  "hexUint s = (case big_hex (trim_prefix ''0x'' s) of None \<Rightarrow> 0 | Some v \<Rightarrow> big_uint64 v)"

section \<open>Calls\<close>

datatype rpc_param = PString string | PObject "(string \<times> string) list"

datatype 'j rpc_reply =
    NodeUnreachable string
  | ReplyUnreadable
  | NodeStatus int
  | NotJsonRpc
  | NodeRejects int string
  | NodeResult "'j option"

datatype rpc_error =
    NotAnHttpUrl string
  | NodeNotReached string string
  | ReplyNotRead string
  | NodeHttpStatus string int
  | ReplyNotJsonRpc string
  | RequestRejected string int string
  | ErrNotFound
  | NotAQuantity string
  | NotAHash
  | UnreadableReceipt

record rawReceipt =
  rr_Status :: string
  rr_BlockNumber :: string
  rr_GasUsed :: string
  rr_TxHash :: string

record Receipt =
  rcp_Status :: u64
  rcp_BlockNumber :: u64
  rcp_GasUsed :: u64
  rcp_TxHash :: string

text \<open>The node behind an endpoint, and the decoding of the raw result of a call as a string or a receipt.
  \<^verbatim>\<open>NodeResult None\<close> is an absent or \<^verbatim>\<open>null\<close> result.\<close>

record ('w, 'j) rpc_node =
  node_call :: "string \<Rightarrow> string \<Rightarrow> rpc_param list \<Rightarrow> 'w \<Rightarrow> 'j rpc_reply \<times> 'w"
  json_string :: "'j \<Rightarrow> string option"
  json_receipt :: "'j \<Rightarrow> rawReceipt option"

definition Dial :: "string \<Rightarrow> rpc_error + string" where
  "Dial url = (if take 7 url \<noteq> ''http://'' \<and> take 8 url \<noteq> ''https://'' then Inl (NotAnHttpUrl url) else Inr url)"

definition rpc_call :: "('w, 'j) rpc_node \<Rightarrow> string \<Rightarrow> string \<Rightarrow> rpc_param list \<Rightarrow> 'w \<Rightarrow> (rpc_error + 'j) \<times> 'w" where
  "rpc_call node url method params w =
     (let (reply, w') = node_call node url method params w in
      (case reply of
         NodeUnreachable e \<Rightarrow> Inl (NodeNotReached method e)
       | ReplyUnreadable \<Rightarrow> Inl (ReplyNotRead method)
       | NodeStatus code \<Rightarrow> Inl (NodeHttpStatus method code)
       | NotJsonRpc \<Rightarrow> Inl (ReplyNotJsonRpc method)
       | NodeRejects code msg \<Rightarrow> Inl (RequestRejected method code msg)
       | NodeResult None \<Rightarrow> Inl ErrNotFound
       | NodeResult (Some j) \<Rightarrow> Inr j, w'))"

definition hexBig :: "('w, 'j) rpc_node \<Rightarrow> string \<Rightarrow> string \<Rightarrow> rpc_param list \<Rightarrow> 'w \<Rightarrow> (rpc_error + int) \<times> 'w" where
  "hexBig node url method params w =
     (case rpc_call node url method params w of
        (Inl e, w') \<Rightarrow> (Inl e, w')
      | (Inr j, w') \<Rightarrow>
          ((case json_string node j of
              None \<Rightarrow> Inl (NotAQuantity method)
            | Some s \<Rightarrow> (case big_hex (trim_prefix ''0x'' s) of None \<Rightarrow> Inl (NotAQuantity method) | Some v \<Rightarrow> Inr v)), w'))"

definition as_uint64 :: "(rpc_error + int) \<times> 'w \<Rightarrow> (rpc_error + u64) \<times> 'w" where
  "as_uint64 r = (case fst r of Inl e \<Rightarrow> Inl e | Inr v \<Rightarrow> Inr (big_uint64 v), snd r)"

definition ChainID :: "('w, 'j) rpc_node \<Rightarrow> string \<Rightarrow> 'w \<Rightarrow> (rpc_error + int) \<times> 'w" where
  "ChainID node url = hexBig node url ''eth_chainId'' []"

definition BlockNumber :: "('w, 'j) rpc_node \<Rightarrow> string \<Rightarrow> 'w \<Rightarrow> (rpc_error + u64) \<times> 'w" where
  "BlockNumber node url w = as_uint64 (hexBig node url ''eth_blockNumber'' [] w)"

definition BalanceAt :: "('w, 'j) rpc_node \<Rightarrow> string \<Rightarrow> string \<Rightarrow> 'w \<Rightarrow> (rpc_error + int) \<times> 'w" where
  "BalanceAt node url address = hexBig node url ''eth_getBalance'' [PString address, PString ''latest'']"

definition PendingNonceAt :: "('w, 'j) rpc_node \<Rightarrow> string \<Rightarrow> string \<Rightarrow> 'w \<Rightarrow> (rpc_error + u64) \<times> 'w" where
  "PendingNonceAt node url address w =
     as_uint64 (hexBig node url ''eth_getTransactionCount'' [PString address, PString ''pending''] w)"

definition SuggestGasPrice :: "('w, 'j) rpc_node \<Rightarrow> string \<Rightarrow> 'w \<Rightarrow> (rpc_error + int) \<times> 'w" where
  "SuggestGasPrice node url = hexBig node url ''eth_gasPrice'' []"

definition EstimateGas ::
  "('w, 'j) rpc_node \<Rightarrow> string \<Rightarrow> string \<Rightarrow> string \<Rightarrow> string \<Rightarrow> string \<Rightarrow> 'w \<Rightarrow> (rpc_error + u64) \<times> 'w" where
  "EstimateGas node url from to data value w =
     as_uint64 (hexBig node url ''eth_estimateGas''
       [PObject ([(''from'', from), (''to'', to)] @ (if data \<noteq> '''' then [(''data'', data)] else []) @
          (if value \<noteq> '''' then [(''value'', value)] else [])), PString ''latest''] w)"

definition SendRawTransaction :: "('w, 'j) rpc_node \<Rightarrow> string \<Rightarrow> string \<Rightarrow> 'w \<Rightarrow> (rpc_error + string) \<times> 'w" where
  "SendRawTransaction node url rawHex w =
     (let rawHex' = (if take 2 rawHex \<noteq> ''0x'' then ''0x'' @ rawHex else rawHex) in
      case rpc_call node url ''eth_sendRawTransaction'' [PString rawHex'] w of
        (Inl e, w') \<Rightarrow> (Inl e, w')
      | (Inr j, w') \<Rightarrow> ((case json_string node j of None \<Rightarrow> Inl NotAHash | Some h \<Rightarrow> Inr h), w'))"

definition TransactionReceipt :: "('w, 'j) rpc_node \<Rightarrow> string \<Rightarrow> string \<Rightarrow> 'w \<Rightarrow> (rpc_error + Receipt) \<times> 'w" where
  "TransactionReceipt node url txHash w =
     (case rpc_call node url ''eth_getTransactionReceipt'' [PString txHash] w of
        (Inl e, w') \<Rightarrow> (Inl e, w')
      | (Inr j, w') \<Rightarrow>
          ((case json_receipt node j of
              None \<Rightarrow> Inl UnreadableReceipt
            | Some r \<Rightarrow> Inr \<lparr>rcp_Status = hexUint (rr_Status r), rcp_BlockNumber = hexUint (rr_BlockNumber r),
                             rcp_GasUsed = hexUint (rr_GasUsed r), rcp_TxHash = rr_TxHash r\<rparr>), w'))"

definition Call :: "('w, 'j) rpc_node \<Rightarrow> string \<Rightarrow> string \<Rightarrow> string \<Rightarrow> 'w \<Rightarrow> (rpc_error + string) \<times> 'w" where
  "Call node url to data w =
     (case rpc_call node url ''eth_call'' [PObject [(''to'', to), (''data'', data)], PString ''latest''] w of
        (Inl e, w') \<Rightarrow> (Inl e, w')
      | (Inr j, w') \<Rightarrow> ((case json_string node j of None \<Rightarrow> Inl NotAHash | Some h \<Rightarrow> Inr h), w'))"

section \<open>Properties\<close>

text \<open>The way a node writes a quantity: lower-case hex digits without leading zeros.\<close>

fun hex_quantity :: "nat \<Rightarrow> string" where
  "hex_quantity n = (if n < 16 then [hex_digit n] else hex_quantity (n div 16) @ [hex_digit (n mod 16)])"

declare hex_quantity.simps [simp del]

lemma hex_nat_snoc [simp]: "hex_nat (s @ [c]) = hex_nat s * 16 + the (unhex c)"
  by (simp add: hex_nat_def)

lemma hex_quantity_nat [simp]: "hex_nat (hex_quantity n) = n"
proof (induction n rule: hex_quantity.induct)
  case (1 n)
  show ?case
  proof (cases "n < 16")
    case True
    then show ?thesis by (subst hex_quantity.simps) (simp add: hex_nat_def)
  next
    case False
    then show ?thesis using 1 by (subst hex_quantity.simps) simp
  qed
qed

lemma hex_quantity_digits: "list_all (\<lambda>c. unhex c \<noteq> None) (hex_quantity n)"
proof (induction n rule: hex_quantity.induct)
  case (1 n)
  show ?case by (subst hex_quantity.simps) (use 1 in auto)
qed

lemma hex_quantity_nonempty [simp]: "hex_quantity n \<noteq> []"
  by (subst hex_quantity.simps) simp

lemma unhex_sign [simp]: "unhex (CHR ''-'') = None" "unhex (CHR ''+'') = None"
  by (simp_all add: unhex_def)

lemma big_hex_quantity [simp]: "big_hex (hex_quantity n) = Some (int n)"
proof -
  have "take 1 (hex_quantity n) \<noteq> ''-'' \<and> take 1 (hex_quantity n) \<noteq> ''+''"
    using hex_quantity_digits [of n] by (cases "hex_quantity n") auto
  then show ?thesis using hex_quantity_digits [of n] by (simp add: big_hex_def Let_def)
qed

lemma trim_0x [simp]: "trim_prefix ''0x'' (''0x'' @ s) = s"
  by (simp add: trim_prefix_def)

text \<open>A receipt is read back as the node wrote it, when its numbers fit in 64 bits.\<close>

lemma hexUint_quantity: "n < 2 ^ 64 \<Longrightarrow> unat (hexUint (''0x'' @ hex_quantity n)) = n"
  unfolding hexUint_def trim_0x by (simp add: big_uint64_def unat_of_nat take_bit_nat_eq_self unsigned_of_nat)

lemma hexUint_absent [simp]: "hexUint '''' = 0"
  by (simp add: hexUint_def trim_prefix_def big_hex_def)

end
