(* ===== verification/Worker_Ceremony.thy ===== *)
theory Worker_Ceremony
  imports Ceremony_Auth "HOL-Library.AList"
begin

text \<open>
  The worker's side of a ceremony: \<^verbatim>\<open>activities/real_tss.go\<close>, which starts a key generation or a signing at every
  party and polls them, and the two workflows of \<^verbatim>\<open>workflows/dkg_ceremony.go\<close> around it. The network is a
  parameter that threads the state of the parties; JSON rendering and parsing of the bodies are parameters too, and
  \<^verbatim>\<open>json.Marshal\<close> of these bodies cannot fail. Between two polls the parties go on by themselves: the pauses of an
  activity are what happens to them in each interval before its deadline, and when the pauses run out its context
  is done.
\<close>

section \<open>Requests over the network\<close>

datatype web_result = BuildFails string | RequestFails string | BodyUnreadable int | Responds int string

datatype web_error =
    BuildRequest string
  | RequestFailed string
  | ReadResponse int
  | UnexpectedStatus int string
  | UnmarshalResponse

record 'w web =
  web_do :: "string \<Rightarrow> string \<Rightarrow> string \<Rightarrow> 'w \<Rightarrow> web_result \<times> 'w"

text \<open>A status of 2xx, computed by the truncating division of the code.\<close>

definition is_2xx :: "int \<Rightarrow> bool" where
  "is_2xx code \<longleftrightarrow> 200 \<le> code \<and> code < 300"

definition postJSONExpect2xx :: "'w web \<Rightarrow> string \<Rightarrow> string \<Rightarrow> 'w \<Rightarrow> (web_error + unit) \<times> 'w" where
  "postJSONExpect2xx net url payload w =
     (let (r, w') = web_do net ''POST'' url payload w in
      (case r of
         BuildFails e \<Rightarrow> Inl (BuildRequest e)
       | RequestFails e \<Rightarrow> Inl (RequestFailed e)
       | BodyUnreadable code \<Rightarrow> if is_2xx code then Inr () else Inl (UnexpectedStatus code '''')
       | Responds code body \<Rightarrow> if is_2xx code then Inr () else Inl (UnexpectedStatus code body), w'))"

definition getTSSStatus :: "'w web \<Rightarrow> (string \<Rightarrow> 't option) \<Rightarrow> string \<Rightarrow> 'w \<Rightarrow> (web_error + 't) \<times> 'w" where
  "getTSSStatus net parse url w =
     (let (r, w') = web_do net ''GET'' url '''' w in
      (case r of
         BuildFails e \<Rightarrow> Inl (BuildRequest e)
       | RequestFails e \<Rightarrow> Inl (RequestFailed e)
       | BodyUnreadable code \<Rightarrow> Inl (ReadResponse code)
       | Responds code body \<Rightarrow>
           if \<not> is_2xx code then Inl (UnexpectedStatus code body)
           else case parse body of None \<Rightarrow> Inl UnmarshalResponse | Some x \<Rightarrow> Inr x, w'))"

section \<open>Bodies, requests and results\<close>

record tssKeygenStartBody =
  ksb_CeremonyID :: string
  ksb_Threshold :: int
  ksb_Peers :: "(string \<times> string) list"
  ksb_Authorization :: string
  ksb_AuthorizationSignature :: string
  ksb_Blockchain :: string

record tssKeygenStatusBody =
  kst_Status :: string
  kst_Error :: string
  kst_PublicKey :: string
  kst_Address :: string
  kst_Sealed :: bool

record tssSignStartBody =
  ssb_SignID :: string
  ssb_KeygenCeremonyID :: string
  ssb_MessageHashHex :: string
  ssb_CommitteePartyIDs :: "int list"
  ssb_Authorization :: string
  ssb_AuthorizationSignature :: string

record tssSignStatusBody =
  sst_Status :: string
  sst_Error :: string
  sst_Signature :: string

record DKGCeremonyRequest =
  dkg_CustomerID :: string
  dkg_CeremonyID :: string
  dkg_ChainID :: string
  dkg_N :: int
  dkg_K :: int
  dkg_PartyIDs :: "int list"
  dkg_PartyEndpoints :: "string list"

record ThresholdSigningRequest =
  tsr_CeremonyID :: string
  tsr_Message :: string
  tsr_PartyIDs :: "int list"
  tsr_PartyEndpoints :: "string list"
  tsr_ChainID :: string

text \<open>The errors of the activities; a result carries the reason of its failure where the code has its text.\<close>

datatype worker_error =
    PartyCountMismatch nat nat
  | NoParties
  | MessageNotHex
  | MessageSize nat
  | ContextDone
  | NotAuthorised sign_error
  | PartyRefused int web_error
  | PartyStatusUnavailable int web_error
  | PartyReportedFailure int string
  | SignaturesDiffer int

record DKGCeremonyResult =
  dkr_CeremonyID :: string
  dkr_Status :: string
  dkr_ThresholdAddress :: string
  dkr_ThresholdPubKey :: string
  dkr_Error :: "worker_error option"

record ThresholdSigningResult =
  tsg_Signature :: string
  tsg_SignedTx :: string
  tsg_Status :: string
  tsg_Error :: "worker_error option"

definition dkg_failed :: "string \<Rightarrow> worker_error \<Rightarrow> DKGCeremonyResult" where
  "dkg_failed cid err = \<lparr>dkr_CeremonyID = cid, dkr_Status = ''failed'', dkr_ThresholdAddress = '''',
     dkr_ThresholdPubKey = '''', dkr_Error = Some err\<rparr>"

definition signing_failed :: "worker_error \<Rightarrow> ThresholdSigningResult" where
  "signing_failed err = \<lparr>tsg_Signature = '''', tsg_SignedTx = '''', tsg_Status = ''failed'', tsg_Error = Some err\<rparr>"

text \<open>What the activities use besides the network: the renderings, the authoriser with its clock, and the hash.\<close>

record ('k, 's) worker_lib =
  wl_keygen_start :: "tssKeygenStartBody \<Rightarrow> string"
  wl_sign_start :: "tssSignStartBody \<Rightarrow> string"
  wl_keygen_status :: "string \<Rightarrow> tssKeygenStatusBody option"
  wl_sign_status :: "string \<Rightarrow> tssSignStatusBody option"
  wl_auth :: "'k auth_lib"
  wl_sign :: "'s sign_lib"
  wl_signer :: "'s ceremonySigner option"

section \<open>Driving a ceremony\<close>

text \<open>The two maps built from the parallel lists: a later entry replaces an earlier one of the same party.\<close>

definition peers_map :: "int list \<Rightarrow> string list \<Rightarrow> (string \<times> string) list" where
  "peers_map ids eps = fold (\<lambda>(i, ep) m. AList.update (dec_int i) ep m) (zip ids eps) []"

definition endpointByParty :: "int list \<Rightarrow> string list \<Rightarrow> int \<Rightarrow> string" where
  "endpointByParty ids eps i = (case map_of (rev (zip ids eps)) i of None \<Rightarrow> '''' | Some ep \<Rightarrow> ep)"

fun start_parties ::
  "'w web \<Rightarrow> (int \<Rightarrow> string) \<Rightarrow> string \<Rightarrow> string \<Rightarrow> int list \<Rightarrow> 'w \<Rightarrow> (worker_error + unit) \<times> 'w" where
  "start_parties net ep path payload [] w = (Inr (), w)"
| "start_parties net ep path payload (i # is) w =
     (case postJSONExpect2xx net (ep i @ path) payload w of
        (Inl e, w') \<Rightarrow> (Inl (PartyRefused i e), w')
      | (Inr _, w') \<Rightarrow> start_parties net ep path payload is w')"

text \<open>One round of polling: the address and key of the last completed party, how many report their share sealed, and
  whether all have completed.\<close>

fun dkg_poll_round ::
  "'w web \<Rightarrow> (string \<Rightarrow> tssKeygenStatusBody option) \<Rightarrow> (int \<Rightarrow> string) \<Rightarrow> string \<Rightarrow> int list
     \<Rightarrow> bool \<times> string \<times> string \<times> nat \<Rightarrow> 'w \<Rightarrow> (worker_error + bool \<times> string \<times> string \<times> nat) \<times> 'w" where
  "dkg_poll_round net parse ep cid [] acc w = (Inr acc, w)"
| "dkg_poll_round net parse ep cid (i # is) (allDone, address, pubKey, sealedCount) w =
     (case getTSSStatus net parse (ep i @ ''/tss/keygen/status?ceremony_id='' @ cid) w of
        (Inl e, w') \<Rightarrow> (Inl (PartyStatusUnavailable i e), w')
      | (Inr status, w') \<Rightarrow>
          if kst_Status status = ''failed'' then (Inl (PartyReportedFailure i (kst_Error status)), w')
          else if kst_Status status = ''completed'' then
            dkg_poll_round net parse ep cid is
              (allDone, kst_Address status, kst_PublicKey status, if kst_Sealed status then sealedCount + 1 else sealedCount) w'
          else dkg_poll_round net parse ep cid is (False, address, pubKey, sealedCount) w')"

fun dkg_poll_loop ::
  "'w web \<Rightarrow> (string \<Rightarrow> tssKeygenStatusBody option) \<Rightarrow> (int \<Rightarrow> string) \<Rightarrow> string \<Rightarrow> int list \<Rightarrow> ('w \<Rightarrow> 'w) list \<Rightarrow> 'w
     \<Rightarrow> (worker_error + DKGCeremonyResult) \<times> 'w" where
  "dkg_poll_loop net parse ep cid ids pauses w =
     (case dkg_poll_round net parse ep cid ids (True, '''', '''', 0) w of
        (Inl e, w') \<Rightarrow> (Inr (dkg_failed cid e), w')
      | (Inr (allDone, address, pubKey, _), w') \<Rightarrow>
          if allDone then
            (Inr \<lparr>dkr_CeremonyID = cid, dkr_Status = ''completed'', dkr_ThresholdAddress = address,
                  dkr_ThresholdPubKey = pubKey, dkr_Error = None\<rparr>, w')
          else case pauses of
                 [] \<Rightarrow> (Inl ContextDone, w')
               | p # ps \<Rightarrow> dkg_poll_loop net parse ep cid ids ps (p w'))"

definition ExecuteRealDKG ::
  "'w web \<Rightarrow> ('k, 's) worker_lib \<Rightarrow> int \<Rightarrow> ('w \<Rightarrow> 'w) list \<Rightarrow> DKGCeremonyRequest \<Rightarrow> 'w
     \<Rightarrow> (worker_error + DKGCeremonyResult) \<times> 'w" where
  "ExecuteRealDKG net lib now pauses req w =
     (let ids = dkg_PartyIDs req; eps = dkg_PartyEndpoints req; cid = dkg_CeremonyID req in
      if length ids \<noteq> length eps then (Inl (PartyCountMismatch (length ids) (length eps)), w)
      else if ids = [] then (Inl NoParties, w)
      else case authorize (wl_auth lib) (wl_sign lib) now (wl_signer lib) ''keygen'' cid '''' of
        Inl e \<Rightarrow> (Inr (dkg_failed cid (NotAuthorised e)), w)
      | Inr (auth, authSig) \<Rightarrow>
          (let payload = wl_keygen_start lib \<lparr>ksb_CeremonyID = cid, ksb_Threshold = dkg_K req, ksb_Peers = peers_map ids eps,
                           ksb_Authorization = auth, ksb_AuthorizationSignature = authSig, ksb_Blockchain = dkg_ChainID req\<rparr>;
               ep = endpointByParty ids eps
           in case start_parties net ep ''/tss/keygen/start'' payload ids w of
                (Inl e, w') \<Rightarrow> (Inr (dkg_failed cid e), w')
              | (Inr _, w') \<Rightarrow> dkg_poll_loop net (wl_keygen_status lib) ep cid ids pauses w'))"

definition maxSigningMessageBytes :: nat where
  "maxSigningMessageBytes = 4096"

text \<open>The signing id: deterministic, so that a replayed workflow asks for the same ceremony.\<close>

definition sign_id :: "'k auth_lib \<Rightarrow> string \<Rightarrow> bytes \<Rightarrow> string" where
  "sign_id lib cid messageHash = cid @ ''-sign-'' @ hex_encode (take 8 (sha256 lib (str_bytes (cid @ '':'') @ messageHash)))"

fun sign_poll_round ::
  "'w web \<Rightarrow> (string \<Rightarrow> tssSignStatusBody option) \<Rightarrow> (int \<Rightarrow> string) \<Rightarrow> string \<Rightarrow> int list \<Rightarrow> bool \<times> string \<Rightarrow> 'w
     \<Rightarrow> (worker_error + bool \<times> string) \<times> 'w" where
  "sign_poll_round net parse ep sid [] acc w = (Inr acc, w)"
| "sign_poll_round net parse ep sid (i # is) (allDone, signature) w =
     (case getTSSStatus net parse (ep i @ ''/tss/sign/status?sign_id='' @ sid) w of
        (Inl e, w') \<Rightarrow> (Inl (PartyStatusUnavailable i e), w')
      | (Inr status, w') \<Rightarrow>
          if sst_Status status = ''failed'' then (Inl (PartyReportedFailure i (sst_Error status)), w')
          else if sst_Status status = ''completed'' then
            if signature \<noteq> '''' \<and> signature \<noteq> sst_Signature status then (Inl (SignaturesDiffer i), w')
            else sign_poll_round net parse ep sid is (allDone, sst_Signature status) w'
          else sign_poll_round net parse ep sid is (False, signature) w')"

fun sign_poll_loop ::
  "'w web \<Rightarrow> (string \<Rightarrow> tssSignStatusBody option) \<Rightarrow> (int \<Rightarrow> string) \<Rightarrow> string \<Rightarrow> int list \<Rightarrow> ('w \<Rightarrow> 'w) list \<Rightarrow> 'w
     \<Rightarrow> (worker_error + ThresholdSigningResult) \<times> 'w" where
  "sign_poll_loop net parse ep sid ids pauses w =
     (case sign_poll_round net parse ep sid ids (True, '''') w of
        (Inl e, w') \<Rightarrow> (Inr (signing_failed e), w')
      | (Inr (allDone, signature), w') \<Rightarrow>
          if allDone then
            (Inr \<lparr>tsg_Signature = signature, tsg_SignedTx = '''', tsg_Status = ''completed'', tsg_Error = None\<rparr>, w')
          else case pauses of
                 [] \<Rightarrow> (Inl ContextDone, w')
               | p # ps \<Rightarrow> sign_poll_loop net parse ep sid ids ps (p w'))"

definition ExecuteRealSigning ::
  "'w web \<Rightarrow> ('k, 's) worker_lib \<Rightarrow> int \<Rightarrow> ('w \<Rightarrow> 'w) list \<Rightarrow> ThresholdSigningRequest \<Rightarrow> 'w
     \<Rightarrow> (worker_error + ThresholdSigningResult) \<times> 'w" where
  "ExecuteRealSigning net lib now pauses req w =
     (let ids = tsr_PartyIDs req; eps = tsr_PartyEndpoints req; cid = tsr_CeremonyID req in
      if length ids \<noteq> length eps then (Inl (PartyCountMismatch (length ids) (length eps)), w)
      else if ids = [] then (Inl NoParties, w)
      else case hex_decode (tsr_Message req) of
        None \<Rightarrow> (Inl MessageNotHex, w)
      | Some messageHash \<Rightarrow>
          if messageHash = [] \<or> maxSigningMessageBytes < length messageHash then (Inl (MessageSize (length messageHash)), w)
          else
            (let sid = sign_id (wl_auth lib) cid messageHash; ep = endpointByParty ids eps in
             case authorize (wl_auth lib) (wl_sign lib) now (wl_signer lib) ''sign'' sid (tsr_Message req) of
               Inl e \<Rightarrow> (Inr (signing_failed (NotAuthorised e)), w)
             | Inr (auth, authSig) \<Rightarrow>
                 (let payload = wl_sign_start lib \<lparr>ssb_SignID = sid, ssb_KeygenCeremonyID = cid, ssb_MessageHashHex = tsr_Message req,
                                  ssb_CommitteePartyIDs = ids, ssb_Authorization = auth, ssb_AuthorizationSignature = authSig\<rparr>
                  in case start_parties net ep ''/tss/sign/start'' payload ids w of
                       (Inl e, w') \<Rightarrow> (Inr (signing_failed e), w')
                     | (Inr _, w') \<Rightarrow> sign_poll_loop net (wl_sign_status lib) ep sid ids pauses w')))"

declare dkg_poll_loop.simps [simp del] sign_poll_loop.simps [simp del]

section \<open>The workflows\<close>

text \<open>An activity is retried while it fails, up to the attempts of its retry policy; each attempt has its own clock
  and pauses.\<close>

fun execute_activity :: "(nat \<Rightarrow> 'w \<Rightarrow> ('e + 'a) \<times> 'w) \<Rightarrow> nat \<Rightarrow> nat \<Rightarrow> 'w \<Rightarrow> ('e + 'a) \<times> 'w" where
  "execute_activity act k 0 w = act k w"
| "execute_activity act k (Suc n) w =
     (case act k w of (Inr x, w') \<Rightarrow> (Inr x, w') | (Inl e, w') \<Rightarrow> execute_activity act (Suc k) n w')"

definition DKGCeremonyWorkflow ::
  "(DKGCeremonyRequest \<Rightarrow> nat \<Rightarrow> 'w \<Rightarrow> (worker_error + DKGCeremonyResult) \<times> 'w) \<Rightarrow> DKGCeremonyRequest \<Rightarrow> 'w
     \<Rightarrow> DKGCeremonyResult \<times> 'w" where
  "DKGCeremonyWorkflow act req w =
     (case execute_activity (act req) 0 2 w of
        (Inl e, w') \<Rightarrow> (dkg_failed (dkg_CeremonyID req) e, w')
      | (Inr result, w') \<Rightarrow> (result, w'))"

definition ThresholdSigningWorkflow ::
  "(ThresholdSigningRequest \<Rightarrow> nat \<Rightarrow> 'w \<Rightarrow> (worker_error + ThresholdSigningResult) \<times> 'w) \<Rightarrow> ThresholdSigningRequest \<Rightarrow> 'w
     \<Rightarrow> ThresholdSigningResult \<times> 'w" where
  "ThresholdSigningWorkflow act req w =
     (case execute_activity (act req) 0 2 w of
        (Inl e, w') \<Rightarrow> (signing_failed e, w')
      | (Inr result, w') \<Rightarrow> (result, w'))"

section \<open>Properties\<close>

text \<open>The answers of one round of polling, in the order of the parties.\<close>

fun poll_replies ::
  "'w web \<Rightarrow> (string \<Rightarrow> 't option) \<Rightarrow> (int \<Rightarrow> string) \<Rightarrow> string \<Rightarrow> int list \<Rightarrow> 'w \<Rightarrow> (web_error + 't list) \<times> 'w" where
  "poll_replies net parse ep path [] w = (Inr [], w)"
| "poll_replies net parse ep path (i # is) w =
     (case getTSSStatus net parse (ep i @ path) w of
        (Inl e, w') \<Rightarrow> (Inl e, w')
      | (Inr s, w') \<Rightarrow> (case poll_replies net parse ep path is w' of (r, w'') \<Rightarrow> (map_sum id ((#) s) r, w'')))"

lemma poll_replies_length: "poll_replies net parse ep path is w = (Inr sts, w') \<Longrightarrow> length sts = length is"
proof (induction "is" arbitrary: w sts)
  case (Cons i "is")
  then obtain s w1 r where r: "getTSSStatus net parse (ep i @ path) w = (Inr s, w1)" "poll_replies net parse ep path is w1 = (r, w')"
    "map_sum id ((#) s) r = Inr sts" by (auto split: prod.splits sum.splits)
  from r(3) obtain ss where "r = Inr ss" "sts = s # ss" by (cases r) auto
  then show ?case using Cons.IH [of w1 ss] r(2) by simp
qed simp

lemma sign_round_done:
  assumes "sign_poll_round net parse ep sid is (True, sig) w = (Inr (True, sig'), w')"
  shows "\<exists>sts. poll_replies net parse ep (''/tss/sign/status?sign_id='' @ sid) is w = (Inr sts, w') \<and>
    (\<forall>s \<in> set sts. sst_Status s = ''completed'') \<and> sig' = last (sig # map sst_Signature sts) \<and>
    (sig \<noteq> '''' \<longrightarrow> (\<forall>s \<in> set sts. sst_Signature s = sig)) \<and> (\<forall>s \<in> set sts. sst_Signature s \<noteq> '''' \<longrightarrow> sst_Signature s = sig')"
  using assms
proof (induction "is" arbitrary: sig w)
  case (Cons i "is")
  have false: "fst (sign_poll_round net parse ep sid js (False, s) v) \<noteq> Inr (True, sig')" for js s v
    by (induction js arbitrary: s v) (auto split: prod.splits sum.splits)
  from Cons.prems obtain s w1 where s: "getTSSStatus net parse (ep i @ ''/tss/sign/status?sign_id='' @ sid) w = (Inr s, w1)"
    "sst_Status s = ''completed''" "sig = '''' \<or> sig = sst_Signature s"
    and rest: "sign_poll_round net parse ep sid is (True, sst_Signature s) w1 = (Inr (True, sig'), w')"
    by (auto split: prod.splits sum.splits if_splits) (metis false fst_conv)+
  obtain sts where sts: "poll_replies net parse ep (''/tss/sign/status?sign_id='' @ sid) is w1 = (Inr sts, w')"
    "\<forall>s \<in> set sts. sst_Status s = ''completed''" "sig' = last (sst_Signature s # map sst_Signature sts)"
    "sst_Signature s \<noteq> '''' \<longrightarrow> (\<forall>t \<in> set sts. sst_Signature t = sst_Signature s)"
    "\<forall>t \<in> set sts. sst_Signature t \<noteq> '''' \<longrightarrow> sst_Signature t = sig'"
    using Cons.IH [OF rest] by blast
  have same: "sst_Signature s \<noteq> '''' \<longrightarrow> sst_Signature s = sig'"
    using sts(3,4) last_in_set [of "map sst_Signature sts"] by (cases "sts = []") auto
  have eq: "sig \<noteq> '''' \<longrightarrow> (\<forall>t \<in> set (s # sts). sst_Signature t = sig)" using s(3) sts(4) by auto
  have l: "sig' = last (sig # map sst_Signature (s # sts))" using sts(3) by simp
  show ?case
    by (rule exI [of _ "s # sts"]) (use s(1,2) sts(1,2,5) same eq l in \<open>simp split: prod.split\<close>)
qed simp

lemma sign_loop_done:
  assumes "sign_poll_loop net parse ep sid is pauses w = (Inr r, w')" "tsg_Status r = ''completed''"
  shows "\<exists>w0. sign_poll_round net parse ep sid is (True, '''') w0 = (Inr (True, tsg_Signature r), w')"
  using assms
proof (induction pauses arbitrary: w)
  case Nil
  then show ?case
    by (subst (asm) sign_poll_loop.simps)
       (auto simp: signing_failed_def split: prod.splits sum.splits if_splits)
next
  case (Cons p ps)
  then show ?case
    by (subst (asm) (2) sign_poll_loop.simps)
       (auto simp: signing_failed_def split: prod.splits sum.splits if_splits)
qed

lemma ExecuteRealSigning_done:
  assumes "ExecuteRealSigning net lib now pauses req w = (Inr r, w')" "tsg_Status r = ''completed''"
  obtains messageHash auth authSig w1 where "length (tsr_PartyIDs req) = length (tsr_PartyEndpoints req)" "tsr_PartyIDs req \<noteq> []"
    "hex_decode (tsr_Message req) = Some messageHash" "messageHash \<noteq> []" "length messageHash \<le> maxSigningMessageBytes"
    "authorize (wl_auth lib) (wl_sign lib) now (wl_signer lib) ''sign'' (sign_id (wl_auth lib) (tsr_CeremonyID req) messageHash)
       (tsr_Message req) = Inr (auth, authSig)"
    "start_parties net (endpointByParty (tsr_PartyIDs req) (tsr_PartyEndpoints req)) ''/tss/sign/start''
       (wl_sign_start lib \<lparr>ssb_SignID = sign_id (wl_auth lib) (tsr_CeremonyID req) messageHash, ssb_KeygenCeremonyID = tsr_CeremonyID req,
          ssb_MessageHashHex = tsr_Message req, ssb_CommitteePartyIDs = tsr_PartyIDs req, ssb_Authorization = auth,
          ssb_AuthorizationSignature = authSig\<rparr>) (tsr_PartyIDs req) w = (Inr (), w1)"
    "sign_poll_loop net (wl_sign_status lib) (endpointByParty (tsr_PartyIDs req) (tsr_PartyEndpoints req))
       (sign_id (wl_auth lib) (tsr_CeremonyID req) messageHash) (tsr_PartyIDs req) pauses w1 = (Inr r, w')"
  using assms
  by (auto simp: ExecuteRealSigning_def signing_failed_def Let_def not_le split: if_splits option.splits sum.splits prod.splits)

lemma dkg_round_done:
  assumes "dkg_poll_round net parse ep cid is (True, a, k, n) w = (Inr (True, a', k', n'), w')"
  shows "\<exists>sts. poll_replies net parse ep (''/tss/keygen/status?ceremony_id='' @ cid) is w = (Inr sts, w') \<and>
    (\<forall>s \<in> set sts. kst_Status s = ''completed'') \<and>
    (a', k') = last ((a, k) # map (\<lambda>s. (kst_Address s, kst_PublicKey s)) sts)"
  using assms
proof (induction "is" arbitrary: a k n w)
  case (Cons i "is")
  have false: "fst (dkg_poll_round net parse ep cid js (False, x, y, z) v) \<noteq> Inr (True, a', k', n')" for js x y z v
    by (induction js arbitrary: x y z v) (auto split: prod.splits sum.splits)
  from Cons.prems obtain s w1 m where s: "getTSSStatus net parse (ep i @ ''/tss/keygen/status?ceremony_id='' @ cid) w = (Inr s, w1)"
    "kst_Status s = ''completed''"
    and rest: "dkg_poll_round net parse ep cid is (True, kst_Address s, kst_PublicKey s, m) w1 = (Inr (True, a', k', n'), w')"
    by (auto split: prod.splits sum.splits if_splits) (metis false fst_conv)+
  obtain sts where sts: "poll_replies net parse ep (''/tss/keygen/status?ceremony_id='' @ cid) is w1 = (Inr sts, w')"
    "\<forall>s \<in> set sts. kst_Status s = ''completed''"
    "(a', k') = last ((kst_Address s, kst_PublicKey s) # map (\<lambda>s. (kst_Address s, kst_PublicKey s)) sts)"
    using Cons.IH [OF rest] by blast
  show ?case
    by (rule exI [of _ "s # sts"]) (use s sts in \<open>simp split: prod.split\<close>)
qed simp

lemma dkg_loop_done:
  assumes "dkg_poll_loop net parse ep cid is pauses w = (Inr r, w')" "dkr_Status r = ''completed''"
  shows "\<exists>w0 n. dkg_poll_round net parse ep cid is (True, '''', '''', 0) w0
      = (Inr (True, dkr_ThresholdAddress r, dkr_ThresholdPubKey r, n), w')"
  using assms
proof (induction pauses arbitrary: w)
  case Nil
  then show ?case
    by (subst (asm) dkg_poll_loop.simps) (auto simp: dkg_failed_def split: prod.splits sum.splits if_splits; blast)
next
  case (Cons p ps)
  then show ?case
    by (subst (asm) (2) dkg_poll_loop.simps) (auto simp: dkg_failed_def split: prod.splits sum.splits if_splits; blast)
qed

lemma dkg_round_all_completed:
  assumes "poll_replies net parse ep (''/tss/keygen/status?ceremony_id='' @ cid) is w = (Inr sts, w')"
    and "\<forall>s \<in> set sts. kst_Status s = ''completed''"
  shows "\<exists>n'. dkg_poll_round net parse ep cid is (d, a, k, n) w =
    (Inr (d, fst (last ((a, k) # map (\<lambda>s. (kst_Address s, kst_PublicKey s)) sts)),
       snd (last ((a, k) # map (\<lambda>s. (kst_Address s, kst_PublicKey s)) sts)), n'), w')"
  using assms
proof (induction "is" arbitrary: a k n w sts)
  case (Cons i "is")
  from Cons.prems(1) obtain s w1 x where g: "getTSSStatus net parse (ep i @ ''/tss/keygen/status?ceremony_id='' @ cid) w = (Inr s, w1)"
    "poll_replies net parse ep (''/tss/keygen/status?ceremony_id='' @ cid) is w1 = (x, w')" "map_sum id ((#) s) x = Inr sts"
    by (auto split: prod.splits sum.splits)
  then obtain ss where s: "getTSSStatus net parse (ep i @ ''/tss/keygen/status?ceremony_id='' @ cid) w = (Inr s, w1)"
    "poll_replies net parse ep (''/tss/keygen/status?ceremony_id='' @ cid) is w1 = (Inr ss, w')" "sts = s # ss"
    by (cases x) auto
  then show ?case
    using Cons.IH [OF s(2), of "kst_Address s" "kst_PublicKey s" "if kst_Sealed s then n + 1 else n"] Cons.prems(2) by simp
qed simp

text \<open>C8: The last party names the key. A key generation is reported as completed only when every party accepted the
  start and, in one final round of polling, every party answered completed; the address and public key of the result
  are those of the last party in the list. The other answers are not compared with them: whenever every party accepts
  the start and answers completed in the first round of polling, whatever addresses and keys they name, the ceremony is
  reported as completed with those of the last party.\<close>

theorem dkg_result_is_last_answer:
  fixes req :: DKGCeremonyRequest
  assumes ids: "ids = dkg_PartyIDs req" and ep: "ep = endpointByParty (dkg_PartyIDs req) (dkg_PartyEndpoints req)"
    and body: "body = (\<lambda>auth authSig. wl_keygen_start lib \<lparr>ksb_CeremonyID = dkg_CeremonyID req, ksb_Threshold = dkg_K req,
        ksb_Peers = peers_map ids (dkg_PartyEndpoints req), ksb_Authorization = auth, ksb_AuthorizationSignature = authSig,
        ksb_Blockchain = dkg_ChainID req\<rparr>)"
  shows "(ExecuteRealDKG net lib now pauses req w = (Inr r, w') \<and> dkr_Status r = ''completed'' \<longrightarrow>
      (\<exists>w1 w0 sts auth authSig. start_parties net ep ''/tss/keygen/start'' (body auth authSig) ids w = (Inr (), w1) \<and>
        poll_replies net (wl_keygen_status lib) ep (''/tss/keygen/status?ceremony_id='' @ dkg_CeremonyID req) ids w0 = (Inr sts, w') \<and>
        sts \<noteq> [] \<and> length sts = length ids \<and> (\<forall>s \<in> set sts. kst_Status s = ''completed'') \<and>
        dkr_ThresholdAddress r = kst_Address (last sts) \<and> dkr_ThresholdPubKey r = kst_PublicKey (last sts))) \<and>
    (ids \<noteq> [] \<and> length (dkg_PartyEndpoints req) = length ids \<and>
     authorize (wl_auth lib) (wl_sign lib) now (wl_signer lib) ''keygen'' (dkg_CeremonyID req) '''' = Inr (auth, authSig) \<and>
     start_parties net ep ''/tss/keygen/start'' (body auth authSig) ids w = (Inr (), w1) \<and>
     poll_replies net (wl_keygen_status lib) ep (''/tss/keygen/status?ceremony_id='' @ dkg_CeremonyID req) ids w1 = (Inr sts, w2) \<and>
     (\<forall>s \<in> set sts. kst_Status s = ''completed'') \<longrightarrow>
     ExecuteRealDKG net lib now pauses req w =
       (Inr \<lparr>dkr_CeremonyID = dkg_CeremonyID req, dkr_Status = ''completed'', dkr_ThresholdAddress = kst_Address (last sts),
             dkr_ThresholdPubKey = kst_PublicKey (last sts), dkr_Error = None\<rparr>, w2))"
proof (intro conjI impI; elim conjE)
  let ?cid = "dkg_CeremonyID req"
  assume run: "ExecuteRealDKG net lib now pauses req w = (Inr r, w')" and ok: "dkr_Status r = ''completed''"
  obtain auth authSig w1 where ne: "ids \<noteq> []" and start: "start_parties net ep ''/tss/keygen/start'' (body auth authSig) ids w = (Inr (), w1)"
    and loop: "dkg_poll_loop net (wl_keygen_status lib) ep ?cid ids pauses w1 = (Inr r, w')"
    using run ok by (auto simp: ids ep body ExecuteRealDKG_def dkg_failed_def Let_def split: if_splits sum.splits prod.splits)
  obtain w0 n where "dkg_poll_round net (wl_keygen_status lib) ep ?cid ids (True, '''', '''', 0) w0
      = (Inr (True, dkr_ThresholdAddress r, dkr_ThresholdPubKey r, n), w')"
    using dkg_loop_done [OF loop ok] by blast
  from dkg_round_done [OF this] obtain sts where
    sts: "poll_replies net (wl_keygen_status lib) ep (''/tss/keygen/status?ceremony_id='' @ ?cid) ids w0 = (Inr sts, w')"
    "\<forall>s \<in> set sts. kst_Status s = ''completed''"
    "(dkr_ThresholdAddress r, dkr_ThresholdPubKey r) = last (('''', '''') # map (\<lambda>s. (kst_Address s, kst_PublicKey s)) sts)" by blast
  have "sts \<noteq> []" "length sts = length ids" using poll_replies_length [OF sts(1)] ne by auto
  then show "\<exists>w1 w0 sts auth authSig. start_parties net ep ''/tss/keygen/start'' (body auth authSig) ids w = (Inr (), w1) \<and>
      poll_replies net (wl_keygen_status lib) ep (''/tss/keygen/status?ceremony_id='' @ ?cid) ids w0 = (Inr sts, w') \<and>
      sts \<noteq> [] \<and> length sts = length ids \<and> (\<forall>s \<in> set sts. kst_Status s = ''completed'') \<and>
      dkr_ThresholdAddress r = kst_Address (last sts) \<and> dkr_ThresholdPubKey r = kst_PublicKey (last sts)"
    using sts start by (intro exI [of _ w1] exI [of _ w0] exI [of _ sts] exI [of _ auth] exI [of _ authSig]) (simp add: last_map)
next
  let ?cid = "dkg_CeremonyID req"
  assume ne: "ids \<noteq> []" and len: "length (dkg_PartyEndpoints req) = length ids"
    and auth: "authorize (wl_auth lib) (wl_sign lib) now (wl_signer lib) ''keygen'' ?cid '''' = Inr (auth, authSig)"
    and start: "start_parties net ep ''/tss/keygen/start'' (body auth authSig) ids w = (Inr (), w1)"
    and poll: "poll_replies net (wl_keygen_status lib) ep (''/tss/keygen/status?ceremony_id='' @ ?cid) ids w1 = (Inr sts, w2)"
      "\<forall>s \<in> set sts. kst_Status s = ''completed''"
  have "sts \<noteq> []" using poll_replies_length [OF poll(1)] ne by auto
  moreover obtain n where "dkg_poll_round net (wl_keygen_status lib) ep ?cid ids (True, '''', '''', 0) w1 =
      (Inr (True, fst (last (('''', '''') # map (\<lambda>s. (kst_Address s, kst_PublicKey s)) sts)),
         snd (last (('''', '''') # map (\<lambda>s. (kst_Address s, kst_PublicKey s)) sts)), n), w2)"
    using dkg_round_all_completed [OF poll] by blast
  ultimately have "dkg_poll_loop net (wl_keygen_status lib) ep ?cid ids pauses w1 =
      (Inr \<lparr>dkr_CeremonyID = ?cid, dkr_Status = ''completed'', dkr_ThresholdAddress = kst_Address (last sts),
            dkr_ThresholdPubKey = kst_PublicKey (last sts), dkr_Error = None\<rparr>, w2)"
    by (subst dkg_poll_loop.simps) (simp add: last_map)
  then show "ExecuteRealDKG net lib now pauses req w =
       (Inr \<lparr>dkr_CeremonyID = ?cid, dkr_Status = ''completed'', dkr_ThresholdAddress = kst_Address (last sts),
             dkr_ThresholdPubKey = kst_PublicKey (last sts), dkr_Error = None\<rparr>, w2)"
    using ne len auth start by (simp add: ids ep body ExecuteRealDKG_def Let_def)
qed

section \<open>Examples\<close>

definition demo_worker :: "(unit, unit) worker_lib" where
  "demo_worker = \<lparr>wl_keygen_start = (\<lambda>_. ''start''), wl_sign_start = (\<lambda>_. ''start''),
     wl_keygen_status = (\<lambda>b. Some \<lparr>kst_Status = ''completed'', kst_Error = '''', kst_PublicKey = b, kst_Address = b, kst_Sealed = True\<rparr>),
     wl_sign_status = (\<lambda>b. Some \<lparr>sst_Status = ''completed'', sst_Error = '''', sst_Signature = b\<rparr>),
     wl_auth = demo_auth (\<lambda>_. True), wl_sign = demo_sign_lib, wl_signer = None\<rparr>"

text \<open>Two parties at \<^verbatim>\<open>a\<close> and \<^verbatim>\<open>b\<close> that answer with their own name.\<close>

definition demo_web :: "unit web" where
  "demo_web = \<lparr>web_do = (\<lambda>method url body w. (Responds 200 (take 1 url), w))\<rparr>"

definition demo_dkg :: DKGCeremonyRequest where
  "demo_dkg = \<lparr>dkg_CustomerID = ''c'', dkg_CeremonyID = ''k1'', dkg_ChainID = ''ethereum'', dkg_N = 2, dkg_K = 1,
     dkg_PartyIDs = [1, 2], dkg_PartyEndpoints = [''a'', ''b'']\<rparr>"

theorem dkg_result_is_last_answer_witness:
  "\<exists>sts r. poll_replies demo_web (wl_keygen_status demo_worker) (endpointByParty [1, 2] [''a'', ''b'']) ''/tss/keygen/status?ceremony_id=k1''
      [1, 2] () = (Inr sts, ()) \<and> map kst_Address sts = [''a'', ''b''] \<and>
    ExecuteRealDKG demo_web demo_worker 0 [] demo_dkg () = (Inr r, ()) \<and> dkr_Status r = ''completed'' \<and> dkr_ThresholdAddress r = ''b''"
proof -
  let ?st = "\<lambda>s. \<lparr>kst_Status = ''completed'', kst_Error = '''', kst_PublicKey = s, kst_Address = s, kst_Sealed = True\<rparr>"
  have a: "authorize (wl_auth demo_worker) (wl_sign demo_worker) 0 (wl_signer demo_worker) ''keygen'' ''k1'' '''' = Inr ('''', '''')"
    by (simp add: authorize_def demo_worker_def)
  have s: "start_parties demo_web (endpointByParty [1, 2] [''a'', ''b'']) ''/tss/keygen/start'' body [1, 2] () = (Inr (), ())" for body
    by (simp add: demo_web_def endpointByParty_def postJSONExpect2xx_def is_2xx_def Let_def)
  have p: "poll_replies demo_web (wl_keygen_status demo_worker) (endpointByParty [1, 2] [''a'', ''b'']) ''/tss/keygen/status?ceremony_id=k1''
      [1, 2] () = (Inr [?st ''a'', ?st ''b''], ())"
    by (simp add: demo_web_def demo_worker_def endpointByParty_def getTSSStatus_def is_2xx_def)
  show ?thesis
    using dkg_result_is_last_answer [of _ demo_dkg, OF refl refl refl, of demo_web demo_worker 0 "[]" "()" _ "()" "''''" "''''" "()"
        "[?st ''a'', ?st ''b'']" "()", THEN conjunct2] a s p
    by (simp add: demo_dkg_def)
qed

end
