(* ===== verification/Worker_Settlement.thy ===== *)
theory Worker_Settlement
  imports Approvals Eth_Tx Eth_Rpc Worker_Ceremony
begin

text \<open>
  The settlement of a transaction: \<^verbatim>\<open>workflows/transaction_settlement.go\<close> with its types, and the activities of
  \<^verbatim>\<open>activities/activities.go\<close> it runs. The workflow is a function of the activities it executes (after their
  retries) that records every call it makes; the approval step is the one of theory \<^verbatim>\<open>Approvals\<close>. The policy
  service, the signer and the Ethereum node are behind the network parameters.
\<close>

section \<open>Types\<close>

record TransactionRequest =
  trq_CustomerID :: string
  trq_CustomerTier :: string
  trq_ChainID :: int
  trq_To :: string
  trq_Data :: string
  trq_Value :: string
  trq_GasLimit :: u64
  trq_GasPrice :: string
  trq_Nonce :: u64
  trq_Country :: string
  trq_InitiatedByUserID :: string
  trq_InitiatedByLabel :: string

record TransactionResult =
  trs_RequestID :: string
  trs_TxHash :: string
  trs_Status :: string
  trs_BlockNumber :: int
  trs_Reason :: string

record PolicyCheckResult =
  pcr_Approved :: bool
  pcr_Denials :: "string list"
  pcr_RequiresApproval :: bool
  pcr_ApprovalReasons :: "string list"
  pcr_Reason :: string

record SignResult =
  sgn_RequestID :: string
  sgn_SignedTx :: string
  sgn_TxHash :: string
  sgn_From :: string

record BroadcastResult =
  bcr_TxHash :: string

record MonitorResult =
  mon_BlockNumber :: int
  mon_Confirmations :: int
  mon_Success :: bool

section \<open>The workflow\<close>

datatype settlement_call =
    CheckPolicyCall TransactionRequest
  | ApprovalStepCall approval_call
  | SignCall TransactionRequest
  | BroadcastCall string
  | MonitorCall string

text \<open>The activities, with the outcome of their retries; what reaches the approval step; the version recorded for
  the workflow run; and the text of an error.\<close>

record ('e, 'w) settlement_acts =
  sa_CheckPolicy :: "TransactionRequest \<Rightarrow> 'w \<Rightarrow> ('e + PolicyCheckResult) \<times> 'w"
  sa_approvals :: "TransactionRequest \<Rightarrow> string list \<Rightarrow> 'w \<Rightarrow> (approval_env \<times> approval_event list) \<times> 'w"
  sa_first_signal :: "'w \<Rightarrow> bool option \<times> 'w"
  sa_version :: int
  sa_SignTransaction :: "TransactionRequest \<Rightarrow> 'w \<Rightarrow> ('e + SignResult) \<times> 'w"
  sa_BroadcastTransaction :: "string \<Rightarrow> 'w \<Rightarrow> ('e + BroadcastResult) \<times> 'w"
  sa_MonitorTransaction :: "string \<Rightarrow> 'w \<Rightarrow> ('e + MonitorResult) \<times> 'w"
  sa_Error :: "'e \<Rightarrow> string"

datatype 'e workflow_error = ActivityError 'e | ApprovalFailed string

text \<open>What a run comes to: it waits for people, or it ends with a result, an error, or both.\<close>

datatype 'e settlement_outcome = Waiting | Ended "TransactionResult option" "'e workflow_error option"

definition DefaultVersion :: int where
  "DefaultVersion = -1"

text \<open>The first of the signal and the timer decides; the timer leaves the answer \<^const>\<open>False\<close>.\<close>

definition waitForApproval :: "bool option \<Rightarrow> bool" where
  "waitForApproval first = (case first of None \<Rightarrow> False | Some approved \<Rightarrow> approved)"

definition denied_result :: "string \<Rightarrow> string \<Rightarrow> TransactionResult" where
  "denied_result requestID reason = \<lparr>trs_RequestID = requestID, trs_TxHash = '''', trs_Status = ''denied'',
     trs_BlockNumber = 0, trs_Reason = reason\<rparr>"

text \<open>Step 1b: \<^const>\<open>None\<close> lets the transaction pass.\<close>

definition approval_step ::
  "('e, 'w) settlement_acts \<Rightarrow> string \<Rightarrow> TransactionRequest \<Rightarrow> PolicyCheckResult \<Rightarrow> 'w
     \<Rightarrow> settlement_call list \<times> 'e settlement_outcome option \<times> 'w" where
  "approval_step acts requestID req policy w =
     (if \<not> pcr_RequiresApproval policy then ([], None, w)
      else if sa_version acts = DefaultVersion then
        (let (first, w') = sa_first_signal acts w in
         ([], (if waitForApproval first then None
               else Some (Ended (Some (denied_result requestID ''manual approval not granted within window'')) None)), w'))
      else
        (let ((env, events), w') = sa_approvals acts req (pcr_ApprovalReasons policy) w;
             (calls, outcome) = awaitApprovals env (trq_InitiatedByUserID req) events in
         (map ApprovalStepCall calls,
          (case outcome of
             StillWaiting \<Rightarrow> Some Waiting
           | ApprovalError err \<Rightarrow> Some (Ended None (Some (ApprovalFailed err)))
           | Outcome s \<Rightarrow> if s = ''approved'' then None
                         else Some (Ended (Some (denied_result requestID (''approval '' @ s))) None)), w')))"

definition sign_and_settle ::
  "('e, 'w) settlement_acts \<Rightarrow> string \<Rightarrow> TransactionRequest \<Rightarrow> 'w \<Rightarrow> settlement_call list \<times> 'e settlement_outcome \<times> 'w" where
  "sign_and_settle acts requestID req w =
     (case sa_SignTransaction acts req w of
        (Inl e, w1) \<Rightarrow> ([SignCall req], Ended None (Some (ActivityError e)), w1)
      | (Inr sgnd, w1) \<Rightarrow>
          (case sa_BroadcastTransaction acts (sgn_SignedTx sgnd) w1 of
             (Inl e, w2) \<Rightarrow>
               ([SignCall req, BroadcastCall (sgn_SignedTx sgnd)],
                Ended (Some \<lparr>trs_RequestID = requestID, trs_TxHash = sgn_TxHash sgnd, trs_Status = ''signed'', trs_BlockNumber = 0,
                  trs_Reason = ''signed but broadcast failed: '' @ sa_Error acts e\<rparr>) (Some (ActivityError e)), w2)
           | (Inr broadcast, w2) \<Rightarrow>
               ([SignCall req, BroadcastCall (sgn_SignedTx sgnd), MonitorCall (bcr_TxHash broadcast)],
                (case sa_MonitorTransaction acts (bcr_TxHash broadcast) w2 of
                   (Inl e, w3) \<Rightarrow>
                     (Ended (Some \<lparr>trs_RequestID = requestID, trs_TxHash = bcr_TxHash broadcast, trs_Status = ''broadcasted'',
                        trs_BlockNumber = 0, trs_Reason = ''broadcast ok but monitoring failed: '' @ sa_Error acts e\<rparr>)
                        (Some (ActivityError e)), w3)
                 | (Inr monitor, w3) \<Rightarrow>
                     (Ended (Some \<lparr>trs_RequestID = requestID, trs_TxHash = bcr_TxHash broadcast,
                        trs_Status = (if mon_Success monitor then ''confirmed'' else ''failed''),
                        trs_BlockNumber = mon_BlockNumber monitor, trs_Reason = ''settled''\<rparr>) None, w3)))))"

definition TransactionSettlementWorkflow ::
  "('e, 'w) settlement_acts \<Rightarrow> string \<Rightarrow> TransactionRequest \<Rightarrow> 'w \<Rightarrow> settlement_call list \<times> 'e settlement_outcome \<times> 'w" where
  "TransactionSettlementWorkflow acts requestID req w =
     (case sa_CheckPolicy acts req w of
        (Inl e, w1) \<Rightarrow> ([CheckPolicyCall req], Ended None (Some (ActivityError e)), w1)
      | (Inr policy, w1) \<Rightarrow>
          if \<not> pcr_Approved policy then
            ([CheckPolicyCall req], Ended (Some (denied_result requestID (pcr_Reason policy))) None, w1)
          else (case approval_step acts requestID req policy w1 of
                  (calls, Some outcome, w2) \<Rightarrow> (CheckPolicyCall req # calls, outcome, w2)
                | (calls, None, w2) \<Rightarrow>
                    (let (calls', outcome, w3) = sign_and_settle acts requestID req w2
                     in (CheckPolicyCall req # calls @ calls', outcome, w3))))"

section \<open>The activities\<close>

datatype activity_error =
    PostFails web_error
  | PostStatus string int
  | PostUndecodable
  | RpcFails rpc_error
  | SignedTxNotHex
  | NotATransaction tx_error
  | ActivityDone

record Activities =
  act_PolicyURL :: string
  act_MpcSignerURL :: string
  act_EthereumRPC :: string
  act_RequiredConfirmations :: int

definition NewActivities :: "string \<Rightarrow> string \<Rightarrow> string \<Rightarrow> int \<Rightarrow> Activities" where
  "NewActivities policyURL mpcURL ethRPC confirmations =
     \<lparr>act_PolicyURL = policyURL, act_MpcSignerURL = mpcURL, act_EthereumRPC = ethRPC,
      act_RequiredConfirmations = (if confirmations \<le> 0 then 3 else confirmations)\<rparr>"

definition postJSON :: "'w web \<Rightarrow> string \<Rightarrow> string \<Rightarrow> (string \<Rightarrow> 't option) \<Rightarrow> 'w \<Rightarrow> (activity_error + 't) \<times> 'w" where
  "postJSON net url payload parse w =
     (let (r, w') = web_do net ''POST'' url payload w in
      (case r of
         BuildFails e \<Rightarrow> Inl (PostFails (BuildRequest e))
       | RequestFails e \<Rightarrow> Inl (PostFails (RequestFailed e))
       | BodyUnreadable code \<Rightarrow> if 300 \<le> code then Inl (PostStatus url code) else Inl PostUndecodable
       | Responds code body \<Rightarrow>
           if 300 \<le> code then Inl (PostStatus url code)
           else case parse body of None \<Rightarrow> Inl PostUndecodable | Some x \<Rightarrow> Inr x, w'))"

text \<open>The bodies of the two requests, as the fields that are rendered.\<close>

record policy_input =
  pin_customerId :: string
  pin_customerTier :: string
  pin_to :: string
  pin_value :: string
  pin_chainId :: int
  pin_country :: string

record sign_input =
  sin_chainId :: int
  sin_to :: string
  sin_data :: string
  sin_value :: string
  sin_gasLimit :: u64
  sin_gasPrice :: string
  sin_nonce :: u64

record settlement_json =
  sj_policy :: "policy_input \<Rightarrow> string"
  sj_policy_result :: "string \<Rightarrow> PolicyCheckResult option"
  sj_sign :: "sign_input \<Rightarrow> string"
  sj_sign_result :: "string \<Rightarrow> SignResult option"

definition CheckPolicy ::
  "'w web \<Rightarrow> settlement_json \<Rightarrow> Activities \<Rightarrow> TransactionRequest \<Rightarrow> 'w \<Rightarrow> (activity_error + PolicyCheckResult) \<times> 'w" where
  "CheckPolicy net json a req =
     postJSON net (act_PolicyURL a @ ''/evaluate'')
       (sj_policy json \<lparr>pin_customerId = trq_CustomerID req, pin_customerTier = trq_CustomerTier req, pin_to = trq_To req,
          pin_value = trq_Value req, pin_chainId = trq_ChainID req, pin_country = trq_Country req\<rparr>)
       (sj_policy_result json)"

definition SignTransaction ::
  "'w web \<Rightarrow> settlement_json \<Rightarrow> Activities \<Rightarrow> TransactionRequest \<Rightarrow> 'w \<Rightarrow> (activity_error + SignResult) \<times> 'w" where
  "SignTransaction net json a req =
     postJSON net (act_MpcSignerURL a @ ''/sign'')
       (sj_sign json \<lparr>sin_chainId = trq_ChainID req, sin_to = trq_To req, sin_data = trq_Data req, sin_value = trq_Value req,
          sin_gasLimit = trq_GasLimit req, sin_gasPrice = trq_GasPrice req, sin_nonce = trq_Nonce req\<rparr>)
       (sj_sign_result json)"

definition BroadcastTransaction ::
  "('w, 'j) rpc_node \<Rightarrow> btcec \<Rightarrow> Activities \<Rightarrow> string \<Rightarrow> 'w \<Rightarrow> (activity_error + BroadcastResult) \<times> 'w" where
  "BroadcastTransaction node lib a signedTx w =
     (case Dial (act_EthereumRPC a) of
        Inl e \<Rightarrow> (Inl (RpcFails e), w)
      | Inr url \<Rightarrow>
          (case hex_decode (trim_prefix ''0x'' signedTx) of
             None \<Rightarrow> (Inl SignedTxNotHex, w)
           | Some raw \<Rightarrow>
               (case DecodeSignedTransaction lib raw of
                  Inl e \<Rightarrow> (Inl (NotATransaction e), w)
                | Inr _ \<Rightarrow>
                    (case SendRawTransaction node url (''0x'' @ hex_encode raw) w of
                       (Inl e, w') \<Rightarrow> (Inl (RpcFails e), w')
                     | (Inr _, w') \<Rightarrow> (Inr \<lparr>bcr_TxHash = ''0x'' @ hex_encode (TransactionHash lib raw)\<rparr>, w')))))"

text \<open>The polling loop of \<^verbatim>\<open>MonitorTransaction\<close>. Each element of \<open>ticks\<close> is what happens to the world until the next
  tick; when they run out the context of the activity is done. The confirmations are computed in int64.\<close>

definition confirmations :: "u64 \<Rightarrow> u64 \<Rightarrow> int" where
  "confirmations head block = i64 (i64 (sint head - sint block) + 1)"

fun monitor_loop ::
  "('w, 'j) rpc_node \<Rightarrow> string \<Rightarrow> int \<Rightarrow> string \<Rightarrow> ('w \<Rightarrow> 'w) list \<Rightarrow> 'w \<Rightarrow> (activity_error + MonitorResult) \<times> 'w" where
  "monitor_loop node url required txHash [] w = (Inl ActivityDone, w)"
| "monitor_loop node url required txHash (t # ticks) w =
     (case TransactionReceipt node url txHash (t w) of
        (Inl _, w1) \<Rightarrow> monitor_loop node url required txHash ticks w1
      | (Inr receipt, w1) \<Rightarrow>
          (case BlockNumber node url w1 of
             (Inl _, w2) \<Rightarrow> monitor_loop node url required txHash ticks w2
           | (Inr head, w2) \<Rightarrow>
               if required \<le> confirmations head (rcp_BlockNumber receipt) then
                 (Inr \<lparr>mon_BlockNumber = sint (rcp_BlockNumber receipt),
                       mon_Confirmations = confirmations head (rcp_BlockNumber receipt),
                       mon_Success = (rcp_Status receipt = 1)\<rparr>, w2)
               else monitor_loop node url required txHash ticks w2))"

definition MonitorTransaction ::
  "('w, 'j) rpc_node \<Rightarrow> Activities \<Rightarrow> ('w \<Rightarrow> 'w) list \<Rightarrow> string \<Rightarrow> 'w \<Rightarrow> (activity_error + MonitorResult) \<times> 'w" where
  "MonitorTransaction node a ticks txHash w =
     (case Dial (act_EthereumRPC a) of
        Inl e \<Rightarrow> (Inl (RpcFails e), w)
      | Inr url \<Rightarrow> monitor_loop node url (act_RequiredConfirmations a) txHash ticks w)"

text \<open>The workflow run by the worker: every activity is tried up to five times, and each attempt at monitoring has its
  own ticks. What reaches the approval step, the version the run recorded (1, or the default when the run is older than
  the counted approvals) and the signal an older run waits for are given.\<close>

definition settlement_worker ::
  "'w web \<Rightarrow> settlement_json \<Rightarrow> ('w, 'j) rpc_node \<Rightarrow> btcec \<Rightarrow> Activities \<Rightarrow> (nat \<Rightarrow> ('w \<Rightarrow> 'w) list)
     \<Rightarrow> (TransactionRequest \<Rightarrow> string list \<Rightarrow> 'w \<Rightarrow> (approval_env \<times> approval_event list) \<times> 'w)
     \<Rightarrow> int \<Rightarrow> ('w \<Rightarrow> bool option \<times> 'w) \<Rightarrow> (activity_error \<Rightarrow> string) \<Rightarrow> (activity_error, 'w) settlement_acts" where
  "settlement_worker net json node lib a ticks approvals version first show =
     \<lparr>sa_CheckPolicy = (\<lambda>req. execute_activity (\<lambda>_. CheckPolicy net json a req) 0 4),
      sa_approvals = approvals,
      sa_first_signal = first,
      sa_version = version,
      sa_SignTransaction = (\<lambda>req. execute_activity (\<lambda>_. SignTransaction net json a req) 0 4),
      sa_BroadcastTransaction = (\<lambda>tx. execute_activity (\<lambda>_. BroadcastTransaction node lib a tx) 0 4),
      sa_MonitorTransaction = (\<lambda>h. execute_activity (\<lambda>k. MonitorTransaction node a (ticks k) h) 0 4),
      sa_Error = show\<rparr>"

section \<open>Properties\<close>

definition is_approval_call :: "settlement_call \<Rightarrow> bool" where
  "is_approval_call c \<longleftrightarrow> (\<exists>x. c = ApprovalStepCall x)"

lemma is_approval_call_simps [simp]:
  "\<not> is_approval_call (CheckPolicyCall r)" "\<not> is_approval_call (SignCall r)" "\<not> is_approval_call (BroadcastCall t)"
  "\<not> is_approval_call (MonitorCall t)" "is_approval_call (ApprovalStepCall x)"
  by (simp_all add: is_approval_call_def)

lemma approval_step_calls: "approval_step acts requestID req policy w = (calls, out, w') \<Longrightarrow> list_all is_approval_call calls"
  by (auto simp: approval_step_def list_all_iff Let_def split: if_splits prod.splits)

lemma sign_and_settle_calls:
  assumes "sign_and_settle acts requestID req w = (calls, out, w')"
  shows "\<exists>tx h. calls \<in> {[SignCall req], [SignCall req, BroadcastCall tx], [SignCall req, BroadcastCall tx, MonitorCall h]}"
  using assms by (auto simp: sign_and_settle_def split: prod.splits sum.splits)

text \<open>A run that signs has passed the policy and the approval step.\<close>

lemma settlement_signs:
  assumes "TransactionSettlementWorkflow acts requestID req w = (calls, out, w')" "SignCall r \<in> set calls"
  obtains policy w1 acalls w2 calls' where "r = req" "sa_CheckPolicy acts req w = (Inr policy, w1)" "pcr_Approved policy"
    "approval_step acts requestID req policy w1 = (acalls, None, w2)"
    "sign_and_settle acts requestID req w2 = (calls', out, w')" "calls = CheckPolicyCall req # acalls @ calls'"
proof -
  have no: "SignCall r \<notin> set acalls" if "approval_step acts requestID req p v = (acalls, o', v')" for p v acalls o' v'
    using approval_step_calls [OF that] by (auto simp: list_all_iff)
  obtain policy w1 acalls w2 calls' where h: "sa_CheckPolicy acts req w = (Inr policy, w1)" "pcr_Approved policy"
    "approval_step acts requestID req policy w1 = (acalls, None, w2)"
    "sign_and_settle acts requestID req w2 = (calls', out, w')" "calls = CheckPolicyCall req # acalls @ calls'"
    using assms no
    by (auto simp: TransactionSettlementWorkflow_def split: prod.splits sum.splits if_splits option.splits)
  have "r = req" using sign_and_settle_calls [OF h(4)] no [OF h(3)] assms(2) h(5) by auto
  then show ?thesis using h that by blast
qed

lemma approval_step_passed:
  assumes "approval_step acts requestID req policy w = (calls, None, w')" "pcr_RequiresApproval policy" "sa_version acts \<noteq> DefaultVersion"
  obtains env events calls' where "fst (sa_approvals acts req (pcr_ApprovalReasons policy) w) = (env, events)"
    "awaitApprovals env (trq_InitiatedByUserID req) events = (calls', Outcome ''approved'')"
  using assms by (auto simp: approval_step_def Let_def split: prod.splits approval_outcome.splits if_splits)

text \<open>C4: Nothing is signed that was not allowed. In every run that is not a replay of one recorded before approvals were
  counted (those wait for a single signal), the workflow asks the signer only for the transaction it was started
  with, only after the policy service answered that this transaction is approved, and, when the policy flags it, only
  after the required number of distinct people (at least one) approved it, none of them the one who initiated it.\<close>

theorem settlement_signs_only_when_allowed:
  assumes "TransactionSettlementWorkflow acts requestID req w = (calls, out, w')" "SignCall r \<in> set calls"
    and "sa_version acts \<noteq> DefaultVersion"
  shows "r = req \<and> (\<exists>policy w1. sa_CheckPolicy acts req w = (Inr policy, w1) \<and> pcr_Approved policy \<and>
    (pcr_RequiresApproval policy \<longrightarrow>
      (\<exists>env events opened approvers. fst (sa_approvals acts req (pcr_ApprovalReasons policy) w1) = (env, events) \<and>
         env_open env = Inr opened \<and> distinct approvers \<and> set approvers \<subseteq> approved_by events \<and>
         (trq_InitiatedByUserID req = '''' \<or> trq_InitiatedByUserID req \<notin> set approvers) \<and>
         max 1 (oar_RequiredApprovals opened) \<le> int (length approvers))))"
proof -
  obtain policy w1 acalls w2 where h: "r = req" "sa_CheckPolicy acts req w = (Inr policy, w1)" "pcr_Approved policy"
    "approval_step acts requestID req policy w1 = (acalls, None, w2)"
    using assms(1,2) by (rule settlement_signs) (rule that; assumption)
  have "\<exists>env events opened approvers. fst (sa_approvals acts req (pcr_ApprovalReasons policy) w1) = (env, events) \<and>
      env_open env = Inr opened \<and> distinct approvers \<and> set approvers \<subseteq> approved_by events \<and>
      (trq_InitiatedByUserID req = '''' \<or> trq_InitiatedByUserID req \<notin> set approvers) \<and>
      max 1 (oar_RequiredApprovals opened) \<le> int (length approvers)" if ra: "pcr_RequiresApproval policy"
  proof -
    obtain env events calls' where e: "fst (sa_approvals acts req (pcr_ApprovalReasons policy) w1) = (env, events)"
      and a: "awaitApprovals env (trq_InitiatedByUserID req) events = (calls', Outcome ''approved'')"
      using h(4) ra assms(3) by (rule approval_step_passed)
    obtain opened approvers where o: "env_open env = Inr opened" "distinct approvers" "set approvers \<subseteq> approved_by events"
      "trq_InitiatedByUserID req = '''' \<or> trq_InitiatedByUserID req \<notin> set approvers"
      "1 \<le> length approvers" "oar_RequiredApprovals opened \<le> int (length approvers)"
      using approved_approvers [OF a] by blast
    then have "max 1 (oar_RequiredApprovals opened) \<le> int (length approvers)" by simp
    then show ?thesis using e o by blast
  qed
  then show ?thesis using h by blast
qed

lemma sign_and_settle_cases:
  assumes "sign_and_settle acts requestID req w = (calls, out, w')"
  shows "(\<exists>e. calls = [SignCall req] \<and> out = Ended None (Some (ActivityError e))) \<or>
    (\<exists>sgnd w1. sa_SignTransaction acts req w = (Inr sgnd, w1) \<and>
      ((\<exists>r e. calls = [SignCall req, BroadcastCall (sgn_SignedTx sgnd)] \<and> out = Ended (Some r) (Some e) \<and> trs_Status r = ''signed'') \<or>
       (\<exists>b w2 r oe. sa_BroadcastTransaction acts (sgn_SignedTx sgnd) w1 = (Inr b, w2) \<and>
          calls = [SignCall req, BroadcastCall (sgn_SignedTx sgnd), MonitorCall (bcr_TxHash b)] \<and>
          out = Ended (Some r) oe \<and> trs_Status r \<in> {''broadcasted'', ''confirmed'', ''failed''} \<and> trs_TxHash r = bcr_TxHash b)))"
  using assms by (auto simp: sign_and_settle_def split: prod.splits sum.splits if_splits)

lemma approval_step_out:
  assumes "approval_step acts requestID req policy w = (calls, Some out, w')"
  shows "out = Waiting \<or> (\<exists>e. out = Ended None (Some e)) \<or> (\<exists>r. out = Ended (Some r) None \<and> trs_Status r = ''denied'')"
  using assms by (auto simp: approval_step_def denied_result_def Let_def split: if_splits prod.splits approval_outcome.splits)

text \<open>One approval step opens the request, reads the record back when the tally says approved, and closes the request,
  in this order and each at most once; it lets a transaction pass only after all three.\<close>

lemma awaitApprovals_calls:
  assumes "awaitApprovals env initiator events = (calls, outcome)"
  shows "\<exists>s. calls \<in> {[OpenApprovalCall], [OpenApprovalCall, GetRecordedCall], [OpenApprovalCall, CloseApprovalCall s],
      [OpenApprovalCall, GetRecordedCall, CloseApprovalCall s]}"
    and "outcome = Outcome ''approved'' \<Longrightarrow> calls = [OpenApprovalCall, GetRecordedCall, CloseApprovalCall ''approved'']"
  using assms
  by (auto simp: awaitApprovals_def confirm_outcome_def Let_def split: sum.splits option.splits prod.splits if_splits)

lemma approval_step_shape:
  assumes "approval_step acts requestID req policy w = (calls, out, w')"
  obtains acalls s where "calls = map ApprovalStepCall acalls"
    "acalls \<in> {[], [OpenApprovalCall], [OpenApprovalCall, GetRecordedCall], [OpenApprovalCall, CloseApprovalCall s],
       [OpenApprovalCall, GetRecordedCall, CloseApprovalCall s]}"
    "acalls = [] \<longleftrightarrow> \<not> pcr_RequiresApproval policy \<or> sa_version acts = DefaultVersion"
    "out = None \<and> acalls \<noteq> [] \<longrightarrow> acalls = [OpenApprovalCall, GetRecordedCall, CloseApprovalCall ''approved'']"
proof (cases "pcr_RequiresApproval policy \<and> sa_version acts \<noteq> DefaultVersion")
  case False
  then show ?thesis using assms that [of "[]"] by (auto simp: approval_step_def Let_def split: prod.splits if_splits)
next
  case True
  obtain env events w1 where e: "sa_approvals acts req (pcr_ApprovalReasons policy) w = ((env, events), w1)" by (metis surj_pair)
  obtain acalls outcome where a: "awaitApprovals env (trq_InitiatedByUserID req) events = (acalls, outcome)" by fastforce
  obtain s where s: "acalls \<in> {[OpenApprovalCall], [OpenApprovalCall, GetRecordedCall], [OpenApprovalCall, CloseApprovalCall s],
      [OpenApprovalCall, GetRecordedCall, CloseApprovalCall s]}" using awaitApprovals_calls(1) [OF a] by blast
  have "calls = map ApprovalStepCall acalls" "out = None \<Longrightarrow> outcome = Outcome ''approved''"
    using assms True e a by (auto simp: approval_step_def split: approval_outcome.splits if_splits)
  then show ?thesis using awaitApprovals_calls(2) [OF a] s True by (intro that [of acalls s]) auto
qed

lemma settlement_unsigned:
  assumes run: "TransactionSettlementWorkflow acts requestID req w = (calls, out, w')" and no: "SignCall req \<notin> set calls"
  obtains (early) "calls = [CheckPolicyCall req]"
      "(\<exists>e. out = Ended None (Some e)) \<or> (\<exists>r. out = Ended (Some r) None \<and> trs_Status r = ''denied'')"
    | (approvals) policy w1 acalls w2 where "sa_CheckPolicy acts req w = (Inr policy, w1)" "pcr_Approved policy"
      "approval_step acts requestID req policy w1 = (acalls, Some out, w2)" "calls = CheckPolicyCall req # acalls"
proof (cases "sa_CheckPolicy acts req w")
  case (Pair res w1)
  show ?thesis
  proof (cases "\<exists>policy. res = Inr policy \<and> pcr_Approved policy")
    case True
    then obtain policy where p: "res = Inr policy" "pcr_Approved policy" by blast
    obtain acalls o' w2 where a: "approval_step acts requestID req policy w1 = (acalls, o', w2)" by (metis prod_cases3)
    obtain c' oc w3 where s: "sign_and_settle acts requestID req w2 = (c', oc, w3)" by (metis prod_cases3)
    have "SignCall req \<in> set c'" using sign_and_settle_calls [OF s] by auto
    then obtain oo where o': "o' = Some oo" using run no Pair p a s by (cases o') (auto simp: TransactionSettlementWorkflow_def)
    have "calls = CheckPolicyCall req # acalls" "out = oo"
      using run Pair p a o' by (auto simp: TransactionSettlementWorkflow_def)
    then show ?thesis using approvals Pair p a o' by blast
  next
    case False
    then show ?thesis
      using run Pair early by (auto simp: TransactionSettlementWorkflow_def denied_result_def split: sum.splits)
  qed
qed

text \<open>C5: Every transaction is signed at most once and sent as signed. A run makes its calls in this order, each at most
  once and no others: the policy check; the approval step, which opens the request, reads its record back and closes it;
  the signing of the requested transaction; the broadcast of exactly what the signer returned; the monitoring of the
  hash that was broadcast. The approval step is entered only for a transaction the policy approved and flagged (in a run
  that is not a replay of the first version), and then signing follows only its three calls, the last closing the
  request as approved; without it signing follows only a policy that approved without flagging, or such a replay. How far
  the run came is what its result says: a waiting or denied run has signed nothing, a run that failed without a result
  has broadcast nothing, a signed one has tried to broadcast, and the others have been broadcast.\<close>

theorem settlement_calls_in_order:
  assumes "TransactionSettlementWorkflow acts requestID req w = (calls, out, w')"
  shows "\<exists>acalls s sgnd b. calls = CheckPolicyCall req # map ApprovalStepCall acalls @
      (case out of
         Waiting \<Rightarrow> []
       | Ended None _ \<Rightarrow> if SignCall req \<in> set calls then [SignCall req] else []
       | Ended (Some r) _ \<Rightarrow>
           (if trs_Status r = ''denied'' then []
            else if trs_Status r = ''signed'' then [SignCall req, BroadcastCall (sgn_SignedTx sgnd)]
            else [SignCall req, BroadcastCall (sgn_SignedTx sgnd), MonitorCall (bcr_TxHash b)])) \<and>
    acalls \<in> {[], [OpenApprovalCall], [OpenApprovalCall, GetRecordedCall], [OpenApprovalCall, CloseApprovalCall s],
       [OpenApprovalCall, GetRecordedCall, CloseApprovalCall s]} \<and>
    (acalls \<noteq> [] \<or> SignCall req \<in> set calls \<longrightarrow> (\<exists>policy w1. sa_CheckPolicy acts req w = (Inr policy, w1) \<and> pcr_Approved policy \<and>
       (acalls = [] \<longleftrightarrow> \<not> pcr_RequiresApproval policy \<or> sa_version acts = DefaultVersion))) \<and>
    (acalls \<noteq> [] \<and> SignCall req \<in> set calls \<longrightarrow> acalls = [OpenApprovalCall, GetRecordedCall, CloseApprovalCall ''approved'']) \<and>
    (BroadcastCall (sgn_SignedTx sgnd) \<in> set calls \<longrightarrow> (\<exists>w2 w3. sa_SignTransaction acts req w2 = (Inr sgnd, w3))) \<and>
    (MonitorCall (bcr_TxHash b) \<in> set calls \<longrightarrow> (\<exists>w3 w4. sa_BroadcastTransaction acts (sgn_SignedTx sgnd) w3 = (Inr b, w4)))"
proof (cases "SignCall req \<in> set calls")
  case True
  obtain policy w1 acs w2 calls' where h: "sa_CheckPolicy acts req w = (Inr policy, w1)" "pcr_Approved policy"
    "approval_step acts requestID req policy w1 = (acs, None, w2)"
    "sign_and_settle acts requestID req w2 = (calls', out, w')" "calls = CheckPolicyCall req # acs @ calls'"
    using assms True by (rule settlement_signs) (rule that; assumption)
  obtain acalls s where a: "acs = map ApprovalStepCall acalls"
    "acalls \<in> {[], [OpenApprovalCall], [OpenApprovalCall, GetRecordedCall], [OpenApprovalCall, CloseApprovalCall s],
       [OpenApprovalCall, GetRecordedCall, CloseApprovalCall s]}"
    "acalls = [] \<longleftrightarrow> \<not> pcr_RequiresApproval policy \<or> sa_version acts = DefaultVersion"
    "(None :: 'a settlement_outcome option) = None \<and> acalls \<noteq> [] \<longrightarrow>
       acalls = [OpenApprovalCall, GetRecordedCall, CloseApprovalCall ''approved'']"
    using h(3) by (rule approval_step_shape)
  from sign_and_settle_cases [OF h(4)] show ?thesis
    by (elim disjE exE conjE; intro exI [of _ acalls] exI [of _ s]) (use h a in auto)
next
  case False
  show ?thesis using assms False
  proof (cases rule: settlement_unsigned)
    case early
    from early(2) show ?thesis by (elim disjE exE conjE; intro exI [of _ "[]"]) (use early(1) in auto)
  next
    case (approvals policy w1 acs w2)
    obtain acalls s where a: "acs = map ApprovalStepCall acalls"
      "acalls \<in> {[], [OpenApprovalCall], [OpenApprovalCall, GetRecordedCall], [OpenApprovalCall, CloseApprovalCall s],
         [OpenApprovalCall, GetRecordedCall, CloseApprovalCall s]}"
      "acalls = [] \<longleftrightarrow> \<not> pcr_RequiresApproval policy \<or> sa_version acts = DefaultVersion"
      using approvals(3) by (rule approval_step_shape)
    from approval_step_out [OF approvals(3)] show ?thesis
      by (elim disjE exE conjE; intro exI [of _ acalls] exI [of _ s]) (use approvals a in auto)
  qed
qed

lemma execute_activity_Inr:
  "execute_activity act k n w = (Inr x, w') \<Longrightarrow> \<exists>k' w0. act k' w0 = (Inr x, w')"
  by (induction act k n w rule: execute_activity.induct) (auto split: prod.splits sum.splits)

lemma monitor_loop_Inr:
  "monitor_loop node url required h ticks w = (Inr m, w') \<Longrightarrow>
    \<exists>w0 w1 receipt head. TransactionReceipt node url h w0 = (Inr receipt, w1) \<and> BlockNumber node url w1 = (Inr head, w') \<and>
      required \<le> confirmations head (rcp_BlockNumber receipt) \<and>
      m = \<lparr>mon_BlockNumber = sint (rcp_BlockNumber receipt), mon_Confirmations = confirmations head (rcp_BlockNumber receipt),
           mon_Success = (rcp_Status receipt = 1)\<rparr>"
proof (induction ticks arbitrary: w)
  case (Cons t ticks)
  obtain r w1 where r: "TransactionReceipt node url h (t w) = (r, w1)" by fastforce
  obtain b w2 where b: "BlockNumber node url w1 = (b, w2)" by fastforce
  show ?case
  proof (cases "\<exists>receipt head. r = Inr receipt \<and> b = Inr head \<and> required \<le> confirmations head (rcp_BlockNumber receipt)")
    case True
    then obtain receipt head where "r = Inr receipt" "b = Inr head" "required \<le> confirmations head (rcp_BlockNumber receipt)" by blast
    then show ?thesis using Cons.prems r b
      by (intro exI [of _ "t w"] exI [of _ w1] exI [of _ receipt] exI [of _ head]) simp
  next
    case False
    then have "\<exists>v. monitor_loop node url required h ticks v = (Inr m, w')"
      using Cons.prems r b by (auto split: sum.splits)
    then show ?thesis using Cons.IH by blast
  qed
qed simp

lemma BroadcastTransaction_Inr:
  assumes "BroadcastTransaction node lib a tx w = (Inr b, w')"
  obtains raw info where "hex_decode (trim_prefix ''0x'' tx) = Some raw" "DecodeSignedTransaction lib raw = Inr info"
    "bcr_TxHash b = ''0x'' @ hex_encode (TransactionHash lib raw)"
  using assms by (auto simp: BroadcastTransaction_def split: sum.splits option.splits prod.splits)

text \<open>A run that ends without an error and was not denied has been monitored to the end.\<close>

lemma settled_run:
  assumes "TransactionSettlementWorkflow acts requestID req w = (calls, Ended (Some r) None, w')" "trs_Status r \<noteq> ''denied''"
  obtains sgnd b m w1 w2 w3 where "sa_SignTransaction acts req w1 = (Inr sgnd, w2)"
    "sa_BroadcastTransaction acts (sgn_SignedTx sgnd) w2 = (Inr b, w3)" "sa_MonitorTransaction acts (bcr_TxHash b) w3 = (Inr m, w')"
    "BroadcastCall (sgn_SignedTx sgnd) \<in> set calls" "trs_TxHash r = bcr_TxHash b"
    "trs_Status r = (if mon_Success m then ''confirmed'' else ''failed'')" "trs_BlockNumber r = mon_BlockNumber m"
proof (cases "SignCall req \<in> set calls")
  case True
  obtain w2 calls' acalls where s: "sign_and_settle acts requestID req w2 = (calls', Ended (Some r) None, w')"
    and c: "calls = CheckPolicyCall req # acalls @ calls'"
    using assms(1) True by (rule settlement_signs) (rule that; assumption)
  from s show ?thesis
    by (auto simp: sign_and_settle_def split: prod.splits sum.splits) (use that c in \<open>auto split: if_splits\<close>)
next
  case False
  have "trs_Status r = ''denied''"
    using assms(1) False by (cases rule: settlement_unsigned) (auto dest!: approval_step_out)
  then show ?thesis using assms(2) by simp
qed

text \<open>C6: Confirmed means on the chain. When the worker reports a transaction as confirmed, the signer's answer is the
  hex of a transaction this platform can decode, the reported hash is the Keccak hash of exactly these bytes, and the
  node last answered with a receipt for that hash with status 1 in the reported block and with a head that gives the
  configured number of confirmations, and at least one.\<close>

theorem settlement_confirmed_is_mined:
  assumes "TransactionSettlementWorkflow (settlement_worker net json node lib a ticks approvals version first show) requestID req w
      = (calls, Ended (Some r) None, w')"
    and "a = NewActivities policyURL mpcURL rpc conf" "trs_Status r = ''confirmed''"
  shows "\<exists>tx raw info url w0 w1 receipt head. BroadcastCall tx \<in> set calls \<and> hex_decode (trim_prefix ''0x'' tx) = Some raw \<and>
    DecodeSignedTransaction lib raw = Inr info \<and> trs_TxHash r = ''0x'' @ hex_encode (TransactionHash lib raw) \<and>
    TransactionReceipt node url (trs_TxHash r) w0 = (Inr receipt, w1) \<and> BlockNumber node url w1 = (Inr head, w') \<and>
    rcp_Status receipt = 1 \<and> trs_BlockNumber r = sint (rcp_BlockNumber receipt) \<and>
    max 1 conf \<le> confirmations head (rcp_BlockNumber receipt)"
proof -
  let ?acts = "settlement_worker net json node lib a ticks approvals version first show"
  have nd: "trs_Status r \<noteq> ''denied''" using assms(3) by simp
  obtain sgnd b m w1 w2 w3 where "sa_SignTransaction ?acts req w1 = (Inr sgnd, w2)"
    and b: "sa_BroadcastTransaction ?acts (sgn_SignedTx sgnd) w2 = (Inr b, w3)"
    and m: "sa_MonitorTransaction ?acts (bcr_TxHash b) w3 = (Inr m, w')"
    and r: "BroadcastCall (sgn_SignedTx sgnd) \<in> set calls" "trs_TxHash r = bcr_TxHash b"
      "trs_Status r = (if mon_Success m then ''confirmed'' else ''failed'')" "trs_BlockNumber r = mon_BlockNumber m"
    using assms(1) nd by (rule settled_run)
  obtain k v where "BroadcastTransaction node lib a (sgn_SignedTx sgnd) v = (Inr b, w3)"
    using b execute_activity_Inr by (fastforce simp: settlement_worker_def)
  then obtain raw info where raw: "hex_decode (trim_prefix ''0x'' (sgn_SignedTx sgnd)) = Some raw" "DecodeSignedTransaction lib raw = Inr info"
    "bcr_TxHash b = ''0x'' @ hex_encode (TransactionHash lib raw)" by (rule BroadcastTransaction_Inr)
  obtain k' v' where "MonitorTransaction node a (ticks k') (bcr_TxHash b) v' = (Inr m, w')"
    using m execute_activity_Inr by (fastforce simp: settlement_worker_def)
  then obtain url where "monitor_loop node url (act_RequiredConfirmations a) (bcr_TxHash b) (ticks k') v' = (Inr m, w')"
    by (auto simp: MonitorTransaction_def split: sum.splits)
  from monitor_loop_Inr [OF this] obtain w0 w1' receipt head where
    mon: "TransactionReceipt node url (bcr_TxHash b) w0 = (Inr receipt, w1')" "BlockNumber node url w1' = (Inr head, w')"
      "act_RequiredConfirmations a \<le> confirmations head (rcp_BlockNumber receipt)"
      "m = \<lparr>mon_BlockNumber = sint (rcp_BlockNumber receipt), mon_Confirmations = confirmations head (rcp_BlockNumber receipt),
            mon_Success = (rcp_Status receipt = 1)\<rparr>" by blast
  have "max 1 conf \<le> act_RequiredConfirmations a" by (simp add: assms(2) NewActivities_def)
  then show ?thesis using raw mon r assms(3)
    by (intro exI [of _ "sgn_SignedTx sgnd"] exI [of _ raw] exI [of _ info] exI [of _ url] exI [of _ w0] exI [of _ w1']
        exI [of _ receipt] exI [of _ head]) (simp split: if_splits)
qed

section \<open>Examples\<close>

definition demo_trq :: TransactionRequest where
  "demo_trq = \<lparr>trq_CustomerID = ''c'', trq_CustomerTier = ''gold'', trq_ChainID = 1, trq_To = ''0x'', trq_Data = '''', trq_Value = ''5'',
     trq_GasLimit = 21000, trq_GasPrice = ''1'', trq_Nonce = 0, trq_Country = ''DE'', trq_InitiatedByUserID = ''ann'',
     trq_InitiatedByLabel = ''ann''\<rparr>"

definition demo_policy :: PolicyCheckResult where
  "demo_policy = \<lparr>pcr_Approved = True, pcr_Denials = [], pcr_RequiresApproval = True, pcr_ApprovalReasons = [], pcr_Reason = ''''\<rparr>"

definition demo_raw_hex :: string where
  "demo_raw_hex = ''0xc9010101010101010101''"

definition demo_raw :: bytes where
  "demo_raw = 0xc9 # replicate 9 1"

definition demo_json :: settlement_json where
  "demo_json = \<lparr>sj_policy = (\<lambda>_. ''''), sj_policy_result = (\<lambda>_. Some demo_policy), sj_sign = (\<lambda>_. ''''),
     sj_sign_result = (\<lambda>_. Some \<lparr>sgn_RequestID = '''', sgn_SignedTx = demo_raw_hex, sgn_TxHash = '''', sgn_From = ''''\<rparr>)\<rparr>"

definition demo_http :: "unit web" where
  "demo_http = \<lparr>web_do = (\<lambda>method url body w. (Responds 200 '''', w))\<rparr>"

definition demo_node :: "(unit, unit) rpc_node" where
  "demo_node = \<lparr>node_call = (\<lambda>url method params w. (NodeResult (Some ()), w)), json_string = (\<lambda>_. Some ''0x5''),
     json_receipt = (\<lambda>_. Some \<lparr>rr_Status = ''0x1'', rr_BlockNumber = ''0x3'', rr_GasUsed = ''0x1'', rr_TxHash = ''''\<rparr>)\<rparr>"

definition demo_activities :: Activities where
  "demo_activities = NewActivities ''p'' ''m'' ''http://node'' 0"

definition demo_settlement :: "(activity_error, unit) settlement_acts" where
  "demo_settlement = settlement_worker demo_http demo_json demo_node demo_lib demo_activities (\<lambda>_. [id])
     (\<lambda>_ _ w. ((demo_env, [demo_yes ''ann'', demo_yes ''bob'', demo_yes ''bob'', demo_yes ''eve'']), w)) 1 (\<lambda>w. (None, w)) (\<lambda>_. ''error'')"

lemma demo_raw_decodes: "\<exists>info. DecodeSignedTransaction demo_lib demo_raw = Inr info"
proof -
  have "\<not> isl (DecodeSignedTransaction demo_lib demo_raw)" by code_simp
  then show ?thesis by (cases "DecodeSignedTransaction demo_lib demo_raw") simp_all
qed

lemma demo_hex: "hex_decode (trim_prefix ''0x'' demo_raw_hex) = Some demo_raw"
  by code_simp

lemma demo_quantities: "hexUint ''0x1'' = 1" "hexUint ''0x3'' = 3" "big_hex (trim_prefix ''0x'' ''0x5'') = Some 5" "confirmations 5 3 = 3"
  by code_simp+

lemma demo_settlement_run:
  "\<exists>calls r. TransactionSettlementWorkflow demo_settlement ''w'' demo_trq () = (calls, Ended (Some r) None, ()) \<and>
     trs_Status r = ''confirmed'' \<and> SignCall demo_trq \<in> set calls"
proof -
  obtain info where i: "DecodeSignedTransaction demo_lib demo_raw = Inr info" using demo_raw_decodes by blast
  have b: "BroadcastTransaction demo_node demo_lib demo_activities demo_raw_hex ()
      = (Inr \<lparr>bcr_TxHash = ''0x'' @ hex_encode (TransactionHash demo_lib demo_raw)\<rparr>, ())"
    by (simp add: BroadcastTransaction_def Dial_def demo_activities_def NewActivities_def demo_hex i SendRawTransaction_def rpc_call_def
        demo_node_def)
  have m: "MonitorTransaction demo_node demo_activities [id] h ()
      = (Inr \<lparr>mon_BlockNumber = 3, mon_Confirmations = 3, mon_Success = True\<rparr>, ())" for h
    by (simp add: MonitorTransaction_def Dial_def demo_activities_def NewActivities_def TransactionReceipt_def BlockNumber_def
        as_uint64_def hexBig_def rpc_call_def demo_node_def demo_quantities big_uint64_def)
  show ?thesis
    by (simp add: TransactionSettlementWorkflow_def approval_step_def sign_and_settle_def demo_settlement_def settlement_worker_def
        eval_nat_numeral CheckPolicy_def SignTransaction_def postJSON_def demo_http_def demo_json_def demo_policy_def demo_trq_def
        demo_approved DefaultVersion_def b m)
qed

theorem settlement_signs_only_when_allowed_witness:
  "\<exists>approvers. distinct approvers \<and> ''ann'' \<notin> set approvers \<and> 2 \<le> int (length approvers) \<and>
     set approvers \<subseteq> approved_by [demo_yes ''ann'', demo_yes ''bob'', demo_yes ''bob'', demo_yes ''eve'']"
proof -
  obtain calls r where run: "TransactionSettlementWorkflow demo_settlement ''w'' demo_trq () = (calls, Ended (Some r) None, ())"
    "SignCall demo_trq \<in> set calls" using demo_settlement_run by blast
  have v: "sa_version demo_settlement \<noteq> DefaultVersion" by (simp add: demo_settlement_def settlement_worker_def DefaultVersion_def)
  have "sa_CheckPolicy demo_settlement demo_trq () = (Inr demo_policy, ())"
    by (simp add: demo_settlement_def settlement_worker_def eval_nat_numeral CheckPolicy_def postJSON_def demo_http_def demo_json_def)
  then show ?thesis
    using settlement_signs_only_when_allowed [OF run v]
    by (auto simp: demo_policy_def demo_settlement_def settlement_worker_def demo_env_def demo_trq_def)
qed

theorem settlement_calls_in_order_witness:
  "\<exists>calls acalls tx h. fst (TransactionSettlementWorkflow demo_settlement ''w'' demo_trq ()) = calls \<and>
     calls = CheckPolicyCall demo_trq # map ApprovalStepCall acalls @ [SignCall demo_trq, BroadcastCall tx, MonitorCall h] \<and>
     (acalls = [] \<or> acalls = [OpenApprovalCall, GetRecordedCall, CloseApprovalCall ''approved''])"
proof -
  obtain calls r where run: "TransactionSettlementWorkflow demo_settlement ''w'' demo_trq () = (calls, Ended (Some r) None, ())"
    "trs_Status r = ''confirmed''" using demo_settlement_run by blast
  show ?thesis
    using settlement_calls_in_order [OF run(1)]
    apply (elim exE conjE)
    subgoal for acalls s sgnd b
      by (rule exI [of _ calls], rule exI [of _ acalls], rule exI [of _ "sgn_SignedTx sgnd"], rule exI [of _ "bcr_TxHash b"])
        (simp add: run; blast)
    done
qed

theorem settlement_confirmed_is_mined_witness:
  "\<exists>r raw. fst (snd (TransactionSettlementWorkflow demo_settlement ''w'' demo_trq ())) = Ended (Some r) None \<and>
     trs_TxHash r = ''0x'' @ hex_encode (TransactionHash demo_lib raw)"
proof -
  obtain calls r where run: "TransactionSettlementWorkflow demo_settlement ''w'' demo_trq () = (calls, Ended (Some r) None, ())"
    "trs_Status r = ''confirmed''" using demo_settlement_run by blast
  show ?thesis
    using settlement_confirmed_is_mined [OF run(1) [unfolded demo_settlement_def] demo_activities_def run(2)] run(1) by auto
qed

end
