(* ===== verification/Worker_Rotation.thy ===== *)
theory Worker_Rotation
  imports Worker_Settlement Sql
begin

text \<open>
  Provisioning and rotating keys, and moving the balance of a retired one: \<^verbatim>\<open>workflows/dkg_ceremony.go\<close>
  (\<^verbatim>\<open>KeyRotationWorkflow\<close>), \<^verbatim>\<open>workflows/provision_key.go\<close>, \<^verbatim>\<open>workflows/balance_migration.go\<close> with their types, and
  the activities of \<^verbatim>\<open>activities/key_rotation.go\<close> and \<^verbatim>\<open>activities/balance_migration.go\<close>. The two tables the
  activities update are part of the state; a statement may fail before or after it took effect. The workflows are
  functions of their activities and record the calls they make.
\<close>

section \<open>Requests and results\<close>

record ActivateKeyPairRequest =
  akp_KeyID :: string
  akp_Address :: string
  akp_PublicKey :: string

record SetKeyPairStatusRequest =
  skp_KeyID :: string
  skp_Status :: string

record SetCeremonyStatusRequest =
  scs_CeremonyID :: string
  scs_Status :: string
  scs_ErrorMessage :: string

record DeactivateSharesRequest =
  dsr_CeremonyID :: string
  dsr_PartyIDs :: "int list"
  dsr_PartyEndpoints :: "string list"

record 'e DeactivateSharesResult =
  dsx_DeactivatedCount :: nat
  dsx_Errors :: "(int \<times> 'e) list"

record KeyRotationRequest =
  krq_NewCeremony :: DKGCeremonyRequest
  krq_OldKeyID :: string
  krq_NewKeyID :: string
  krq_OldCeremonyID :: string
  krq_OldPartyIDs :: "int list"
  krq_OldPartyEndpoints :: "string list"
  krq_ShareRetention :: int

section \<open>The tables\<close>

record key_pair_row =
  kp_status :: string
  kp_address :: "string option"
  kp_public_key :: "string option"
  kp_updated_at :: int

record ceremony_row =
  cr_status :: string
  cr_error_message :: "string option"
  cr_completed_at :: "int option"
  cr_updated_at :: int

record key_db = sql_conn +
  kd_pairs :: "string \<Rightarrow> key_pair_row option"
  kd_ceremonies :: "string \<Rightarrow> ceremony_row option"

datatype rotation_error =
    NoDatabase string
  | StatementFailed string
  | RowNotFound string
  | EndpointsNotParallel nat nat
  | RetireNotAuthorised sign_error
  | VaultClientFails

definition run_update :: "string \<Rightarrow> (key_db \<Rightarrow> (nat \<times> key_db) option) \<Rightarrow> key_db option \<Rightarrow> (rotation_error + unit) \<times> key_db option" where
  "run_update key stmt dbo =
     (case dbo of
        None \<Rightarrow> (Inl (NoDatabase key), None)
      | Some db \<Rightarrow>
          (case exec_statement stmt db of
             (None, db') \<Rightarrow> (Inl (StatementFailed key), Some db')
           | (Some n, db') \<Rightarrow> (if n = 0 then Inl (RowNotFound key) else Inr (), Some db')))"

text \<open>The statements. The status of a key is checked against the values the table admits. A row is found by its id as
  the database prints it; any other value the table would refuse (an id that is no UUID, an address over 255
  characters, a name another live key has) is a statement that fails without effect.\<close>

definition key_statuses :: "string set" where
  "key_statuses = {''pending_dkg'', ''active'', ''inactive'', ''compromised'', ''failed''}"

definition update_pair :: "string \<Rightarrow> (key_pair_row \<Rightarrow> key_pair_row) \<Rightarrow> key_db \<Rightarrow> (nat \<times> key_db) option" where
  "update_pair key f db =
     (case kd_pairs db key of
        None \<Rightarrow> Some (0, db)
      | Some row \<Rightarrow> if kp_status (f row) \<in> key_statuses then Some (1, db\<lparr>kd_pairs := (kd_pairs db)(key := Some (f row))\<rparr>) else None)"

definition ActivateKeyPair ::
  "int \<Rightarrow> ActivateKeyPairRequest \<Rightarrow> key_db option \<Rightarrow> (rotation_error + unit) \<times> key_db option" where
  "ActivateKeyPair now req =
     run_update (akp_KeyID req) (update_pair (akp_KeyID req) (\<lambda>row. row\<lparr>kp_status := ''active'', kp_address := Some (akp_Address req),
       kp_public_key := Some (akp_PublicKey req), kp_updated_at := now\<rparr>))"

definition SetKeyPairStatus ::
  "int \<Rightarrow> SetKeyPairStatusRequest \<Rightarrow> key_db option \<Rightarrow> (rotation_error + unit) \<times> key_db option" where
  "SetKeyPairStatus now req =
     run_update (skp_KeyID req) (update_pair (skp_KeyID req) (\<lambda>row. row\<lparr>kp_status := skp_Status req, kp_updated_at := now\<rparr>))"

definition ceremony_statuses :: "string set" where
  "ceremony_statuses = {''initiated'', ''in_progress'', ''completed'', ''failed''}"

text \<open>The ceremony id is cast to a UUID: \<open>uuid\<close> is the key it denotes, if it is one.\<close>

definition SetCeremonyStatus ::
  "(string \<Rightarrow> string option) \<Rightarrow> int \<Rightarrow> SetCeremonyStatusRequest \<Rightarrow> key_db option \<Rightarrow> (rotation_error + unit) \<times> key_db option" where
  "SetCeremonyStatus uuid now req =
     (let errMsg = (if scs_ErrorMessage req \<noteq> '''' then Some (scs_ErrorMessage req) else None);
          terminal = (scs_Status req = ''completed'' \<or> scs_Status req = ''failed'')
      in run_update (scs_CeremonyID req) (\<lambda>db.
           case uuid (scs_CeremonyID req) of
             None \<Rightarrow> None
           | Some key \<Rightarrow>
               (case kd_ceremonies db key of
                  None \<Rightarrow> Some (0, db)
                | Some row \<Rightarrow>
                    if scs_Status req \<in> ceremony_statuses then
                      Some (1, db\<lparr>kd_ceremonies := (kd_ceremonies db)(key := Some (row\<lparr>cr_status := scs_Status req, cr_error_message := errMsg,
                        cr_completed_at := (if terminal then Some now else cr_completed_at row), cr_updated_at := now\<rparr>))\<rparr>)
                    else None)))"

section \<open>Retiring shares\<close>

record retireBody =
  rtb_CeremonyID :: string
  rtb_Authorization :: string
  rtb_AuthorizationSignature :: string

definition getenvDefault :: "(string \<Rightarrow> string) \<Rightarrow> string \<Rightarrow> string \<Rightarrow> string" where
  "getenvDefault env key def = (if env key \<noteq> '''' then env key else def)"

text \<open>\<^verbatim>\<open>strings.TrimRight(s, "/")\<close>.\<close>

definition trim_right_slash :: "string \<Rightarrow> string" where
  "trim_right_slash s = rev (dropWhile (\<lambda>c. c = CHR ''/'') (rev s))"

fun retire_parties ::
  "'w web \<Rightarrow> string \<Rightarrow> (int \<times> string) list \<Rightarrow> web_error DeactivateSharesResult \<Rightarrow> 'w \<Rightarrow> web_error DeactivateSharesResult \<times> 'w" where
  "retire_parties net body [] result w = (result, w)"
| "retire_parties net body ((i, endpoint) # ps) result w =
     (let (r, w') = web_do net ''POST'' (trim_right_slash endpoint @ ''/tss/shares/retire'') body w;
          fail = (\<lambda>e. result\<lparr>dsx_Errors := dsx_Errors result @ [(i, e)]\<rparr>)
      in retire_parties net body ps
           (case r of
              BuildFails e \<Rightarrow> fail (BuildRequest e)
            | RequestFails e \<Rightarrow> fail (RequestFailed e)
            | BodyUnreadable code \<Rightarrow>
                if code \<noteq> 200 then fail (UnexpectedStatus code '''') else result\<lparr>dsx_DeactivatedCount := dsx_DeactivatedCount result + 1\<rparr>
            | Responds code msg \<Rightarrow>
                if code \<noteq> 200 then fail (UnexpectedStatus code (trim_space msg))
                else result\<lparr>dsx_DeactivatedCount := dsx_DeactivatedCount result + 1\<rparr>) w')"

definition no_shares :: "'e DeactivateSharesResult" where
  "no_shares = \<lparr>dsx_DeactivatedCount = 0, dsx_Errors = []\<rparr>"

definition retireThroughParties ::
  "'w web \<Rightarrow> ('k, 's) worker_lib \<Rightarrow> (retireBody \<Rightarrow> string) \<Rightarrow> int \<Rightarrow> DeactivateSharesRequest \<Rightarrow> 'w
     \<Rightarrow> (rotation_error + web_error DeactivateSharesResult) \<times> 'w" where
  "retireThroughParties net lib render now req w =
     (if length (dsr_PartyEndpoints req) \<noteq> length (dsr_PartyIDs req)
      then (Inl (EndpointsNotParallel (length (dsr_PartyEndpoints req)) (length (dsr_PartyIDs req))), w)
      else case authorize (wl_auth lib) (wl_sign lib) now (wl_signer lib) ''retire'' (dsr_CeremonyID req) '''' of
        Inl e \<Rightarrow> (Inl (RetireNotAuthorised e), w)
      | Inr (auth, authSig) \<Rightarrow>
          (let (result, w') = retire_parties net (render \<lparr>rtb_CeremonyID = dsr_CeremonyID req, rtb_Authorization = auth,
                 rtb_AuthorizationSignature = authSig\<rparr>) (zip (dsr_PartyIDs req) (dsr_PartyEndpoints req)) no_shares w
           in (Inr result, w')))"

text \<open>The shared Vault of deployments without separate parties: \<open>vault_client\<close> says whether its client can be made,
  \<open>kv_delete\<close> deletes a path of a mount with a token.\<close>

record 'w vault =
  vault_client :: "string \<Rightarrow> bool"
  kv_delete :: "string \<Rightarrow> string \<Rightarrow> string \<Rightarrow> 'w \<Rightarrow> string option \<times> 'w"

fun delete_shares ::
  "'w vault \<Rightarrow> string \<Rightarrow> string \<Rightarrow> string \<Rightarrow> string \<Rightarrow> int list \<Rightarrow> web_error DeactivateSharesResult \<Rightarrow> 'w
     \<Rightarrow> web_error DeactivateSharesResult \<times> 'w" where
  "delete_shares v token mount basePath cid [] result w = (result, w)"
| "delete_shares v token mount basePath cid (i # is) result w =
     (let (r, w') = kv_delete v token mount (basePath @ ''/party-'' @ dec_int i @ ''/'' @ cid) w
      in delete_shares v token mount basePath cid is
           (case r of
              Some e \<Rightarrow> result\<lparr>dsx_Errors := dsx_Errors result @ [(i, RequestFailed e)]\<rparr>
            | None \<Rightarrow> result\<lparr>dsx_DeactivatedCount := dsx_DeactivatedCount result + 1\<rparr>) w')"

definition DeactivateOldKeyShares ::
  "'w web \<Rightarrow> 'w vault \<Rightarrow> ('k, 's) worker_lib \<Rightarrow> (retireBody \<Rightarrow> string) \<Rightarrow> (string \<Rightarrow> string) \<Rightarrow> int \<Rightarrow> DeactivateSharesRequest \<Rightarrow> 'w
     \<Rightarrow> (rotation_error + web_error DeactivateSharesResult) \<times> 'w" where
  "DeactivateOldKeyShares net v lib render env now req w =
     (if dsr_PartyEndpoints req \<noteq> [] then retireThroughParties net lib render now req w
      else if env ''VAULT_ADDR'' = '''' then (Inr no_shares, w)
      else if \<not> vault_client v (env ''VAULT_ADDR'') then (Inl VaultClientFails, w)
      else (let (result, w') = delete_shares v (env ''VAULT_TOKEN'') (getenvDefault env ''VAULT_KV_MOUNT'' ''secret'')
                   (getenvDefault env ''VAULT_KEY_SHARE_PATH'' ''openfireblocks/mpc-party'') (dsr_CeremonyID req) (dsr_PartyIDs req)
                   no_shares w
            in (Inr result, w')))"

section \<open>The rotation workflow\<close>

datatype rotation_call =
    RunCeremony DKGCeremonyRequest
  | ActivateCall ActivateKeyPairRequest
  | SetStatusCall SetKeyPairStatusRequest
  | SleepCall int
  | DeactivateCall DeactivateSharesRequest

record ('e, 'w) rotation_acts =
  ro_DKGCeremony :: "DKGCeremonyRequest \<Rightarrow> 'w \<Rightarrow> ('e + DKGCeremonyResult) \<times> 'w"
  ro_ActivateKeyPair :: "ActivateKeyPairRequest \<Rightarrow> 'w \<Rightarrow> ('e + unit) \<times> 'w"
  ro_SetKeyPairStatus :: "SetKeyPairStatusRequest \<Rightarrow> 'w \<Rightarrow> ('e + unit) \<times> 'w"
  ro_SetCeremonyStatus :: "SetCeremonyStatusRequest \<Rightarrow> 'w \<Rightarrow> ('e + unit) \<times> 'w"
  ro_Sleep :: "int \<Rightarrow> 'w \<Rightarrow> ('e + unit) \<times> 'w"
  ro_DeactivateOldKeyShares :: "DeactivateSharesRequest \<Rightarrow> 'w \<Rightarrow> ('e + web_error DeactivateSharesResult) \<times> 'w"
  ro_Error :: "'e \<Rightarrow> string"
  ro_CeremonyError :: "worker_error \<Rightarrow> string"

datatype 'e rotation_failure =
    ChildFailed 'e
  | CeremonyFailed "worker_error option"
  | ActivateNewFailed 'e
  | DeactivateOldFailed 'e
  | RetentionInterrupted 'e
  | DeactivateSharesFailed 'e

record 'e KeyRotationResult =
  krr_NewCeremony :: "DKGCeremonyResult option"
  krr_OldSharesDeactivated :: bool
  krr_Status :: string
  krr_Error :: "'e rotation_failure option"

definition rotation_failed :: "DKGCeremonyResult option \<Rightarrow> 'e rotation_failure \<Rightarrow> 'e KeyRotationResult" where
  "rotation_failed c e = \<lparr>krr_NewCeremony = c, krr_OldSharesDeactivated = False, krr_Status = ''failed'', krr_Error = Some e\<rparr>"

definition default_retention :: int where
  "default_retention = 720 * 3600 * second"

text \<open>Step 3: \<^const>\<open>None\<close> when nothing is to be retired.\<close>

definition retire_old_shares ::
  "('e, 'w) rotation_acts \<Rightarrow> KeyRotationRequest \<Rightarrow> 'w \<Rightarrow> rotation_call list \<times> ('e rotation_failure + bool) \<times> 'w" where
  "retire_old_shares acts req w =
     (if krq_OldCeremonyID req \<noteq> '''' \<and> krq_OldPartyIDs req \<noteq> [] then
        (let retention = (if krq_ShareRetention req \<le> 0 then default_retention else krq_ShareRetention req);
             d = \<lparr>dsr_CeremonyID = krq_OldCeremonyID req, dsr_PartyIDs = krq_OldPartyIDs req, dsr_PartyEndpoints = krq_OldPartyEndpoints req\<rparr>
         in case ro_Sleep acts retention w of
              (Inl e, w1) \<Rightarrow> ([SleepCall retention], Inl (RetentionInterrupted e), w1)
            | (Inr _, w1) \<Rightarrow>
                (case ro_DeactivateOldKeyShares acts d w1 of
                   (Inl e, w2) \<Rightarrow> ([SleepCall retention, DeactivateCall d], Inl (DeactivateSharesFailed e), w2)
                 | (Inr r, w2) \<Rightarrow> ([SleepCall retention, DeactivateCall d], Inr (0 < dsx_DeactivatedCount r), w2)))
      else ([], Inr False, w))"

text \<open>Step 2: the new key becomes active, then the old one inactive; either side is skipped without an id.\<close>

definition flip_keys ::
  "('e, 'w) rotation_acts \<Rightarrow> KeyRotationRequest \<Rightarrow> DKGCeremonyResult \<Rightarrow> 'w \<Rightarrow> rotation_call list \<times> 'e rotation_failure option \<times> 'w" where
  "flip_keys acts req c w =
     (let a = \<lparr>akp_KeyID = krq_NewKeyID req, akp_Address = dkr_ThresholdAddress c, akp_PublicKey = dkr_ThresholdPubKey c\<rparr>;
          s = \<lparr>skp_KeyID = krq_OldKeyID req, skp_Status = ''inactive''\<rparr>;
          (calls1, r1, w1) = (if krq_NewKeyID req \<noteq> '''' then (let (r, w') = ro_ActivateKeyPair acts a w in ([ActivateCall a], r, w'))
                              else ([], Inr (), w))
      in case r1 of
           Inl e \<Rightarrow> (calls1, Some (ActivateNewFailed e), w1)
         | Inr _ \<Rightarrow>
             if krq_OldKeyID req \<noteq> '''' then
               (let (r2, w2) = ro_SetKeyPairStatus acts s w1 in
                (calls1 @ [SetStatusCall s], (case r2 of Inl e \<Rightarrow> Some (DeactivateOldFailed e) | Inr _ \<Rightarrow> None), w2))
             else (calls1, None, w1))"

definition KeyRotationWorkflow ::
  "('e, 'w) rotation_acts \<Rightarrow> KeyRotationRequest \<Rightarrow> 'w \<Rightarrow> rotation_call list \<times> 'e KeyRotationResult \<times> 'w" where
  "KeyRotationWorkflow acts req w =
     (case ro_DKGCeremony acts (krq_NewCeremony req) w of
        (Inl e, w1) \<Rightarrow> ([RunCeremony (krq_NewCeremony req)], rotation_failed None (ChildFailed e), w1)
      | (Inr c, w1) \<Rightarrow>
          if dkr_Status c \<noteq> ''completed'' then
            ([RunCeremony (krq_NewCeremony req)], rotation_failed (Some c) (CeremonyFailed (dkr_Error c)), w1)
          else (case flip_keys acts req c w1 of
                  (calls, Some e, w2) \<Rightarrow> (RunCeremony (krq_NewCeremony req) # calls, rotation_failed (Some c) e, w2)
                | (calls, None, w2) \<Rightarrow>
                    (case retire_old_shares acts req w2 of
                       (calls', Inl e, w3) \<Rightarrow> (RunCeremony (krq_NewCeremony req) # calls @ calls', rotation_failed (Some c) e, w3)
                     | (calls', Inr deactivated, w3) \<Rightarrow>
                         (RunCeremony (krq_NewCeremony req) # calls @ calls',
                          \<lparr>krr_NewCeremony = Some c, krr_OldSharesDeactivated = deactivated, krr_Status = ''completed'', krr_Error = None\<rparr>, w3))))"

section \<open>Provisioning a key\<close>

record ProvisionKeyRequest =
  pkr_Ceremony :: DKGCeremonyRequest
  pkr_KeyID :: string

record 'e ProvisionKeyResult =
  pkx_Ceremony :: "DKGCeremonyResult option"
  pkx_Status :: string
  pkx_Error :: "'e rotation_failure option"

text \<open>Bookkeeping failures are logged and ignored.\<close>

definition set_ceremony :: "('e, 'w) rotation_acts \<Rightarrow> string \<Rightarrow> string \<Rightarrow> string \<Rightarrow> 'w \<Rightarrow> 'w" where
  "set_ceremony acts cid status errMsg w =
     (if cid = '''' then w
      else snd (ro_SetCeremonyStatus acts \<lparr>scs_CeremonyID = cid, scs_Status = status, scs_ErrorMessage = errMsg\<rparr> w))"

definition markCeremonyFailed :: "('e, 'w) rotation_acts \<Rightarrow> string \<Rightarrow> string \<Rightarrow> 'w \<Rightarrow> 'w" where
  "markCeremonyFailed acts cid errMsg w = set_ceremony acts cid ''failed'' errMsg w"

definition ProvisionKeyWorkflow ::
  "('e, 'w) rotation_acts \<Rightarrow> ProvisionKeyRequest \<Rightarrow> 'w \<Rightarrow> 'e ProvisionKeyResult \<times> 'w" where
  "ProvisionKeyWorkflow acts req w =
     (let cid = dkg_CeremonyID (pkr_Ceremony req); w0 = set_ceremony acts cid ''in_progress'' '''' w in
      case ro_DKGCeremony acts (pkr_Ceremony req) w0 of
        (Inl e, w1) \<Rightarrow>
          (\<lparr>pkx_Ceremony = None, pkx_Status = ''failed'', pkx_Error = Some (ChildFailed e)\<rparr>, markCeremonyFailed acts cid (ro_Error acts e) w1)
      | (Inr c, w1) \<Rightarrow>
          if dkr_Status c \<noteq> ''completed'' then
            (\<lparr>pkx_Ceremony = Some c, pkx_Status = ''failed'', pkx_Error = Some (CeremonyFailed (dkr_Error c))\<rparr>,
             markCeremonyFailed acts cid (case dkr_Error c of None \<Rightarrow> '''' | Some e \<Rightarrow> ro_CeremonyError acts e) w1)
          else
            (let a = \<lparr>akp_KeyID = pkr_KeyID req, akp_Address = dkr_ThresholdAddress c, akp_PublicKey = dkr_ThresholdPubKey c\<rparr>;
                 (r, w2) = (if pkr_KeyID req \<noteq> '''' then ro_ActivateKeyPair acts a w1 else (Inr (), w1))
             in case r of
                  Inl e \<Rightarrow>
                    (\<lparr>pkx_Ceremony = Some c, pkx_Status = ''failed'', pkx_Error = Some (ActivateNewFailed e)\<rparr>,
                     markCeremonyFailed acts cid (ro_Error acts e) w2)
                | Inr _ \<Rightarrow>
                    (\<lparr>pkx_Ceremony = Some c, pkx_Status = ''completed'', pkx_Error = None\<rparr>, set_ceremony acts cid ''completed'' '''' w2)))"

text \<open>The worker runs the workflows on its database next to the rest of the world; every activity is tried three
  times.\<close>

definition on_db :: "(key_db option \<Rightarrow> ('e + 'a) \<times> key_db option) \<Rightarrow> 'v \<times> key_db option \<Rightarrow> ('e + 'a) \<times> 'v \<times> key_db option" where
  "on_db f w = (let (r, db) = f (snd w) in (r, fst w, db))"

definition on_world :: "('v \<Rightarrow> 'r \<times> 'v) \<Rightarrow> 'v \<times> key_db option \<Rightarrow> 'r \<times> 'v \<times> key_db option" where
  "on_world f w = (let (r, v) = f (fst w) in (r, v, snd w))"

definition rotation_worker ::
  "(DKGCeremonyRequest \<Rightarrow> 'v \<Rightarrow> (rotation_error + DKGCeremonyResult) \<times> 'v) \<Rightarrow> (int \<Rightarrow> 'v \<Rightarrow> (rotation_error + unit) \<times> 'v)
     \<Rightarrow> (DeactivateSharesRequest \<Rightarrow> nat \<Rightarrow> 'v \<Rightarrow> (rotation_error + web_error DeactivateSharesResult) \<times> 'v)
     \<Rightarrow> (string \<Rightarrow> string option) \<Rightarrow> (nat \<Rightarrow> int) \<Rightarrow> (rotation_error \<Rightarrow> string) \<Rightarrow> (worker_error \<Rightarrow> string)
     \<Rightarrow> (rotation_error, 'v \<times> key_db option) rotation_acts" where
  "rotation_worker dkg sleep deactivate uuid clock show showc =
     \<lparr>ro_DKGCeremony = (\<lambda>req. on_world (dkg req)),
      ro_ActivateKeyPair = (\<lambda>req. execute_activity (\<lambda>k. on_db (ActivateKeyPair (clock k) req)) 0 2),
      ro_SetKeyPairStatus = (\<lambda>req. execute_activity (\<lambda>k. on_db (SetKeyPairStatus (clock k) req)) 0 2),
      ro_SetCeremonyStatus = (\<lambda>req. execute_activity (\<lambda>k. on_db (SetCeremonyStatus uuid (clock k) req)) 0 2),
      ro_Sleep = (\<lambda>d. on_world (sleep d)),
      ro_DeactivateOldKeyShares = (\<lambda>req. execute_activity (\<lambda>k. on_world (deactivate req k)) 0 2),
      ro_Error = show, ro_CeremonyError = showc\<rparr>"

section \<open>Properties of rotation and provisioning\<close>

definition pair_active :: "key_db option \<Rightarrow> string \<Rightarrow> bool" where
  "pair_active dbo key \<longleftrightarrow> (\<exists>db row. dbo = Some db \<and> kd_pairs db key = Some row \<and> kp_status row = ''active'')"

definition pairs_of :: "key_db option \<Rightarrow> string \<Rightarrow> key_pair_row option" where
  "pairs_of dbo = (case dbo of None \<Rightarrow> (\<lambda>_. None) | Some db \<Rightarrow> kd_pairs db)"

text \<open>An update of one row leaves the table as it was or changes this row, and it has changed it when it succeeds.\<close>

lemma update_effect:
  assumes "run_update key (update_pair key f) dbo = (r, dbo')"
  shows "pairs_of dbo' = pairs_of dbo \<or> (\<exists>row. pairs_of dbo key = Some row \<and> pairs_of dbo' = (pairs_of dbo)(key := Some (f row)))"
    and "r = Inr () \<Longrightarrow> \<exists>row. pairs_of dbo' key = Some (f row)"
  using assms
  by (auto simp: run_update_def exec_statement_def update_pair_def pairs_of_def Let_def
      split: option.splits fault.splits if_splits prod.splits)

lemma retried_update_effect:
  assumes "execute_activity (\<lambda>k. on_db (run_update key (update_pair key (f k)))) k n (v, dbo) = (r, v', dbo')" "\<And>k row. P (f k row)"
  shows "pairs_of dbo' = pairs_of dbo \<or> (\<exists>row. P row \<and> pairs_of dbo' = (pairs_of dbo)(key := Some row))"
    and "r = Inr () \<Longrightarrow> \<exists>row. P row \<and> pairs_of dbo' key = Some row"
proof -
  have "(pairs_of dbo' = pairs_of dbo \<or> (\<exists>row. P row \<and> pairs_of dbo' = (pairs_of dbo)(key := Some row))) \<and>
      (r = Inr () \<longrightarrow> (\<exists>row. P row \<and> pairs_of dbo' key = Some row))"
    using assms(1)
  proof (induction n arbitrary: k dbo v)
    case 0
    then have u: "run_update key (update_pair key (f k)) dbo = (r, dbo')" by (auto simp: on_db_def split: prod.splits)
    show ?case using update_effect [OF u] assms(2) by blast
  next
    case (Suc n)
    obtain r1 dbo1 where u: "run_update key (update_pair key (f k)) dbo = (r1, dbo1)" by fastforce
    have o: "on_db (run_update key (update_pair key (f k))) (v, dbo) = (r1, v, dbo1)" by (simp add: on_db_def u)
    note e = update_effect [OF u]
    show ?case
    proof (cases r1)
      case (Inl x)
      then have "execute_activity (\<lambda>k. on_db (run_update key (update_pair key (f k)))) (Suc k) n (v, dbo1) = (r, v', dbo')"
        using Suc.prems by (simp add: o)
      from Suc.IH [OF this] e(1) show ?thesis by (metis assms(2) fun_upd_upd)
    next
      case (Inr x)
      then have "r = r1" "dbo' = dbo1" using Suc.prems by (auto simp: o)
      then show ?thesis using e assms(2) by blast
    qed
  qed
  then show "pairs_of dbo' = pairs_of dbo \<or> (\<exists>row. P row \<and> pairs_of dbo' = (pairs_of dbo)(key := Some row))"
    "r = Inr () \<Longrightarrow> \<exists>row. P row \<and> pairs_of dbo' key = Some row" by blast+
qed

definition activated :: "DKGCeremonyResult \<Rightarrow> key_pair_row \<Rightarrow> bool" where
  "activated c row \<longleftrightarrow> kp_status row = ''active'' \<and> kp_address row = Some (dkr_ThresholdAddress c) \<and>
     kp_public_key row = Some (dkr_ThresholdPubKey c)"

lemma worker_activate:
  assumes "ro_ActivateKeyPair (rotation_worker dkg sleep deact uuid clock show showc)
      \<lparr>akp_KeyID = key, akp_Address = dkr_ThresholdAddress c, akp_PublicKey = dkr_ThresholdPubKey c\<rparr> (v, dbo) = (r, v', dbo')"
  shows "pairs_of dbo' = pairs_of dbo \<or> (\<exists>row. activated c row \<and> pairs_of dbo' = (pairs_of dbo)(key := Some row))"
    and "r = Inr () \<Longrightarrow> \<exists>row. activated c row \<and> pairs_of dbo' key = Some row"
proof -
  from assms have e: "execute_activity (\<lambda>k. on_db (run_update key (update_pair key (\<lambda>row. row\<lparr>kp_status := ''active'',
      kp_address := Some (dkr_ThresholdAddress c), kp_public_key := Some (dkr_ThresholdPubKey c), kp_updated_at := clock k\<rparr>)))) 0 2 (v, dbo)
      = (r, v', dbo')" by (simp add: rotation_worker_def ActivateKeyPair_def)
  note u = retried_update_effect [OF e, where P = "activated c"]
  show "pairs_of dbo' = pairs_of dbo \<or> (\<exists>row. activated c row \<and> pairs_of dbo' = (pairs_of dbo)(key := Some row))"
    by (rule u(1)) (simp add: activated_def)
  show "\<exists>row. activated c row \<and> pairs_of dbo' key = Some row" if "r = Inr ()"
    by (rule u(2) [OF _ that]) (simp add: activated_def)
qed

lemma worker_set_status:
  assumes "ro_SetKeyPairStatus (rotation_worker dkg sleep deact uuid clock show showc) \<lparr>skp_KeyID = key, skp_Status = s\<rparr> (v, dbo) = (r, v', dbo')"
  shows "pairs_of dbo' = pairs_of dbo \<or> (\<exists>row. kp_status row = s \<and> pairs_of dbo' = (pairs_of dbo)(key := Some row))"
    and "r = Inr () \<Longrightarrow> \<exists>row. kp_status row = s \<and> pairs_of dbo' key = Some row"
proof -
  from assms have e: "execute_activity (\<lambda>k. on_db (run_update key (update_pair key (\<lambda>row. row\<lparr>kp_status := s, kp_updated_at := clock k\<rparr>))))
      0 2 (v, dbo) = (r, v', dbo')" by (simp add: rotation_worker_def SetKeyPairStatus_def)
  note u = retried_update_effect [OF e, where P = "\<lambda>row. kp_status row = s"]
  show "pairs_of dbo' = pairs_of dbo \<or> (\<exists>row. kp_status row = s \<and> pairs_of dbo' = (pairs_of dbo)(key := Some row))"
    by (rule u(1)) simp
  show "\<exists>row. kp_status row = s \<and> pairs_of dbo' key = Some row" if "r = Inr ()" by (rule u(2) [OF _ that]) simp
qed

lemma worker_leaves_db:
  "ro_DKGCeremony (rotation_worker dkg sleep deact uuid clock show showc) c (v, dbo) = (r, v', dbo') \<Longrightarrow> dbo' = dbo"
  "ro_Sleep (rotation_worker dkg sleep deact uuid clock show showc) d (v, dbo) = (r1, v', dbo') \<Longrightarrow> dbo' = dbo"
  "ro_DeactivateOldKeyShares (rotation_worker dkg sleep deact uuid clock show showc) q (v, dbo) = (r2, v', dbo') \<Longrightarrow> dbo' = dbo"
proof -
  show "ro_DKGCeremony (rotation_worker dkg sleep deact uuid clock show showc) c (v, dbo) = (r, v', dbo') \<Longrightarrow> dbo' = dbo"
    "ro_Sleep (rotation_worker dkg sleep deact uuid clock show showc) d (v, dbo) = (r1, v', dbo') \<Longrightarrow> dbo' = dbo"
    by (auto simp: rotation_worker_def on_world_def split: prod.splits)
  have "execute_activity (\<lambda>k. on_world (deact q k)) k n (v, dbo) = (r2, v', dbo') \<Longrightarrow> dbo' = dbo" for k n
    by (induction n arbitrary: k v) (auto simp: on_world_def split: prod.splits sum.splits)
  then show "ro_DeactivateOldKeyShares (rotation_worker dkg sleep deact uuid clock show showc) q (v, dbo) = (r2, v', dbo') \<Longrightarrow> dbo' = dbo"
    by (simp add: rotation_worker_def)
qed

lemma worker_retire_leaves_db:
  assumes "retire_old_shares (rotation_worker dkg sleep deact uuid clock show showc) req (v, dbo) = (calls, r, v', dbo')"
  shows "dbo' = dbo"
  using assms
  by (auto simp: retire_old_shares_def Let_def split: if_splits prod.splits sum.splits dest!: worker_leaves_db(2,3))

text \<open>The flip: what it leaves in the table, whether it succeeds or not.\<close>

lemma worker_flip:
  assumes "flip_keys (rotation_worker dkg sleep deact uuid clock show showc) req c (v, dbo) = (calls, fail, v', dbo')"
    and "krq_NewKeyID req \<noteq> ''''" "krq_NewKeyID req \<noteq> krq_OldKeyID req"
  shows "pairs_of dbo' (krq_OldKeyID req) = pairs_of dbo (krq_OldKeyID req) \<or>
      (\<exists>row. activated c row \<and> pairs_of dbo' (krq_NewKeyID req) = Some row)"
    and "fail = None \<Longrightarrow> (\<exists>row. activated c row \<and> pairs_of dbo' (krq_NewKeyID req) = Some row) \<and>
      (krq_OldKeyID req \<noteq> '''' \<longrightarrow> (\<exists>row. kp_status row = ''inactive'' \<and> pairs_of dbo' (krq_OldKeyID req) = Some row))"
proof -
  let ?w = "rotation_worker dkg sleep deact uuid clock show showc" and ?new = "krq_NewKeyID req" and ?old = "krq_OldKeyID req"
  obtain r1 v1 dbo1 where a: "ro_ActivateKeyPair ?w \<lparr>akp_KeyID = ?new, akp_Address = dkr_ThresholdAddress c,
      akp_PublicKey = dkr_ThresholdPubKey c\<rparr> (v, dbo) = (r1, v1, dbo1)" by (metis prod_cases3)
  obtain r2 v2 dbo2 where s: "ro_SetKeyPairStatus ?w \<lparr>skp_KeyID = ?old, skp_Status = ''inactive''\<rparr> (v1, dbo1) = (r2, v2, dbo2)"
    by (metis prod_cases3)
  note a' = worker_activate [OF a] and s' = worker_set_status [OF s]
  have old1: "pairs_of dbo1 ?old = pairs_of dbo ?old" using a'(1) assms(3) by auto
  have new2: "pairs_of dbo2 ?new = pairs_of dbo1 ?new" using s'(1) assms(3) by auto
  have "(pairs_of dbo' ?old = pairs_of dbo ?old \<or> (\<exists>row. activated c row \<and> pairs_of dbo' ?new = Some row)) \<and>
    (fail = None \<longrightarrow> (\<exists>row. activated c row \<and> pairs_of dbo' ?new = Some row) \<and>
      (?old \<noteq> '''' \<longrightarrow> (\<exists>row. kp_status row = ''inactive'' \<and> pairs_of dbo' ?old = Some row)))"
  proof (cases r1)
    case (Inl e)
    then show ?thesis using assms(1,2) a old1 by (auto simp: flip_keys_def Let_def)
  next
    case (Inr u)
    then obtain row where row: "activated c row" "pairs_of dbo1 ?new = Some row" using a'(2) by auto
    show ?thesis
    proof (cases "?old = ''''")
      case True
      then show ?thesis using assms(1,2) a Inr old1 row by (auto simp: flip_keys_def Let_def)
    next
      case False
      then have "dbo' = dbo2" "fail = None \<Longrightarrow> r2 = Inr ()"
        using assms(1,2) a s Inr by (auto simp: flip_keys_def Let_def split: sum.splits)
      then show ?thesis using row new2 s'(2) by auto
    qed
  qed
  then show "pairs_of dbo' ?old = pairs_of dbo ?old \<or> (\<exists>row. activated c row \<and> pairs_of dbo' ?new = Some row)"
    "fail = None \<Longrightarrow> (\<exists>row. activated c row \<and> pairs_of dbo' ?new = Some row) \<and>
      (?old \<noteq> '''' \<longrightarrow> (\<exists>row. kp_status row = ''inactive'' \<and> pairs_of dbo' ?old = Some row))" by blast+
qed

lemma pair_active_pairs: "pair_active dbo key \<longleftrightarrow> (\<exists>row. pairs_of dbo key = Some row \<and> kp_status row = ''active'')"
  by (auto simp: pair_active_def pairs_of_def split: option.splits)

lemma rotation_cases:
  assumes "KeyRotationWorkflow acts req w = (calls, result, w')"
  obtains (ceremony) r where "ro_DKGCeremony acts (krq_NewCeremony req) w = (r, w')" "calls = [RunCeremony (krq_NewCeremony req)]"
      "krr_Status result = ''failed''"
  | (flip) c w1 calls1 e where "ro_DKGCeremony acts (krq_NewCeremony req) w = (Inr c, w1)" "dkr_Status c = ''completed''"
      "flip_keys acts req c w1 = (calls1, Some e, w')" "calls = RunCeremony (krq_NewCeremony req) # calls1" "krr_Status result = ''failed''"
  | (retire) c w1 calls1 w2 calls2 r where "ro_DKGCeremony acts (krq_NewCeremony req) w = (Inr c, w1)" "dkr_Status c = ''completed''"
      "flip_keys acts req c w1 = (calls1, None, w2)" "retire_old_shares acts req w2 = (calls2, r, w')"
      "calls = RunCeremony (krq_NewCeremony req) # calls1 @ calls2" "krr_NewCeremony result = Some c"
      "krr_Status result = (if isl r then ''failed'' else ''completed'')"
proof (cases "ro_DKGCeremony acts (krq_NewCeremony req) w")
  case (Pair r0 w1)
  show ?thesis
  proof (cases "\<exists>c. r0 = Inr c \<and> dkr_Status c = ''completed''")
    case False
    then show ?thesis using assms Pair ceremony by (auto simp: KeyRotationWorkflow_def rotation_failed_def split: sum.splits)
  next
    case True
    then obtain c where c: "r0 = Inr c" "dkr_Status c = ''completed''" by blast
    obtain calls1 fail w2 where f: "flip_keys acts req c w1 = (calls1, fail, w2)" by (metis prod_cases3)
    obtain calls2 r w3 where t: "retire_old_shares acts req w2 = (calls2, r, w3)" by (metis prod_cases3)
    show ?thesis
    proof (cases fail)
      case (Some e)
      then show ?thesis using assms Pair c f flip by (auto simp: KeyRotationWorkflow_def rotation_failed_def)
    next
      case None
      then show ?thesis using assms Pair c f t
        by (cases r) (auto simp: KeyRotationWorkflow_def rotation_failed_def intro: retire)
    qed
  qed
qed

text \<open>C9: A rotation that names the new key, by an id that is not the old key's, never leaves a customer without a
  usable key. Whatever fails, and wherever the database fails before or after a statement took effect, when the old key
  was active then afterwards the old or the new key is. Such a rotation, when it is reported as completed, has a
  completed ceremony, the new key active with exactly that ceremony's address and public key, and the old key no longer
  active. (The request may leave the new id empty; then the old key alone is switched off, see
  \<open>rotation_without_new_key\<close>.)\<close>

theorem rotation_never_keyless:
  assumes run: "KeyRotationWorkflow (rotation_worker dkg sleep deact uuid clock show showc) req (v, dbo) = (calls, result, v', dbo')"
    and ids: "krq_NewKeyID req \<noteq> ''''" "krq_NewKeyID req \<noteq> krq_OldKeyID req"
  shows "(pair_active dbo (krq_OldKeyID req) \<longrightarrow> pair_active dbo' (krq_OldKeyID req) \<or> pair_active dbo' (krq_NewKeyID req)) \<and>
    (krr_Status result = ''completed'' \<longrightarrow>
      (\<exists>c row. krr_NewCeremony result = Some c \<and> dkr_Status c = ''completed'' \<and> pairs_of dbo' (krq_NewKeyID req) = Some row \<and>
         activated c row \<and> (krq_OldKeyID req \<noteq> '''' \<longrightarrow> \<not> pair_active dbo' (krq_OldKeyID req))))"
  using run
proof (cases rule: rotation_cases)
  case (ceremony r)
  then show ?thesis using worker_leaves_db(1) by fastforce
next
  case (flip c w1 calls1 e)
  obtain v1 where w1: "w1 = (v1, dbo)" using flip(1) worker_leaves_db(1) by (cases w1) fastforce
  show ?thesis using worker_flip(1) [OF flip(3) [unfolded w1] ids] flip(5) by (auto simp: pair_active_pairs activated_def)
next
  case (retire c w1 calls1 w2 calls2 r)
  obtain v1 where w1: "w1 = (v1, dbo)" using retire(1) worker_leaves_db(1) by (cases w1) fastforce
  obtain v2 where w2: "w2 = (v2, dbo')" using retire(4) worker_retire_leaves_db by (cases w2) fastforce
  obtain row where "activated c row" "pairs_of dbo' (krq_NewKeyID req) = Some row"
    "krq_OldKeyID req \<noteq> '''' \<longrightarrow> (\<exists>row. kp_status row = ''inactive'' \<and> pairs_of dbo' (krq_OldKeyID req) = Some row)"
    using worker_flip(2) [OF retire(3) [unfolded w1 w2] ids] by blast
  then show ?thesis using retire(2,6) by (auto simp: pair_active_pairs activated_def)
qed

text \<open>Without an id for the new key, a completed rotation has switched the old key off and changed no other row.\<close>

lemma rotation_without_new_key:
  assumes run: "KeyRotationWorkflow (rotation_worker dkg sleep deact uuid clock show showc) req (v, dbo) = (calls, result, v', dbo')"
    and ids: "krq_NewKeyID req = ''''" "krq_OldKeyID req \<noteq> ''''" and ok: "krr_Status result = ''completed''"
  shows "\<exists>row. kp_status row = ''inactive'' \<and> pairs_of dbo' = (pairs_of dbo)(krq_OldKeyID req := Some row)"
  using run
proof (cases rule: rotation_cases)
  case (retire c w1 calls1 w2 calls2 r)
  obtain v1 where w1: "w1 = (v1, dbo)" using retire(1) worker_leaves_db(1) by (cases w1) fastforce
  obtain v2 where w2: "w2 = (v2, dbo')" using retire(4) worker_retire_leaves_db by (cases w2) fastforce
  have "ro_SetKeyPairStatus (rotation_worker dkg sleep deact uuid clock show showc)
      \<lparr>skp_KeyID = krq_OldKeyID req, skp_Status = ''inactive''\<rparr> (v1, dbo) = (Inr (), v2, dbo')"
    using retire(3) ids by (auto simp: w1 w2 flip_keys_def Let_def split: prod.splits sum.splits)
  from worker_set_status [OF this] show ?thesis by (metis fun_upd_triv)
qed (use ok in simp_all)

lemma flip_keys_None:
  assumes "flip_keys acts req c w = (calls, None, w')"
  obtains w1 where
    "if krq_NewKeyID req = '''' then w1 = w
     else ro_ActivateKeyPair acts \<lparr>akp_KeyID = krq_NewKeyID req, akp_Address = dkr_ThresholdAddress c,
            akp_PublicKey = dkr_ThresholdPubKey c\<rparr> w = (Inr (), w1)"
    "if krq_OldKeyID req = '''' then w' = w1
     else ro_SetKeyPairStatus acts \<lparr>skp_KeyID = krq_OldKeyID req, skp_Status = ''inactive''\<rparr> w1 = (Inr (), w')"
    "calls = (if krq_NewKeyID req = '''' then [] else [ActivateCall \<lparr>akp_KeyID = krq_NewKeyID req,
        akp_Address = dkr_ThresholdAddress c, akp_PublicKey = dkr_ThresholdPubKey c\<rparr>]) @
      (if krq_OldKeyID req = '''' then [] else [SetStatusCall \<lparr>skp_KeyID = krq_OldKeyID req, skp_Status = ''inactive''\<rparr>])"
  using assms by (auto simp: flip_keys_def Let_def split: prod.splits sum.splits if_splits)

lemma flip_keys_calls: "flip_keys acts req c w = (calls, r, w') \<Longrightarrow> DeactivateCall d \<notin> set calls"
  by (auto simp: flip_keys_def Let_def split: prod.splits sum.splits if_splits)

lemma retire_old_shares_call:
  assumes "retire_old_shares acts req w = (calls, r, w')" "DeactivateCall d \<in> set calls"
  obtains w1 x where
    "ro_Sleep acts (if krq_ShareRetention req \<le> 0 then 30 * 24 * 3600 * second else krq_ShareRetention req) w = (Inr (), w1)"
    "ro_DeactivateOldKeyShares acts d w1 = (x, w')"
    "d = \<lparr>dsr_CeremonyID = krq_OldCeremonyID req, dsr_PartyIDs = krq_OldPartyIDs req, dsr_PartyEndpoints = krq_OldPartyEndpoints req\<rparr>"
    "calls = [SleepCall (if krq_ShareRetention req \<le> 0 then 30 * 24 * 3600 * second else krq_ShareRetention req), DeactivateCall d]"
  using assms
  by (auto simp: retire_old_shares_def default_retention_def second_def Let_def split: prod.splits sum.splits if_splits)

text \<open>C10: Shares are destroyed last. A rotation that asks for the old shares to be destroyed does so as its last step,
  for the old ceremony and its parties, and everything before it succeeded, in this order, each step in the state the
  one before left: the ceremony of this rotation answered that it completed; the new key was activated with the address
  and the public key of that answer and the old key was set inactive (each where an id was given); and the workflow
  slept for the configured retention, or for thirty days when none is configured. No other call is made.\<close>

theorem rotation_retires_last:
  assumes "KeyRotationWorkflow acts req w = (calls, result, w')" "DeactivateCall d \<in> set calls"
  shows "\<exists>c a s retention w1 w2 w3 w4 x. ro_DKGCeremony acts (krq_NewCeremony req) w = (Inr c, w1) \<and> dkr_Status c = ''completed'' \<and>
    a = \<lparr>akp_KeyID = krq_NewKeyID req, akp_Address = dkr_ThresholdAddress c, akp_PublicKey = dkr_ThresholdPubKey c\<rparr> \<and>
    (if krq_NewKeyID req = '''' then w2 = w1 else ro_ActivateKeyPair acts a w1 = (Inr (), w2)) \<and>
    s = \<lparr>skp_KeyID = krq_OldKeyID req, skp_Status = ''inactive''\<rparr> \<and>
    (if krq_OldKeyID req = '''' then w3 = w2 else ro_SetKeyPairStatus acts s w2 = (Inr (), w3)) \<and>
    retention = (if krq_ShareRetention req \<le> 0 then 30 * 24 * 3600 * second else krq_ShareRetention req) \<and>
    ro_Sleep acts retention w3 = (Inr (), w4) \<and> ro_DeactivateOldKeyShares acts d w4 = (x, w') \<and>
    d = \<lparr>dsr_CeremonyID = krq_OldCeremonyID req, dsr_PartyIDs = krq_OldPartyIDs req, dsr_PartyEndpoints = krq_OldPartyEndpoints req\<rparr> \<and>
    calls = [RunCeremony (krq_NewCeremony req)] @ (if krq_NewKeyID req = '''' then [] else [ActivateCall a]) @
      (if krq_OldKeyID req = '''' then [] else [SetStatusCall s]) @ [SleepCall retention, DeactivateCall d]"
  using assms(1)
proof (cases rule: rotation_cases)
  case (flip c w1 calls1 e)
  then show ?thesis using assms(2) flip_keys_calls [OF flip(3)] by simp
next
  case (retire c w1 calls1 w2 calls2 r)
  have in2: "DeactivateCall d \<in> set calls2" using assms(2) retire(5) flip_keys_calls [OF retire(3)] by simp
  from retire(3) obtain w0 where f:
    "if krq_NewKeyID req = '''' then w0 = w1
     else ro_ActivateKeyPair acts \<lparr>akp_KeyID = krq_NewKeyID req, akp_Address = dkr_ThresholdAddress c,
            akp_PublicKey = dkr_ThresholdPubKey c\<rparr> w1 = (Inr (), w0)"
    "if krq_OldKeyID req = '''' then w2 = w0
     else ro_SetKeyPairStatus acts \<lparr>skp_KeyID = krq_OldKeyID req, skp_Status = ''inactive''\<rparr> w0 = (Inr (), w2)"
    "calls1 = (if krq_NewKeyID req = '''' then [] else [ActivateCall \<lparr>akp_KeyID = krq_NewKeyID req,
        akp_Address = dkr_ThresholdAddress c, akp_PublicKey = dkr_ThresholdPubKey c\<rparr>]) @
      (if krq_OldKeyID req = '''' then [] else [SetStatusCall \<lparr>skp_KeyID = krq_OldKeyID req, skp_Status = ''inactive''\<rparr>])"
    by (rule flip_keys_None)
  from retire(4) in2 obtain w4 x where
    "ro_Sleep acts (if krq_ShareRetention req \<le> 0 then 30 * 24 * 3600 * second else krq_ShareRetention req) w2 = (Inr (), w4)"
    "ro_DeactivateOldKeyShares acts d w4 = (x, w')"
    "d = \<lparr>dsr_CeremonyID = krq_OldCeremonyID req, dsr_PartyIDs = krq_OldPartyIDs req, dsr_PartyEndpoints = krq_OldPartyEndpoints req\<rparr>"
    "calls2 = [SleepCall (if krq_ShareRetention req \<le> 0 then 30 * 24 * 3600 * second else krq_ShareRetention req), DeactivateCall d]"
    by (rule retire_old_shares_call)
  then show ?thesis
    using f retire(1,2,5)
    by (intro exI [of _ c] exI [of _ w1] exI [of _ w0] exI [of _ w2] exI [of _ w4] exI [of _ x] exI conjI) simp_all
qed (use assms(2) in simp)

lemma worker_set_ceremony_pairs:
  "pairs_of (snd (set_ceremony (rotation_worker dkg sleep deact uuid clock show showc) cid status msg (v, dbo))) = pairs_of dbo"
proof -
  have s: "pairs_of (snd (SetCeremonyStatus uuid now req dbo)) = pairs_of dbo" for now req dbo
    by (auto simp: SetCeremonyStatus_def run_update_def exec_statement_def pairs_of_def Let_def
        split: option.splits fault.splits if_splits prod.splits)
  have "pairs_of (snd (snd (execute_activity (\<lambda>k. on_db (SetCeremonyStatus uuid (clock k) req)) k n (v, dbo)))) = pairs_of dbo" for req k n
  proof (induction n arbitrary: k dbo v)
    case 0
    show ?case using s by (auto simp: on_db_def split: prod.split) (metis snd_conv)
  next
    case (Suc n)
    obtain r dbo1 where u: "SetCeremonyStatus uuid (clock k) req dbo = (r, dbo1)" by fastforce
    have o: "on_db (SetCeremonyStatus uuid (clock k) req) (v, dbo) = (r, v, dbo1)" by (simp add: on_db_def u)
    show ?case using s [of "clock k" req dbo] Suc.IH [of "Suc k" v dbo1] by (cases r) (simp_all add: o u)
  qed
  then show ?thesis by (simp add: set_ceremony_def rotation_worker_def)
qed

text \<open>C12: A key is active only with a real ceremony behind it. Provisioning changes the table of keys only when the
  key generation completed, and then only to make the requested key active with that ceremony's address and public
  key; a run reported as completed has done so.\<close>

theorem provision_truthful:
  assumes run: "ProvisionKeyWorkflow (rotation_worker dkg sleep deact uuid clock show showc) req (v, dbo) = (result, v', dbo')"
  shows "(pairs_of dbo' = pairs_of dbo \<or> (\<exists>c row. pkx_Ceremony result = Some c \<and> dkr_Status c = ''completed'' \<and> activated c row \<and>
      pkr_KeyID req \<noteq> '''' \<and> pairs_of dbo' = (pairs_of dbo)(pkr_KeyID req := Some row))) \<and>
    (pkx_Status result = ''completed'' \<longrightarrow> (\<exists>c. pkx_Ceremony result = Some c \<and> dkr_Status c = ''completed'' \<and>
      (pkr_KeyID req \<noteq> '''' \<longrightarrow> (\<exists>row. activated c row \<and> pairs_of dbo' (pkr_KeyID req) = Some row))))"
proof -
  let ?w = "rotation_worker dkg sleep deact uuid clock show showc" and ?cid = "dkg_CeremonyID (pkr_Ceremony req)"
  have sc': "pairs_of (snd (set_ceremony ?w cid s m w)) = pairs_of (snd w)" for cid s m w
    using worker_set_ceremony_pairs [of dkg sleep deact uuid clock "show" showc cid s m "fst w" "snd w"] by simp
  obtain v0 dbo0 where w0: "set_ceremony ?w ?cid ''in_progress'' '''' (v, dbo) = (v0, dbo0)" by fastforce
  have p0: "pairs_of dbo0 = pairs_of dbo" using sc' [of ?cid "''in_progress''" "''''" "(v, dbo)"] w0 by simp
  obtain r1 v1 dbo1 where d: "ro_DKGCeremony ?w (pkr_Ceremony req) (v0, dbo0) = (r1, v1, dbo1)" by (metis prod_cases3)
  have p1: "pairs_of dbo1 = pairs_of dbo" using worker_leaves_db(1) [OF d] p0 by simp
  show ?thesis
  proof (cases "\<exists>c. r1 = Inr c \<and> dkr_Status c = ''completed''")
    case False
    then have "pkx_Status result = ''failed'' \<and> (\<exists>m. set_ceremony ?w ?cid ''failed'' m (v1, dbo1) = (v', dbo'))"
      using run w0 d by (auto simp: ProvisionKeyWorkflow_def markCeremonyFailed_def Let_def split: sum.splits)
    then have "pkx_Status result = ''failed''" "pairs_of dbo' = pairs_of dbo" using sc' p1 by (simp, metis snd_conv)
    then show ?thesis by simp
  next
    case True
    then obtain c where c: "r1 = Inr c" "dkr_Status c = ''completed''" by blast
    let ?a = "\<lparr>akp_KeyID = pkr_KeyID req, akp_Address = dkr_ThresholdAddress c, akp_PublicKey = dkr_ThresholdPubKey c\<rparr>"
    obtain r2 v2 dbo2 where a: "(if pkr_KeyID req \<noteq> '''' then ro_ActivateKeyPair ?w ?a (v1, dbo1) else (Inr (), v1, dbo1)) = (r2, v2, dbo2)"
      by (metis prod_cases3)
    have p2: "pairs_of dbo2 = pairs_of dbo \<or> (\<exists>row. activated c row \<and> pkr_KeyID req \<noteq> '''' \<and> pairs_of dbo2 = (pairs_of dbo)(pkr_KeyID req := Some row))"
      "r2 = Inr () \<Longrightarrow> pkr_KeyID req \<noteq> '''' \<Longrightarrow> \<exists>row. activated c row \<and> pairs_of dbo2 (pkr_KeyID req) = Some row"
    proof -
      have aa: "ro_ActivateKeyPair ?w ?a (v1, dbo1) = (r2, v2, dbo2)" if "pkr_KeyID req \<noteq> ''''" using a that by simp
      have "pairs_of dbo2 = pairs_of dbo" if "pkr_KeyID req = ''''" using a p1 that by simp
      then show "pairs_of dbo2 = pairs_of dbo \<or> (\<exists>row. activated c row \<and> pkr_KeyID req \<noteq> '''' \<and> pairs_of dbo2 = (pairs_of dbo)(pkr_KeyID req := Some row))"
        using worker_activate(1) [OF aa] p1 by (cases "pkr_KeyID req = ''''") simp_all
      show "\<exists>row. activated c row \<and> pairs_of dbo2 (pkr_KeyID req) = Some row" if "r2 = Inr ()" "pkr_KeyID req \<noteq> ''''"
        by (rule worker_activate(2) [OF aa]) (use that in simp_all)
    qed
    have res: "pkx_Ceremony result = Some c" "pkx_Status result = ''completed'' \<Longrightarrow> r2 = Inr ()"
      "\<exists>s m. set_ceremony ?w ?cid s m (v2, dbo2) = (v', dbo')"
      using run w0 d c a by (auto simp: ProvisionKeyWorkflow_def markCeremonyFailed_def Let_def split: sum.splits)
    have "pairs_of dbo' = pairs_of dbo2" using res(3) sc' by (metis snd_conv)
    then show ?thesis using p2 res c(2) by auto
  qed
qed

section \<open>Moving the balance of a retired key\<close>

definition sweepGasLimit :: u64 where
  "sweepGasLimit = 21000"

definition newLegacySweepTx :: "u64 \<Rightarrow> int \<Rightarrow> int \<Rightarrow> u64 \<Rightarrow> bytes \<Rightarrow> int \<Rightarrow> Transaction" where
  "newLegacySweepTx nonce gasPrice value gasLimit to evmChainID =
     \<lparr>tx_ChainID = Some evmChainID, tx_Nonce = nonce, tx_Gas = gasLimit, tx_GasPrice = Some gasPrice, tx_MaxFee = None, tx_Tip = None,
      tx_To = Some to, tx_Value = Some value, tx_Data = []\<rparr>"

record BuildSweepTransactionRequest =
  bsr_OldAddress :: string
  bsr_NewAddress :: string
  bsr_EVMChainID :: int

record BuildSweepTransactionResult =
  bsx_Skipped :: bool
  bsx_BalanceWei :: string
  bsx_Nonce :: u64
  bsx_GasLimit :: u64
  bsx_GasPriceWei :: string
  bsx_ValueWei :: string
  bsx_TxHashHex :: string

record AssembleSweepTransactionRequest =
  asr_NewAddress :: string
  asr_Nonce :: u64
  asr_GasLimit :: u64
  asr_GasPriceWei :: string
  asr_ValueWei :: string
  asr_EVMChainID :: int
  asr_Signature :: string
  asr_ExpectedFrom :: string

record AssembleSweepTransactionResult =
  asx_SignedTxHex :: string
  asx_TxHash :: string

datatype sweep_error =
    InvalidAddress string
  | SweepRpc rpc_error
  | SweepTx tx_error
  | BadWei string
  | SignatureNotHex
  | SignatureSize nat
  | SweepSigning worker_error
  | SweepBroadcast activity_error

definition BuildSweepTransaction ::
  "('w, 'j) rpc_node \<Rightarrow> btcec \<Rightarrow> Activities \<Rightarrow> BuildSweepTransactionRequest \<Rightarrow> 'w \<Rightarrow> (sweep_error + BuildSweepTransactionResult) \<times> 'w" where
  "BuildSweepTransaction node lib a req w =
     (if \<not> IsHexAddress (bsr_OldAddress req) then (Inl (InvalidAddress (bsr_OldAddress req)), w)
      else case ParseAddress (bsr_NewAddress req) of
        Inl _ \<Rightarrow> (Inl (InvalidAddress (bsr_NewAddress req)), w)
      | Inr toAddr \<Rightarrow>
      (case Dial (act_EthereumRPC a) of
        Inl e \<Rightarrow> (Inl (SweepRpc e), w)
      | Inr url \<Rightarrow>
      (case BalanceAt node url (bsr_OldAddress req) w of
        (Inl e, w1) \<Rightarrow> (Inl (SweepRpc e), w1)
      | (Inr balance, w1) \<Rightarrow>
      (case SuggestGasPrice node url w1 of
        (Inl e, w2) \<Rightarrow> (Inl (SweepRpc e), w2)
      | (Inr gasPrice, w2) \<Rightarrow>
      (let fee = gasPrice * uint sweepGasLimit; value = balance - fee in
       if value \<le> 0 then
         (Inr \<lparr>bsx_Skipped = True, bsx_BalanceWei = dec_int balance, bsx_Nonce = 0, bsx_GasLimit = 0, bsx_GasPriceWei = '''',
               bsx_ValueWei = '''', bsx_TxHashHex = ''''\<rparr>, w2)
       else case PendingNonceAt node url (bsr_OldAddress req) w2 of
         (Inl e, w3) \<Rightarrow> (Inl (SweepRpc e), w3)
       | (Inr nonce, w3) \<Rightarrow>
           (case SigningHash lib (newLegacySweepTx nonce gasPrice value sweepGasLimit toAddr (bsr_EVMChainID req)) of
              Inl e \<Rightarrow> (Inl (SweepTx e), w3)
            | Inr h \<Rightarrow>
                (Inr \<lparr>bsx_Skipped = False, bsx_BalanceWei = dec_int balance, bsx_Nonce = nonce, bsx_GasLimit = sweepGasLimit,
                      bsx_GasPriceWei = dec_int gasPrice, bsx_ValueWei = dec_int value, bsx_TxHashHex = hex_encode h\<rparr>, w3)))))))"

definition AssembleSweepTransaction ::
  "btcec \<Rightarrow> AssembleSweepTransactionRequest \<Rightarrow> sweep_error + AssembleSweepTransactionResult" where
  "AssembleSweepTransaction lib req =
     (case ParseAddress (asr_NewAddress req) of
        Inl _ \<Rightarrow> Inl (InvalidAddress (asr_NewAddress req))
      | Inr toAddr \<Rightarrow>
          if \<not> IsHexAddress (asr_ExpectedFrom req) then Inl (InvalidAddress (asr_ExpectedFrom req))
          else case big_dec (asr_GasPriceWei req) of
            None \<Rightarrow> Inl (BadWei (asr_GasPriceWei req))
          | Some gasPrice \<Rightarrow>
              (case big_dec (asr_ValueWei req) of
                 None \<Rightarrow> Inl (BadWei (asr_ValueWei req))
               | Some value \<Rightarrow>
                   (case hex_decode (asr_Signature req) of
                      None \<Rightarrow> Inl SignatureNotHex
                    | Some sigBytes \<Rightarrow>
                        if length sigBytes \<noteq> 65 then Inl (SignatureSize (length sigBytes))
                        else (case WithSignature lib (newLegacySweepTx (asr_Nonce req) gasPrice value (asr_GasLimit req) toAddr (asr_EVMChainID req))
                                     sigBytes (asr_ExpectedFrom req) of
                                Inl e \<Rightarrow> Inl (SweepTx e)
                              | Inr st \<Rightarrow> Inr \<lparr>asx_SignedTxHex = ''0x'' @ hex_encode (st_Raw st), asx_TxHash = ''0x'' @ hex_encode (st_Hash st)\<rparr>))))"

record BalanceMigrationRequest =
  bmq_ChainID :: string
  bmq_EVMChainID :: int
  bmq_OldCeremonyID :: string
  bmq_OldAddress :: string
  bmq_NewAddress :: string
  bmq_PartyIDs :: "int list"
  bmq_PartyEndpoints :: "string list"

record BalanceMigrationResult =
  bmr_Status :: string
  bmr_SweptWei :: string
  bmr_SignedTxHex :: string
  bmr_TxHash :: string
  bmr_Error :: "sweep_error option"

text \<open>The activities of the migration after their retries.\<close>

record 'w migration_acts =
  ma_Build :: "BuildSweepTransactionRequest \<Rightarrow> 'w \<Rightarrow> (sweep_error + BuildSweepTransactionResult) \<times> 'w"
  ma_Sign :: "ThresholdSigningRequest \<Rightarrow> 'w \<Rightarrow> (worker_error + ThresholdSigningResult) \<times> 'w"
  ma_Assemble :: "AssembleSweepTransactionRequest \<Rightarrow> 'w \<Rightarrow> (sweep_error + AssembleSweepTransactionResult) \<times> 'w"
  ma_Broadcast :: "string \<Rightarrow> 'w \<Rightarrow> (activity_error + BroadcastResult) \<times> 'w"

definition migration_failed :: "sweep_error option \<Rightarrow> BalanceMigrationResult" where
  "migration_failed e = \<lparr>bmr_Status = ''failed'', bmr_SweptWei = '''', bmr_SignedTxHex = '''', bmr_TxHash = '''', bmr_Error = e\<rparr>"

definition BalanceMigrationWorkflow :: "'w migration_acts \<Rightarrow> BalanceMigrationRequest \<Rightarrow> 'w \<Rightarrow> BalanceMigrationResult \<times> 'w" where
  "BalanceMigrationWorkflow acts req w =
     (case ma_Build acts \<lparr>bsr_OldAddress = bmq_OldAddress req, bsr_NewAddress = bmq_NewAddress req, bsr_EVMChainID = bmq_EVMChainID req\<rparr> w of
        (Inl e, w1) \<Rightarrow> (migration_failed (Some e), w1)
      | (Inr built, w1) \<Rightarrow>
          if bsx_Skipped built then
            (\<lparr>bmr_Status = ''skipped_zero_balance'', bmr_SweptWei = bsx_BalanceWei built, bmr_SignedTxHex = '''', bmr_TxHash = '''',
              bmr_Error = None\<rparr>, w1)
          else (case ma_Sign acts \<lparr>tsr_CeremonyID = bmq_OldCeremonyID req, tsr_Message = bsx_TxHashHex built, tsr_PartyIDs = bmq_PartyIDs req,
                       tsr_PartyEndpoints = bmq_PartyEndpoints req, tsr_ChainID = bmq_ChainID req\<rparr> w1 of
             (Inl e, w2) \<Rightarrow> (migration_failed (Some (SweepSigning e)), w2)
           | (Inr signResult, w2) \<Rightarrow>
               if tsg_Status signResult \<noteq> ''completed'' then (migration_failed (map_option SweepSigning (tsg_Error signResult)), w2)
               else (case ma_Assemble acts \<lparr>asr_NewAddress = bmq_NewAddress req, asr_Nonce = bsx_Nonce built, asr_GasLimit = bsx_GasLimit built,
                            asr_GasPriceWei = bsx_GasPriceWei built, asr_ValueWei = bsx_ValueWei built, asr_EVMChainID = bmq_EVMChainID req,
                            asr_Signature = tsg_Signature signResult, asr_ExpectedFrom = bmq_OldAddress req\<rparr> w2 of
                  (Inl e, w3) \<Rightarrow> (migration_failed (Some e), w3)
                | (Inr assembled, w3) \<Rightarrow>
                    (case ma_Broadcast acts (asx_SignedTxHex assembled) w3 of
                       (Inl e, w4) \<Rightarrow>
                         (\<lparr>bmr_Status = ''signed_not_broadcast'', bmr_SweptWei = bsx_ValueWei built, bmr_SignedTxHex = asx_SignedTxHex assembled,
                           bmr_TxHash = '''', bmr_Error = Some (SweepBroadcast e)\<rparr>, w4)
                     | (Inr b, w4) \<Rightarrow>
                         (\<lparr>bmr_Status = ''completed'', bmr_SweptWei = bsx_ValueWei built, bmr_SignedTxHex = asx_SignedTxHex assembled,
                           bmr_TxHash = bcr_TxHash b, bmr_Error = None\<rparr>, w4)))))"

text \<open>The worker's activities, each tried three times; the signing is the committee's answer, whatever it is.\<close>

definition migration_worker ::
  "('w, 'j) rpc_node \<Rightarrow> btcec \<Rightarrow> Activities \<Rightarrow> (ThresholdSigningRequest \<Rightarrow> 'w \<Rightarrow> (worker_error + ThresholdSigningResult) \<times> 'w)
     \<Rightarrow> 'w migration_acts" where
  "migration_worker node lib a committee =
     \<lparr>ma_Build = (\<lambda>req. execute_activity (\<lambda>_. BuildSweepTransaction node lib a req) 0 2),
      ma_Sign = committee,
      ma_Assemble = (\<lambda>req. execute_activity (\<lambda>_ w. (AssembleSweepTransaction lib req, w)) 0 2),
      ma_Broadcast = (\<lambda>tx. execute_activity (\<lambda>_. BroadcastTransaction node lib a tx) 0 2)\<rparr>"

lemma uint_sweepGasLimit [simp]: "uint sweepGasLimit = 21000"
  by (simp add: sweepGasLimit_def)

lemma BuildSweepTransaction_Inr:
  assumes "BuildSweepTransaction node lib a req w = (Inr built, w')" "\<not> bsx_Skipped built"
  obtains to url balance gasPrice nonce h w1 w2 where "ParseAddress (bsr_NewAddress req) = Inr to" "Dial (act_EthereumRPC a) = Inr url"
    "BalanceAt node url (bsr_OldAddress req) w = (Inr balance, w1)" "SuggestGasPrice node url w1 = (Inr gasPrice, w2)"
    "PendingNonceAt node url (bsr_OldAddress req) w2 = (Inr nonce, w')" "0 < balance - gasPrice * 21000"
    "SigningHash lib (newLegacySweepTx nonce gasPrice (balance - gasPrice * 21000) sweepGasLimit to (bsr_EVMChainID req)) = Inr h"
    "built = \<lparr>bsx_Skipped = False, bsx_BalanceWei = dec_int balance, bsx_Nonce = nonce, bsx_GasLimit = sweepGasLimit,
       bsx_GasPriceWei = dec_int gasPrice, bsx_ValueWei = dec_int (balance - gasPrice * 21000), bsx_TxHashHex = hex_encode h\<rparr>"
  using assms
  by (auto simp: BuildSweepTransaction_def Let_def not_le split: if_splits sum.splits prod.splits)

lemma AssembleSweepTransaction_Inr:
  assumes "AssembleSweepTransaction lib req = Inr asm"
  obtains to gasPrice val sig st where "ParseAddress (asr_NewAddress req) = Inr to" "IsHexAddress (asr_ExpectedFrom req)"
    "big_dec (asr_GasPriceWei req) = Some gasPrice" "big_dec (asr_ValueWei req) = Some val" "hex_decode (asr_Signature req) = Some sig"
    "WithSignature lib (newLegacySweepTx (asr_Nonce req) gasPrice val (asr_GasLimit req) to (asr_EVMChainID req)) sig (asr_ExpectedFrom req) = Inr st"
    "asx_SignedTxHex asm = ''0x'' @ hex_encode (st_Raw st)"
  using assms by (auto simp: AssembleSweepTransaction_def split: if_splits sum.splits option.splits)

lemma IsHexAddress_nonempty: "IsHexAddress a \<Longrightarrow> a \<noteq> []"
  by (auto simp: IsHexAddress_def ParseAddress_def trim_prefix_def split: sum.splits)

lemma migration_cases:
  assumes "BalanceMigrationWorkflow acts req w = (r, w')" "bmr_Status r \<in> {''completed'', ''signed_not_broadcast''}"
  obtains built sr asm w1 w2 w3 bc where "ma_Build acts \<lparr>bsr_OldAddress = bmq_OldAddress req,
      bsr_NewAddress = bmq_NewAddress req, bsr_EVMChainID = bmq_EVMChainID req\<rparr> w = (Inr built, w1)" "\<not> bsx_Skipped built"
    "ma_Sign acts \<lparr>tsr_CeremonyID = bmq_OldCeremonyID req, tsr_Message = bsx_TxHashHex built, tsr_PartyIDs = bmq_PartyIDs req,
        tsr_PartyEndpoints = bmq_PartyEndpoints req, tsr_ChainID = bmq_ChainID req\<rparr> w1 = (Inr sr, w2)" "tsg_Status sr = ''completed''"
    "ma_Assemble acts \<lparr>asr_NewAddress = bmq_NewAddress req, asr_Nonce = bsx_Nonce built,
        asr_GasLimit = bsx_GasLimit built, asr_GasPriceWei = bsx_GasPriceWei built, asr_ValueWei = bsx_ValueWei built,
        asr_EVMChainID = bmq_EVMChainID req, asr_Signature = tsg_Signature sr, asr_ExpectedFrom = bmq_OldAddress req\<rparr> w2 = (Inr asm, w3)"
    "ma_Broadcast acts (asx_SignedTxHex asm) w3 = (bc, w')"
    "bmr_SignedTxHex r = asx_SignedTxHex asm" "bmr_SweptWei r = bsx_ValueWei built"
    "case bc of Inl e \<Rightarrow> bmr_Status r = ''signed_not_broadcast'' | Inr b \<Rightarrow> bmr_Status r = ''completed'' \<and> bmr_TxHash r = bcr_TxHash b"
  using assms
  by (auto simp: BalanceMigrationWorkflow_def migration_failed_def split: if_splits sum.splits prod.splits)

lemma assembled_from:
  assumes "ma_Assemble (migration_worker node lib a committee) req w = (Inr asm, w')" "ParseAddress (asr_NewAddress req) = Inr to"
  shows "\<exists>gasPrice val sig st. IsHexAddress (asr_ExpectedFrom req) \<and>
    big_dec (asr_GasPriceWei req) = Some gasPrice \<and> big_dec (asr_ValueWei req) = Some val \<and> hex_decode (asr_Signature req) = Some sig \<and>
    WithSignature lib (newLegacySweepTx (asr_Nonce req) gasPrice val (asr_GasLimit req) to (asr_EVMChainID req)) sig (asr_ExpectedFrom req) = Inr st \<and>
    asx_SignedTxHex asm = ''0x'' @ hex_encode (st_Raw st)"
proof -
  have "AssembleSweepTransaction lib req = Inr asm"
    using assms(1) execute_activity_Inr by (fastforce simp: migration_worker_def)
  then show ?thesis using assms(2) by (auto elim!: AssembleSweepTransaction_Inr)
qed

lemma execute_activity_last: "execute_activity act k n w = (x, w') \<Longrightarrow> \<exists>k' w0. act k' w0 = (x, w')"
  by (induction act k n w rule: execute_activity.induct) (auto split: prod.splits sum.splits)

text \<open>The broadcast of a transaction that decodes is the node's answer to exactly these bytes.\<close>

lemma broadcast_of_decodable:
  assumes "ma_Broadcast (migration_worker node lib a committee) (''0x'' @ hex_encode raw) w = (bc, w')" "Dial (act_EthereumRPC a) = Inr url"
    and "DecodeSignedTransaction lib raw = Inr info"
  shows "\<exists>v. case bc of
      Inl e \<Rightarrow> \<exists>e'. SendRawTransaction node url (''0x'' @ hex_encode raw) v = (Inl e', w')
    | Inr b \<Rightarrow> (\<exists>h. SendRawTransaction node url (''0x'' @ hex_encode raw) v = (Inr h, w')) \<and>
        bcr_TxHash b = ''0x'' @ hex_encode (TransactionHash lib raw)"
proof -
  obtain v where "BroadcastTransaction node lib a (''0x'' @ hex_encode raw) v = (bc, w')"
    using assms(1) execute_activity_last by (fastforce simp: migration_worker_def)
  then show ?thesis
    using assms(2,3) by (intro exI [of _ v]) (auto simp: BroadcastTransaction_def trim_prefix_def split: sum.splits prod.splits)
qed

text \<open>The second item of a signed legacy transaction is its gas price.\<close>

lemma legacy_gas_price:
  assumes "WithSignature lib t sig from = Inr st" "go_len (st_Raw st)" "\<not> IsDynamic t" "tx_GasPrice t = Some g"
  shows "\<exists>items. splitList (st_Raw st) = Inr items \<and> length items = 9 \<and> int (bytes_nat (items ! 1)) = g"
  using assms(1)
proof (rule WithSignature_Inr)
  fix digest recovery r s
  assume v: "validate t = None" and rs: "0 \<le> r" "0 \<le> s" and p: "signed_payload t recovery r s = Inr (st_Raw st)"
  obtain c where c: "tx_ChainID t = Some c" "0 < c" using validate_NoneD(1) [OF v] by auto
  let ?q = "concat (map enc_item (legacy_items t @ [big_item (Some (uint ((ucast recovery :: u64) + 35) + c * 2)), big_item (Some r), big_item (Some s)]))"
  have raw: "st_Raw st = rlpList ?q" and ok: "amounts_ok t" using p signed_payload_legacy [OF assms(3) rs c] by simp_all
  have "nonneg_opt (Some g)" using ok assms(3,4) by (simp add: amounts_ok_def)
  then have "int (bytes_nat (payload_of (big_item (Some g)))) = g" by (simp add: payload_big_item)
  moreover have "go_len (rlpList ?q)" using assms(2) raw by simp
  ultimately show ?thesis using splitList_items [of "legacy_items t @ [big_item (Some (uint ((ucast recovery :: u64) + 35) + c * 2)), big_item (Some r), big_item (Some s)]"]
    assms(4) by (simp add: raw legacy_items_def)
qed

text \<open>What the worker's migration did when it returns a signed transaction.\<close>

lemma migration_steps:
  assumes run: "BalanceMigrationWorkflow (migration_worker node lib a committee) req w = (r, w')"
    and ok: "bmr_Status r \<in> {''completed'', ''signed_not_broadcast''}"
  obtains to url balance gasPrice nonce digest sig st sr v v1 v2 v3 v4 v5 bc where
    "ParseAddress (bmq_NewAddress req) = Inr to" "Dial (act_EthereumRPC a) = Inr url"
    "BalanceAt node url (bmq_OldAddress req) v = (Inr balance, v1)" "SuggestGasPrice node url v1 = (Inr gasPrice, v2)"
    "PendingNonceAt node url (bmq_OldAddress req) v2 = (Inr nonce, v3)" "0 < balance - gasPrice * 21000"
    "SigningHash lib (newLegacySweepTx nonce gasPrice (balance - gasPrice * 21000) sweepGasLimit to (bmq_EVMChainID req)) = Inr digest"
    "committee \<lparr>tsr_CeremonyID = bmq_OldCeremonyID req, tsr_Message = hex_encode digest, tsr_PartyIDs = bmq_PartyIDs req,
       tsr_PartyEndpoints = bmq_PartyEndpoints req, tsr_ChainID = bmq_ChainID req\<rparr> v3 = (Inr sr, v4)" "tsg_Status sr = ''completed''"
    "hex_decode (tsg_Signature sr) = Some sig"
    "WithSignature lib (newLegacySweepTx nonce gasPrice (balance - gasPrice * 21000) sweepGasLimit to (bmq_EVMChainID req)) sig
       (bmq_OldAddress req) = Inr st" "bmq_OldAddress req \<noteq> ''''"
    "bmr_SignedTxHex r = ''0x'' @ hex_encode (st_Raw st)" "bmr_SweptWei r = dec_int (balance - gasPrice * 21000)"
    "ma_Broadcast (migration_worker node lib a committee) (''0x'' @ hex_encode (st_Raw st)) v5 = (bc, w')"
    "case bc of Inl e \<Rightarrow> bmr_Status r = ''signed_not_broadcast'' | Inr b \<Rightarrow> bmr_Status r = ''completed'' \<and> bmr_TxHash r = bcr_TxHash b"
  using run ok
proof (rule migration_cases)
  let ?acts = "migration_worker node lib a committee"
  fix built sr asm w1 w2 w3 bc
  assume b: "ma_Build ?acts \<lparr>bsr_OldAddress = bmq_OldAddress req, bsr_NewAddress = bmq_NewAddress req, bsr_EVMChainID = bmq_EVMChainID req\<rparr> w
        = (Inr built, w1)" "\<not> bsx_Skipped built"
    and s: "ma_Sign ?acts \<lparr>tsr_CeremonyID = bmq_OldCeremonyID req, tsr_Message = bsx_TxHashHex built, tsr_PartyIDs = bmq_PartyIDs req,
        tsr_PartyEndpoints = bmq_PartyEndpoints req, tsr_ChainID = bmq_ChainID req\<rparr> w1 = (Inr sr, w2)" "tsg_Status sr = ''completed''"
    and m: "ma_Assemble ?acts \<lparr>asr_NewAddress = bmq_NewAddress req, asr_Nonce = bsx_Nonce built,
        asr_GasLimit = bsx_GasLimit built, asr_GasPriceWei = bsx_GasPriceWei built, asr_ValueWei = bsx_ValueWei built,
        asr_EVMChainID = bmq_EVMChainID req, asr_Signature = tsg_Signature sr, asr_ExpectedFrom = bmq_OldAddress req\<rparr> w2 = (Inr asm, w3)"
    and bc: "ma_Broadcast ?acts (asx_SignedTxHex asm) w3 = (bc, w')"
    and r: "bmr_SignedTxHex r = asx_SignedTxHex asm" "bmr_SweptWei r = bsx_ValueWei built"
      "case bc of Inl e \<Rightarrow> bmr_Status r = ''signed_not_broadcast'' | Inr b \<Rightarrow> bmr_Status r = ''completed'' \<and> bmr_TxHash r = bcr_TxHash b"
  obtain v where "BuildSweepTransaction node lib a \<lparr>bsr_OldAddress = bmq_OldAddress req, bsr_NewAddress = bmq_NewAddress req,
      bsr_EVMChainID = bmq_EVMChainID req\<rparr> v = (Inr built, w1)"
    using b(1) execute_activity_Inr by (fastforce simp: migration_worker_def)
  then obtain to url balance gasPrice nonce h v1 v2 where
    built: "ParseAddress (bmq_NewAddress req) = Inr to" "Dial (act_EthereumRPC a) = Inr url"
      "BalanceAt node url (bmq_OldAddress req) v = (Inr balance, v1)" "SuggestGasPrice node url v1 = (Inr gasPrice, v2)"
      "PendingNonceAt node url (bmq_OldAddress req) v2 = (Inr nonce, w1)" "0 < balance - gasPrice * 21000"
      "SigningHash lib (newLegacySweepTx nonce gasPrice (balance - gasPrice * 21000) sweepGasLimit to (bmq_EVMChainID req)) = Inr h"
      "built = \<lparr>bsx_Skipped = False, bsx_BalanceWei = dec_int balance, bsx_Nonce = nonce, bsx_GasLimit = sweepGasLimit,
         bsx_GasPriceWei = dec_int gasPrice, bsx_ValueWei = dec_int (balance - gasPrice * 21000), bsx_TxHashHex = hex_encode h\<rparr>"
    using b(2) by (rule BuildSweepTransaction_Inr) simp
  let ?tx = "newLegacySweepTx nonce gasPrice (balance - gasPrice * 21000) sweepGasLimit to (bmq_EVMChainID req)"
  obtain sig st where sig: "hex_decode (tsg_Signature sr) = Some sig" "WithSignature lib ?tx sig (bmq_OldAddress req) = Inr st"
      "IsHexAddress (bmq_OldAddress req)" "asx_SignedTxHex asm = ''0x'' @ hex_encode (st_Raw st)"
    using assembled_from [OF m] built(1) by (auto simp: built(8))
  show thesis
    by (rule that [OF built(1-7) _ s(2) sig(1,2) IsHexAddress_nonempty [OF sig(3)] _ _ _ r(3)])
      (use s(1) built(8) r(1,2) sig(4) bc in \<open>simp_all add: migration_worker_def\<close>)
qed

text \<open>C13: The sweep moves what the chain says is there, to the new address, signed by the old key. Whatever the signing
  committee answered, a migration that returns a signed transaction (its status is completed or signed_not_broadcast)
  built the legacy transaction that pays the new address, on the requested chain and with the node's next nonce, the
  balance the node reported for the old address less 21000 gas at the gas price the node then quoted; asked the
  committee to sign exactly the digest of this transaction; and returns this transaction with the committee's signature,
  which recovers over that digest to the old address. The returned bytes decode to that value, gas, recipient, nonce and
  chain, and their second item is that gas price. The status is completed exactly when the node accepted those very
  bytes; otherwise it is signed_not_broadcast, and the node was handed them and did not accept them.\<close>

theorem sweep_moves_whole_balance:
  assumes run: "BalanceMigrationWorkflow (migration_worker node lib a committee) req w = (r, w')"
    and ok: "bmr_Status r \<in> {''completed'', ''signed_not_broadcast''}" and len: "go_len (bmr_SignedTxHex r)"
  shows "\<exists>url balance gasPrice nonce to tx digest sr sig from raw info items v v1 v2 v3 v4 v5.
    Dial (act_EthereumRPC a) = Inr url \<and> BalanceAt node url (bmq_OldAddress req) v = (Inr balance, v1) \<and>
    SuggestGasPrice node url v1 = (Inr gasPrice, v2) \<and> PendingNonceAt node url (bmq_OldAddress req) v2 = (Inr nonce, v3) \<and>
    ParseAddress (bmq_NewAddress req) = Inr to \<and>
    tx = \<lparr>tx_ChainID = Some (bmq_EVMChainID req), tx_Nonce = nonce, tx_Gas = 21000, tx_GasPrice = Some gasPrice, tx_MaxFee = None,
          tx_Tip = None, tx_To = Some to, tx_Value = Some (balance - gasPrice * 21000), tx_Data = []\<rparr> \<and>
    SigningHash lib tx = Inr digest \<and>
    committee \<lparr>tsr_CeremonyID = bmq_OldCeremonyID req, tsr_Message = hex_encode digest, tsr_PartyIDs = bmq_PartyIDs req,
        tsr_PartyEndpoints = bmq_PartyEndpoints req, tsr_ChainID = bmq_ChainID req\<rparr> v3 = (Inr sr, v4) \<and>
    tsg_Status sr = ''completed'' \<and> hex_decode (tsg_Signature sr) = Some sig \<and>
    RecoverAddress lib digest sig = Inr from \<and> ParseAddress from = ParseAddress (bmq_OldAddress req) \<and>
    WithSignature lib tx sig (bmq_OldAddress req) = Inr \<lparr>st_Raw = raw, st_Hash = TransactionHash lib raw, st_From = from\<rparr> \<and>
    bmr_SignedTxHex r = ''0x'' @ hex_encode raw \<and> bmr_SweptWei r = dec_int (balance - gasPrice * 21000) \<and>
    DecodeSignedTransaction lib raw = Inr info \<and> info_Value info + gasPrice * int (unat (info_Gas info)) = balance \<and>
    info_Gas info = 21000 \<and> 0 < info_Value info \<and> info_To info = Some to \<and> info_Nonce info = nonce \<and>
    info_ChainID info = Some (bmq_EVMChainID req) \<and> splitList raw = Inr items \<and> int (bytes_nat (items ! 1)) = gasPrice \<and>
    (if bmr_Status r = ''completed'' then
       (\<exists>h. SendRawTransaction node url (bmr_SignedTxHex r) v5 = (Inr h, w')) \<and> bmr_TxHash r = ''0x'' @ hex_encode (TransactionHash lib raw)
     else \<exists>e. SendRawTransaction node url (bmr_SignedTxHex r) v5 = (Inl e, w'))"
  using run ok
proof (rule migration_steps)
  fix to url balance gasPrice nonce digest sig st sr v v1 v2 v3 v4 v6 bc
  let ?tx = "newLegacySweepTx nonce gasPrice (balance - gasPrice * 21000) sweepGasLimit to (bmq_EVMChainID req)"
  assume built: "ParseAddress (bmq_NewAddress req) = Inr to" "Dial (act_EthereumRPC a) = Inr url"
      "BalanceAt node url (bmq_OldAddress req) v = (Inr balance, v1)" "SuggestGasPrice node url v1 = (Inr gasPrice, v2)"
      "PendingNonceAt node url (bmq_OldAddress req) v2 = (Inr nonce, v3)" "0 < balance - gasPrice * 21000" "SigningHash lib ?tx = Inr digest"
    and s: "committee \<lparr>tsr_CeremonyID = bmq_OldCeremonyID req, tsr_Message = hex_encode digest, tsr_PartyIDs = bmq_PartyIDs req,
       tsr_PartyEndpoints = bmq_PartyEndpoints req, tsr_ChainID = bmq_ChainID req\<rparr> v3 = (Inr sr, v4)" "tsg_Status sr = ''completed''"
      "hex_decode (tsg_Signature sr) = Some sig"
    and st: "WithSignature lib ?tx sig (bmq_OldAddress req) = Inr st" "bmq_OldAddress req \<noteq> ''''"
    and r: "bmr_SignedTxHex r = ''0x'' @ hex_encode (st_Raw st)" "bmr_SweptWei r = dec_int (balance - gasPrice * 21000)"
    and bc: "ma_Broadcast (migration_worker node lib a committee) (''0x'' @ hex_encode (st_Raw st)) v6 = (bc, w')"
      "case bc of Inl e \<Rightarrow> bmr_Status r = ''signed_not_broadcast'' | Inr b \<Rightarrow> bmr_Status r = ''completed'' \<and> bmr_TxHash r = bcr_TxHash b"
  have g: "go_len (st_Raw st)" using len by (simp add: r(1) go_len_def)
  from decode_WithSignature [OF st(1) g] have dec: "DecodeSignedTransaction lib (st_Raw st) = Inr \<lparr>info_Type = 0,
      info_Hash = st_Hash st, info_Nonce = nonce, info_Gas = sweepGasLimit, info_Value = balance - gasPrice * 21000, info_To = Some to,
      info_ChainID = Some (bmq_EVMChainID req)\<rparr>" by (simp add: newLegacySweepTx_def IsDynamic_def)
  obtain items where items: "splitList (st_Raw st) = Inr items" "int (bytes_nat (items ! 1)) = gasPrice"
    using legacy_gas_price [OF st(1) g] by (auto simp: newLegacySweepTx_def IsDynamic_def)
  obtain d where from_: "SigningHash lib ?tx = Inr d" "RecoverAddress lib d sig = Inr (st_From st)"
      "ParseAddress (st_From st) = ParseAddress (bmq_OldAddress req)" "st_Hash st = TransactionHash lib (st_Raw st)"
    using WithSignature_from [OF st] by auto
  have whole: "WithSignature lib ?tx sig (bmq_OldAddress req) = Inr \<lparr>st_Raw = st_Raw st, st_Hash = TransactionHash lib (st_Raw st), st_From = st_From st\<rparr>"
    using st(1) from_(4) by (cases st) simp
  obtain v5 where sent: "if bmr_Status r = ''completed'' then (\<exists>h. SendRawTransaction node url (bmr_SignedTxHex r) v5 = (Inr h, w')) \<and>
         bmr_TxHash r = ''0x'' @ hex_encode (TransactionHash lib (st_Raw st))
       else \<exists>e. SendRawTransaction node url (bmr_SignedTxHex r) v5 = (Inl e, w')"
    using broadcast_of_decodable [OF bc(1) built(2) dec] bc(2) r(1) by (cases bc) auto
  have tx: "?tx = \<lparr>tx_ChainID = Some (bmq_EVMChainID req), tx_Nonce = nonce, tx_Gas = 21000, tx_GasPrice = Some gasPrice, tx_MaxFee = None,
      tx_Tip = None, tx_To = Some to, tx_Value = Some (balance - gasPrice * 21000), tx_Data = []\<rparr>"
    by (simp add: newLegacySweepTx_def sweepGasLimit_def)
  have recovered: "RecoverAddress lib digest sig = Inr (st_From st)" using from_(1,2) built(7) by simp
  show ?thesis
    by (rule exI [of _ url], rule exI [of _ balance], rule exI [of _ gasPrice], rule exI [of _ nonce], rule exI [of _ to], rule exI [of _ ?tx],
        rule exI [of _ digest], rule exI [of _ sr], rule exI [of _ sig], rule exI [of _ "st_From st"], rule exI [of _ "st_Raw st"],
        rule exI, rule exI [of _ items], rule exI [of _ v], rule exI [of _ v1], rule exI [of _ v2], rule exI [of _ v3], rule exI [of _ v4],
        rule exI [of _ v5], intro conjI)
      (rule built s dec from_(3) recovered whole items r sent tx | use built(6) in \<open>simp add: sweepGasLimit_def\<close>)+
qed

section \<open>Examples\<close>

definition demo_completed :: DKGCeremonyResult where
  "demo_completed = \<lparr>dkr_CeremonyID = ''c2'', dkr_Status = ''completed'', dkr_ThresholdAddress = ''0xnew'', dkr_ThresholdPubKey = ''04'',
     dkr_Error = None\<rparr>"

text \<open>The first statement fails after it took effect, and is retried.\<close>

definition demo_key_db :: key_db where
  "demo_key_db = \<lparr>conn_faults = [Some FailAfter], kd_pairs = (\<lambda>k. if k = ''old'' then Some \<lparr>kp_status = ''active'', kp_address = None, kp_public_key = None, kp_updated_at = 0\<rparr>
       else if k = ''new'' then Some \<lparr>kp_status = ''pending_dkg'', kp_address = None, kp_public_key = None, kp_updated_at = 0\<rparr> else None),
     kd_ceremonies = (\<lambda>_. None)\<rparr>"

definition demo_rotation_acts :: "(rotation_error, unit \<times> key_db option) rotation_acts" where
  "demo_rotation_acts = rotation_worker (\<lambda>_ v. (Inr demo_completed, v)) (\<lambda>_ v. (Inr (), v))
     (\<lambda>_ _ v. (Inr \<lparr>dsx_DeactivatedCount = 2, dsx_Errors = []\<rparr>, v)) (\<lambda>s. Some s) (\<lambda>_. 1) (\<lambda>_. '''') (\<lambda>_. '''')"

definition demo_rotation :: KeyRotationRequest where
  "demo_rotation = \<lparr>krq_NewCeremony = demo_dkg, krq_OldKeyID = ''old'', krq_NewKeyID = ''new'', krq_OldCeremonyID = ''c1'',
     krq_OldPartyIDs = [1, 2], krq_OldPartyEndpoints = [''a'', ''b''], krq_ShareRetention = 0\<rparr>"

lemma demo_rotation_run:
  "\<exists>result db'. KeyRotationWorkflow demo_rotation_acts demo_rotation ((), Some demo_key_db)
     = ([RunCeremony demo_dkg, ActivateCall \<lparr>akp_KeyID = ''new'', akp_Address = ''0xnew'', akp_PublicKey = ''04''\<rparr>,
         SetStatusCall \<lparr>skp_KeyID = ''old'', skp_Status = ''inactive''\<rparr>, SleepCall default_retention,
         DeactivateCall \<lparr>dsr_CeremonyID = ''c1'', dsr_PartyIDs = [1, 2], dsr_PartyEndpoints = [''a'', ''b'']\<rparr>], result, (), Some db') \<and>
     krr_Status result = ''completed''"
  by (simp add: KeyRotationWorkflow_def demo_rotation_acts_def rotation_worker_def on_world_def on_db_def flip_keys_def retire_old_shares_def
      demo_rotation_def demo_completed_def demo_key_db_def ActivateKeyPair_def SetKeyPairStatus_def run_update_def exec_statement_def
      next_fault_def update_pair_def key_statuses_def eval_nat_numeral Let_def)

theorem rotation_never_keyless_witness:
  "\<exists>calls result db'. KeyRotationWorkflow demo_rotation_acts demo_rotation ((), Some demo_key_db) = (calls, result, (), Some db') \<and>
     pair_active (Some db') ''new'' \<and> \<not> pair_active (Some db') ''old''"
proof -
  obtain calls result db' where run: "KeyRotationWorkflow demo_rotation_acts demo_rotation ((), Some demo_key_db) = (calls, result, (), Some db')"
    "krr_Status result = ''completed''" using demo_rotation_run by blast
  show ?thesis
    using rotation_never_keyless [OF run(1) [unfolded demo_rotation_acts_def]] run
    by (auto simp: demo_rotation_def pair_active_pairs activated_def)
qed

theorem rotation_retires_last_witness:
  "\<exists>c w1 w3 w4 d x. ro_DKGCeremony demo_rotation_acts demo_dkg ((), Some demo_key_db) = (Inr c, w1) \<and> dkr_Status c = ''completed'' \<and>
     ro_Sleep demo_rotation_acts (720 * 3600 * second) w3 = (Inr (), w4) \<and> ro_DeactivateOldKeyShares demo_rotation_acts d w4 = (Inr x, w4) \<and>
     dsr_CeremonyID d = ''c1''"
proof -
  let ?d = "\<lparr>dsr_CeremonyID = ''c1'', dsr_PartyIDs = [1, 2], dsr_PartyEndpoints = [''a'', ''b'']\<rparr>"
  obtain calls result w' where run: "KeyRotationWorkflow demo_rotation_acts demo_rotation ((), Some demo_key_db) = (calls, result, w')"
    "DeactivateCall ?d \<in> set calls"
    using demo_rotation_run by auto
  from rotation_retires_last [OF run] obtain c w1 w3 w4 where
    "ro_DKGCeremony demo_rotation_acts demo_dkg ((), Some demo_key_db) = (Inr c, w1)" "dkr_Status c = ''completed''"
    "ro_Sleep demo_rotation_acts (720 * 3600 * second) w3 = (Inr (), w4)"
    by (auto simp: demo_rotation_def)
  moreover have "ro_DeactivateOldKeyShares demo_rotation_acts ?d w4 = (Inr \<lparr>dsx_DeactivatedCount = 2, dsx_Errors = []\<rparr>, w4)"
    by (cases w4) (simp add: demo_rotation_acts_def rotation_worker_def on_world_def eval_nat_numeral)
  ultimately show ?thesis
    by (intro exI [of _ c] exI [of _ w1] exI [of _ w3] exI [of _ w4] exI [of _ ?d] exI conjI) simp_all
qed

definition demo_provision :: ProvisionKeyRequest where
  "demo_provision = \<lparr>pkr_Ceremony = demo_dkg, pkr_KeyID = ''new''\<rparr>"

theorem provision_truthful_witness:
  "\<exists>result dbo' row. ProvisionKeyWorkflow demo_rotation_acts demo_provision ((), Some demo_key_db) = (result, (), dbo') \<and>
     pairs_of dbo' ''new'' = Some row \<and> kp_status row = ''active''"
proof -
  obtain result dbo' where run: "ProvisionKeyWorkflow demo_rotation_acts demo_provision ((), Some demo_key_db) = (result, (), dbo')"
    by (metis prod.exhaust unit.exhaust)
  have "pkx_Status result = ''completed''"
    using run
    by (simp add: ProvisionKeyWorkflow_def set_ceremony_def demo_rotation_acts_def rotation_worker_def on_world_def on_db_def demo_provision_def
        demo_dkg_def demo_completed_def demo_key_db_def ActivateKeyPair_def SetCeremonyStatus_def run_update_def exec_statement_def
        next_fault_def update_pair_def key_statuses_def eval_nat_numeral Let_def) auto
  then show ?thesis
    using provision_truthful [OF run [unfolded demo_rotation_acts_def]] run by (auto simp: demo_provision_def activated_def)
qed

definition demo_sweep_node :: "(unit, string) rpc_node" where
  "demo_sweep_node = \<lparr>node_call = (\<lambda>url method params w.
       (if method = ''eth_getBalance'' then NodeResult (Some ''0x66c88'')
        else if method = ''eth_gasPrice'' then NodeResult (Some ''0x14'')
        else if method = ''eth_getTransactionCount'' then NodeResult (Some ''0x9'')
        else NodeUnreachable ''down'', w)),
     json_string = (\<lambda>j. Some j), json_receipt = (\<lambda>_. None)\<rparr>"

definition demo_committee :: "ThresholdSigningRequest \<Rightarrow> unit \<Rightarrow> (worker_error + ThresholdSigningResult) \<times> unit" where
  "demo_committee req w = (Inr \<lparr>tsg_Signature = hex_encode demo_sig, tsg_SignedTx = '''', tsg_Status = ''completed'', tsg_Error = None\<rparr>, w)"

definition demo_migration :: "string \<Rightarrow> BalanceMigrationRequest" where
  "demo_migration old = \<lparr>bmq_ChainID = ''ethereum'', bmq_EVMChainID = 137, bmq_OldCeremonyID = ''k1'', bmq_OldAddress = old,
     bmq_NewAddress = ''0x1111111111111111111111111111111111111111'', bmq_PartyIDs = [1, 2], bmq_PartyEndpoints = [''a'', ''b'']\<rparr>"

lemma demo_new_address: "ParseAddress ''0x1111111111111111111111111111111111111111'' = Inr (replicate 20 0x11)"
  by code_simp

lemma demo_sweep_quantities: "big_hex (trim_prefix ''0x'' ''0x66c88'') = Some 421000" "big_hex (trim_prefix ''0x'' ''0x14'') = Some 20"
  "big_hex (trim_prefix ''0x'' ''0x9'') = Some 9"
  by (simp_all add: big_hex_def trim_prefix_def hex_nat_def unhex_def)

lemma demo_sweep_tx: "newLegacySweepTx 9 20 1000 sweepGasLimit (replicate 20 0x11) 137 = demo_tx"
  by (simp add: newLegacySweepTx_def demo_tx_def sweepGasLimit_def)

lemma demo_build:
  assumes "IsHexAddress old" "SigningHash demo_lib demo_tx = Inr h"
  shows "BuildSweepTransaction demo_sweep_node demo_lib demo_activities \<lparr>bsr_OldAddress = old,
      bsr_NewAddress = ''0x1111111111111111111111111111111111111111'', bsr_EVMChainID = 137\<rparr> () =
    (Inr \<lparr>bsx_Skipped = False, bsx_BalanceWei = dec_int 421000, bsx_Nonce = 9, bsx_GasLimit = sweepGasLimit, bsx_GasPriceWei = dec_int 20,
          bsx_ValueWei = dec_int 1000, bsx_TxHashHex = hex_encode h\<rparr>, ())"
proof -
  have d: "Dial (act_EthereumRPC demo_activities) = Inr ''http://node''" by (simp add: Dial_def demo_activities_def NewActivities_def)
  have "BalanceAt demo_sweep_node url old () = (Inr 421000, ())" "SuggestGasPrice demo_sweep_node url () = (Inr 20, ())"
    "PendingNonceAt demo_sweep_node url old () = (Inr 9, ())" for url
    by (simp_all add: BalanceAt_def SuggestGasPrice_def PendingNonceAt_def hexBig_def rpc_call_def as_uint64_def demo_sweep_node_def
        demo_sweep_quantities big_uint64_def)
  then show ?thesis using assms by (simp add: BuildSweepTransaction_def demo_new_address d Let_def demo_sweep_tx)
qed

theorem sweep_moves_whole_balance_witness:
  "\<exists>old r raw info. fst (BalanceMigrationWorkflow (migration_worker demo_sweep_node demo_lib demo_activities demo_committee) (demo_migration old) ()) = r \<and>
     bmr_SignedTxHex r = ''0x'' @ hex_encode raw \<and> DecodeSignedTransaction demo_lib raw = Inr info \<and> info_To info = Some (replicate 20 0x11)"
proof (rule demo_signed)
  fix raw a
  assume g: "length raw \<le> 309" and hex: "IsHexAddress a" and w: "\<And>from. from = [] \<or> from = a \<Longrightarrow>
    WithSignature demo_lib demo_tx demo_sig from = Inr \<lparr>st_Raw = raw, st_Hash = Keccak256 demo_lib [raw], st_From = a\<rparr>"
  let ?acts = "migration_worker demo_sweep_node demo_lib demo_activities demo_committee"
  obtain h where h: "SigningHash demo_lib demo_tx = Inr h"
    using WithSignature_from [OF w [of a]] IsHexAddress_nonempty [OF hex] by auto
  have asm: "AssembleSweepTransaction demo_lib \<lparr>asr_NewAddress = ''0x1111111111111111111111111111111111111111'', asr_Nonce = 9,
      asr_GasLimit = sweepGasLimit, asr_GasPriceWei = dec_int 20, asr_ValueWei = dec_int 1000, asr_EVMChainID = 137,
      asr_Signature = hex_encode demo_sig, asr_ExpectedFrom = a\<rparr> =
    Inr \<lparr>asx_SignedTxHex = ''0x'' @ hex_encode raw, asx_TxHash = ''0x'' @ hex_encode (Keccak256 demo_lib [raw])\<rparr>"
    using w [of a] hex by (simp add: AssembleSweepTransaction_def demo_new_address demo_sweep_tx demo_sig_def)
  obtain b where b: "ma_Broadcast ?acts (''0x'' @ hex_encode raw) () = (b, ())" by (metis surj_pair unit.exhaust)
  obtain r where run: "BalanceMigrationWorkflow ?acts (demo_migration a) () = (r, ())" by (metis surj_pair unit.exhaust)
  let ?built = "\<lparr>bsx_Skipped = False, bsx_BalanceWei = dec_int 421000, bsx_Nonce = 9, bsx_GasLimit = sweepGasLimit,
      bsx_GasPriceWei = dec_int 20, bsx_ValueWei = dec_int 1000, bsx_TxHashHex = hex_encode h\<rparr>"
  have B: "ma_Build ?acts \<lparr>bsr_OldAddress = a, bsr_NewAddress = ''0x1111111111111111111111111111111111111111'', bsr_EVMChainID = 137\<rparr> ()
      = (Inr ?built, ())" using demo_build [OF hex h] by (simp add: migration_worker_def eval_nat_numeral)
  have A: "ma_Assemble ?acts \<lparr>asr_NewAddress = ''0x1111111111111111111111111111111111111111'', asr_Nonce = 9,
      asr_GasLimit = sweepGasLimit, asr_GasPriceWei = dec_int 20, asr_ValueWei = dec_int 1000, asr_EVMChainID = 137,
      asr_Signature = hex_encode demo_sig, asr_ExpectedFrom = a\<rparr> () =
    (Inr \<lparr>asx_SignedTxHex = ''0x'' @ hex_encode raw, asx_TxHash = ''0x'' @ hex_encode (Keccak256 demo_lib [raw])\<rparr>, ())"
    using asm by (simp add: migration_worker_def eval_nat_numeral)
  have S: "ma_Sign ?acts q () = (Inr \<lparr>tsg_Signature = hex_encode demo_sig, tsg_SignedTx = '''', tsg_Status = ''completed'', tsg_Error = None\<rparr>, ())" for q
    by (simp add: migration_worker_def demo_committee_def)
  have r: "bmr_Status r \<in> {''completed'', ''signed_not_broadcast''}" "bmr_SignedTxHex r = ''0x'' @ hex_encode raw"
    using run B A S b by (auto simp: BalanceMigrationWorkflow_def demo_migration_def split: sum.splits)
  have "go_len (bmr_SignedTxHex r)" using g by (simp add: r(2) go_len_def)
  then obtain raw' info to where "bmr_SignedTxHex r = ''0x'' @ hex_encode raw'" "DecodeSignedTransaction demo_lib raw' = Inr info"
    "ParseAddress (bmq_NewAddress (demo_migration a)) = Inr to" "info_To info = Some to"
    using sweep_moves_whole_balance [OF run r(1)] by blast
  then show ?thesis
    by (intro exI [of _ a] exI [of _ r] exI [of _ raw'] exI [of _ info]) (simp add: run, simp add: demo_migration_def demo_new_address)
qed

end
