(* ===== verification/Deployment.thy ===== *)
theory Deployment
  imports Party_Handlers Worker_Rotation
begin

text \<open>
  The worker and the parties together. The network of the worker's activities is instantiated by a cluster of
  parties: a request to a party's endpoint reaches the handler of \<^verbatim>\<open>tss_handlers.go\<close> that \<^verbatim>\<open>main.go\<close> routes it to,
  unless it or its reply is lost. What is left as a parameter is the JSON text of the bodies. Shown: what a signature returned to
  the worker says about the state of every party of the committee, and that retiring through the parties removes the
  key from each party that is counted.
\<close>

section \<open>Reading a query\<close>

text \<open>\<^verbatim>\<open>r.URL.Query().Get(key)\<close>: the pairs between \<^verbatim>\<open>&\<close>, those with a semicolon or a bad escape left out, each cut at
  its first \<^verbatim>\<open>=\<close> and unescaped; the first value of the key, or the empty string.\<close>

fun query_unescape :: "string \<Rightarrow> string option" where
  "query_unescape [] = Some []"
| "query_unescape (c # s) =
     (if c = CHR ''%'' then
        (case s of
           h # l # t \<Rightarrow>
             (case (unhex h, unhex l, query_unescape t) of
                (Some a, Some b, Some r) \<Rightarrow> Some (char_of (a * 16 + b) # r)
              | _ \<Rightarrow> None)
         | _ \<Rightarrow> None)
      else map_option ((#) (if c = CHR ''+'' then CHR '' '' else c)) (query_unescape s))"

definition query_pair :: "string \<Rightarrow> (string \<times> string) option" where
  "query_pair p =
     (if p = [] \<or> CHR '';'' \<in> set p then None
      else case (query_unescape (takeWhile (\<lambda>c. c \<noteq> CHR ''='') p), query_unescape (drop 1 (dropWhile (\<lambda>c. c \<noteq> CHR ''='') p))) of
             (Some k, Some v) \<Rightarrow> Some (k, v)
           | _ \<Rightarrow> None)"

fun split_amp :: "string \<Rightarrow> string list" where
  "split_amp [] = [[]]"
| "split_amp (c # s) = (if c = CHR ''&'' then [] # split_amp s else (c # hd (split_amp s)) # tl (split_amp s))"

definition query_get :: "string \<Rightarrow> string \<Rightarrow> string" where
  "query_get key q = (case map_of (List.map_filter query_pair (split_amp q)) key of None \<Rightarrow> '''' | Some v \<Rightarrow> v)"

text \<open>A string that stands for itself in a query.\<close>

definition plain_query :: "string \<Rightarrow> bool" where
  "plain_query s \<longleftrightarrow> set s \<inter> {CHR ''%'', CHR ''+'', CHR ''&'', CHR '';'', CHR ''='', CHR ''#''} = {}"

lemma query_unescape_plain: "plain_query s \<Longrightarrow> query_unescape s = Some s"
  by (induction s) (auto simp: plain_query_def)

lemma split_amp_plain: "CHR ''&'' \<notin> set s \<Longrightarrow> split_amp s = [s]"
  by (induction s) auto

lemma query_get_plain:
  assumes "plain_query key" "key \<noteq> []" "plain_query v"
  shows "query_get key (key @ ''='' @ v) = v"
proof -
  have ne: "CHR ''='' \<notin> set key" using assms(1) by (auto simp: plain_query_def)
  have t: "takeWhile (\<lambda>c. c \<noteq> CHR ''='') (key @ ''='' @ v) = key" "dropWhile (\<lambda>c. c \<noteq> CHR ''='') (key @ ''='' @ v) = ''='' @ v"
    using ne by (induction key) auto
  have "CHR ''&'' \<notin> set (key @ ''='' @ v)" "CHR '';'' \<notin> set (key @ ''='' @ v)" using assms by (auto simp: plain_query_def)
  then show ?thesis
    using assms t by (simp add: query_get_def split_amp_plain query_pair_def query_unescape_plain List.map_filter_simps)
qed

section \<open>The cluster\<close>

definition HandleTSSSignStatus :: "string \<Rightarrow> ('sd, 'p) TSSPartyManager \<Rightarrow> int \<times> SigningStatusResult option" where
  "HandleTSSSignStatus q m =
     (let signID = query_get ''sign_id'' q in
      if signID = '''' then (400, None)
      else case GetSigningStatus signID m of Inl _ \<Rightarrow> (404, None) | Inr s \<Rightarrow> (200, Some s))"

definition HandleTSSKeygenStatus :: "string \<Rightarrow> ('sd, 'p) TSSPartyManager \<Rightarrow> int \<times> KeygenStatusResult option" where
  "HandleTSSKeygenStatus q m =
     (let ceremonyID = query_get ''ceremony_id'' q in
      if ceremonyID = '''' then (400, None)
      else case GetStatus ceremonyID m of Inl _ \<Rightarrow> (404, None) | Inr s \<Rightarrow> (200, Some s))"

record ('k, 'sd, 'p) node =
  nd_env :: "('k, 'sd, 'p) party_env"
  nd_io :: io
  nd_manager :: "('sd, 'p) TSSPartyManager"
  nd_store :: store

type_synonym ('k, 'sd, 'p) cluster = "string \<Rightarrow> ('k, 'sd, 'p) node option"

text \<open>How the parties read and write bodies.\<close>

record party_json =
  pj_keygen_start :: "string \<Rightarrow> tssKeygenStartRequest option"
  pj_sign_start :: "string \<Rightarrow> tssSignStartRequest option"
  pj_retire :: "string \<Rightarrow> tssRetireRequest option"
  pj_sign_status :: "SigningStatusResult option \<Rightarrow> string"
  pj_keygen_status :: "KeygenStatusResult option \<Rightarrow> string"

text \<open>The endpoint that a URL with a given path belongs to.\<close>

definition endpoint_of :: "string \<Rightarrow> string \<Rightarrow> string option" where
  "endpoint_of url path =
     (if length path \<le> length url \<and> drop (length url - length path) url = path then Some (take (length url - length path) url) else None)"

lemma endpoint_of_append [simp]: "endpoint_of (ep @ path) path = Some ep"
  by (simp add: endpoint_of_def)

text \<open>What becomes of an exchange: it succeeds, or the party never sees the request, or the worker never sees the
  reply.\<close>

datatype delivery = Delivered | RequestLost | ReplyLost

text \<open>A request at a party: a start or a retirement changes its state.\<close>

definition party_post ::
  "(string \<Rightarrow> party_request) \<Rightarrow> int \<Rightarrow> string \<Rightarrow> string \<Rightarrow> ('k, 'sd, 'p) cluster \<Rightarrow> (web_result \<times> ('k, 'sd, 'p) cluster) option" where
  "party_post request now ep body w =
     (case w ep of
        None \<Rightarrow> None
      | Some n \<Rightarrow>
          (let (rsp, m', st') = route (nd_env n) (nd_io n) now None (request body) (nd_manager n, nd_store n)
           in Some (Responds (fst rsp) '''', w(ep := Some (n\<lparr>nd_manager := m', nd_store := st'\<rparr>)))))"

definition cluster_post ::
  "party_json \<Rightarrow> int \<Rightarrow> string \<Rightarrow> string \<Rightarrow> ('k, 'sd, 'p) cluster \<Rightarrow> (web_result \<times> ('k, 'sd, 'p) cluster) option" where
  "cluster_post pj now url body w =
     (case endpoint_of url ''/tss/keygen/start'' of
        Some ep \<Rightarrow> party_post (\<lambda>b. KeygenStart (pj_keygen_start pj b)) now ep body w
      | None \<Rightarrow>
          (case endpoint_of url ''/tss/sign/start'' of
             Some ep \<Rightarrow> party_post (\<lambda>b. SignStart (pj_sign_start pj b)) now ep body w
           | None \<Rightarrow>
               (case endpoint_of url ''/tss/shares/retire'' of
                  Some ep \<Rightarrow> party_post (\<lambda>b. SharesRetire (pj_retire pj b)) now ep body w
                | None \<Rightarrow> None)))"

text \<open>A fragment is not sent; a query is what follows the first question mark.\<close>

definition cluster_get :: "party_json \<Rightarrow> string \<Rightarrow> ('k, 'sd, 'p) cluster \<Rightarrow> web_result option" where
  "cluster_get pj url w =
     (let u = takeWhile (\<lambda>c. c \<noteq> CHR ''#'') url;
          base = takeWhile (\<lambda>c. c \<noteq> CHR ''?'') u; q = drop 1 (dropWhile (\<lambda>c. c \<noteq> CHR ''?'') u) in
      case endpoint_of base ''/tss/sign/status'' of
        Some ep \<Rightarrow>
          (case w ep of None \<Rightarrow> None
           | Some n \<Rightarrow> (let (code, s) = HandleTSSSignStatus q (nd_manager n) in Some (Responds code (pj_sign_status pj s))))
      | None \<Rightarrow>
          (case endpoint_of base ''/tss/keygen/status'' of
             Some ep \<Rightarrow>
               (case w ep of None \<Rightarrow> None
                | Some n \<Rightarrow> (let (code, s) = HandleTSSKeygenStatus q (nd_manager n) in Some (Responds code (pj_keygen_status pj s))))
           | None \<Rightarrow> None))"

definition cluster_reply :: "party_json \<Rightarrow> int \<Rightarrow> string \<Rightarrow> string \<Rightarrow> string \<Rightarrow> ('k, 'sd, 'p) cluster \<Rightarrow> web_result \<times> ('k, 'sd, 'p) cluster" where
  "cluster_reply pj now method url body w =
     (if method = ''POST'' then (case cluster_post pj now url body w of None \<Rightarrow> (RequestFails ''no route'', w) | Some r \<Rightarrow> r)
      else (case cluster_get pj url w of None \<Rightarrow> (RequestFails ''no route'', w) | Some r \<Rightarrow> (r, w)))"

text \<open>Both the fate of an exchange and the time at the party may be different for every request and every state.\<close>

definition cluster_web ::
  "party_json \<Rightarrow> (string \<Rightarrow> string \<Rightarrow> ('k, 'sd, 'p) cluster \<Rightarrow> delivery) \<Rightarrow> (string \<Rightarrow> string \<Rightarrow> ('k, 'sd, 'p) cluster \<Rightarrow> int)
     \<Rightarrow> ('k, 'sd, 'p) cluster web" where
  "cluster_web pj fate clock =
     \<lparr>web_do = (\<lambda>method url body w.
        case fate method url w of
          RequestLost \<Rightarrow> (RequestFails ''lost'', w)
        | ReplyLost \<Rightarrow> (RequestFails ''lost'', snd (cluster_reply pj (clock method url w) method url body w))
        | Delivered \<Rightarrow> cluster_reply pj (clock method url w) method url body w)\<rparr>"

section \<open>What a signature means\<close>

definition status_text :: "ceremonyStatus \<Rightarrow> string" where
  "status_text s = (case s of ceremonyPending \<Rightarrow> ''pending'' | ceremonyInProgress \<Rightarrow> ''in_progress'' | ceremonyCompleted \<Rightarrow> ''completed''
     | ceremonyFailed \<Rightarrow> ''failed'')"

text \<open>The two sides agree on the JSON bodies: what one renders, the other reads.\<close>

definition bodies_agree :: "('k, 's) worker_lib \<Rightarrow> party_json \<Rightarrow> bool" where
  "bodies_agree lib pj \<longleftrightarrow>
     (\<forall>s. \<exists>b. wl_sign_status lib (pj_sign_status pj (Some s)) = Some b \<and> sst_Status b = status_text (ssr_Status s) \<and>
        sst_Signature b = ssr_Signature s) \<and>
     (\<forall>b. pj_sign_start pj (wl_sign_start lib b) = Some \<lparr>sgr_SignID = ssb_SignID b, sgr_KeygenCeremonyID = ssb_KeygenCeremonyID b,
        sgr_MessageHashHex = ssb_MessageHashHex b, sgr_CommitteePartyIDs = ssb_CommitteePartyIDs b, sgr_Authorization = ssb_Authorization b,
        sgr_AuthorizationSignature = ssb_AuthorizationSignature b\<rparr>)"

definition plain_endpoint :: "string \<Rightarrow> bool" where
  "plain_endpoint ep \<longleftrightarrow> CHR ''?'' \<notin> set ep \<and> CHR ''#'' \<notin> set ep"

lemma cluster_get_sign_status:
  assumes "plain_endpoint ep" "plain_query sid" "sid \<noteq> ''''"
  shows "cluster_get pj (ep @ ''/tss/sign/status?sign_id='' @ sid) w =
    (case w ep of None \<Rightarrow> None
     | Some n \<Rightarrow> (case GetSigningStatus sid (nd_manager n) of
                   Inl _ \<Rightarrow> Some (Responds 404 (pj_sign_status pj None))
                 | Inr s \<Rightarrow> Some (Responds 200 (pj_sign_status pj (Some s)))))"
proof -
  let ?u = "ep @ ''/tss/sign/status?sign_id='' @ sid"
  have h: "takeWhile (\<lambda>c. c \<noteq> CHR ''#'') ?u = ?u"
    using assms(1,2) by (auto simp: takeWhile_eq_all_conv plain_endpoint_def plain_query_def)
  have t: "takeWhile (\<lambda>c. c \<noteq> CHR ''?'') ?u = ep @ ''/tss/sign/status''" "dropWhile (\<lambda>c. c \<noteq> CHR ''?'') ?u = ''?sign_id='' @ sid"
    using assms(1) unfolding plain_endpoint_def by (induction ep) auto
  have q: "drop 1 (''?sign_id='' @ sid) = ''sign_id='' @ sid" by simp
  have g: "query_get ''sign_id'' (''sign_id='' @ sid) = sid"
    using query_get_plain [of "''sign_id''" sid] assms(2) by (simp add: plain_query_def)
  show ?thesis
    unfolding cluster_get_def Let_def h t endpoint_of_append option.case HandleTSSSignStatus_def q g
    using assms(3) by (simp split: option.split sum.split)
qed

text \<open>Polling does not change the parties, and each answer is the state of the party asked.\<close>

lemma cluster_sign_status:
  assumes "getTSSStatus (cluster_web pj fate clock) (wl_sign_status lib) (ep @ ''/tss/sign/status?sign_id='' @ sid) w = (Inr st, w')"
    and "plain_endpoint ep" "plain_query sid" "sid \<noteq> ''''" "bodies_agree lib pj"
  shows "w' = w \<and> (\<exists>n c. w ep = Some n \<and> reg_find sid (m_signings (nd_manager n)) = Some c \<and>
    sst_Status st = status_text (sc_status c) \<and> sst_Signature st = sc_signature c)"
proof -
  have l: "\<exists>b. wl_sign_status lib (pj_sign_status pj (Some s)) = Some b \<and> sst_Status b = status_text (ssr_Status s) \<and>
      sst_Signature b = ssr_Signature s" for s using assms(5) by (simp add: bodies_agree_def)
  define u where "u = ep @ ''/tss/sign/status?sign_id='' @ sid"
  have g: "cluster_get pj u w = (case w ep of None \<Rightarrow> None
     | Some n \<Rightarrow> (case GetSigningStatus sid (nd_manager n) of
                   Inl _ \<Rightarrow> Some (Responds 404 (pj_sign_status pj None))
                 | Inr s \<Rightarrow> Some (Responds 200 (pj_sign_status pj (Some s)))))"
    unfolding u_def by (rule cluster_get_sign_status [OF assms(2-4)])
  obtain n s where n: "w ep = Some n" "GetSigningStatus sid (nd_manager n) = Inr s" "w' = w"
    "wl_sign_status lib (pj_sign_status pj (Some s)) = Some st"
    using assms(1) g unfolding u_def [symmetric]
    by (auto simp: getTSSStatus_def cluster_web_def cluster_reply_def is_2xx_def Let_def split: if_splits option.splits sum.splits delivery.splits)
  then show ?thesis using l [of s] by (auto simp: GetSigningStatus_def split: option.splits)
qed

lemma cluster_poll_replies:
  assumes "poll_replies (cluster_web pj fate clock) (wl_sign_status lib) ep (''/tss/sign/status?sign_id='' @ sid) ids w = (Inr sts, w')"
    and "\<And>i. i \<in> set ids \<Longrightarrow> plain_endpoint (ep i)" "plain_query sid" "sid \<noteq> ''''" "bodies_agree lib pj"
  shows "w' = w \<and> (\<forall>i \<in> set ids. \<exists>st \<in> set sts. \<exists>n c. w (ep i) = Some n \<and> reg_find sid (m_signings (nd_manager n)) = Some c \<and>
    sst_Status st = status_text (sc_status c) \<and> sst_Signature st = sc_signature c)"
  using assms(1,2)
proof (induction ids arbitrary: w sts)
  case (Cons i ids)
  from Cons.prems(1) obtain st w1 r where a: "getTSSStatus (cluster_web pj fate clock) (wl_sign_status lib) (ep i @ ''/tss/sign/status?sign_id='' @ sid) w = (Inr st, w1)"
    "poll_replies (cluster_web pj fate clock) (wl_sign_status lib) ep (''/tss/sign/status?sign_id='' @ sid) ids w1 = (r, w')"
    "map_sum id ((#) st) r = Inr sts" by (auto simp del: append.simps split: prod.splits sum.splits)
  from a(3) obtain ss where ss: "r = Inr ss" "sts = st # ss" by (cases r) auto
  have pi: "plain_endpoint (ep i)" using Cons.prems(2) by simp
  from cluster_sign_status [OF a(1) pi assms(3-5)] have w1: "w1 = w"
    and ii: "\<exists>n c. w (ep i) = Some n \<and> reg_find sid (m_signings (nd_manager n)) = Some c \<and>
      sst_Status st = status_text (sc_status c) \<and> sst_Signature st = sc_signature c" by auto
  show ?case using Cons.IH [OF a(2) [unfolded ss(1)]] Cons.prems(2) ii unfolding w1 ss(2) by auto
qed simp

lemma endpoint_of_Some: "endpoint_of url path = Some ep \<Longrightarrow> url = ep @ path"
  by (auto simp: endpoint_of_def split: if_splits) (metis append_take_drop_id)

lemma endpoint_of_clash:
  assumes "take k (rev path) \<noteq> take k (rev path')" "k \<le> length path" "k \<le> length path'"
  shows "endpoint_of (ep @ path) path' = None"
proof (rule ccontr)
  assume "endpoint_of (ep @ path) path' \<noteq> None"
  then obtain e where "ep @ path = e @ path'" using endpoint_of_Some by blast
  then have "rev path @ rev ep = rev path' @ rev e" by (metis rev_append)
  then have "take k (rev path @ rev ep) = take k (rev path' @ rev e)" by simp
  then show False using assms by simp
qed

lemma cluster_post_routes:
  "cluster_post pj now (ep @ ''/tss/sign/start'') body w = party_post (\<lambda>b. SignStart (pj_sign_start pj b)) now ep body w"
  "cluster_post pj now (ep @ ''/tss/shares/retire'') body w = party_post (\<lambda>b. SharesRetire (pj_retire pj b)) now ep body w"
proof -
  have "endpoint_of (ep @ ''/tss/sign/start'') ''/tss/keygen/start'' = None"
    "endpoint_of (ep @ ''/tss/shares/retire'') ''/tss/keygen/start'' = None"
    "endpoint_of (ep @ ''/tss/shares/retire'') ''/tss/sign/start'' = None"
    by (rule endpoint_of_clash [of 9]; simp)+
  then show "cluster_post pj now (ep @ ''/tss/sign/start'') body w = party_post (\<lambda>b. SignStart (pj_sign_start pj b)) now ep body w"
    "cluster_post pj now (ep @ ''/tss/shares/retire'') body w = party_post (\<lambda>b. SharesRetire (pj_retire pj b)) now ep body w"
    unfolding cluster_post_def endpoint_of_append by simp_all
qed

lemma HandleTSSSignStart_2xx:
  assumes "HandleTSSSignStart e now post body m = ((code, err), m')" "is_2xx code"
  shows "code = 202 \<and> err = None"
  using assms by (auto simp: HandleTSSSignStart_def is_2xx_def split: if_splits option.splits sum.splits)

lemma cluster_sign_start:
  assumes "postJSONExpect2xx (cluster_web pj fate clock) (ep @ ''/tss/sign/start'') payload w = (Inr (), w')"
  shows "\<exists>n now m'. w ep = Some n \<and> HandleTSSSignStart (nd_env n) now True (pj_sign_start pj payload) (nd_manager n) = ((202, None), m') \<and>
    (\<forall>e. e \<noteq> ep \<longrightarrow> w' e = w e)"
proof -
  define u where "u = ep @ ''/tss/sign/start''"
  define now where "now = clock ''POST'' u w"
  have p: "cluster_post pj now u payload w = party_post (\<lambda>b. SignStart (pj_sign_start pj b)) now ep payload w"
    unfolding u_def by (rule cluster_post_routes)
  obtain n code m' where n: "w ep = Some n" "is_2xx code" "w' = w(ep := Some (n\<lparr>nd_manager := m'\<rparr>))"
    "fst (fst (HandleTSSSignStart (nd_env n) now True (pj_sign_start pj payload) (nd_manager n))) = code"
    using assms p unfolding u_def [symmetric]
    by (auto simp: postJSONExpect2xx_def cluster_web_def cluster_reply_def party_post_def route_def Let_def now_def [symmetric] split: if_splits option.splits prod.splits delivery.splits)
  obtain err m1 where h: "HandleTSSSignStart (nd_env n) now True (pj_sign_start pj payload) (nd_manager n) = ((code, err), m1)"
    using n(4) by (metis prod.exhaust fst_conv)
  show ?thesis using HandleTSSSignStart_2xx [OF h n(2)] h n(1,3) by auto
qed

lemma cluster_start_parties:
  assumes "start_parties (cluster_web pj fate clock) ep ''/tss/sign/start'' payload ids w = (Inr (), w')" "distinct (map ep ids)" "i \<in> set ids"
  shows "\<exists>n now m'. w (ep i) = Some n \<and> HandleTSSSignStart (nd_env n) now True (pj_sign_start pj payload) (nd_manager n) = ((202, None), m')"
  using assms
proof (induction ids arbitrary: w)
  case (Cons j ids)
  from Cons.prems(1) obtain w1 where a: "postJSONExpect2xx (cluster_web pj fate clock) (ep j @ ''/tss/sign/start'') payload w = (Inr (), w1)"
    "start_parties (cluster_web pj fate clock) ep ''/tss/sign/start'' payload ids w1 = (Inr (), w')"
    by (auto simp del: append.simps split: prod.splits sum.splits)
  note c = cluster_sign_start [OF a(1)]
  show ?case
  proof (cases "i = j")
    case True
    then show ?thesis using c by blast
  next
    case False
    then have i: "i \<in> set ids" using Cons.prems(3) by simp
    then have "ep i \<in> ep ` set ids" by (rule imageI)
    then have "ep i \<noteq> ep j" using Cons.prems(2) by auto
    then show ?thesis using Cons.IH [OF a(2) _ i] Cons.prems(2) c by auto
  qed
qed simp

lemma plain_hex_encode: "plain_query (hex_encode bs)"
proof (rule ccontr)
  assume "\<not> plain_query (hex_encode bs)"
  then obtain c where c: "c \<in> set (hex_encode bs)" "c \<in> {CHR ''%'', CHR ''+'', CHR ''&'', CHR '';'', CHR ''='', CHR ''#''}"
    by (auto simp: plain_query_def)
  from hex_digit_of_hex_encode [OF c(1)] obtain k where k: "k < 16" "c = hex_digit k" by blast
  have "\<forall>k \<in> set [0..<16]. hex_digit k \<notin> {CHR ''%'', CHR ''+'', CHR ''&'', CHR '';'', CHR ''='', CHR ''#''}" by code_simp
  then show False using c(2) k by simp
qed

lemma plain_append: "plain_query (a @ b) \<longleftrightarrow> plain_query a \<and> plain_query b"
  by (auto simp: plain_query_def)

lemma plain_sign_id: "plain_query cid \<Longrightarrow> plain_query (sign_id lib cid hash) \<and> sign_id lib cid hash \<noteq> ''''"
proof -
  assume "plain_query cid"
  moreover have "plain_query ''-sign-''" by (simp add: plain_query_def)
  ultimately show ?thesis unfolding sign_id_def plain_append using plain_hex_encode by simp
qed

lemma HandleTSSSignStart_accepts:
  assumes "HandleTSSSignStart e now True (Some req) m = ((202, None), m')"
  shows "\<exists>hash kc share. hex_decode (sgr_MessageHashHex req) = Some hash \<and> reg_find (sgr_KeygenCeremonyID req) (m_ceremonies m) = Some kc \<and>
    kc_status kc = ceremonyCompleted \<and> kc_saveData kc = Some share \<and> int (length (sgr_CommitteePartyIDs req)) = i64 (kc_threshold kc + 1) \<and>
    m_partyID m \<in> set (sgr_CommitteePartyIDs req) \<and> (ks_Curve share = CurveSecp256k1 \<longrightarrow> length hash = 32)"
proof -
  obtain hash ref self thr share m1 where h: "hex_decode (sgr_MessageHashHex req) = Some hash"
    "StartSigning (pe_tss e) (sgr_SignID req) (sgr_KeygenCeremonyID req) hash (sgr_CommitteePartyIDs req) m = Inr (ref, self, thr, share, m1)"
    using assms by (auto simp: HandleTSSSignStart_def split: if_splits option.splits sum.splits)
  show ?thesis using h(2) by (rule StartSigning_Inr) (use h(1) in blast)
qed

text \<open>C7: A signature the worker obtains is the signature of the whole committee. When a signing is reported completed
  over a cluster of parties with distinct endpoints, for a ceremony id and endpoints without characters that have a
  meaning in a URL, whatever happened between its steps, then every party it named had held, when asked, a
  completed key of that ceremony whose threshold plus one is the size of the committee, and had accepted to sign; and
  at the end every one of them holds the completed session, with that signature or with none.\<close>

theorem signature_held_by_committee:
  fixes w w' :: "('k, 'sd, 'p) cluster"
  assumes "ExecuteRealSigning (cluster_web pj fate clock) lib now' pauses req w = (Inr r, w')" "tsg_Status r = ''completed''"
    and "bodies_agree lib pj" "plain_query (tsr_CeremonyID req)" "hex_decode (tsr_Message req) = Some hash"
    and "\<And>i. i \<in> set (tsr_PartyIDs req) \<Longrightarrow> plain_endpoint (endpointByParty (tsr_PartyIDs req) (tsr_PartyEndpoints req) i)"
    and "distinct (map (endpointByParty (tsr_PartyIDs req) (tsr_PartyEndpoints req)) (tsr_PartyIDs req))" "i \<in> set (tsr_PartyIDs req)"
  shows "(\<exists>n kc share. w (endpointByParty (tsr_PartyIDs req) (tsr_PartyEndpoints req) i) = Some n \<and>
      reg_find (tsr_CeremonyID req) (m_ceremonies (nd_manager n)) = Some kc \<and> kc_status kc = ceremonyCompleted \<and> kc_saveData kc = Some share \<and>
      int (length (tsr_PartyIDs req)) = i64 (kc_threshold kc + 1) \<and> m_partyID (nd_manager n) \<in> set (tsr_PartyIDs req) \<and>
      (ks_Curve share = CurveSecp256k1 \<longrightarrow> length hash = 32)) \<and>
    (\<exists>n c. w' (endpointByParty (tsr_PartyIDs req) (tsr_PartyEndpoints req) i) = Some n \<and>
      reg_find (sign_id (wl_auth lib) (tsr_CeremonyID req) hash) (m_signings (nd_manager n)) = Some c \<and>
      sc_status c = ceremonyCompleted \<and> sc_signature c \<in> {'''', tsg_Signature r})"
  using assms(1,2)
proof (rule ExecuteRealSigning_done)
  let ?ep = "endpointByParty (tsr_PartyIDs req) (tsr_PartyEndpoints req)" and ?ids = "tsr_PartyIDs req" and ?cid = "tsr_CeremonyID req"
  fix h auth authSig w1
  assume h: "hex_decode (tsr_Message req) = Some h"
  define sid where "sid = sign_id (wl_auth lib) ?cid h"
  assume s: "start_parties (cluster_web pj fate clock) ?ep ''/tss/sign/start''
       (wl_sign_start lib \<lparr>ssb_SignID = sign_id (wl_auth lib) ?cid h, ssb_KeygenCeremonyID = ?cid,
          ssb_MessageHashHex = tsr_Message req, ssb_CommitteePartyIDs = ?ids, ssb_Authorization = auth,
          ssb_AuthorizationSignature = authSig\<rparr>) ?ids w = (Inr (), w1)"
    and l: "sign_poll_loop (cluster_web pj fate clock) (wl_sign_status lib) ?ep (sign_id (wl_auth lib) ?cid h) ?ids pauses w1 = (Inr r, w')"
  have hh: "h = hash" using h assms(5) by simp
  have sid: "plain_query sid" "sid \<noteq> ''''" using plain_sign_id [OF assms(4), of "wl_auth lib" h] by (simp_all add: sid_def)
  have first: "\<exists>n kc share. w (?ep i) = Some n \<and>
      reg_find ?cid (m_ceremonies (nd_manager n)) = Some kc \<and> kc_status kc = ceremonyCompleted \<and> kc_saveData kc = Some share \<and>
      int (length ?ids) = i64 (kc_threshold kc + 1) \<and> m_partyID (nd_manager n) \<in> set ?ids \<and>
      (ks_Curve share = CurveSecp256k1 \<longrightarrow> length hash = 32)"
  proof -
    obtain n now m' where n: "w (?ep i) = Some n" "HandleTSSSignStart (nd_env n) now True (pj_sign_start pj (wl_sign_start lib
        \<lparr>ssb_SignID = sign_id (wl_auth lib) ?cid h, ssb_KeygenCeremonyID = ?cid,
          ssb_MessageHashHex = tsr_Message req, ssb_CommitteePartyIDs = ?ids, ssb_Authorization = auth,
          ssb_AuthorizationSignature = authSig\<rparr>)) (nd_manager n) = ((202, None), m')"
      using cluster_start_parties [OF s assms(7,8)] by blast
    have b: "pj_sign_start pj (wl_sign_start lib b) = Some \<lparr>sgr_SignID = ssb_SignID b, sgr_KeygenCeremonyID = ssb_KeygenCeremonyID b,
        sgr_MessageHashHex = ssb_MessageHashHex b, sgr_CommitteePartyIDs = ssb_CommitteePartyIDs b, sgr_Authorization = ssb_Authorization b,
        sgr_AuthorizationSignature = ssb_AuthorizationSignature b\<rparr>" for b using assms(3) by (simp add: bodies_agree_def)
    show ?thesis using HandleTSSSignStart_accepts [OF n(2) [unfolded b]] n(1) assms(5) by auto
  qed
  obtain w0 where w0: "sign_poll_round (cluster_web pj fate clock) (wl_sign_status lib) ?ep sid ?ids (True, '''') w0 = (Inr (True, tsg_Signature r), w')"
    using sign_loop_done [OF l assms(2)] unfolding sid_def by blast
  obtain sts where sts: "poll_replies (cluster_web pj fate clock) (wl_sign_status lib) ?ep (''/tss/sign/status?sign_id='' @ sid) ?ids w0 = (Inr sts, w')"
    "\<forall>s \<in> set sts. sst_Status s = ''completed''" "\<forall>s \<in> set sts. sst_Signature s \<noteq> '''' \<longrightarrow> sst_Signature s = tsg_Signature r"
    using sign_round_done [OF w0] by blast
  note p = cluster_poll_replies [OF sts(1) assms(6) sid assms(3)]
  obtain st n c where st: "st \<in> set sts" "w' (?ep i) = Some n" "reg_find sid (m_signings (nd_manager n)) = Some c"
    "sst_Status st = status_text (sc_status c)" "sst_Signature st = sc_signature c" using p assms(8) by blast
  have "sc_status c = ceremonyCompleted" using st(1,4) sts(2) by (auto simp: status_text_def split: ceremonyStatus.splits)
  moreover have "sc_signature c \<in> {'''', tsg_Signature r}" using st(1,5) sts(3) by auto
  ultimately show ?thesis using first st(2,3) unfolding sid_def hh by blast
qed

section \<open>What a retirement means\<close>

text \<open>A party without the key: neither in memory nor in its store.\<close>

definition key_gone :: "string \<Rightarrow> ('k, 'sd, 'p) node \<Rightarrow> bool" where
  "key_gone cid n \<longleftrightarrow> reg_find cid (m_ceremonies (nd_manager n)) = None \<and>
     get_share (pe_lib (nd_env n)) (pe_host (nd_env n)) (nd_io n) (m_partyID (nd_manager n), cid) (nd_store n) = None"

text \<open>A party whose store can be read and written.\<close>

definition node_ready :: "string \<Rightarrow> ('k, 'sd, 'p) node \<Rightarrow> bool" where
  "node_ready cid n \<longleftrightarrow> reg_wf (m_ceremonies (nd_manager n)) \<and> io_ok (nd_io n) \<and> store_ready (pe_lib (nd_env n)) (pe_host (nd_env n)) cid"

lemma cluster_retire:
  assumes "web_do (cluster_web pj fate clock) ''POST'' (ep @ ''/tss/shares/retire'') body w = (r, w')"
    and "pj_retire pj body = Some req" "\<And>n. w ep = Some n \<Longrightarrow> node_ready (rtr_CeremonyID req) n"
  shows "(\<forall>e. e \<noteq> ep \<longrightarrow> w' e = w e) \<and>
    (\<forall>msg. r = Responds 200 msg \<longrightarrow> (\<exists>n. w' ep = Some n \<and> key_gone (rtr_CeremonyID req) n)) \<and> (\<forall>code. r \<noteq> BodyUnreadable code)"
proof -
  define u where "u = ep @ ''/tss/shares/retire''"
  define now where "now = clock ''POST'' u w"
  have p: "cluster_post pj now u body w = party_post (\<lambda>b. SharesRetire (pj_retire pj b)) now ep body w"
    unfolding u_def by (rule cluster_post_routes)
  show ?thesis
  proof (cases "w ep")
    case None
    then show ?thesis using assms(1) p unfolding u_def [symmetric]
      by (auto simp: cluster_web_def cluster_reply_def party_post_def now_def [symmetric] split: delivery.splits)
  next
    case (Some n)
    obtain code err m' st' where h: "HandleTSSRetire (nd_env n) (nd_io n) now (Some req) (nd_store n) (nd_manager n) = ((code, err), m', st')"
      by (metis prod.exhaust)
    let ?n = "n\<lparr>nd_manager := m', nd_store := st'\<rparr>"
    have q: "party_post (\<lambda>b. SharesRetire (pj_retire pj b)) now ep body w = Some (Responds code '''', w(ep := Some ?n))"
      using Some h assms(2) by (simp add: party_post_def route_def)
    have g: "key_gone (rtr_CeremonyID req) ?n" if "code = 200"
    proof -
      note k = retire_ok [OF h [unfolded that]] and ready = assms(3) [OF Some, unfolded node_ready_def]
      have "m_partyID m' = m_partyID (nd_manager n)" by (simp add: k(1))
      moreover have "reg_find (rtr_CeremonyID req) (m_ceremonies m') = None" unfolding k(1) using ready by (simp add: Forget_finds)
      moreover have "get_share (pe_lib (nd_env n)) (pe_host (nd_env n)) (nd_io n) (m_partyID (nd_manager n), rtr_CeremonyID req) st' = None"
        unfolding k(2) by (rule shares.get_del) (use ready in simp_all)
      ultimately show ?thesis by (simp add: key_gone_def)
    qed
    show ?thesis using assms(1) p q g unfolding u_def [symmetric]
      by (auto simp: cluster_web_def cluster_reply_def now_def [symmetric] split: delivery.splits)
  qed
qed

lemma retire_parties_cluster:
  fixes w w' :: "('k, 'sd, 'p) cluster"
  assumes "retire_parties (cluster_web pj fate clock) body ps result w = (result', w')" "pj_retire pj body = Some req"
    and "distinct (map (\<lambda>p. trim_right_slash (snd p)) ps)"
    and "\<And>ep n. ep \<in> set (map (\<lambda>p. trim_right_slash (snd p)) ps) \<Longrightarrow> w ep = Some n \<Longrightarrow> node_ready (rtr_CeremonyID req) n"
  shows "(\<exists>es. dsx_Errors result' = dsx_Errors result @ es \<and>
      dsx_DeactivatedCount result' + length es = dsx_DeactivatedCount result + length ps) \<and>
    (\<forall>ep. ep \<notin> set (map (\<lambda>p. trim_right_slash (snd p)) ps) \<longrightarrow> w' ep = w ep) \<and>
    (\<forall>(i, ep) \<in> set ps. (\<exists>e. (i, e) \<in> set (dsx_Errors result')) \<or>
      (\<exists>n. w' (trim_right_slash ep) = Some n \<and> key_gone (rtr_CeremonyID req) n))"
  using assms(1,3,4)
proof (induction ps arbitrary: result w)
  case (Cons p ps)
  obtain i ep where p: "p = (i, ep)" by (cases p)
  define u where "u = trim_right_slash ep @ ''/tss/shares/retire''"
  obtain r w1 where r: "web_do (cluster_web pj fate clock) ''POST'' u body w = (r, w1)" by (metis prod.exhaust)
  obtain result1 where r1: "retire_parties (cluster_web pj fate clock) body ps result1 w1 = (result', w')"
    and c: "(\<exists>e. result1 = result\<lparr>dsx_Errors := dsx_Errors result @ [(i, e)]\<rparr>) \<or>
      ((\<exists>msg. r = Responds 200 msg) \<or> (\<exists>c. r = BodyUnreadable c)) \<and>
        result1 = result\<lparr>dsx_DeactivatedCount := dsx_DeactivatedCount result + 1\<rparr>"
    using Cons.prems(1) r unfolding p retire_parties.simps u_def [symmetric]
    by (cases r) (auto split: if_splits)
  have k: "(\<forall>e. e \<noteq> trim_right_slash ep \<longrightarrow> w1 e = w e) \<and>
    (\<forall>msg. r = Responds 200 msg \<longrightarrow> (\<exists>n. w1 (trim_right_slash ep) = Some n \<and> key_gone (rtr_CeremonyID req) n)) \<and> (\<forall>code. r \<noteq> BodyUnreadable code)"
    by (rule cluster_retire [OF r [unfolded u_def] assms(2)]) (rule Cons.prems(3); simp add: p)
  have d: "distinct (map (\<lambda>p. trim_right_slash (snd p)) ps)" "trim_right_slash ep \<notin> set (map (\<lambda>p. trim_right_slash (snd p)) ps)"
    using Cons.prems(2) p by auto
  have ready: "node_ready (rtr_CeremonyID req) n" if "e \<in> set (map (\<lambda>p. trim_right_slash (snd p)) ps)" "w1 e = Some n" for e n
  proof (rule Cons.prems(3))
    show "e \<in> set (map (\<lambda>p. trim_right_slash (snd p)) (p # ps))" using that(1) by simp
    show "w e = Some n" using that k d(2) by metis
  qed
  have ih: "(\<exists>es. dsx_Errors result' = dsx_Errors result1 @ es \<and>
      dsx_DeactivatedCount result' + length es = dsx_DeactivatedCount result1 + length ps) \<and>
    (\<forall>ep. ep \<notin> set (map (\<lambda>p. trim_right_slash (snd p)) ps) \<longrightarrow> w' ep = w1 ep) \<and>
    (\<forall>(i, ep) \<in> set ps. (\<exists>e. (i, e) \<in> set (dsx_Errors result')) \<or>
      (\<exists>n. w' (trim_right_slash ep) = Some n \<and> key_gone (rtr_CeremonyID req) n))"
    by (rule Cons.IH [OF r1 d(1)]) (rule ready)
  then obtain es where es: "dsx_Errors result' = dsx_Errors result1 @ es"
    "dsx_DeactivatedCount result' + length es = dsx_DeactivatedCount result1 + length ps" by blast
  have here: "(\<exists>e. (i, e) \<in> set (dsx_Errors result')) \<or> (\<exists>n. w' (trim_right_slash ep) = Some n \<and> key_gone (rtr_CeremonyID req) n)"
    using c k ih d(2) es(1) by auto
  have "\<exists>es. dsx_Errors result' = dsx_Errors result @ es \<and>
      dsx_DeactivatedCount result' + length es = dsx_DeactivatedCount result + length (p # ps)"
    using c es by (elim disjE exE conjE) auto
  moreover have "\<forall>e. e \<notin> set (map (\<lambda>p. trim_right_slash (snd p)) (p # ps)) \<longrightarrow> w' e = w e"
    using ih k p by simp
  ultimately show ?case using here ih p by simp
qed simp

text \<open>C11: A retirement counts the parties that no longer have the key. When the worker retires a key through the parties
  at distinct endpoints, each party is either counted or named among the errors, and a party that is not named has the
  key neither in memory nor in its store afterwards.\<close>

theorem retirement_counts_the_gone:
  fixes w w' :: "('k, 'sd, 'p) cluster"
  assumes "retireThroughParties (cluster_web pj fate clock) lib render now' req w = (Inr result, w')"
    and "\<And>b. pj_retire pj (render b) = Some \<lparr>rtr_CeremonyID = rtb_CeremonyID b, rtr_Authorization = rtb_Authorization b,
      rtr_AuthorizationSignature = rtb_AuthorizationSignature b\<rparr>"
    and "distinct (map trim_right_slash (dsr_PartyEndpoints req))"
    and "\<And>ep n. w ep = Some n \<Longrightarrow> node_ready (dsr_CeremonyID req) n"
  shows "dsx_DeactivatedCount result + length (dsx_Errors result) = length (dsr_PartyIDs req) \<and>
    (\<forall>(i, ep) \<in> set (zip (dsr_PartyIDs req) (dsr_PartyEndpoints req)). (\<exists>e. (i, e) \<in> set (dsx_Errors result)) \<or>
      (\<exists>n. w' (trim_right_slash ep) = Some n \<and> key_gone (dsr_CeremonyID req) n))"
proof -
  let ?ps = "zip (dsr_PartyIDs req) (dsr_PartyEndpoints req)"
  obtain auth authSig where len: "length (dsr_PartyEndpoints req) = length (dsr_PartyIDs req)"
    and r: "retire_parties (cluster_web pj fate clock) (render \<lparr>rtb_CeremonyID = dsr_CeremonyID req, rtb_Authorization = auth,
                 rtb_AuthorizationSignature = authSig\<rparr>) ?ps no_shares w = (result, w')"
    using assms(1) by (auto simp: retireThroughParties_def split: if_splits sum.splits prod.splits)
  have "map (\<lambda>p. trim_right_slash (snd p)) ?ps = map trim_right_slash (map snd ?ps)" by simp
  also have "map snd ?ps = dsr_PartyEndpoints req" using len by simp
  finally have "map (\<lambda>p. trim_right_slash (snd p)) ?ps = map trim_right_slash (dsr_PartyEndpoints req)" .
  then have "distinct (map (\<lambda>p. trim_right_slash (snd p)) ?ps)" using assms(3) by (simp only:)
  from retire_parties_cluster [OF r assms(2) this] assms(4) len show ?thesis by (auto simp: no_shares_def)
qed

section \<open>Examples\<close>

definition enc_ints :: "int list \<Rightarrow> string" where
  "enc_ints is = enc_str (replicate (length is) CHR ''1'') @ concat (map (\<lambda>i. enc_str (dec_int i)) is)"

fun dec_ints :: "nat \<Rightarrow> string \<Rightarrow> int list \<times> string" where
  "dec_ints 0 t = ([], t)"
| "dec_ints (Suc n) t = (let (d, t) = dec_str t; (is, t) = dec_ints n t in (the (big_dec d) # is, t))"

lemma dec_ints_concat [simp]: "dec_ints (length is) (concat (map (\<lambda>i. enc_str (dec_int i)) is) @ t) = (is, t)"
  by (induction "is") simp_all

text \<open>A rendering of the bodies as a sequence of fields.\<close>

definition render_sign_start :: "tssSignStartBody \<Rightarrow> string" where
  "render_sign_start b = enc_str (ssb_SignID b) @ enc_str (ssb_KeygenCeremonyID b) @ enc_str (ssb_MessageHashHex b) @
     enc_str (ssb_Authorization b) @ enc_str (ssb_AuthorizationSignature b) @ enc_ints (ssb_CommitteePartyIDs b)"

definition read_sign_start :: "string \<Rightarrow> tssSignStartRequest option" where
  "read_sign_start t = (let (sid, t) = dec_str t; (cid, t) = dec_str t; (mh, t) = dec_str t; (au, t) = dec_str t; (asg, t) = dec_str t;
     (n, t) = dec_str t in
     Some \<lparr>sgr_SignID = sid, sgr_KeygenCeremonyID = cid, sgr_MessageHashHex = mh, sgr_CommitteePartyIDs = fst (dec_ints (length n) t),
       sgr_Authorization = au, sgr_AuthorizationSignature = asg\<rparr>)"

definition render_retire :: "retireBody \<Rightarrow> string" where
  "render_retire b = enc_str (rtb_CeremonyID b) @ enc_str (rtb_Authorization b) @ enc_str (rtb_AuthorizationSignature b)"

definition read_retire :: "string \<Rightarrow> tssRetireRequest option" where
  "read_retire t = (let (cid, t) = dec_str t; (au, t) = dec_str t; (asg, t) = dec_str t in
     Some \<lparr>rtr_CeremonyID = cid, rtr_Authorization = au, rtr_AuthorizationSignature = asg\<rparr>)"

definition demo_bodies :: party_json where
  "demo_bodies = \<lparr>pj_keygen_start = (\<lambda>_. None), pj_sign_start = read_sign_start, pj_retire = read_retire,
     pj_sign_status = (\<lambda>s. case s of None \<Rightarrow> '''' | Some s \<Rightarrow> enc_str (status_text (ssr_Status s)) @ ssr_Signature s),
     pj_keygen_status = (\<lambda>_. '''')\<rparr>"

definition demo_worker_lib :: "(unit, unit) worker_lib" where
  "demo_worker_lib = demo_worker\<lparr>wl_sign_start := render_sign_start,
     wl_sign_status := (\<lambda>t. let (s, t) = dec_str t in Some \<lparr>sst_Status = s, sst_Error = '''', sst_Signature = t\<rparr>)\<rparr>"

lemma demo_bodies_agree: "bodies_agree demo_worker_lib demo_bodies"
  by (simp add: bodies_agree_def demo_worker_lib_def demo_bodies_def render_sign_start_def read_sign_start_def enc_ints_def)
     (metis append_Nil2 dec_ints_concat fst_conv)

text \<open>Parties 1 and 3 of the committee of three at \<^verbatim>\<open>a\<close> and \<^verbatim>\<open>b\<close>; the protocol completes while the worker waits.\<close>

definition demo_party_node :: "int \<Rightarrow> (unit, nat, nat) node" where
  "demo_party_node i = \<lparr>nd_env = demo_party None (\<lambda>_. True), nd_io = demo_io, nd_manager = (demo_manager 1)\<lparr>m_partyID := i\<rparr>, nd_store = empty_store\<rparr>"

definition demo_cluster :: "(unit, nat, nat) cluster" where
  "demo_cluster = [''a'' \<mapsto> demo_party_node 1, ''b'' \<mapsto> demo_party_node 3]"

definition demo_protocol :: "(unit, nat, nat) cluster \<Rightarrow> (unit, nat, nat) cluster" where
  "demo_protocol w = (\<lambda>ep. map_option (\<lambda>n. n\<lparr>nd_manager := (case completeSigning 0 [] [] [] [9] (nd_manager n) of
     Inl _ \<Rightarrow> nd_manager n | Inr m \<Rightarrow> m)\<rparr>) (w ep))"

definition demo_signing :: ThresholdSigningRequest where
  "demo_signing = \<lparr>tsr_CeremonyID = ''k1'', tsr_Message = ''AB'', tsr_PartyIDs = [1, 3], tsr_PartyEndpoints = [''a'', ''b''],
     tsr_ChainID = ''solana''\<rparr>"

definition demo_running :: "int \<Rightarrow> nat tssSigningCeremony" where
  "demo_running p = \<lparr>sc_status = ceremonyInProgress, sc_error = None, sc_selfPartyID = p, sc_committee = map (member 1) [1, 3],
     sc_peers = [(1, ''http://one''), (3, ''http://three'')], sc_localParty = None, sc_curve = CurveEd25519, sc_signature = ''''\<rparr>"

lemma demo_start_party:
  assumes "p \<in> {1, 3}"
  shows "StartSigning demo_tss sid ''k1'' [0xab] [1, 3] (nd_manager (demo_party_node p)) =
    Inr (0, member 1 p, 1, wrap_share CurveEd25519 9, (nd_manager (demo_party_node p))\<lparr>m_signings := reg_new sid (demo_running p) reg_empty\<rparr>)"
proof -
  have c: "committeePartyIDs demo_tss demo_peers 1 = map (member 1) [1, 2, 3]" by code_simp
  have s: "select_committee [1, 3] (map (member 1) [1, 2, 3]) = map (member 1) [1, 3]" by code_simp
  have o: "SortPartyIDs demo_tss (map (member 1) [1, 3]) = map (member 1) [1, 3]" by code_simp
  have q: "committee_peers demo_peers (map (member 1) [1, 3]) = [(1, ''http://one''), (3, ''http://three'')]" by code_simp
  have "findPartyIDByKey (map (member 1) [1, 3]) (committeeKey 1 1) = Some (member 1 1)"
    "findPartyIDByKey (map (member 1) [1, 3]) (committeeKey 3 1) = Some (member 1 3)" by code_simp+
  then have f: "findPartyIDByKey (map (member 1) [1, 3]) (committeeKey p 1) = Some (member 1 p)" using assms by blast
  have m: "m_partyID (nd_manager (demo_party_node p)) = p" "m_signings (nd_manager (demo_party_node p)) = reg_empty"
    "reg_find ''k1'' (m_ceremonies (nd_manager (demo_party_node p))) = Some (demo_keygen 1)"
    using demo_find [of 1] by (simp_all add: demo_party_node_def demo_manager_def NewTSSPartyManager_def)
  have k: "kc_status (demo_keygen 1) = ceremonyCompleted" "kc_saveData (demo_keygen 1) = Some (wrap_share CurveEd25519 9)"
    "kc_threshold (demo_keygen 1) = 1" "kc_sortedIDs (demo_keygen 1) = map (member 1) [1, 2, 3]"
    "kc_peers (demo_keygen 1) = demo_peers" "kc_epoch (demo_keygen 1) = 1"
    by (simp_all only: demo_keygen_def c tssKeygenCeremony.simps)
  have w: "ks_Curve (wrap_share CurveEd25519 9) = CurveEd25519" "CurveEd25519 \<noteq> CurveSecp256k1" "i64 2 = 2"
    by (simp_all add: wrap_share_def CurveEd25519_def CurveSecp256k1_def i64_def)
  show ?thesis
    unfolding StartSigning_def m k prod.case option.case ceremonyStatus.case w(1) Let_def s o q f
    using assms by (auto simp add: w reg_empty_def demo_running_def)
qed

text \<open>The cluster with the session of a party in a given state.\<close>

definition demo_with :: "string \<Rightarrow> (int \<Rightarrow> nat tssSigningCeremony) \<Rightarrow> int \<Rightarrow> (unit, nat, nat) node" where
  "demo_with sid c p = (demo_party_node p)\<lparr>nd_manager := (nd_manager (demo_party_node p))\<lparr>m_signings := reg_new sid (c p) reg_empty\<rparr>\<rparr>"

lemma demo_post:
  assumes "p \<in> {1, 3}" "w ep = Some (demo_party_node p)" "sid \<noteq> ''''"
  shows "postJSONExpect2xx (cluster_web demo_bodies (\<lambda>_ _ _. Delivered) (\<lambda>_ _ _. 0)) (ep @ ''/tss/sign/start'')
      (wl_sign_start demo_worker_lib \<lparr>ssb_SignID = sid, ssb_KeygenCeremonyID = ''k1'', ssb_MessageHashHex = ''AB'',
         ssb_CommitteePartyIDs = [1, 3], ssb_Authorization = '''', ssb_AuthorizationSignature = ''''\<rparr>) w
    = (Inr (), w(ep := Some (demo_with sid demo_running p)))"
proof -
  let ?b = "\<lparr>ssb_SignID = sid, ssb_KeygenCeremonyID = ''k1'', ssb_MessageHashHex = ''AB'',
         ssb_CommitteePartyIDs = [1, 3], ssb_Authorization = '''', ssb_AuthorizationSignature = ''''\<rparr>"
  define u where "u = ep @ ''/tss/sign/start''"
  have r: "pj_sign_start demo_bodies (wl_sign_start demo_worker_lib ?b) = Some \<lparr>sgr_SignID = sid, sgr_KeygenCeremonyID = ''k1'',
      sgr_MessageHashHex = ''AB'', sgr_CommitteePartyIDs = [1, 3], sgr_Authorization = '''', sgr_AuthorizationSignature = ''''\<rparr>"
    using demo_bodies_agree unfolding bodies_agree_def by simp
  have e: "nd_env (demo_party_node p) = demo_party None (\<lambda>_. True)" by (simp add: demo_party_node_def)
  have "HandleTSSSignStart (nd_env (demo_party_node p)) 0 True (pj_sign_start demo_bodies (wl_sign_start demo_worker_lib ?b)) (nd_manager (demo_party_node p))
      = ((202, None), nd_manager (demo_with sid demo_running p))"
    unfolding r e using assms(3) demo_start_party [OF assms(1), of sid] demo_hash
    by (simp add: HandleTSSSignStart_def requireAuthorization_def demo_with_def)
  then have "party_post (\<lambda>b. SignStart (pj_sign_start demo_bodies b)) 0 ep (wl_sign_start demo_worker_lib ?b) w
      = Some (Responds 202 '''', w(ep := Some (demo_with sid demo_running p)))"
    using assms(2) by (simp add: party_post_def route_def demo_with_def)
  then have "cluster_post demo_bodies 0 u (wl_sign_start demo_worker_lib ?b) w = Some (Responds 202 '''', w(ep := Some (demo_with sid demo_running p)))"
    unfolding u_def cluster_post_routes .
  then show ?thesis unfolding u_def [symmetric] by (simp add: postJSONExpect2xx_def cluster_web_def cluster_reply_def is_2xx_def)
qed

lemma demo_get:
  assumes "w ep = Some (demo_with sid c p)" "plain_endpoint ep" "plain_query sid" "sid \<noteq> ''''"
  shows "getTSSStatus (cluster_web demo_bodies (\<lambda>_ _ _. Delivered) (\<lambda>_ _ _. 0)) (wl_sign_status demo_worker_lib) (ep @ ''/tss/sign/status?sign_id='' @ sid) w
    = (Inr \<lparr>sst_Status = status_text (sc_status (c p)), sst_Error = '''', sst_Signature = sc_signature (c p)\<rparr>, w)"
proof -
  define u where "u = ep @ ''/tss/sign/status?sign_id='' @ sid"
  have f: "reg_find sid (m_signings (nd_manager (demo_with sid c p))) = Some (c p)" by (simp add: demo_with_def reg_find_new)
  have "cluster_get demo_bodies u w = Some (Responds 200 (enc_str (status_text (sc_status (c p))) @ sc_signature (c p)))"
    unfolding u_def cluster_get_sign_status [OF assms(2-4)] assms(1) by (simp add: GetSigningStatus_def f demo_bodies_def)
  then show ?thesis unfolding u_def [symmetric]
    by (simp add: getTSSStatus_def cluster_web_def cluster_reply_def is_2xx_def demo_worker_lib_def)
qed

definition demo_finished :: "int \<Rightarrow> nat tssSigningCeremony" where
  "demo_finished p = (demo_running p)\<lparr>sc_status := ceremonyCompleted, sc_signature := hex_encode [9]\<rparr>"

lemma demo_completes:
  "(case completeSigning 0 [] [] [] [9] (nd_manager (demo_with sid demo_running p)) of
      Inl _ \<Rightarrow> nd_manager (demo_with sid demo_running p) | Inr m \<Rightarrow> m) = nd_manager (demo_with sid demo_finished p)"
  by (simp add: completeSigning_def demo_with_def demo_running_def demo_finished_def encode_signature_def reg_new_def reg_empty_def
      reg_update_def)

lemma demo_poll_round:
  assumes "w ''a'' = Some (demo_with sid c 1)" "w ''b'' = Some (demo_with sid c 3)" "plain_query sid" "sid \<noteq> ''''"
    and "\<And>p. sc_status (c p) = s" "\<And>p. sc_signature (c p) = sg" "s \<in> {ceremonyInProgress, ceremonyCompleted}"
  shows "sign_poll_round (cluster_web demo_bodies (\<lambda>_ _ _. Delivered) (\<lambda>_ _ _. 0)) (wl_sign_status demo_worker_lib)
      (endpointByParty [1, 3] [''a'', ''b'']) sid [1, 3] (True, '''') w = (Inr (s = ceremonyCompleted, if s = ceremonyCompleted then sg else ''''), w)"
proof -
  define path where "path = ''/tss/sign/status?sign_id='' @ sid"
  have e: "endpointByParty [1, 3] [''a'', ''b''] 1 = ''a''" "endpointByParty [1, 3] [''a'', ''b''] 3 = ''b''"
    by (simp_all add: endpointByParty_def)
  have p: "plain_endpoint ''a''" "plain_endpoint ''b''" by (simp_all add: plain_endpoint_def)
  note g = demo_get [of w "''a''" sid c 1, OF assms(1) p(1) assms(3,4), folded path_def]
    demo_get [of w "''b''" sid c 3, OF assms(2) p(2) assms(3,4), folded path_def]
  show ?thesis
    unfolding sign_poll_round.simps path_def [symmetric] e g prod.case sum.case tssSignStatusBody.simps assms(5,6)
    using assms(7) by (auto simp: status_text_def)
qed

definition demo_sid :: string where
  "demo_sid = sign_id (wl_auth demo_worker_lib) ''k1'' [0xab]"

definition demo_signed_cluster :: "(int \<Rightarrow> nat tssSigningCeremony) \<Rightarrow> (unit, nat, nat) cluster" where
  "demo_signed_cluster c = [''a'' \<mapsto> demo_with demo_sid c 1, ''b'' \<mapsto> demo_with demo_sid c 3]"

lemma demo_protocol_runs: "demo_protocol (demo_signed_cluster demo_running) = demo_signed_cluster demo_finished"
proof -
  have "(demo_with demo_sid demo_running p)\<lparr>nd_manager := nd_manager (demo_with demo_sid demo_finished p)\<rparr> = demo_with demo_sid demo_finished p" for p
    by (simp add: demo_with_def)
  then show ?thesis
    by (simp add: demo_protocol_def demo_signed_cluster_def demo_completes fun_eq_iff)
qed

lemma demo_signing_run:
  "ExecuteRealSigning (cluster_web demo_bodies (\<lambda>_ _ _. Delivered) (\<lambda>_ _ _. 0)) demo_worker_lib 0 [demo_protocol] demo_signing demo_cluster
    = (Inr \<lparr>tsg_Signature = hex_encode [9], tsg_SignedTx = '''', tsg_Status = ''completed'', tsg_Error = None\<rparr>, demo_signed_cluster demo_finished)"
proof -
  let ?net = "cluster_web demo_bodies (\<lambda>_ _ _. Delivered) (\<lambda>_ _ _. 0) :: (unit, nat, nat) cluster web" and ?ep = "endpointByParty [1, 3] [''a'', ''b'']"
  define payload where "payload = wl_sign_start demo_worker_lib \<lparr>ssb_SignID = demo_sid, ssb_KeygenCeremonyID = ''k1'', ssb_MessageHashHex = ''AB'',
         ssb_CommitteePartyIDs = [1, 3], ssb_Authorization = '''', ssb_AuthorizationSignature = ''''\<rparr>"
  have "plain_query ''k1''" by (simp add: plain_query_def)
  from plain_sign_id [OF this, of "wl_auth demo_worker_lib" "[0xab]"] have sid: "plain_query demo_sid" "demo_sid \<noteq> ''''"
    by (simp_all add: demo_sid_def)
  have e: "?ep 1 = ''a''" "?ep 3 = ''b''" by (simp_all add: endpointByParty_def)
  have "postJSONExpect2xx ?net (''a'' @ ''/tss/sign/start'') payload demo_cluster = (Inr (), demo_cluster(''a'' \<mapsto> demo_with demo_sid demo_running 1))"
    unfolding payload_def by (rule demo_post) (use sid in \<open>simp_all add: demo_cluster_def\<close>)
  moreover have "postJSONExpect2xx ?net (''b'' @ ''/tss/sign/start'') payload (demo_cluster(''a'' \<mapsto> demo_with demo_sid demo_running 1))
      = (Inr (), demo_cluster(''a'' \<mapsto> demo_with demo_sid demo_running 1, ''b'' \<mapsto> demo_with demo_sid demo_running 3))"
    unfolding payload_def by (rule demo_post) (use sid in \<open>simp_all add: demo_cluster_def\<close>)
  moreover have "demo_cluster(''a'' \<mapsto> demo_with demo_sid demo_running 1, ''b'' \<mapsto> demo_with demo_sid demo_running 3) = demo_signed_cluster demo_running"
    by (simp add: demo_cluster_def demo_signed_cluster_def fun_eq_iff)
  ultimately have s: "start_parties ?net ?ep ''/tss/sign/start'' payload [1, 3] demo_cluster = (Inr (), demo_signed_cluster demo_running)"
    unfolding start_parties.simps e by (simp only: prod.case sum.case)
  have r1: "sign_poll_round ?net (wl_sign_status demo_worker_lib) ?ep demo_sid [1, 3] (True, '''') (demo_signed_cluster demo_running)
      = (Inr (False, ''''), demo_signed_cluster demo_running)"
    by (subst demo_poll_round [where c = demo_running and s = ceremonyInProgress and sg = "''''"])
       (use sid in \<open>simp_all add: demo_signed_cluster_def demo_running_def\<close>)
  have r2: "sign_poll_round ?net (wl_sign_status demo_worker_lib) ?ep demo_sid [1, 3] (True, '''') (demo_signed_cluster demo_finished)
      = (Inr (True, hex_encode [9]), demo_signed_cluster demo_finished)"
    by (subst demo_poll_round [where c = demo_finished and s = ceremonyCompleted and sg = "hex_encode [9]"])
       (use sid in \<open>simp_all add: demo_signed_cluster_def demo_finished_def\<close>)
  have l: "sign_poll_loop ?net (wl_sign_status demo_worker_lib) ?ep demo_sid [1, 3] [demo_protocol] (demo_signed_cluster demo_running)
      = (Inr \<lparr>tsg_Signature = hex_encode [9], tsg_SignedTx = '''', tsg_Status = ''completed'', tsg_Error = None\<rparr>, demo_signed_cluster demo_finished)"
    unfolding sign_poll_loop.simps [of _ _ _ _ _ "[demo_protocol]"] r1 prod.case sum.case if_False list.case demo_protocol_runs
      sign_poll_loop.simps [of _ _ _ _ _ "[]"] r2 if_True simp_thms ..
  have a: "authorize (wl_auth demo_worker_lib) (wl_sign demo_worker_lib) 0 (wl_signer demo_worker_lib) ''sign'' demo_sid ''AB'' = Inr ('''', '''')"
    by (simp add: authorize_def demo_worker_lib_def demo_worker_def)
  show ?thesis
    unfolding ExecuteRealSigning_def demo_signing_def ThresholdSigningRequest.simps demo_hash option.case Let_def demo_sid_def [symmetric] a
      sum.case prod.case payload_def [symmetric] s l
    by (simp add: maxSigningMessageBytes_def)
qed

theorem signature_held_by_committee_witness:
  "\<exists>n c. demo_signed_cluster demo_finished ''b'' = Some n \<and> reg_find demo_sid (m_signings (nd_manager n)) = Some c \<and>
    sc_status c = ceremonyCompleted \<and> sc_signature c \<in> {'''', hex_encode [9]}"
proof -
  have e: "endpointByParty [1, 3] [''a'', ''b''] 1 = ''a''" "endpointByParty [1, 3] [''a'', ''b''] 3 = ''b''"
    by (simp_all add: endpointByParty_def)
  have f: "tsr_PartyIDs demo_signing = [1, 3]" "tsr_PartyEndpoints demo_signing = [''a'', ''b'']" "tsr_CeremonyID demo_signing = ''k1''"
    by (simp_all add: demo_signing_def)
  have h: "hex_decode (tsr_Message demo_signing) = Some [0xab]" using demo_hash by (simp only: demo_signing_def ThresholdSigningRequest.simps)
  have k: "plain_query (tsr_CeremonyID demo_signing)" by (simp add: demo_signing_def plain_query_def)
  have i: "3 \<in> set (tsr_PartyIDs demo_signing)" by (simp add: f)
  have p: "plain_endpoint (endpointByParty (tsr_PartyIDs demo_signing) (tsr_PartyEndpoints demo_signing) i)"
    if "i \<in> set (tsr_PartyIDs demo_signing)" for i using that e by (auto simp: f plain_endpoint_def)
  have d: "distinct (map (endpointByParty (tsr_PartyIDs demo_signing) (tsr_PartyEndpoints demo_signing)) (tsr_PartyIDs demo_signing))"
    using e by (simp add: f)
  have c: "tsg_Status \<lparr>tsg_Signature = hex_encode [9], tsg_SignedTx = '''', tsg_Status = ''completed'', tsg_Error = None\<rparr> = ''completed''"
    by simp
  note all = signature_held_by_committee [OF demo_signing_run c demo_bodies_agree k h p d i]
  show ?thesis using conjunct2 [OF all] unfolding f e demo_sid_def by (simp only: ThresholdSigningResult.simps)
qed

definition demo_deactivate :: DeactivateSharesRequest where
  "demo_deactivate = \<lparr>dsr_CeremonyID = ''k1'', dsr_PartyIDs = [1, 2], dsr_PartyEndpoints = [''a/'', ''z'']\<rparr>"

lemma demo_retire_body: "pj_retire demo_bodies (render_retire b) = Some \<lparr>rtr_CeremonyID = rtb_CeremonyID b,
    rtr_Authorization = rtb_Authorization b, rtr_AuthorizationSignature = rtb_AuthorizationSignature b\<rparr>"
  by (simp add: demo_bodies_def render_retire_def read_retire_def)

lemma demo_retire_run:
  "\<exists>w'. retireThroughParties (cluster_web demo_bodies (\<lambda>_ _ _. Delivered) (\<lambda>_ _ _. 0)) demo_worker_lib render_retire 0 demo_deactivate demo_cluster
    = (Inr \<lparr>dsx_DeactivatedCount = 1, dsx_Errors = [(2, RequestFailed ''no route'')]\<rparr>, w')"
proof -
  let ?net = "cluster_web demo_bodies (\<lambda>_ _ _. Delivered) (\<lambda>_ _ _. 0) :: (unit, nat, nat) cluster web"
  let ?b = "render_retire \<lparr>rtb_CeremonyID = ''k1'', rtb_Authorization = '''', rtb_AuthorizationSignature = ''''\<rparr>"
  define u where "u = (\<lambda>ep. ep @ ''/tss/shares/retire'')"
  have post: "cluster_post demo_bodies 0 (u ep) ?b w = party_post (\<lambda>b. SharesRetire (pj_retire demo_bodies b)) 0 ep ?b w" for ep w
    unfolding u_def by (rule cluster_post_routes)
  have b: "pj_retire demo_bodies ?b = Some demo_retire" unfolding demo_retire_body by (simp add: demo_retire_def)
  have n: "nd_env (demo_party_node 1) = demo_party None (\<lambda>_. True)" "nd_io (demo_party_node 1) = demo_io" "nd_store (demo_party_node 1) = empty_store"
    "m_partyID (nd_manager (demo_party_node 1)) = 1" by (simp_all add: demo_party_node_def)
  have "\<exists>w1. party_post (\<lambda>b. SharesRetire (pj_retire demo_bodies b)) 0 ''a'' ?b demo_cluster = Some (Responds 200 '''', w1) \<and> w1 ''z'' = None"
    using demo_retire_ok [OF n(4), of "\<lambda>_. True"] by (simp add: party_post_def demo_cluster_def route_def b n)
  then obtain w1 where w1: "web_do ?net ''POST'' (u ''a'') ?b demo_cluster = (Responds 200 '''', w1)" "w1 ''z'' = None"
    by (auto simp: cluster_web_def cluster_reply_def post)
  have z: "web_do ?net ''POST'' (u ''z'') ?b w1 = (RequestFails ''no route'', w1)"
    using w1(2) by (simp add: cluster_web_def cluster_reply_def post party_post_def)
  have t: "trim_right_slash ''a/'' = ''a''" "trim_right_slash ''z'' = ''z''" by code_simp+
  have r: "retire_parties ?net ?b [(1, ''a/''), (2, ''z'')] no_shares demo_cluster
      = (\<lparr>dsx_DeactivatedCount = 1, dsx_Errors = [(2, RequestFailed ''no route'')]\<rparr>, w1)"
    using w1(1) z by (simp add: t u_def [symmetric, THEN fun_cong] no_shares_def)
  have a: "authorize (wl_auth demo_worker_lib) (wl_sign demo_worker_lib) 0 (wl_signer demo_worker_lib) ''retire'' ''k1'' '''' = Inr ('''', '''')"
    by (simp add: authorize_def demo_worker_lib_def demo_worker_def)
  show ?thesis
    by (rule exI [of _ w1]) (simp add: retireThroughParties_def demo_deactivate_def a r del: retire_parties.simps)
qed

theorem retirement_counts_the_gone_witness:
  "\<exists>w' n. retireThroughParties (cluster_web demo_bodies (\<lambda>_ _ _. Delivered) (\<lambda>_ _ _. 0)) demo_worker_lib render_retire 0 demo_deactivate demo_cluster
    = (Inr \<lparr>dsx_DeactivatedCount = 1, dsx_Errors = [(2, RequestFailed ''no route'')]\<rparr>, w') \<and> w' ''a'' = Some n \<and> key_gone ''k1'' n"
proof -
  obtain w' where r: "retireThroughParties (cluster_web demo_bodies (\<lambda>_ _ _. Delivered) (\<lambda>_ _ _. 0)) demo_worker_lib render_retire 0 demo_deactivate demo_cluster
    = (Inr \<lparr>dsx_DeactivatedCount = 1, dsx_Errors = [(2, RequestFailed ''no route'')]\<rparr>, w')" using demo_retire_run by blast
  have t: "trim_right_slash ''a/'' = ''a''" "trim_right_slash ''z'' = ''z''" by code_simp+
  have d: "distinct (map trim_right_slash (dsr_PartyEndpoints demo_deactivate))" by (simp add: demo_deactivate_def t)
  have "node_ready ''k1'' (demo_party_node p)" for p
    using demo_k1_ready demo_io_ok by (simp add: node_ready_def demo_party_node_def demo_manager_def)
  then have n: "node_ready (dsr_CeremonyID demo_deactivate) n" if "demo_cluster ep = Some n" for ep n
    using that by (auto simp: demo_cluster_def demo_deactivate_def split: if_splits)
  have "\<exists>n. w' ''a'' = Some n \<and> key_gone ''k1'' n"
    using retirement_counts_the_gone [OF r demo_retire_body d n] by (simp add: demo_deactivate_def t)
  then show ?thesis using r by blast
qed

end
