(* ===== verification/Go_Float.thy ===== *)
theory Go_Float
  imports Complex_Main Go_Text "HOL-Library.Log_Nat"
begin

text \<open>
  Decimal text read by \<^verbatim>\<open>new(big.Float).SetString\<close>, for non-negative numbers without exponent. A value is a rational
  number; an operation at precision \<open>p\<close> is the exact one followed by rounding to \<open>p\<close> bits, to nearest and ties to even.
  With no precision set, \<^verbatim>\<open>SetString\<close> takes 64 bits; a fractional part is divided out by a power of five computed at
  128 bits, whose squares are kept at 192 bits. Exponents beyond 32 bits, which need numbers of hundreds of megabytes,
  are not modelled.
\<close>

section \<open>Rounding\<close>

definition pow2 :: "int \<Rightarrow> rat" where
  "pow2 k = (if 0 \<le> k then 2 ^ nat k else 1 / 2 ^ nat (- k))"

text \<open>The exponent of a positive number: \<open>pow2 (ilog2 x) \<le> x < pow2 (ilog2 x + 1)\<close>.\<close>

definition ilog2 :: "rat \<Rightarrow> int" where
  "ilog2 x = (let (n, d) = quotient_of x; k = int (floorlog 2 (nat n)) - int (floorlog 2 (nat d)) in if pow2 k \<le> x then k else k - 1)"

definition round_even :: "rat \<Rightarrow> int" where
  "round_even x = (let m = \<lfloor>x\<rfloor>; f = x - of_int m in if f < 1 / 2 then m else if 1 / 2 < f then m + 1 else if even m then m else m + 1)"

definition round_bits :: "nat \<Rightarrow> rat \<Rightarrow> rat" where
  "round_bits p x = (if x = 0 then 0 else let u = pow2 (ilog2 x - int p + 1) in of_int (round_even (x / u)) * u)"

text \<open>The result of an operation of type \<^verbatim>\<open>float64\<close> whose exact value is \<open>x\<close>, where that is zero or in the normal range.\<close>

definition f64 :: "rat \<Rightarrow> rat" where
  "f64 x = (if x < 0 then - round_bits 53 (- x) else round_bits 53 x)"

section \<open>Reading a decimal\<close>

fun pow5_loop :: "nat \<Rightarrow> rat \<Rightarrow> rat \<Rightarrow> rat" where
  "pow5_loop n z f = (if n = 0 then z else pow5_loop (n div 2) (if odd n then round_bits 128 (z * f) else z) (round_bits 192 (f * f)))"

declare pow5_loop.simps [simp del]

definition pow5 :: "nat \<Rightarrow> rat" where
  "pow5 n = (if n \<le> 27 then 5 ^ n else pow5_loop (n - 27) (5 ^ 27) 5)"

definition float_dec :: "string \<Rightarrow> string \<Rightarrow> rat" where
  "float_dec whole fraction =
     (let m = of_nat (digits_nat (whole @ fraction)) in
      if m = 0 then 0
      else if fraction = [] then round_bits 64 m
      else round_bits 64 (m / 2 ^ length fraction / pow5 (length fraction)))"

section \<open>Properties\<close>

lemma pow2_pos [simp]: "0 < pow2 k" "0 \<le> pow2 k" "pow2 k \<noteq> 0"
  by (simp_all add: pow2_def)

lemma pow2_powi: "pow2 k = 2 powi k"
  by (simp add: pow2_def power_int_def field_simps)

lemma pow2_add: "pow2 (a + b) = pow2 a * pow2 b"
  by (simp add: pow2_powi power_int_add)

lemma pow2_mono: "a \<le> b \<Longrightarrow> pow2 a \<le> pow2 b"
  by (simp add: pow2_powi power_int_increasing)

lemma pow2_less_iff: "pow2 a < pow2 b \<longleftrightarrow> a < b"
  by (metis pow2_mono pow2_powi not_le power_int_strict_increasing one_less_numeral_iff semiring_norm(76))

lemma pow2_nat: "pow2 (int k) = 2 ^ k"
  by (simp add: pow2_def)

lemma floorlog_2_bounds: "0 < n \<Longrightarrow> 2 ^ (floorlog 2 n - 1) \<le> n \<and> n < 2 ^ floorlog 2 n \<and> 0 < floorlog 2 n"
  using floorlog_bounds [of n 2] by (cases "floorlog 2 n") auto

lemma ilog2_bounds:
  assumes "0 < x"
  shows "pow2 (ilog2 x) \<le> x \<and> x < pow2 (ilog2 x + 1)"
proof -
  obtain n d where q: "quotient_of x = (n, d)" by (cases "quotient_of x")
  have d: "0 < d" using quotient_of_denom_pos [OF q] .
  have x: "x = of_int n / of_int d" by (rule quotient_of_div [OF q])
  have n: "0 < n" using assms d by (simp add: x zero_less_divide_iff)
  let ?a = "floorlog 2 (nat n)" and ?b = "floorlog 2 (nat d)"
  have N: "2 ^ (?a - 1) \<le> nat n" "nat n < 2 ^ ?a" "0 < ?a" using floorlog_2_bounds [of "nat n"] n by auto
  have D: "2 ^ (?b - 1) \<le> nat d" "nat d < 2 ^ ?b" "0 < ?b" using floorlog_2_bounds [of "nat d"] d by auto
  have lift: "of_nat (nat n) = (of_int n :: rat)" "of_nat (nat d) = (of_int d :: rat)" using n d by simp_all
  have N': "(2 :: rat) ^ (?a - 1) \<le> of_int n" "of_int n < (2 :: rat) ^ ?a"
    using N(1,2) unfolding lift(1) [symmetric] by (metis of_nat_le_iff of_nat_numeral of_nat_power, metis of_nat_less_iff of_nat_numeral of_nat_power)
  have D': "(2 :: rat) ^ (?b - 1) \<le> of_int d" "of_int d < (2 :: rat) ^ ?b"
    using D(1,2) unfolding lift(2) [symmetric] by (metis of_nat_le_iff of_nat_numeral of_nat_power, metis of_nat_less_iff of_nat_numeral of_nat_power)
  let ?k = "int ?a - int ?b"
  have lo: "pow2 (?k - 1) < x"
  proof -
    have "pow2 (?k - 1) * of_int d < pow2 (?k - 1) * 2 ^ ?b" using D'(2) by simp
    also have "\<dots> = pow2 (int (?a - 1))" using N(3) by (simp add: pow2_nat [symmetric] pow2_add [symmetric] of_nat_diff)
    also have "\<dots> \<le> of_int n" using N'(1) by (simp only: pow2_nat)
    finally show ?thesis using d by (simp add: x field_simps)
  qed
  have hi: "x < pow2 (?k + 1)"
  proof -
    have "of_int n < (2 :: rat) ^ ?a" by (rule N'(2))
    also have "\<dots> = pow2 (?k + 1) * pow2 (int (?b - 1))" using D(3) by (simp add: pow2_nat [symmetric] pow2_add [symmetric] of_nat_diff)
    also have "\<dots> \<le> pow2 (?k + 1) * of_int d" using D'(1) by (simp only: pow2_nat mult_left_mono [OF _ pow2_pos(2)])
    finally show ?thesis using d by (simp add: x field_simps)
  qed
  show ?thesis using lo hi by (auto simp: ilog2_def q Let_def not_le)
qed

lemma round_even_close: "\<bar>of_int (round_even x) - x\<bar> \<le> 1 / 2"
proof -
  have "of_int \<lfloor>x\<rfloor> \<le> x" "x < of_int \<lfloor>x\<rfloor> + 1" by linarith+
  then show ?thesis by (auto simp: round_even_def Let_def abs_le_iff)
qed

lemma round_even_of_int [simp]: "round_even (of_int m) = m"
  by (simp add: round_even_def)

lemma round_even_mono: "x \<le> y \<Longrightarrow> round_even x \<le> round_even y"
proof -
  assume le: "x \<le> y"
  have fl: "\<lfloor>x\<rfloor> \<le> \<lfloor>y\<rfloor>" using le by (rule floor_mono)
  have x: "round_even x \<le> \<lfloor>x\<rfloor> + 1" "\<lfloor>x\<rfloor> \<le> round_even x" and y: "\<lfloor>y\<rfloor> \<le> round_even y"
    by (auto simp: round_even_def Let_def)
  show ?thesis
  proof (cases "\<lfloor>x\<rfloor> = \<lfloor>y\<rfloor>")
    case True
    then show ?thesis using le by (auto simp: round_even_def Let_def)
  next
    case False
    then show ?thesis using fl x y by linarith
  qed
qed

lemma ilog2_mono: "0 < x \<Longrightarrow> x \<le> y \<Longrightarrow> ilog2 x \<le> ilog2 y"
proof -
  assume "0 < x" "x \<le> y"
  then have "pow2 (ilog2 x) < pow2 (ilog2 y + 1)" using ilog2_bounds [of x] ilog2_bounds [of y] by linarith
  then show ?thesis by (simp add: pow2_less_iff)
qed

lemma ilog2_unique: "pow2 k \<le> x \<Longrightarrow> x < pow2 (k + 1) \<Longrightarrow> ilog2 x = k"
proof -
  assume a: "pow2 k \<le> x" "x < pow2 (k + 1)"
  then have "0 < x" using pow2_pos(1) [of k] by linarith
  then have "pow2 (ilog2 x) \<le> x" "x < pow2 (ilog2 x + 1)" using ilog2_bounds by blast+
  then have "pow2 (ilog2 x) < pow2 (k + 1)" "pow2 k < pow2 (ilog2 x + 1)" using a by linarith+
  then show ?thesis by (simp add: pow2_less_iff)
qed

text \<open>A positive number at precision \<open>p\<close> in units of its last place.\<close>

lemma units:
  assumes "0 < x" "0 < p"
  defines "u \<equiv> pow2 (ilog2 x - int p + 1)"
  shows "2 ^ (p - 1) \<le> x / u" "x / u < 2 ^ p" "0 < u"
proof -
  show u: "0 < u" by (simp add: u_def)
  have "pow2 (int (p - 1)) * u = pow2 (ilog2 x)" "pow2 (int p) * u = pow2 (ilog2 x + 1)"
    using assms(2) by (simp_all add: u_def pow2_add [symmetric] of_nat_diff)
  then show "2 ^ (p - 1) \<le> x / u" "x / u < 2 ^ p"
    using ilog2_bounds [OF assms(1)] u by (simp_all add: pow2_nat [symmetric] field_simps)
qed

lemma round_bits_0 [simp]: "round_bits p 0 = 0"
  by (simp add: round_bits_def)

lemma abs_units: "0 < u \<Longrightarrow> \<bar>a - x / u\<bar> * u = \<bar>a * u - x\<bar>" for a x u :: rat
proof -
  assume u: "0 < u"
  then have "\<bar>a - x / u\<bar> * u = \<bar>(a - x / u) * u\<bar>" by (simp add: abs_mult)
  also have "(a - x / u) * u = a * u - x" using u by (simp add: field_simps)
  finally show ?thesis .
qed

lemma round_bits_close:
  assumes "0 \<le> x" "0 < p"
  shows "\<bar>round_bits p x - x\<bar> \<le> x / 2 ^ p"
proof (cases "x = 0")
  case False
  let ?u = "pow2 (ilog2 x - int p + 1)"
  have x: "0 < x" using False assms(1) by simp
  note un = units [OF x assms(2)]
  have "\<bar>of_int (round_even (x / ?u)) - x / ?u\<bar> * ?u \<le> 1 / 2 * ?u"
    by (rule mult_right_mono [OF round_even_close]) (use un(3) in simp)
  moreover have "\<bar>of_int (round_even (x / ?u)) - x / ?u\<bar> * ?u = \<bar>round_bits p x - x\<bar>"
    unfolding abs_units [OF un(3)] using False by (simp add: round_bits_def Let_def)
  moreover have "1 / 2 * ?u \<le> x / 2 ^ p"
  proof -
    have "2 ^ (p - 1) * ?u \<le> x" using un(1,3) by (simp add: field_simps)
    moreover have "(2 :: rat) ^ p = 2 * 2 ^ (p - 1)" using assms(2) by (cases p) simp_all
    ultimately show ?thesis by (simp add: field_simps)
  qed
  ultimately show ?thesis by linarith
qed simp

lemma round_bits_nonneg: "0 \<le> x \<Longrightarrow> 0 < p \<Longrightarrow> 0 \<le> round_bits p x"
proof -
  assume a: "0 \<le> x" "0 < p"
  have "x / 2 ^ p \<le> x / 1" using a by (intro divide_left_mono) simp_all
  then show ?thesis using round_bits_close [OF a] by linarith
qed

lemma round_bits_range:
  assumes "0 < x" "0 < p"
  shows "pow2 (ilog2 x) \<le> round_bits p x" "round_bits p x \<le> pow2 (ilog2 x + 1)"
proof -
  let ?u = "pow2 (ilog2 x - int p + 1)"
  note un = units [OF assms]
  have e: "round_bits p x = of_int (round_even (x / ?u)) * ?u" using assms(1) by (simp add: round_bits_def Let_def)
  have "of_int (2 ^ (p - 1)) \<le> x / ?u" "x / ?u \<le> of_int (2 ^ p)" using un(1,2) by simp_all
  then have "2 ^ (p - 1) \<le> round_even (x / ?u)" "round_even (x / ?u) \<le> 2 ^ p"
    using round_even_mono round_even_of_int by metis+
  then have "(2 :: rat) ^ (p - 1) \<le> of_int (round_even (x / ?u))" "of_int (round_even (x / ?u)) \<le> (2 :: rat) ^ p"
    by (metis of_int_le_iff of_int_numeral of_int_power)+
  then have "2 ^ (p - 1) * ?u \<le> round_bits p x" "round_bits p x \<le> 2 ^ p * ?u"
    unfolding e using un(3) by (simp_all add: mult_right_mono)
  moreover have "2 ^ (p - 1) * ?u = pow2 (ilog2 x)" "2 ^ p * ?u = pow2 (ilog2 x + 1)"
    using assms(2) by (simp_all add: pow2_nat [symmetric] pow2_add [symmetric] of_nat_diff)
  ultimately show "pow2 (ilog2 x) \<le> round_bits p x" "round_bits p x \<le> pow2 (ilog2 x + 1)" by simp_all
qed

lemma round_bits_mono:
  assumes "0 \<le> x" "x \<le> y" "0 < p"
  shows "round_bits p x \<le> round_bits p y"
proof (cases "x = 0")
  case True
  then show ?thesis using round_bits_nonneg [of y p] assms by simp
next
  case False
  then have x: "0 < x" "0 < y" using assms by simp_all
  show ?thesis
  proof (cases "ilog2 x = ilog2 y")
    case True
    let ?u = "pow2 (ilog2 y - int p + 1)"
    have "round_even (x / ?u) \<le> round_even (y / ?u)"
      by (rule round_even_mono) (use assms(2) in \<open>simp add: divide_right_mono\<close>)
    then show ?thesis using x True by (simp add: round_bits_def Let_def)
  next
    case False
    then have "ilog2 x + 1 \<le> ilog2 y" using ilog2_mono [OF x(1) assms(2)] by simp
    then have "pow2 (ilog2 x + 1) \<le> pow2 (ilog2 y)" by (rule pow2_mono)
    then show ?thesis using round_bits_range(2) [OF x(1) assms(3)] round_bits_range(1) [OF x(2) assms(3)] by linarith
  qed
qed

lemma round_bits_exact:
  assumes "n < 2 ^ p" "0 < p"
  shows "round_bits p (of_nat n) = of_nat n"
proof (cases "n = 0")
  case False
  let ?x = "of_nat n :: rat" and ?k = "ilog2 (of_nat n)"
  have x: "0 < ?x" using False by simp
  have "pow2 ?k \<le> ?x" using ilog2_bounds [OF x] by simp
  also have "?x < 2 ^ p" using assms(1) by (metis of_nat_less_iff of_nat_numeral of_nat_power)
  finally have "?k < int p" by (simp add: pow2_nat [symmetric] pow2_less_iff)
  then have u: "pow2 (?k - int p + 1) = 1 / 2 ^ nat (int p - 1 - ?k)"
    by (auto simp: pow2_def nat_diff_distrib algebra_simps)
  have "?x / pow2 (?k - int p + 1) = of_int (int n * 2 ^ nat (int p - 1 - ?k))" by (simp add: u)
  then have "round_even (?x / pow2 (?k - int p + 1)) = int n * 2 ^ nat (int p - 1 - ?k)" by (metis round_even_of_int)
  then show ?thesis using False by (simp add: round_bits_def Let_def u)
qed simp

text \<open>Up to 27 decimals the divisor is exact, so the value read is the decimal rounded once.\<close>

definition decimal :: "string \<Rightarrow> string \<Rightarrow> rat" where
  "decimal whole fraction = of_nat (digits_nat (whole @ fraction)) / 10 ^ length fraction"

lemma float_dec_rounds: "length fraction \<le> 27 \<Longrightarrow> float_dec whole fraction = round_bits 64 (decimal whole fraction)"
proof -
  assume "length fraction \<le> 27"
  moreover have "(10 :: rat) ^ n = 2 ^ n * 5 ^ n" for n by (simp add: power_mult_distrib [symmetric])
  ultimately show ?thesis by (simp add: float_dec_def decimal_def pow5_def Let_def field_simps)
qed

lemma decimal_nonneg [simp]: "0 \<le> decimal whole fraction"
  by (simp add: decimal_def)

end
