(* ===== verification/Policy_Engine.thy ===== *)
theory Policy_Engine
  imports Go_Float Sql
begin

text \<open>
  The policy service: \<^verbatim>\<open>policy/policy.go\<close> (rules, their evaluation, the operations and HTTP handlers of the service),
  \<^verbatim>\<open>policy/httperr.go\<close> and the queries of \<^verbatim>\<open>policy/db.go\<close>. The tables are \<open>policies\<close> and, of \<open>key_pairs\<close>, the owner of a
  key; what a tenant's transaction sees is cut down to that tenant's rows, as row-level security does. Parameters: the
  cast of a text to a UUID, fresh identifiers, the JSON text of the rules and what the JSONB column makes of it, the
  clock (microseconds of the wall clock, and its hour). An evaluation is taken to fall within one hour. A nil pointer in
  a list of rules or approvers, which the JSON \<^verbatim>\<open>null\<close> decodes to, is \<^const>\<open>None\<close>, and touching it is a panic.
\<close>

section \<open>Policies\<close>

record RuleConfig =
  rcf_MaxAmount :: "string option"
  rcf_WhitelistAddresses :: "string list"
  rcf_AllowedHours :: "int list"
  rcf_MaxRequestsPerDay :: int
  rcf_Blockchains :: "string list"

record PolicyRule =
  pru_RuleID :: string
  pru_Type :: string
  pru_Description :: string
  pru_Enabled :: bool
  pru_Config :: RuleConfig

record PolicyApprover =
  pap_ApproverID :: string
  pap_Email :: string
  pap_Role :: string
  pap_Approved :: bool
  pap_ApprovedAt :: "int option"

record ApprovalConfig =
  acf_Required :: int
  acf_Approvers :: "PolicyApprover option list"
  acf_TimeoutMinutes :: int

record RateLimitConfig =
  rlc_MaxPerHour :: int
  rlc_MaxPerDay :: int
  rlc_MaxPerMonth :: int

text \<open>The rules as they are stored, in one column. A nil list is told from an empty one.\<close>

record policyRules =
  prs_Rules :: "PolicyRule option list option"
  prs_Approvals :: "ApprovalConfig option"
  prs_RateLimit :: "RateLimitConfig option"

record Policy =
  pol_PolicyID :: string
  pol_KeyID :: string
  pol_CustomerID :: string
  pol_Name :: string
  pol_Description :: string
  pol_Status :: string
  pol_Stored :: policyRules
  pol_CreatedAt :: int
  pol_UpdatedAt :: int

record CreatePolicyRequest =
  cpr_KeyID :: string
  cpr_Name :: string
  cpr_Description :: string
  cpr_Stored :: policyRules

record PolicyEvaluationRequest =
  per_KeyID :: string
  per_DestinationAddress :: string
  per_Amount :: string
  per_Blockchain :: string
  per_Timestamp :: "int option"

record PolicyEvaluationResult =
  pev_Allowed :: bool
  pev_RequiresApproval :: bool
  pev_ApprovalConfig :: "ApprovalConfig option"
  pev_ViolatedRules :: "string list"
  pev_Reason :: string

definition rules_of :: "Policy \<Rightarrow> PolicyRule option list" where
  "rules_of p = (case prs_Rules (pol_Stored p) of None \<Rightarrow> [] | Some rs \<Rightarrow> rs)"

section \<open>Rules\<close>

text \<open>\<^verbatim>\<open>amountPattern\<close>: digits, and possibly a point and more digits. The result splits at the point.\<close>

definition amountPattern :: "string \<Rightarrow> (string \<times> string) option" where
  "amountPattern s =
     (let whole = takeWhile is_digit s; rest = dropWhile is_digit s in
      if whole = [] then None
      else case rest of
             [] \<Rightarrow> Some (whole, [])
           | c # fraction \<Rightarrow> if c = CHR ''.'' \<and> fraction \<noteq> [] \<and> list_all is_digit fraction then Some (whole, fraction) else None)"

definition parseAmount :: "string \<Rightarrow> rat option" where
  "parseAmount raw = (case amountPattern raw of None \<Rightarrow> None | Some (whole, fraction) \<Rightarrow> Some (float_dec whole fraction))"

definition checkAmountLimit :: "RuleConfig \<Rightarrow> PolicyEvaluationRequest \<Rightarrow> bool" where
  "checkAmountLimit cfg eval =
     (case rcf_MaxAmount cfg of
        None \<Rightarrow> True
      | Some limit \<Rightarrow>
          (case parseAmount (per_Amount eval) of
             None \<Rightarrow> False
           | Some amount \<Rightarrow> (case parseAmount limit of None \<Rightarrow> False | Some m \<Rightarrow> amount \<le> m)))"

definition checkWhitelist :: "RuleConfig \<Rightarrow> PolicyEvaluationRequest \<Rightarrow> bool" where
  "checkWhitelist cfg eval \<longleftrightarrow>
     (if rcf_WhitelistAddresses cfg = [] then True else per_DestinationAddress eval \<in> set (rcf_WhitelistAddresses cfg))"

definition checkTimeWindow :: "int \<Rightarrow> RuleConfig \<Rightarrow> bool" where
  "checkTimeWindow hour cfg \<longleftrightarrow> (if rcf_AllowedHours cfg = [] then True else hour \<in> set (rcf_AllowedHours cfg))"

definition checkBlockchain :: "RuleConfig \<Rightarrow> PolicyEvaluationRequest \<Rightarrow> bool" where
  "checkBlockchain cfg eval \<longleftrightarrow> (if rcf_Blockchains cfg = [] then True else per_Blockchain eval \<in> set (rcf_Blockchains cfg))"

text \<open>The hour is that of the moment a rule is evaluated.\<close>

definition evaluateRule :: "int \<Rightarrow> PolicyRule \<Rightarrow> PolicyEvaluationRequest \<Rightarrow> bool" where
  "evaluateRule hour rule eval =
     (if pru_Type rule = ''amount_limit'' then checkAmountLimit (pru_Config rule) eval
      else if pru_Type rule = ''whitelist'' then checkWhitelist (pru_Config rule) eval
      else if pru_Type rule = ''time_based'' then checkTimeWindow hour (pru_Config rule)
      else if pru_Type rule = ''blockchain'' then checkBlockchain (pru_Config rule) eval
      else True)"

section \<open>Storage\<close>

datatype policy_error =
    FieldsRequired
  | NotFoundError
  | InvalidInput string
  | DatabaseError
  | MarshalError
  | UnreadableRules
  | NothingUpdated
  | NoApprovalsConfigured
  | NilPointerPanic

record policy_row =
  prw_policy_id :: string
  prw_customer_id :: string
  prw_key_id :: "string option"
  prw_name :: string
  prw_description :: string
  prw_rules :: string
  prw_status :: string
  prw_created_at :: int
  prw_updated_at :: int

record policy_db = sql_conn +
  pdb_owner :: "string \<Rightarrow> string option"
  pdb_policies :: "policy_row list"

text \<open>\<open>pl_uuid\<close> is the canonical text of what a string casts to, if it does; \<open>pl_jsonb\<close> what the column gives back for a
  JSON text it accepts.\<close>

record policy_lib =
  pl_uuid :: "string \<Rightarrow> string option"
  pl_marshal :: "policyRules \<Rightarrow> string option"
  pl_jsonb :: "string \<Rightarrow> string option"
  pl_unmarshal :: "string \<Rightarrow> policyRules option"

definition withTenant ::
  "string \<Rightarrow> (policy_db \<Rightarrow> (policy_error + 'a) \<times> policy_db) \<Rightarrow> policy_db \<Rightarrow> (policy_error + 'a) \<times> policy_db" where
  "withTenant = tenant_transaction DatabaseError"

definition visible :: "string \<Rightarrow> policy_db \<Rightarrow> policy_row list" where
  "visible customer db = filter (\<lambda>r. prw_customer_id r = customer) (pdb_policies db)"

text \<open>A query by an identifier: the cast can be refused.\<close>

definition query_by :: "policy_lib \<Rightarrow> string \<Rightarrow> (string \<Rightarrow> policy_db \<Rightarrow> 'a) \<Rightarrow> policy_db \<Rightarrow> 'a option \<times> policy_db" where
  "query_by lib ident q = exec_statement (\<lambda>db. map_option (\<lambda>k. (q k db, db)) (pl_uuid lib ident))"

definition resolveCustomerIDForKey :: "policy_lib \<Rightarrow> string \<Rightarrow> policy_db \<Rightarrow> (policy_error + string) \<times> policy_db" where
  "resolveCustomerIDForKey lib keyID db =
     (case query_by lib keyID (\<lambda>k db. pdb_owner db k) db of
        (None, db') \<Rightarrow> (Inl DatabaseError, db')
      | (Some None, db') \<Rightarrow> (Inl NotFoundError, db')
      | (Some (Some c), db') \<Rightarrow> (Inr c, db'))"

definition resolveCustomerIDForPolicy :: "policy_lib \<Rightarrow> string \<Rightarrow> policy_db \<Rightarrow> (policy_error + string) \<times> policy_db" where
  "resolveCustomerIDForPolicy lib policyID db =
     (case query_by lib policyID (\<lambda>k db. find (\<lambda>r. prw_policy_id r = k) (pdb_policies db)) db of
        (None, db') \<Rightarrow> (Inl DatabaseError, db')
      | (Some None, db') \<Rightarrow> (Inl NotFoundError, db')
      | (Some (Some r), db') \<Rightarrow> (Inr (prw_customer_id r), db'))"

text \<open>The constraints of the table: identifiers are unique, a policy's key exists, a name is unique among a customer's
  policies, the status is one of two.\<close>

definition row_fits :: "policy_db \<Rightarrow> policy_row \<Rightarrow> policy_row list \<Rightarrow> bool" where
  "row_fits db row others \<longleftrightarrow> (case prw_key_id row of None \<Rightarrow> True | Some k \<Rightarrow> pdb_owner db k \<noteq> None) \<and>
     prw_status row \<in> {''active'', ''inactive''} \<and>
     list_all (\<lambda>r. prw_policy_id r \<noteq> prw_policy_id row \<and> \<not> (prw_customer_id r = prw_customer_id row \<and> prw_name r = prw_name row)) others"

definition insert_policy :: "policy_lib \<Rightarrow> string \<Rightarrow> string \<Rightarrow> Policy \<Rightarrow> policy_db \<Rightarrow> (unit \<times> policy_db) option" where
  "insert_policy lib customerID rules p db =
     (case (pl_uuid lib (pol_PolicyID p), pl_uuid lib (pol_KeyID p), varchar 255 (pol_Name p), sql_text (pol_Description p), pl_jsonb lib rules) of
        (Some i, Some k, Some name, Some descr, Some js) \<Rightarrow>
          (let row = \<lparr>prw_policy_id = i, prw_customer_id = customerID, prw_key_id = Some k, prw_name = name, prw_description = descr,
                      prw_rules = js, prw_status = pol_Status p, prw_created_at = pol_CreatedAt p, prw_updated_at = pol_UpdatedAt p\<rparr>
           in if row_fits db row (pdb_policies db) then Some ((), db\<lparr>pdb_policies := pdb_policies db @ [row]\<rparr>) else None)
      | _ \<Rightarrow> None)"

definition db_CreatePolicy :: "policy_lib \<Rightarrow> Policy \<Rightarrow> policy_db \<Rightarrow> (policy_error + string) \<times> policy_db" where
  "db_CreatePolicy lib p db =
     (case pl_marshal lib (pol_Stored p) of
        None \<Rightarrow> (Inl MarshalError, db)
      | Some rules \<Rightarrow>
          (case resolveCustomerIDForKey lib (pol_KeyID p) db of
             (Inl e, db1) \<Rightarrow> (Inl e, db1)
           | (Inr customerID, db1) \<Rightarrow>
               withTenant customerID (\<lambda>db.
                 case exec_statement (insert_policy lib customerID rules p) db of
                   (None, db') \<Rightarrow> (Inl DatabaseError, db')
                 | (Some _, db') \<Rightarrow> (Inr customerID, db')) db1))"

definition read_row :: "policy_lib \<Rightarrow> string \<Rightarrow> policy_row \<Rightarrow> policy_error + Policy" where
  "read_row lib customerID r =
     (case prw_key_id r of
        None \<Rightarrow> Inl DatabaseError
      | Some k \<Rightarrow>
          (case pl_unmarshal lib (prw_rules r) of
             None \<Rightarrow> Inl UnreadableRules
           | Some pr \<Rightarrow> Inr \<lparr>pol_PolicyID = prw_policy_id r, pol_KeyID = k, pol_CustomerID = customerID, pol_Name = prw_name r,
               pol_Description = prw_description r, pol_Status = prw_status r, pol_Stored = pr, pol_CreatedAt = prw_created_at r,
               pol_UpdatedAt = prw_updated_at r\<rparr>))"

definition db_GetPolicy :: "policy_lib \<Rightarrow> string \<Rightarrow> policy_db \<Rightarrow> (policy_error + Policy) \<times> policy_db" where
  "db_GetPolicy lib policyID db =
     (case resolveCustomerIDForPolicy lib policyID db of
        (Inl e, db1) \<Rightarrow> (Inl e, db1)
      | (Inr customerID, db1) \<Rightarrow>
          (case withTenant customerID (\<lambda>db.
                  case query_by lib policyID (\<lambda>k db. find (\<lambda>r. prw_policy_id r = k) (visible customerID db)) db of
                    (None, db') \<Rightarrow> (Inl DatabaseError, db')
                  | (Some None, db') \<Rightarrow> (Inl NotFoundError, db')
                  | (Some (Some r), db') \<Rightarrow> (if prw_key_id r = None then Inl DatabaseError else Inr r, db')) db1 of
             (Inl e, db2) \<Rightarrow> (Inl e, db2)
           | (Inr r, db2) \<Rightarrow> (read_row lib customerID r, db2)))"

text \<open>Newest first; policies of the same instant in the order of the table.\<close>

definition db_ListPoliciesByKey :: "policy_lib \<Rightarrow> string \<Rightarrow> policy_db \<Rightarrow> (policy_error + Policy list) \<times> policy_db" where
  "db_ListPoliciesByKey lib keyID db =
     (case resolveCustomerIDForKey lib keyID db of
        (Inl e, db1) \<Rightarrow> (Inl e, db1)
      | (Inr customerID, db1) \<Rightarrow>
          withTenant customerID (\<lambda>db.
            case query_by lib keyID
                   (\<lambda>k db. sort_key (\<lambda>r. - prw_created_at r) (filter (\<lambda>r. prw_key_id r = Some k) (visible customerID db))) db of
              (None, db') \<Rightarrow> (Inl DatabaseError, db')
            | (Some rows, db') \<Rightarrow> (res_map (read_row lib customerID) rows, db')) db1)"

definition update_policy :: "policy_lib \<Rightarrow> string \<Rightarrow> string \<Rightarrow> Policy \<Rightarrow> policy_db \<Rightarrow> (nat \<times> policy_db) option" where
  "update_policy lib customerID rules p db =
     (case (pl_uuid lib (pol_PolicyID p), varchar 255 (pol_Name p), sql_text (pol_Description p), pl_jsonb lib rules) of
        (Some i, Some name, Some descr, Some js) \<Rightarrow>
          (let hit = (\<lambda>r. prw_policy_id r = i \<and> prw_customer_id r = customerID);
               upd = (\<lambda>r. r\<lparr>prw_name := name, prw_description := descr, prw_rules := js, prw_status := pol_Status p,
                             prw_updated_at := pol_UpdatedAt p\<rparr>);
               others = filter (\<lambda>r. \<not> hit r) (pdb_policies db)
           in if list_all (\<lambda>r. hit r \<longrightarrow> row_fits db (upd r) others) (pdb_policies db)
              then Some (length (filter hit (pdb_policies db)), db\<lparr>pdb_policies := map (\<lambda>r. if hit r then upd r else r) (pdb_policies db)\<rparr>)
              else None)
      | _ \<Rightarrow> None)"

definition db_UpdatePolicy :: "policy_lib \<Rightarrow> Policy \<Rightarrow> policy_db \<Rightarrow> (policy_error + unit) \<times> policy_db" where
  "db_UpdatePolicy lib p db =
     (case pl_marshal lib (pol_Stored p) of
        None \<Rightarrow> (Inl MarshalError, db)
      | Some rules \<Rightarrow>
          (case resolveCustomerIDForPolicy lib (pol_PolicyID p) db of
             (Inl e, db1) \<Rightarrow> (Inl e, db1)
           | (Inr customerID, db1) \<Rightarrow>
               withTenant customerID (\<lambda>db.
                 case exec_statement (update_policy lib customerID rules p) db of
                   (None, db') \<Rightarrow> (Inl DatabaseError, db')
                 | (Some n, db') \<Rightarrow> (if n = 0 then Inl NothingUpdated else Inr (), db')) db1))"

section \<open>The service\<close>

definition CreatePolicy :: "policy_lib \<Rightarrow> string \<Rightarrow> int \<Rightarrow> int \<Rightarrow> CreatePolicyRequest \<Rightarrow> policy_db \<Rightarrow> (policy_error + Policy) \<times> policy_db" where
  "CreatePolicy lib newID created updated req db =
     (if cpr_KeyID req = '''' \<or> cpr_Name req = '''' then (Inl FieldsRequired, db)
      else
        (let p = \<lparr>pol_PolicyID = newID, pol_KeyID = cpr_KeyID req, pol_CustomerID = '''', pol_Name = cpr_Name req,
                  pol_Description = cpr_Description req, pol_Status = ''active'', pol_Stored = cpr_Stored req, pol_CreatedAt = created,
                  pol_UpdatedAt = updated\<rparr>
         in case db_CreatePolicy lib p db of
              (Inl e, db') \<Rightarrow> (Inl e, db')
            | (Inr customer, db') \<Rightarrow> (Inr (p\<lparr>pol_CustomerID := customer\<rparr>), db')))"

text \<open>The changes of an update: empty and nil fields leave the policy as it is; the status is never changed.\<close>

definition UpdatePolicy :: "policy_lib \<Rightarrow> int \<Rightarrow> string \<Rightarrow> Policy \<Rightarrow> policy_db \<Rightarrow> (policy_error + Policy) \<times> policy_db" where
  "UpdatePolicy lib now policyID updates db =
     (case db_GetPolicy lib policyID db of
        (Inl _, db1) \<Rightarrow> (Inl NotFoundError, db1)
      | (Inr p, db1) \<Rightarrow>
          (let s = pol_Stored p; u = pol_Stored updates;
               p' = p\<lparr>pol_Name := (if pol_Name updates \<noteq> '''' then pol_Name updates else pol_Name p),
                      pol_Description := (if pol_Description updates \<noteq> '''' then pol_Description updates else pol_Description p),
                      pol_Stored := \<lparr>prs_Rules = (if prs_Rules u \<noteq> None then prs_Rules u else prs_Rules s),
                        prs_Approvals = (if prs_Approvals u \<noteq> None then prs_Approvals u else prs_Approvals s),
                        prs_RateLimit = (if prs_RateLimit u \<noteq> None then prs_RateLimit u else prs_RateLimit s)\<rparr>,
                      pol_UpdatedAt := now\<rparr>
           in case db_UpdatePolicy lib p' db1 of
                (Inl e, db2) \<Rightarrow> (Inl e, db2)
              | (Inr _, db2) \<Rightarrow> (Inr p', db2)))"

text \<open>One policy: the rules, then the approvals.\<close>

fun apply_rules ::
  "int \<Rightarrow> PolicyEvaluationRequest \<Rightarrow> PolicyRule option list \<Rightarrow> PolicyEvaluationResult \<Rightarrow> policy_error + PolicyEvaluationResult" where
  "apply_rules hour eval [] result = Inr result"
| "apply_rules hour eval (None # rules) result = Inl NilPointerPanic"
| "apply_rules hour eval (Some rule # rules) result =
     (if \<not> pru_Enabled rule then apply_rules hour eval rules result
      else if \<not> evaluateRule hour rule eval then
        apply_rules hour eval rules (result\<lparr>pev_Allowed := False, pev_ViolatedRules := pev_ViolatedRules result @ [pru_Description rule]\<rparr>)
      else apply_rules hour eval rules result)"

fun apply_policies ::
  "int \<Rightarrow> PolicyEvaluationRequest \<Rightarrow> Policy list \<Rightarrow> PolicyEvaluationResult \<Rightarrow> policy_error + PolicyEvaluationResult" where
  "apply_policies hour eval [] result = Inr result"
| "apply_policies hour eval (p # ps) result =
     (if pol_Status p \<noteq> ''active'' then apply_policies hour eval ps result
      else res_bind (apply_rules hour eval (rules_of p) result) (\<lambda>result.
        apply_policies hour eval ps
          (case prs_Approvals (pol_Stored p) of
             None \<Rightarrow> result
           | Some a \<Rightarrow> if 0 < acf_Required a then result\<lparr>pev_RequiresApproval := True, pev_ApprovalConfig := Some a\<rparr> else result)))"

definition allowed_result :: PolicyEvaluationResult where
  "allowed_result = \<lparr>pev_Allowed = True, pev_RequiresApproval = False, pev_ApprovalConfig = None, pev_ViolatedRules = [], pev_Reason = ''''\<rparr>"

text \<open>The reason prints the descriptions as a Go slice, between brackets and with spaces between them.\<close>

definition give_reason :: "PolicyEvaluationResult \<Rightarrow> PolicyEvaluationResult" where
  "give_reason result =
     (if \<not> pev_Allowed result then
        result\<lparr>pev_Reason := ''Signing blocked by policy rules: ['' @ str_join '' '' (pev_ViolatedRules result) @ '']''\<rparr>
      else result)"

definition EvaluatePolicy ::
  "policy_lib \<Rightarrow> int \<Rightarrow> PolicyEvaluationRequest \<Rightarrow> policy_db \<Rightarrow> (policy_error + PolicyEvaluationResult) \<times> policy_db" where
  "EvaluatePolicy lib hour eval db =
     (case db_ListPoliciesByKey lib (per_KeyID eval) db of
        (Inl e, db') \<Rightarrow> (Inl e, db')
      | (Inr ps, db') \<Rightarrow> (if ps = [] then Inr allowed_result else map_sum id give_reason (apply_policies hour eval ps allowed_result), db'))"

text \<open>The first approver with the identifier is marked; nil ones before it are a panic.\<close>

fun mark_approver :: "int \<Rightarrow> string \<Rightarrow> PolicyApprover option list \<Rightarrow> policy_error + PolicyApprover option list" where
  "mark_approver now i [] = Inr []"
| "mark_approver now i (None # as) = Inl NilPointerPanic"
| "mark_approver now i (Some a # as) =
     (if pap_ApproverID a = i then Inr (Some (a\<lparr>pap_Approved := True, pap_ApprovedAt := Some now\<rparr>) # as)
      else res_bind (mark_approver now i as) (\<lambda>as. Inr (Some a # as)))"

definition ApprovePolicy :: "policy_lib \<Rightarrow> int \<Rightarrow> string \<Rightarrow> string \<Rightarrow> policy_db \<Rightarrow> (policy_error + unit) \<times> policy_db" where
  "ApprovePolicy lib now policyID approverID db =
     (case db_GetPolicy lib policyID db of
        (Inl _, db1) \<Rightarrow> (Inl NotFoundError, db1)
      | (Inr p, db1) \<Rightarrow>
          (case prs_Approvals (pol_Stored p) of
             None \<Rightarrow> (Inl NoApprovalsConfigured, db1)
           | Some a \<Rightarrow>
               (case mark_approver now approverID (acf_Approvers a) of
                  Inl e \<Rightarrow> (Inl e, db1)
                | Inr as \<Rightarrow>
                    db_UpdatePolicy lib (p\<lparr>pol_Stored := (pol_Stored p)\<lparr>prs_Approvals := Some (a\<lparr>acf_Approvers := as\<rparr>)\<rparr>, pol_UpdatedAt := now\<rparr>) db1)))"

section \<open>The handlers\<close>

definition is_hex :: "char \<Rightarrow> bool" where
  "is_hex c \<longleftrightarrow> unhex c \<noteq> None"

definition uuidPattern :: "string \<Rightarrow> bool" where
  "uuidPattern s \<longleftrightarrow> length s = 36 \<and> list_all (\<lambda>(i, c). if i \<in> {8, 13, 18, 23} then c = CHR ''-'' else is_hex c) (zip [0..<36] s)"

definition requireUUID :: "string \<Rightarrow> string \<Rightarrow> policy_error option" where
  "requireUUID name v =
     (if v = '''' then Some (InvalidInput (name @ '' is required''))
      else if \<not> uuidPattern v then Some (InvalidInput (name @ '' must be a UUID''))
      else None)"

text \<open>An answer: a status with a body, or none when the handler panics.\<close>

datatype 'b answer = Answer int "policy_error + 'b" | Aborted

definition writeError :: "policy_error \<Rightarrow> 'b answer" where
  "writeError e =
     (case e of
        InvalidInput _ \<Rightarrow> Answer 400 (Inl e)
      | NotFoundError \<Rightarrow> Answer 404 (Inl e)
      | _ \<Rightarrow> Answer 500 (Inl DatabaseError))"

text \<open>Without a body the request did not decode.\<close>

definition HandleCreatePolicy ::
  "policy_lib \<Rightarrow> string \<Rightarrow> int \<Rightarrow> int \<Rightarrow> string \<Rightarrow> CreatePolicyRequest option \<Rightarrow> policy_db \<Rightarrow> Policy answer \<times> policy_db" where
  "HandleCreatePolicy lib newID created updated method body db =
     (if method \<noteq> ''POST'' then (Answer 405 (Inl (InvalidInput ''Method not allowed'')), db)
      else case body of
        None \<Rightarrow> (Answer 400 (Inl (InvalidInput ''Invalid request'')), db)
      | Some req \<Rightarrow>
          (case CreatePolicy lib newID created updated req db of
             (Inl e, db') \<Rightarrow> (Answer 500 (Inl e), db')
           | (Inr p, db') \<Rightarrow> (Answer 201 (Inr p), db')))"

definition HandleGetPolicy :: "policy_lib \<Rightarrow> string \<Rightarrow> policy_db \<Rightarrow> Policy answer \<times> policy_db" where
  "HandleGetPolicy lib policyID db =
     (if policyID = '''' then (Answer 400 (Inl (InvalidInput ''policy_id required'')), db)
      else case db_GetPolicy lib policyID db of
        (Inl e, db') \<Rightarrow> (Answer 404 (Inl e), db')
      | (Inr p, db') \<Rightarrow> (Answer 200 (Inr p), db'))"

definition HandleListPolicies :: "policy_lib \<Rightarrow> string \<Rightarrow> policy_db \<Rightarrow> Policy list answer \<times> policy_db" where
  "HandleListPolicies lib keyID db =
     (case requireUUID ''key_id'' keyID of
        Some e \<Rightarrow> (writeError e, db)
      | None \<Rightarrow>
          (case db_ListPoliciesByKey lib keyID db of
             (Inl e, db') \<Rightarrow> (writeError e, db')
           | (Inr ps, db') \<Rightarrow> (Answer 200 (Inr ps), db')))"

definition HandleEvaluatePolicy ::
  "policy_lib \<Rightarrow> int \<Rightarrow> string \<Rightarrow> PolicyEvaluationRequest option \<Rightarrow> policy_db \<Rightarrow> PolicyEvaluationResult answer \<times> policy_db" where
  "HandleEvaluatePolicy lib hour method body db =
     (if method \<noteq> ''POST'' then (Answer 405 (Inl (InvalidInput ''Method not allowed'')), db)
      else case body of
        None \<Rightarrow> (Answer 400 (Inl (InvalidInput ''invalid request body'')), db)
      | Some eval \<Rightarrow>
          (case requireUUID ''key_id'' (per_KeyID eval) of
             Some e \<Rightarrow> (writeError e, db)
           | None \<Rightarrow>
               (case EvaluatePolicy lib hour eval db of
                  (Inl NilPointerPanic, db') \<Rightarrow> (Aborted, db')
                | (Inl e, db') \<Rightarrow> (writeError e, db')
                | (Inr r, db') \<Rightarrow> (Answer 200 (Inr r), db'))))"

text \<open>\<^verbatim>\<open>main\<close>: the routes. The request carries what its query string and its body give each handler.\<close>

record policy_http =
  ph_method :: string
  ph_path :: string
  ph_policy_id :: string
  ph_key_id :: string
  ph_create :: "CreatePolicyRequest option"
  ph_evaluate :: "PolicyEvaluationRequest option"

datatype policy_reply =
    HealthReply
  | PolicyReply "Policy answer"
  | PoliciesReply "Policy list answer"
  | EvaluationReply "PolicyEvaluationResult answer"
  | NoRoute

definition policy_mux :: "policy_lib \<Rightarrow> string \<Rightarrow> int \<Rightarrow> int \<Rightarrow> int \<Rightarrow> policy_http \<Rightarrow> policy_db \<Rightarrow> policy_reply \<times> policy_db" where
  "policy_mux lib newID created updated hour r db =
     (if ph_path r = ''/health'' then (HealthReply, db)
      else if ph_path r = ''/v1/policies'' then
        (if ph_method r = ''POST'' then map_prod PolicyReply id (HandleCreatePolicy lib newID created updated (ph_method r) (ph_create r) db)
         else map_prod PoliciesReply id (HandleListPolicies lib (ph_key_id r) db))
      else if ph_path r = ''/v1/policies/get'' then map_prod PolicyReply id (HandleGetPolicy lib (ph_policy_id r) db)
      else if ph_path r = ''/v1/policies/evaluate'' then map_prod EvaluationReply id (HandleEvaluatePolicy lib hour (ph_method r) (ph_evaluate r) db)
      else (NoRoute, db))"

section \<open>What the queries do\<close>

text \<open>The same tables, whatever became of the connection.\<close>

definition same_tables :: "policy_db \<Rightarrow> policy_db \<Rightarrow> bool" where
  "same_tables db db' \<longleftrightarrow> pdb_owner db' = pdb_owner db \<and> pdb_policies db' = pdb_policies db"

lemma same_tables_refl [simp]: "same_tables db db" "same_tables db (db\<lparr>conn_faults := fs\<rparr>)"
  by (simp_all add: same_tables_def)

lemma same_tables_trans: "same_tables a b \<Longrightarrow> same_tables b c \<Longrightarrow> same_tables a c"
  by (simp add: same_tables_def)

lemma same_tables_faults: "same_tables db db' \<Longrightarrow> db'\<lparr>conn_faults := fs\<rparr> = db\<lparr>conn_faults := fs\<rparr>"
  by (cases db; cases db') (simp add: same_tables_def)

lemma query_by_result:
  assumes "query_by lib ident q db = (r, db')"
  shows "same_tables db db'" and "r = Some x \<Longrightarrow> \<exists>k. pl_uuid lib ident = Some k \<and> x = q k db'"
  using assms by (auto simp: query_by_def exec_statement_def Let_def split: option.splits fault.splits)

lemma query_by_healthy: "conn_faults db = [] \<Longrightarrow> query_by lib ident q db = (map_option (\<lambda>k. q k db) (pl_uuid lib ident), db)"
  by (simp add: query_by_def exec_statement_fails_clean split: option.split)

lemma resolveCustomerIDForKey_result:
  assumes "resolveCustomerIDForKey lib keyID db = (r, db')"
  shows "same_tables db db'" and "r = Inr c \<Longrightarrow> \<exists>k. pl_uuid lib keyID = Some k \<and> pdb_owner db k = Some c"
  using assms query_by_result [of lib keyID "\<lambda>k db. pdb_owner db k" db]
  by (fastforce simp: resolveCustomerIDForKey_def same_tables_def split: prod.splits option.splits)+

lemma resolveCustomerIDForPolicy_result:
  assumes "resolveCustomerIDForPolicy lib policyID db = (r, db')"
  shows "same_tables db db'"
    and "r = Inr c \<Longrightarrow> \<exists>k row. pl_uuid lib policyID = Some k \<and> find (\<lambda>r. prw_policy_id r = k) (pdb_policies db) = Some row \<and> prw_customer_id row = c"
  using assms query_by_result [of lib policyID "\<lambda>k db. find (\<lambda>r. prw_policy_id r = k) (pdb_policies db)" db]
  by (fastforce simp: resolveCustomerIDForPolicy_def same_tables_def split: prod.splits option.splits)+


text \<open>The rows of a key, newest first.\<close>

definition key_rows :: "string \<Rightarrow> string \<Rightarrow> policy_db \<Rightarrow> policy_row list" where
  "key_rows c k db = sort_key (\<lambda>r. - prw_created_at r) (filter (\<lambda>r. prw_key_id r = Some k) (visible c db))"

lemma key_rows_same: "same_tables db db' \<Longrightarrow> key_rows c k db' = key_rows c k db"
  by (simp add: key_rows_def visible_def same_tables_def)

lemma db_ListPoliciesByKey_result:
  assumes "db_ListPoliciesByKey lib keyID db = (r, db')"
  shows "same_tables db db'"
    and "r = Inr ps \<Longrightarrow> \<exists>k c. pl_uuid lib keyID = Some k \<and> pdb_owner db k = Some c \<and> res_map (read_row lib c) (key_rows c k db) = Inr ps"
proof -
  obtain u db1 where u: "resolveCustomerIDForKey lib keyID db = (u, db1)" by (metis prod.exhaust)
  note res = resolveCustomerIDForKey_result [OF u]
  have "same_tables db db' \<and> (r = Inr ps \<longrightarrow> (\<exists>k c. pl_uuid lib keyID = Some k \<and> pdb_owner db k = Some c \<and> res_map (read_row lib c) (key_rows c k db) = Inr ps))"
  proof (cases u)
    case (Inl e)
    then show ?thesis using assms u res(1) by (auto simp: db_ListPoliciesByKey_def)
  next
    case (Inr c)
    let ?fn = "\<lambda>db. case query_by lib keyID (\<lambda>k db. key_rows c k db) db of
        (None, db') \<Rightarrow> (Inl DatabaseError, db') | (Some rows, db') \<Rightarrow> (res_map (read_row lib c) rows, db')"
    have t: "withTenant c ?fn db1 = (r, db')" using assms u Inr by (simp add: db_ListPoliciesByKey_def key_rows_def)
    from t show ?thesis unfolding withTenant_def
    proof (cases rule: tenant_cases)
      case (rolled_back fs e)
      then show ?thesis using res(1) by (simp add: same_tables_def)
    next
      case (committed fs0 fs x db2)
      obtain rows where q: "query_by lib keyID (\<lambda>k db. key_rows c k db) (db1\<lparr>conn_faults := fs0\<rparr>) = (Some rows, db2)"
        and x: "res_map (read_row lib c) rows = Inr x" using committed(1) by (auto split: prod.splits option.splits)
      have s: "same_tables db1 db2" using query_by_result(1) [OF q] by (simp add: same_tables_def)
      obtain k where k: "pl_uuid lib keyID = Some k" "rows = key_rows c k db2" using query_by_result(2) [OF q] by blast
      have "rows = key_rows c k db" using k(2) key_rows_same [OF same_tables_trans [OF res(1) s]] by simp
      moreover have "pdb_owner db k = Some c" using res(2) Inr k(1) by auto
      moreover have "same_tables db db'" using same_tables_trans [OF res(1) s] committed(2) by (simp add: same_tables_def)
      ultimately show ?thesis using committed(3) x k(1) by auto
    qed
  qed
  then show "same_tables db db'"
    and "r = Inr ps \<Longrightarrow> \<exists>k c. pl_uuid lib keyID = Some k \<and> pdb_owner db k = Some c \<and> res_map (read_row lib c) (key_rows c k db) = Inr ps"
    by auto
qed

lemma db_ListPoliciesByKey_healthy:
  assumes "conn_faults db = []" "pl_uuid lib keyID = Some k" "pdb_owner db k = Some c"
  shows "db_ListPoliciesByKey lib keyID db = (res_map (read_row lib c) (key_rows c k db), db)"
proof -
  have "resolveCustomerIDForKey lib keyID db = (Inr c, db)" using assms by (simp add: resolveCustomerIDForKey_def query_by_healthy)
  then show ?thesis
    unfolding db_ListPoliciesByKey_def by (simp add: withTenant_def tenant_healthy query_by_healthy assms key_rows_def)
qed

section \<open>What an evaluation says\<close>

definition active_policies :: "Policy list \<Rightarrow> Policy list" where
  "active_policies = filter (\<lambda>p. pol_Status p = ''active'')"

definition violated :: "int \<Rightarrow> PolicyEvaluationRequest \<Rightarrow> PolicyRule \<Rightarrow> bool" where
  "violated hour eval rule \<longleftrightarrow> pru_Enabled rule \<and> \<not> evaluateRule hour rule eval"

definition somes :: "'a option list \<Rightarrow> 'a list" where
  "somes xs = List.map_filter id xs"

lemma somes_simps [simp]: "somes [] = []" "somes (None # xs) = somes xs" "somes (Some x # xs) = x # somes xs" "somes (xs @ ys) = somes xs @ somes ys"
  by (simp_all add: somes_def List.map_filter_def)

lemma set_somes: "x \<in> set (somes xs) \<longleftrightarrow> Some x \<in> set xs"
  by (induction xs) (auto simp: somes_def List.map_filter_def)

definition violations :: "int \<Rightarrow> PolicyEvaluationRequest \<Rightarrow> Policy list \<Rightarrow> PolicyRule list" where
  "violations hour eval ps = filter (violated hour eval) (somes (concat (map rules_of (active_policies ps))))"

definition approval_configs :: "Policy list \<Rightarrow> ApprovalConfig list" where
  "approval_configs ps = filter (\<lambda>a. 0 < acf_Required a) (List.map_filter (\<lambda>p. prs_Approvals (pol_Stored p)) (active_policies ps))"

text \<open>The verdict on a list of policies: every enabled rule of every active policy counts, and the last approval
  configuration that requires anything is the one reported.\<close>

definition verdict :: "int \<Rightarrow> PolicyEvaluationRequest \<Rightarrow> Policy list \<Rightarrow> policy_error + PolicyEvaluationResult" where
  "verdict hour eval ps =
     (let vs = violations hour eval ps; as = approval_configs ps in
      if \<exists>p\<in>set (active_policies ps). None \<in> set (rules_of p) then Inl NilPointerPanic
      else Inr \<lparr>pev_Allowed = (vs = []), pev_RequiresApproval = (as \<noteq> []), pev_ApprovalConfig = (if as = [] then None else Some (last as)),
             pev_ViolatedRules = map pru_Description vs,
             pev_Reason = (if vs = [] then '''' else ''Signing blocked by policy rules: ['' @ str_join '' '' (map pru_Description vs) @ '']'')\<rparr>)"

lemma apply_rules_Some:
  "apply_rules hour eval (Some rule # rules) result = apply_rules hour eval rules
     (if violated hour eval rule then result\<lparr>pev_Allowed := False, pev_ViolatedRules := pev_ViolatedRules result @ [pru_Description rule]\<rparr> else result)"
  by (simp add: violated_def)

lemma apply_rules_eq:
  "apply_rules hour eval rules result =
     (if None \<in> set rules then Inl NilPointerPanic
      else let vs = filter (violated hour eval) (somes rules) in
        Inr (result\<lparr>pev_Allowed := pev_Allowed result \<and> vs = [], pev_ViolatedRules := pev_ViolatedRules result @ map pru_Description vs\<rparr>))"
proof (induction rules arbitrary: result)
  case (Cons r rules)
  then show ?case by (cases r) (simp_all add: apply_rules_Some Let_def del: apply_rules.simps(3))
qed simp

definition extend_result :: "PolicyEvaluationResult \<Rightarrow> PolicyRule list \<Rightarrow> ApprovalConfig list \<Rightarrow> PolicyEvaluationResult" where
  "extend_result r vs as = r\<lparr>pev_Allowed := pev_Allowed r \<and> vs = [], pev_ViolatedRules := pev_ViolatedRules r @ map pru_Description vs,
     pev_RequiresApproval := pev_RequiresApproval r \<or> as \<noteq> [], pev_ApprovalConfig := (if as = [] then pev_ApprovalConfig r else Some (last as))\<rparr>"

lemma extend_result_twice: "extend_result (extend_result r vs as) ws bs = extend_result r (vs @ ws) (as @ bs)"
  by (simp add: extend_result_def)

lemma apply_policies_eq:
  "apply_policies hour eval ps result =
     (if \<exists>p\<in>set (active_policies ps). None \<in> set (rules_of p) then Inl NilPointerPanic
      else Inr (extend_result result (violations hour eval ps) (approval_configs ps)))"
proof (induction ps arbitrary: result)
  case Nil
  then show ?case by (simp add: active_policies_def extend_result_def violations_def approval_configs_def List.map_filter_simps)
next
  case (Cons p ps)
  show ?case
  proof (cases "pol_Status p = ''active''")
    case False
    then have "active_policies (p # ps) = active_policies ps" by (simp add: active_policies_def)
    then show ?thesis using False Cons.IH by (simp add: violations_def approval_configs_def)
  next
    case True
    let ?vs = "filter (violated hour eval) (somes (rules_of p))"
    let ?as = "case prs_Approvals (pol_Stored p) of None \<Rightarrow> [] | Some a \<Rightarrow> if 0 < acf_Required a then [a] else []"
    have act: "active_policies (p # ps) = p # active_policies ps" using True by (simp add: active_policies_def)
    have vs: "violations hour eval (p # ps) = ?vs @ violations hour eval ps"
      by (simp add: violations_def act)
    have as: "approval_configs (p # ps) = ?as @ approval_configs ps"
      by (simp add: approval_configs_def act List.map_filter_simps split: option.split)
    have step: "(case prs_Approvals (pol_Stored p) of None \<Rightarrow> r
           | Some a \<Rightarrow> if 0 < acf_Required a then r\<lparr>pev_RequiresApproval := True, pev_ApprovalConfig := Some a\<rparr> else r)
         = extend_result r [] ?as" for r
      by (auto simp: extend_result_def split: option.split)
    have rules: "r\<lparr>pev_Allowed := pev_Allowed r \<and> ?vs = [], pev_ViolatedRules := pev_ViolatedRules r @ map pru_Description ?vs\<rparr> = extend_result r ?vs []" for r
      by (simp add: extend_result_def)
    show ?thesis
      using True by (simp add: apply_rules_eq Let_def rules step Cons.IH extend_result_twice act vs as)
  qed
qed

lemma evaluate_eq_verdict:
  "(if ps = [] then Inr allowed_result else map_sum id give_reason (apply_policies hour eval ps allowed_result)) = verdict hour eval ps"
proof -
  have "violations hour eval [] = []" "approval_configs [] = []" "active_policies [] = []"
    by (simp_all add: violations_def approval_configs_def active_policies_def List.map_filter_simps)
  then show ?thesis
    by (simp add: apply_policies_eq verdict_def Let_def allowed_result_def extend_result_def give_reason_def)
qed

lemma EvaluatePolicy_result:
  assumes "EvaluatePolicy lib hour eval db = (Inr res, db')"
  obtains k c ps where "pl_uuid lib (per_KeyID eval) = Some k" "pdb_owner db k = Some c"
    "res_map (read_row lib c) (key_rows c k db) = Inr ps" "verdict hour eval ps = Inr res"
proof -
  obtain r db1 where l: "db_ListPoliciesByKey lib (per_KeyID eval) db = (r, db1)" by (metis prod.exhaust)
  with assms obtain ps where ps: "r = Inr ps" "verdict hour eval ps = Inr res"
    unfolding EvaluatePolicy_def evaluate_eq_verdict by (auto split: sum.splits)
  then show thesis using db_ListPoliciesByKey_result(2) [OF l ps(1)] that by blast
qed

text \<open>C17: on a working connection the answer to an evaluation request is exactly the verdict on the policies stored for
  the key, newest first: a panic when an active one holds a nil rule, otherwise allowed if and only if every enabled rule
  of every active policy is satisfied, with the descriptions of the violated rules in order, and with the approval
  configuration of the oldest active policy that requires any; a stored policy that cannot be read is an error, never
  a permission.\<close>

theorem policy_evaluation_exact:
  assumes "conn_faults db = []" "pl_uuid lib (per_KeyID eval) = Some k" "pdb_owner db k = Some c"
  shows "EvaluatePolicy lib hour eval db = (res_bind (res_map (read_row lib c) (key_rows c k db)) (verdict hour eval), db)"
  unfolding EvaluatePolicy_def db_ListPoliciesByKey_healthy [OF assms] evaluate_eq_verdict
  by (simp add: res_bind_def split: sum.split)

section \<open>Amount limits\<close>

lemma within_factor:
  fixes a m ra rm :: rat
  assumes "0 \<le> a" "0 \<le> m" "\<bar>ra - a\<bar> \<le> a / 2 ^ 64" "\<bar>rm - m\<bar> \<le> m / 2 ^ 64" "ra \<le> rm"
  shows "a \<le> m * (1 + 1 / 2 ^ 62)"
proof -
  have "a - a / 2 ^ 64 \<le> m + m / 2 ^ 64" using assms by linarith
  then show ?thesis using assms(2) by (simp add: field_simps)
qed

lemma amount_digits: "amountPattern s = Some (w, f) \<Longrightarrow> parseAmount s = Some (float_dec w f)"
  by (simp add: parseAmount_def)

text \<open>C20: for amounts and limits of at most 27 decimals, an amount limit never turns down an amount within it, lets
  through no amount above it by more than one part in \<open>2 ^ 62\<close>, and is exact for whole numbers below \<open>2 ^ 64\<close>. (With
  more decimals the power of ten divided by is rounded as well, and nothing is claimed.)\<close>

theorem amount_limit_close:
  assumes "rcf_MaxAmount cfg = Some limit"
    and "amountPattern (per_Amount eval) = Some (w, f)" "length f \<le> 27"
    and "amountPattern limit = Some (w', f')" "length f' \<le> 27"
  shows "(decimal w f \<le> decimal w' f' \<longrightarrow> checkAmountLimit cfg eval) \<and>
    (checkAmountLimit cfg eval \<longrightarrow> decimal w f \<le> decimal w' f' * (1 + 1 / 2 ^ 62)) \<and>
    (f = [] \<and> f' = [] \<and> digits_nat w < 2 ^ 64 \<and> digits_nat w' < 2 ^ 64 \<longrightarrow> checkAmountLimit cfg eval = (digits_nat w \<le> digits_nat w'))"
proof (intro conjI impI)
  have c: "checkAmountLimit cfg eval \<longleftrightarrow> round_bits 64 (decimal w f) \<le> round_bits 64 (decimal w' f')"
    using assms by (simp add: checkAmountLimit_def amount_digits float_dec_rounds)
  show "checkAmountLimit cfg eval" if "decimal w f \<le> decimal w' f'"
    unfolding c by (rule round_bits_mono) (use that in simp_all)
  show "decimal w f \<le> decimal w' f' * (1 + 1 / 2 ^ 62)" if "checkAmountLimit cfg eval"
    by (rule within_factor [OF decimal_nonneg decimal_nonneg round_bits_close round_bits_close]) (use that c in simp_all)
  show "checkAmountLimit cfg eval = (digits_nat w \<le> digits_nat w')" if "f = [] \<and> f' = [] \<and> digits_nat w < 2 ^ 64 \<and> digits_nat w' < 2 ^ 64"
    unfolding c using that by (simp add: decimal_def round_bits_exact)
qed



section \<open>Policies keep to their key's owner\<close>

definition policies_ok :: "policy_db \<Rightarrow> bool" where
  "policies_ok db \<longleftrightarrow> distinct (map prw_policy_id (pdb_policies db)) \<and>
     distinct (map (\<lambda>r. (prw_customer_id r, prw_name r)) (pdb_policies db)) \<and>
     (\<forall>r\<in>set (pdb_policies db). prw_status r \<in> {''active'', ''inactive''} \<and>
        (\<forall>k. prw_key_id r = Some k \<longrightarrow> pdb_owner db k = Some (prw_customer_id r)))"

lemma policies_ok_same: "same_tables db db' \<Longrightarrow> policies_ok db' = policies_ok db"
  by (simp add: policies_ok_def same_tables_def)

lemma policies_ok_faults [simp]: "policies_ok (db\<lparr>conn_faults := fs\<rparr>) = policies_ok db"
  by (simp add: policies_ok_def)

lemma insert_policy_Some:
  assumes "insert_policy lib c rules p db = Some (u, db')"
  obtains i k name descr js where "pl_uuid lib (pol_PolicyID p) = Some i" "pl_uuid lib (pol_KeyID p) = Some k" "pl_jsonb lib rules = Some js"
    "row_fits db \<lparr>prw_policy_id = i, prw_customer_id = c, prw_key_id = Some k, prw_name = name, prw_description = descr,
        prw_rules = js, prw_status = pol_Status p, prw_created_at = pol_CreatedAt p, prw_updated_at = pol_UpdatedAt p\<rparr> (pdb_policies db)"
    "pdb_owner db' = pdb_owner db"
    "pdb_policies db' = pdb_policies db @ [\<lparr>prw_policy_id = i, prw_customer_id = c, prw_key_id = Some k, prw_name = name, prw_description = descr,
        prw_rules = js, prw_status = pol_Status p, prw_created_at = pol_CreatedAt p, prw_updated_at = pol_UpdatedAt p\<rparr>]"
  using assms by (auto simp: insert_policy_def Let_def split: option.splits if_splits)

lemma insert_policy_ok:
  assumes "insert_policy lib c rules p db = Some (u, db')" "policies_ok db"
    and "\<And>k. pl_uuid lib (pol_KeyID p) = Some k \<Longrightarrow> pdb_owner db k = Some c"
  shows "policies_ok db'"
  using assms(1)
proof (cases rule: insert_policy_Some)
  case (1 i k name descr js)
  show ?thesis
    using assms(2) assms(3) [OF 1(2)] 1(4)
    unfolding policies_ok_def 1(5,6) row_fits_def list_all_iff by (auto simp: image_iff)
qed

lemma update_policy_ok:
  assumes "update_policy lib c rules p db = Some (n, db')" "policies_ok db"
  shows "policies_ok db'"
proof -
  obtain i name descr js where e: "pl_uuid lib (pol_PolicyID p) = Some i" "varchar 255 (pol_Name p) = Some name"
      "sql_text (pol_Description p) = Some descr" "pl_jsonb lib rules = Some js"
    using assms(1) by (auto simp: update_policy_def split: option.splits)
  define hit where "hit = (\<lambda>r :: policy_row. prw_policy_id r = i \<and> prw_customer_id r = c)"
  define upd where "upd = (\<lambda>r. (r :: policy_row)\<lparr>prw_name := name, prw_description := descr, prw_rules := js, prw_status := pol_Status p, prw_updated_at := pol_UpdatedAt p\<rparr>)"
  define rows where "rows = pdb_policies db"
  define g where "g = (\<lambda>r. if hit r then upd r else r)"
  have fits: "\<And>r. r \<in> set rows \<Longrightarrow> hit r \<Longrightarrow> row_fits db (upd r) (filter (\<lambda>r. \<not> hit r) rows)"
    and db': "db' = db\<lparr>pdb_policies := map g rows\<rparr>"
    using assms(1) e by (auto simp: update_policy_def Let_def hit_def upd_def rows_def g_def list_all_iff split: if_splits)
  have keep: "prw_policy_id (g r) = prw_policy_id r" "prw_customer_id (g r) = prw_customer_id r" "prw_key_id (g r) = prw_key_id r" for r
    by (simp_all add: g_def upd_def)
  have ids: "distinct (map prw_policy_id rows)" and names: "distinct (map (\<lambda>r. (prw_customer_id r, prw_name r)) rows)"
    and each: "\<And>r. r \<in> set rows \<Longrightarrow> prw_status r \<in> {''active'', ''inactive''} \<and> (\<forall>k. prw_key_id r = Some k \<longrightarrow> pdb_owner db k = Some (prw_customer_id r))"
    using assms(2) by (auto simp: policies_ok_def rows_def)
  have inj: "inj_on (\<lambda>r. (prw_customer_id r, prw_name (g r))) (set rows)"
  proof (rule inj_onI)
    fix x y assume xy: "x \<in> set rows" "y \<in> set rows" "(prw_customer_id x, prw_name (g x)) = (prw_customer_id y, prw_name (g y))"
    have clash: False if "a \<in> set rows" "b \<in> set rows" "hit a" "\<not> hit b" "prw_customer_id a = prw_customer_id b" "prw_name (upd a) = prw_name b" for a b
      using fits [OF that(1,3)] that by (auto simp: row_fits_def list_all_iff upd_def)
    have both: "x = y" if "hit x" "hit y" using that ids xy(1,2) by (auto simp: hit_def distinct_map inj_on_def)
    have neither: "x = y" if "\<not> hit x" "\<not> hit y" using that names xy by (auto simp: g_def distinct_map inj_on_def)
    show "x = y" using both neither clash [of x y] clash [of y x] xy by (cases "hit x"; cases "hit y") (auto simp: g_def)
  qed
  have "distinct (map (\<lambda>r. (prw_customer_id r, prw_name (g r))) rows)"
    unfolding distinct_map using names inj by (simp add: distinct_map)
  moreover have "prw_status (g r) \<in> {''active'', ''inactive''}" if "r \<in> set rows" for r
    using fits [OF that] each [OF that] by (auto simp: g_def row_fits_def upd_def)
  ultimately show ?thesis using ids each by (auto simp: policies_ok_def db' keep comp_def)
qed

lemma db_CreatePolicy_result:
  assumes "db_CreatePolicy lib p db = (r, db')"
  obtains (nothing) e where "same_tables db db'" "r = Inl e"
    | (stored) rules k c fs u db2 where "pl_marshal lib (pol_Stored p) = Some rules" "pl_uuid lib (pol_KeyID p) = Some k" "pdb_owner db k = Some c"
        "insert_policy lib c rules p (db\<lparr>conn_faults := fs\<rparr>) = Some (u, db2)" "same_tables db2 db'" "r = Inr c \<or> r = Inl DatabaseError"
proof (cases "pl_marshal lib (pol_Stored p)")
  case None
  then show thesis using assms that(1) by (auto simp: db_CreatePolicy_def)
next
  case (Some rules)
  obtain ow db1 where ow: "resolveCustomerIDForKey lib (pol_KeyID p) db = (ow, db1)" by (metis prod.exhaust)
  show thesis
  proof (cases ow)
    case (Inl e)
    then show thesis using assms ow Some resolveCustomerIDForKey_result(1) [OF ow] that(1) by (auto simp: db_CreatePolicy_def)
  next
    case (Inr c)
    note same = resolveCustomerIDForKey_result(1) [OF ow]
    obtain k where k: "pl_uuid lib (pol_KeyID p) = Some k" "pdb_owner db k = Some c" using resolveCustomerIDForKey_result(2) [OF ow Inr] by blast
    have "withTenant c (\<lambda>db. case exec_statement (insert_policy lib c rules p) db of (None, db') \<Rightarrow> (Inl DatabaseError, db') | (Some n, db') \<Rightarrow> (Inr c, db')) db1 = (r, db')"
      using assms Some ow Inr by (simp add: db_CreatePolicy_def)
    then show thesis unfolding withTenant_def
    proof (cases rule: tenant_statement)
      case (nothing fs e)
      then show thesis using same_tables_trans [OF same same_tables_refl(2)] that(1) by blast
    next
      case (effect fs0 fs n db2 y)
      then show thesis using that(2) [OF Some k] by (simp add: same_tables_faults [OF same])
    qed
  qed
qed

lemma db_CreatePolicy_ok:
  assumes "db_CreatePolicy lib p db = (r, db')" "policies_ok db"
  shows "policies_ok db'"
  using assms(1)
proof (cases rule: db_CreatePolicy_result)
  case (nothing e)
  then show ?thesis using assms(2) policies_ok_same by blast
next
  case (stored rules k c fs u db2)
  have "policies_ok db2"
    by (rule insert_policy_ok [OF stored(4)]) (use assms(2) stored(2,3) in simp_all)
  then show ?thesis using policies_ok_same [OF stored(5)] by simp
qed

lemma db_GetPolicy_same:
  assumes "db_GetPolicy lib policyID db = (r, db')"
  shows "same_tables db db'"
proof -
  obtain u db1 where u: "resolveCustomerIDForPolicy lib policyID db = (u, db1)" by (metis prod.exhaust)
  note same = resolveCustomerIDForPolicy_result(1) [OF u]
  show ?thesis
  proof (cases u)
    case (Inl e)
    then show ?thesis using assms u same by (simp add: db_GetPolicy_def)
  next
    case (Inr c)
    define fn where "fn = (\<lambda>db. case query_by lib policyID (\<lambda>k db. find (\<lambda>r. prw_policy_id r = k) (visible c db)) db of
                    (None, db') \<Rightarrow> (Inl DatabaseError, db')
                  | (Some None, db') \<Rightarrow> (Inl NotFoundError, db')
                  | (Some (Some r), db') \<Rightarrow> (if prw_key_id r = None then Inl DatabaseError else Inr r, db'))"
    obtain v db2 where v: "withTenant c fn db1 = (v, db2)" by (metis prod.exhaust)
    have fn_same: "same_tables d d'" if "fn d = (x, d')" for d d' x
    proof -
      obtain q d1 where q: "query_by lib policyID (\<lambda>k db. find (\<lambda>r. prw_policy_id r = k) (visible c db)) d = (q, d1)" by (metis prod.exhaust)
      with that have "d' = d1" by (auto simp: fn_def split: option.splits)
      then show ?thesis using query_by_result(1) [OF q] by simp
    qed
    have "same_tables db1 db2" using v unfolding withTenant_def
    proof (cases rule: tenant_cases)
      case (committed fs0 fs x db3)
      then show ?thesis using fn_same [OF committed(1)] by (simp add: same_tables_def)
    qed simp
    moreover have "db' = db2" using assms u Inr v by (auto simp: db_GetPolicy_def fn_def [symmetric] split: sum.splits)
    ultimately show ?thesis using same_tables_trans [OF same] by simp
  qed
qed

lemma db_UpdatePolicy_ok:
  assumes "db_UpdatePolicy lib p db = (r, db')" "policies_ok db"
  shows "policies_ok db'"
proof (cases "pl_marshal lib (pol_Stored p)")
  case None
  then show ?thesis using assms by (auto simp: db_UpdatePolicy_def)
next
  case (Some rules)
  obtain u db1 where u: "resolveCustomerIDForPolicy lib (pol_PolicyID p) db = (u, db1)" by (metis prod.exhaust)
  have ok1: "policies_ok db1" using assms(2) policies_ok_same [OF resolveCustomerIDForPolicy_result(1) [OF u]] by simp
  show ?thesis
  proof (cases u)
    case (Inl e)
    then show ?thesis using assms(1) u Some ok1 by (auto simp: db_UpdatePolicy_def)
  next
    case (Inr c)
    have "withTenant c (\<lambda>db. case exec_statement (update_policy lib c rules p) db of (None, db') \<Rightarrow> (Inl DatabaseError, db')
        | (Some n, db') \<Rightarrow> (if n = 0 then Inl NothingUpdated else Inr (), db')) db1 = (r, db')"
      using assms(1) Some u Inr by (simp add: db_UpdatePolicy_def)
    then show ?thesis unfolding withTenant_def
    proof (cases rule: tenant_statement)
      case (nothing fs e)
      then show ?thesis using ok1 by simp
    next
      case (effect fs0 fs n db2 y)
      have "policies_ok db2" by (rule update_policy_ok [OF effect(1)]) (simp add: ok1)
      then show ?thesis using effect(2) by simp
    qed
  qed
qed

text \<open>Everything the service does to its tables: a request to one of its routes, an update, an approval; and, of the
  connection, any change of its faults.\<close>

inductive policy_step :: "policy_lib \<Rightarrow> policy_db \<Rightarrow> policy_db \<Rightarrow> bool" for lib where
  request: "policy_mux lib newID created updated hour r db = (reply, db') \<Longrightarrow> policy_step lib db db'"
| update: "UpdatePolicy lib now policyID updates db = (u, db') \<Longrightarrow> policy_step lib db db'"
| approve: "ApprovePolicy lib now policyID approverID db = (a, db') \<Longrightarrow> policy_step lib db db'"
| connection: "policy_step lib db (db\<lparr>conn_faults := fs\<rparr>)"

lemma CreatePolicy_ok: "CreatePolicy lib newID created updated req db = (r, db') \<Longrightarrow> policies_ok db \<Longrightarrow> policies_ok db'"
  by (auto simp: CreatePolicy_def Let_def split: if_splits prod.splits sum.splits dest: db_CreatePolicy_ok)

lemma policy_mux_ok:
  assumes "policy_mux lib newID created updated hour r db = (reply, db')" "policies_ok db"
  shows "policies_ok db'"
proof -
  have create: "policies_ok d'" if "HandleCreatePolicy lib newID created updated m b db = (a, d')" for m b a d'
    using that assms(2)
    by (auto simp: HandleCreatePolicy_def split: if_splits option.splits prod.splits sum.splits dest: CreatePolicy_ok)
  have lists: "policies_ok d'" if "HandleListPolicies lib k db = (a, d')" for k a d'
    using that assms(2) policies_ok_same db_ListPoliciesByKey_result(1)
    by (fastforce simp: HandleListPolicies_def split: option.splits prod.splits sum.splits)
  have gets: "policies_ok d'" if "HandleGetPolicy lib i db = (a, d')" for i a d'
    using that assms(2) policies_ok_same db_GetPolicy_same
    by (fastforce simp: HandleGetPolicy_def split: if_splits prod.splits sum.splits)
  have ev: "same_tables db d'" if "EvaluatePolicy lib hour e db = (x, d')" for e x d'
    using that db_ListPoliciesByKey_result(1) by (fastforce simp: EvaluatePolicy_def split: prod.splits sum.splits)
  have evals: "policies_ok d'" if "HandleEvaluatePolicy lib hour m b db = (a, d')" for m b a d'
    using that assms(2) policies_ok_same ev
    by (fastforce simp: HandleEvaluatePolicy_def split: if_splits option.splits prod.splits sum.splits policy_error.splits)
  show ?thesis
    using assms create lists gets evals
    by (auto simp: policy_mux_def map_prod_def split: if_splits prod.splits)
qed

lemma policy_step_ok: "policy_step lib db db' \<Longrightarrow> policies_ok db \<Longrightarrow> policies_ok db'"
proof (induction rule: policy_step.induct)
  case (request newID created updated hour r db reply db')
  then show ?case by (rule policy_mux_ok)
next
  case (update now policyID updates db u db')
  obtain p db1 where g: "db_GetPolicy lib policyID db = (p, db1)" by (metis prod.exhaust)
  have "policies_ok db1" using update(2) policies_ok_same [OF db_GetPolicy_same [OF g]] by simp
  then show ?case using update(1) g
    by (auto simp: UpdatePolicy_def Let_def split: prod.splits sum.splits dest: db_UpdatePolicy_ok)
next
  case (approve now policyID approverID db a db')
  obtain p db1 where g: "db_GetPolicy lib policyID db = (p, db1)" by (metis prod.exhaust)
  have "policies_ok db1" using approve(2) policies_ok_same [OF db_GetPolicy_same [OF g]] by simp
  then show ?case using approve(1) g
    by (auto simp: ApprovePolicy_def split: prod.splits sum.splits option.splits dest: db_UpdatePolicy_ok)
next
  case (connection db fs)
  then show ?case by simp
qed

lemma policy_steps_ok: "(policy_step lib)\<^sup>*\<^sup>* db db' \<Longrightarrow> policies_ok db \<Longrightarrow> policies_ok db'"
  by (induction rule: rtranclp_induct) (auto intro: policy_step_ok)

section \<open>Stored rules are enforced\<close>

lemma violations_member:
  assumes "p \<in> set ps" "pol_Status p = ''active''" "Some rule \<in> set (rules_of p)" "violated hour eval rule"
  shows "rule \<in> set (violations hour eval ps)"
  using assms by (auto simp: violations_def active_policies_def set_somes)

lemma verdict_denies:
  assumes "verdict hour eval ps = Inr res" "rule \<in> set (violations hour eval ps)"
  shows "\<not> pev_Allowed res \<and> pru_Description rule \<in> set (pev_ViolatedRules res)"
  using assms by (auto simp: verdict_def Let_def split: if_splits)

lemma res_map_member: "res_map f xs = Inr ys \<Longrightarrow> x \<in> set xs \<Longrightarrow> \<exists>y\<in>set ys. f x = Inr y"
  by (induction xs arbitrary: ys) (auto simp: res_simps)

text \<open>A row of the key that the owner sees is enforced.\<close>

lemma stored_rule_denies:
  assumes ev: "EvaluatePolicy lib hour eval db = (Inr res, db')"
    and key: "pl_uuid lib (per_KeyID eval) = Some k" "pdb_owner db k = Some (prw_customer_id row)"
    and row: "row \<in> set (pdb_policies db)" "prw_key_id row = Some k" "prw_status row = ''active''"
    and rules: "pl_unmarshal lib (prw_rules row) = Some pr" "prs_Rules pr = Some rules" "Some rule \<in> set rules"
    and bad: "pru_Enabled rule" "\<not> evaluateRule hour rule eval"
  shows "\<not> pev_Allowed res \<and> pru_Description rule \<in> set (pev_ViolatedRules res)"
  using ev
proof (cases rule: EvaluatePolicy_result)
  case (1 k' c ps)
  have kc: "k' = k" "c = prw_customer_id row" using 1(1,2) key by simp_all
  have "row \<in> set (key_rows c k' db)" using row(1,2) kc by (simp add: key_rows_def visible_def)
  then obtain p where p: "p \<in> set ps" "read_row lib c row = Inr p" using res_map_member [OF 1(3)] by blast
  then have "pol_Status p = ''active''" "rules_of p = rules"
    using row(2,3) rules by (auto simp: read_row_def rules_of_def)
  then show ?thesis
    using verdict_denies [OF 1(4)] violations_member [OF p(1)] rules(3) bad by (auto simp: violated_def)
qed

text \<open>C18: whatever the service did before, under any failures of its connection, a request it allows satisfies every
  enabled rule of every active policy stored for the key: row-level security hides none of them, because a stored policy
  always belongs to the owner of its key.\<close>

theorem policy_rows_enforced:
  assumes "policies_ok db0" "(policy_step lib)\<^sup>*\<^sup>* db0 db"
    and "EvaluatePolicy lib hour eval db = (Inr res, db')" "pev_Allowed res"
    and "pl_uuid lib (per_KeyID eval) = Some k"
    and "row \<in> set (pdb_policies db)" "prw_key_id row = Some k" "prw_status row = ''active''"
    and "pl_unmarshal lib (prw_rules row) = Some pr" "prs_Rules pr = Some rules" "Some rule \<in> set rules" "pru_Enabled rule"
  shows "evaluateRule hour rule eval"
proof (rule ccontr)
  assume bad: "\<not> evaluateRule hour rule eval"
  have "policies_ok db" using assms(2,1) by (rule policy_steps_ok)
  then have "pdb_owner db k = Some (prw_customer_id row)" using assms(6,7) by (simp add: policies_ok_def)
  then show False using stored_rule_denies [OF assms(3,5) _ assms(6-12) bad] assms(4) by simp
qed

text \<open>What the JSON column promises: a value that could be written and that the column takes reads back as itself.\<close>

definition rules_codec_ok :: "policy_lib \<Rightarrow> bool" where
  "rules_codec_ok lib \<longleftrightarrow> (\<forall>pr s t. pl_marshal lib pr = Some s \<longrightarrow> pl_jsonb lib s = Some t \<longrightarrow> pl_unmarshal lib t = Some pr)"

lemma CreatePolicy_stored:
  assumes "CreatePolicy lib newID created updated req db = (Inr p, db1)" "rules_codec_ok lib"
  obtains k row where "pl_uuid lib (cpr_KeyID req) = Some k" "pdb_owner db1 k = Some (prw_customer_id row)" "row \<in> set (pdb_policies db1)"
    "prw_key_id row = Some k" "prw_status row = ''active''" "pl_unmarshal lib (prw_rules row) = Some (cpr_Stored req)"
proof -
  define q where "q = \<lparr>pol_PolicyID = newID, pol_KeyID = cpr_KeyID req, pol_CustomerID = '''', pol_Name = cpr_Name req,
    pol_Description = cpr_Description req, pol_Status = ''active'', pol_Stored = cpr_Stored req, pol_CreatedAt = created, pol_UpdatedAt = updated\<rparr>"
  obtain c0 where "db_CreatePolicy lib q db = (Inr c0, db1)"
    using assms(1) by (auto simp: CreatePolicy_def Let_def q_def split: if_splits prod.splits sum.splits)
  then show thesis
  proof (cases rule: db_CreatePolicy_result)
    case (stored rules k c fs u db2)
    from stored(4) show thesis
    proof (cases rule: insert_policy_Some)
      case (1 i k' name descr js)
      let ?row = "\<lparr>prw_policy_id = i, prw_customer_id = c, prw_key_id = Some k', prw_name = name, prw_description = descr,
        prw_rules = js, prw_status = pol_Status q, prw_created_at = pol_CreatedAt q, prw_updated_at = pol_UpdatedAt q\<rparr>"
      have k': "k' = k" using 1(2) stored(2) by simp
      have owner: "pdb_owner db1 k = Some (prw_customer_id ?row)" using 1(5) stored(3,5) by (simp add: same_tables_def)
      have row: "?row \<in> set (pdb_policies db1)" using 1(6) stored(5) by (simp add: same_tables_def)
      have js: "pl_unmarshal lib (prw_rules ?row) = Some (cpr_Stored req)"
        using assms(2) stored(1) 1(3) by (auto simp: rules_codec_ok_def q_def)
      have uu: "pl_uuid lib (cpr_KeyID req) = Some k" and act: "prw_status ?row = ''active''" and kk: "prw_key_id ?row = Some k"
        using stored(2) k' by (simp_all add: q_def)
      show thesis by (rule that [OF uu owner row kk act js])
    qed
  qed simp
qed

text \<open>C19: once a policy has been created, an evaluation for its key, if it answers at all, denies whatever breaks one of
  its enabled rules and names that rule; connection failures may stop the answer but not turn it.\<close>

theorem created_policy_enforced:
  assumes "CreatePolicy lib newID created updated req db = (Inr p, db1)" "rules_codec_ok lib"
    and "EvaluatePolicy lib hour eval (db1\<lparr>conn_faults := fs\<rparr>) = (Inr res, db2)"
    and "pl_uuid lib (per_KeyID eval) = pl_uuid lib (cpr_KeyID req)"
    and "prs_Rules (cpr_Stored req) = Some rules" "Some rule \<in> set rules" "pru_Enabled rule" "\<not> evaluateRule hour rule eval"
  shows "\<not> pev_Allowed res \<and> pru_Description rule \<in> set (pev_ViolatedRules res)"
  using assms(1,2)
proof (cases rule: CreatePolicy_stored)
  case (1 k row)
  show ?thesis
    by (rule stored_rule_denies [OF assms(3) _ _ _ 1(4,5,6) assms(5-8)]) (use assms(4) 1 in simp_all)
qed

section \<open>A policy at work\<close>

definition demo_pkey :: string where "demo_pkey = ''1b4e28ba-2fa1-11d2-883f-0016d3cca427''"

definition demo_pid :: string where "demo_pid = ''6fa459ea-ee8a-3ca4-894e-db77e160355e''"

definition demo_rule :: PolicyRule where
  "demo_rule = \<lparr>pru_RuleID = ''r1'', pru_Type = ''amount_limit'', pru_Description = ''at most 1000'', pru_Enabled = True,
     pru_Config = \<lparr>rcf_MaxAmount = Some ''1000'', rcf_WhitelistAddresses = [], rcf_AllowedHours = [], rcf_MaxRequestsPerDay = 0, rcf_Blockchains = []\<rparr>\<rparr>"

definition demo_rules :: policyRules where
  "demo_rules = \<lparr>prs_Rules = Some [Some demo_rule], prs_Approvals = None, prs_RateLimit = None\<rparr>"

definition demo_policy_lib :: policy_lib where
  "demo_policy_lib = \<lparr>pl_uuid = (\<lambda>s. if uuidPattern s then Some s else None), pl_marshal = (\<lambda>pr. if pr = demo_rules then Some ''{}'' else None),
     pl_jsonb = Some, pl_unmarshal = (\<lambda>s. if s = ''{}'' then Some demo_rules else None)\<rparr>"

definition demo_policy_db :: policy_db where
  "demo_policy_db = \<lparr>conn_faults = [], pdb_owner = (\<lambda>k. if k = demo_pkey then Some ''acme'' else None), pdb_policies = []\<rparr>"

definition demo_policy_request :: CreatePolicyRequest where
  "demo_policy_request = \<lparr>cpr_KeyID = demo_pkey, cpr_Name = ''limits'', cpr_Description = '''', cpr_Stored = demo_rules\<rparr>"

definition demo_transfer :: "string \<Rightarrow> PolicyEvaluationRequest" where
  "demo_transfer amount = \<lparr>per_KeyID = demo_pkey, per_DestinationAddress = ''d'', per_Amount = amount, per_Blockchain = ''ethereum'', per_Timestamp = None\<rparr>"

definition demo_policy_row :: policy_row where
  "demo_policy_row = \<lparr>prw_policy_id = demo_pid, prw_customer_id = ''acme'', prw_key_id = Some demo_pkey, prw_name = ''limits'', prw_description = '''',
     prw_rules = ''{}'', prw_status = ''active'', prw_created_at = 5, prw_updated_at = 6\<rparr>"

definition demo_stored_policy :: Policy where
  "demo_stored_policy = \<lparr>pol_PolicyID = demo_pid, pol_KeyID = demo_pkey, pol_CustomerID = ''acme'', pol_Name = ''limits'', pol_Description = '''',
     pol_Status = ''active'', pol_Stored = demo_rules, pol_CreatedAt = 5, pol_UpdatedAt = 6\<rparr>"

lemma demo_uuids [simp]: "pl_uuid demo_policy_lib demo_pkey = Some demo_pkey" "pl_uuid demo_policy_lib demo_pid = Some demo_pid"
proof -
  have "uuidPattern demo_pkey" "uuidPattern demo_pid" by code_simp+
  then show "pl_uuid demo_policy_lib demo_pkey = Some demo_pkey" "pl_uuid demo_policy_lib demo_pid = Some demo_pid"
    by (simp_all add: demo_policy_lib_def)
qed

lemma demo_codec [simp]: "pl_marshal demo_policy_lib demo_rules = Some ''{}''" "pl_jsonb demo_policy_lib s = Some s" "pl_unmarshal demo_policy_lib ''{}'' = Some demo_rules"
  by (simp_all add: demo_policy_lib_def)

lemma demo_rules_codec_ok: "rules_codec_ok demo_policy_lib"
  by (auto simp: rules_codec_ok_def demo_policy_lib_def split: if_splits)

lemma demo_texts: "varchar 255 ''limits'' = Some ''limits''" "sql_text '''' = Some ''''" "demo_pkey \<noteq> ''''"
  by code_simp+

lemma demo_conn [simp]: "conn_faults demo_policy_db = []" "pdb_owner demo_policy_db demo_pkey = Some ''acme''" "pdb_policies demo_policy_db = []"
  by (simp_all add: demo_policy_db_def)

lemma demo_created:
  "CreatePolicy demo_policy_lib demo_pid 5 6 demo_policy_request demo_policy_db = (Inr demo_stored_policy, demo_policy_db\<lparr>pdb_policies := [demo_policy_row]\<rparr>)"
proof -
  have r: "resolveCustomerIDForKey demo_policy_lib demo_pkey demo_policy_db = (Inr ''acme'', demo_policy_db)"
    by (simp add: resolveCustomerIDForKey_def query_by_healthy)
  have i: "insert_policy demo_policy_lib ''acme'' ''{}'' (demo_stored_policy\<lparr>pol_CustomerID := ''''\<rparr>) demo_policy_db = Some ((), demo_policy_db\<lparr>pdb_policies := [demo_policy_row]\<rparr>)"
    by (simp add: insert_policy_def demo_stored_policy_def demo_texts row_fits_def demo_policy_row_def)
  have c: "db_CreatePolicy demo_policy_lib (demo_stored_policy\<lparr>pol_CustomerID := ''''\<rparr>) demo_policy_db = (Inr ''acme'', demo_policy_db\<lparr>pdb_policies := [demo_policy_row]\<rparr>)"
  proof -
    have "withTenant ''acme'' (\<lambda>db. case exec_statement (insert_policy demo_policy_lib ''acme'' ''{}'' (demo_stored_policy\<lparr>pol_CustomerID := ''''\<rparr>)) db of
        (None, db') \<Rightarrow> (Inl DatabaseError, db') | (Some _, db') \<Rightarrow> (Inr ''acme'', db')) demo_policy_db
        = (Inr ''acme'', demo_policy_db\<lparr>pdb_policies := [demo_policy_row]\<rparr>)"
      unfolding withTenant_def by (rule tenant_commits) (simp_all add: exec_statement_fails_clean i)
    then show ?thesis using r by (simp add: db_CreatePolicy_def demo_stored_policy_def)
  qed
  show ?thesis using c by (simp add: CreatePolicy_def demo_policy_request_def demo_stored_policy_def demo_texts Let_def)
qed

lemma demo_rows: "key_rows ''acme'' demo_pkey (demo_policy_db\<lparr>pdb_policies := [demo_policy_row]\<rparr>) = [demo_policy_row]"
  by (simp add: key_rows_def visible_def demo_policy_row_def)

lemma demo_read: "read_row demo_policy_lib ''acme'' demo_policy_row = Inr demo_stored_policy"
  by (simp add: read_row_def demo_policy_row_def demo_stored_policy_def)

lemma demo_evaluate:
  "EvaluatePolicy demo_policy_lib hour (demo_transfer amount) (demo_policy_db\<lparr>pdb_policies := [demo_policy_row]\<rparr>) =
     (verdict hour (demo_transfer amount) [demo_stored_policy], demo_policy_db\<lparr>pdb_policies := [demo_policy_row]\<rparr>)"
proof -
  have k: "pl_uuid demo_policy_lib (per_KeyID (demo_transfer amount)) = Some demo_pkey" by (simp add: demo_transfer_def)
  show ?thesis
    unfolding EvaluatePolicy_def evaluate_eq_verdict
    by (subst db_ListPoliciesByKey_healthy [OF _ k, of _ "''acme''"]) (simp_all add: demo_rows demo_read)
qed

lemma demo_amounts: "parseAmount ''1000'' = Some 1000" "parseAmount ''1001'' = Some 1001" "parseAmount ''250'' = Some 250"
proof -
  have a: "amountPattern ''1000'' = Some (''1000'', [])" "amountPattern ''1001'' = Some (''1001'', [])" "amountPattern ''250'' = Some (''250'', [])"
    by code_simp+
  have d: "digits_nat ''1000'' = 1000" "digits_nat ''1001'' = 1001" "digits_nat ''250'' = 250" by (simp_all add: digits_nat_def)
  show "parseAmount ''1000'' = Some 1000" "parseAmount ''1001'' = Some 1001" "parseAmount ''250'' = Some 250"
    using round_bits_exact [of 1000 64] round_bits_exact [of 1001 64] round_bits_exact [of 250 64]
    by (simp_all add: parseAmount_def a float_dec_def d)
qed

lemma demo_rule_checks: "evaluateRule hour demo_rule (demo_transfer ''250'')" "\<not> evaluateRule hour demo_rule (demo_transfer ''1001'')"
  by (simp_all add: evaluateRule_def demo_rule_def checkAmountLimit_def demo_transfer_def demo_amounts)

lemma demo_rules_of: "pol_Status demo_stored_policy = ''active''" "rules_of demo_stored_policy = [Some demo_rule]" "prs_Approvals (pol_Stored demo_stored_policy) = None" "pru_Enabled demo_rule"
  by (simp_all add: demo_stored_policy_def rules_of_def demo_rules_def demo_rule_def)

lemma demo_verdicts:
  "verdict hour (demo_transfer ''250'') [demo_stored_policy] = Inr allowed_result"
  "verdict hour (demo_transfer ''1001'') [demo_stored_policy] =
     Inr (allowed_result\<lparr>pev_Allowed := False, pev_ViolatedRules := [''at most 1000''], pev_Reason := ''Signing blocked by policy rules: [at most 1000]''\<rparr>)"
  by (simp_all add: verdict_def violations_def approval_configs_def active_policies_def demo_rules_of violated_def demo_rule_checks
      List.map_filter_simps allowed_result_def Let_def) (simp add: demo_rule_def)

theorem policy_evaluation_exact_witness:
  "EvaluatePolicy demo_policy_lib 9 (demo_transfer ''250'') (demo_policy_db\<lparr>pdb_policies := [demo_policy_row]\<rparr>) =
     (Inr allowed_result, demo_policy_db\<lparr>pdb_policies := [demo_policy_row]\<rparr>)"
  by (subst policy_evaluation_exact [where k = demo_pkey and c = "''acme''"])
    (simp_all add: demo_transfer_def [of "''250''"] demo_rows demo_read demo_verdicts(1) [unfolded demo_transfer_def])


theorem amount_limit_close_witness:
  "checkAmountLimit (pru_Config demo_rule) (demo_transfer ''250'')"
proof -
  have "amountPattern (per_Amount (demo_transfer ''250'')) = Some (''250'', [])" "amountPattern ''1000'' = Some (''1000'', [])" by code_simp+
  moreover have "rcf_MaxAmount (pru_Config demo_rule) = Some ''1000''" by (simp add: demo_rule_def)
  moreover have "decimal ''250'' [] \<le> decimal ''1000'' []" by (simp add: decimal_def digits_nat_def)
  ultimately show ?thesis using amount_limit_close [of "pru_Config demo_rule" "''1000''" "demo_transfer ''250''" "''250''" "[]" "''1000''" "[]"] by simp
qed

theorem policy_rows_enforced_witness:
  "evaluateRule 9 demo_rule (demo_transfer ''250'')"
proof (rule policy_rows_enforced [where ?db0.0 = demo_policy_db and row = demo_policy_row and lib = demo_policy_lib and k = demo_pkey])
  show "policies_ok demo_policy_db" by (simp add: policies_ok_def demo_policy_db_def)
  let ?post = "\<lparr>ph_method = ''POST'', ph_path = ''/v1/policies'', ph_policy_id = '''', ph_key_id = '''', ph_create = Some demo_policy_request,
    ph_evaluate = None\<rparr>"
  have "policy_mux demo_policy_lib demo_pid 5 6 0 ?post demo_policy_db
      = (PolicyReply (Answer 201 (Inr demo_stored_policy)), demo_policy_db\<lparr>pdb_policies := [demo_policy_row]\<rparr>)"
    by (simp add: policy_mux_def HandleCreatePolicy_def demo_created)
  then show "(policy_step demo_policy_lib)\<^sup>*\<^sup>* demo_policy_db (demo_policy_db\<lparr>pdb_policies := [demo_policy_row]\<rparr>)"
    by (intro r_into_rtranclp policy_step.request)
  show "EvaluatePolicy demo_policy_lib 9 (demo_transfer ''250'') (demo_policy_db\<lparr>pdb_policies := [demo_policy_row]\<rparr>) =
     (Inr allowed_result, demo_policy_db\<lparr>pdb_policies := [demo_policy_row]\<rparr>)" by (simp add: demo_evaluate demo_verdicts)
  show "pl_unmarshal demo_policy_lib (prw_rules demo_policy_row) = Some demo_rules" by (simp add: demo_policy_row_def)
  show "prs_Rules demo_rules = Some [Some demo_rule]" by (simp add: demo_rules_def)
qed (simp_all add: allowed_result_def demo_transfer_def demo_policy_row_def demo_rule_def)

theorem created_policy_enforced_witness:
  "\<not> pev_Allowed (allowed_result\<lparr>pev_Allowed := False, pev_ViolatedRules := [''at most 1000''], pev_Reason := ''Signing blocked by policy rules: [at most 1000]''\<rparr>) \<and>
   pru_Description demo_rule \<in> set [''at most 1000'']"
proof -
  let ?res = "allowed_result\<lparr>pev_Allowed := False, pev_ViolatedRules := [''at most 1000''], pev_Reason := ''Signing blocked by policy rules: [at most 1000]''\<rparr>"
  let ?db = "demo_policy_db\<lparr>pdb_policies := [demo_policy_row]\<rparr>"
  have f: "?db\<lparr>conn_faults := []\<rparr> = ?db" by (simp add: demo_policy_db_def)
  have "EvaluatePolicy demo_policy_lib 9 (demo_transfer ''1001'') (?db\<lparr>conn_faults := []\<rparr>) = (Inr ?res, ?db)"
    unfolding f by (simp add: demo_evaluate demo_verdicts)
  from created_policy_enforced [OF demo_created demo_rules_codec_ok this, of "[Some demo_rule]" demo_rule]
  show ?thesis by (simp add: demo_transfer_def [of "''1001''"] demo_policy_request_def demo_rules_def demo_rule_checks(2) [unfolded demo_transfer_def] demo_rules_of)
qed

end
