(* ===== verification/Settlement_Service.thy ===== *)
theory Settlement_Service
  imports Eth_Tx Eth_Rpc Go_Float Sql
begin

text \<open>
  The settlement service: \<^verbatim>\<open>settlement/settlement.go\<close> (the service, its handlers and its two chain clients) and the
  queries of \<^verbatim>\<open>settlement/db.go\<close>. The interfaces \<^verbatim>\<open>SettlementStore\<close> and \<^verbatim>\<open>ChainClient\<close> are records of functions, as the
  code has them, with the code's own implementations as values: the PostgreSQL store and the Ethereum and Bitcoin clients.
  Clock readings are whole microseconds; the text of an error, fresh identifiers and the UUID cast are parameters. What
  the rest of the system does between two ticks of the goroutine that waits for a confirmation is an arbitrary function.
\<close>

section \<open>Interfaces and data\<close>

record Settlement =
  stl_SettlementID :: string
  stl_SigningID :: string
  stl_CustomerID :: string
  stl_Blockchain :: string
  stl_TransactionHash :: string
  stl_Status :: string
  stl_GasUsed :: u64
  stl_ConfirmationTime :: int
  stl_BroadcastedAt :: "int option"
  stl_ConfirmedAt :: "int option"
  stl_ErrorMessage :: string
  stl_CreatedAt :: int

record SettlementRequest =
  srq_SigningID :: string
  srq_Blockchain :: string
  srq_SignedTransaction :: string

record SettlementResponse =
  srs_SettlementID :: string
  srs_Status :: string
  srs_TransactionHash :: string
  srs_Error :: string

datatype btc_rpc_error =
    BtcUnreachable
  | BtcUnreadable
  | BtcNotJson
  | BtcRejects int string
  | BtcBadResult

datatype chain_error =
    EthFails rpc_error
  | EthUndecodable tx_error
  | BtcFails btc_rpc_error
  | GasNotApplicable

datatype store_error = StoreFails | SettlementNotFound

record 'w ChainClient =
  cc_BroadcastTransaction :: "bytes \<Rightarrow> 'w \<Rightarrow> (chain_error + string) \<times> 'w"
  cc_GetTransactionStatus :: "string \<Rightarrow> 'w \<Rightarrow> (chain_error + string) \<times> 'w"
  cc_EstimateGas :: "bytes \<Rightarrow> 'w \<Rightarrow> (chain_error + u64) \<times> 'w"

record 'db SettlementStore =
  sst_CreateSettlement :: "Settlement \<Rightarrow> 'db \<Rightarrow> (store_error + unit) \<times> 'db"
  sst_GetSettlement :: "string \<Rightarrow> 'db \<Rightarrow> (store_error + Settlement) \<times> 'db"
  sst_ListSettlements :: "string \<Rightarrow> 'db \<Rightarrow> (store_error + Settlement list) \<times> 'db"
  sst_UpdateSettlement :: "Settlement \<Rightarrow> 'db \<Rightarrow> (store_error + unit) \<times> 'db"

record SettlementMetrics =
  smt_TotalSettlements :: int
  smt_SuccessfulSettlements :: int
  smt_FailedSettlements :: int
  smt_AvgConfirmationTime :: rat
  smt_confirmedSamples :: int

text \<open>The mutable state of the service, the database behind its store included.\<close>

record 'db settlement_state =
  sts_db :: 'db
  sts_metrics :: SettlementMetrics

record ('w, 'db) SettlementService =
  svc_db :: "'db SettlementStore"
  svc_chains :: "string \<Rightarrow> 'w ChainClient option"

section \<open>The service\<close>

definition recordConfirmationTime :: "rat \<Rightarrow> SettlementMetrics \<Rightarrow> SettlementMetrics" where
  "recordConfirmationTime seconds m =
     (let n = i64 (smt_confirmedSamples m + 1); avg = smt_AvgConfirmationTime m in
      m\<lparr>smt_confirmedSamples := n, smt_AvgConfirmationTime := f64 (avg + f64 (f64 (seconds - avg) / f64 (of_int n)))\<rparr>)"

definition RegisterChain :: "string \<Rightarrow> 'w ChainClient option \<Rightarrow> ('w, 'db) SettlementService \<Rightarrow> ('w, 'db) SettlementService option" where
  "RegisterChain blockchain client svc =
     (case client of None \<Rightarrow> None | Some c \<Rightarrow> Some (svc\<lparr>svc_chains := (svc_chains svc)(blockchain \<mapsto> c)\<rparr>))"

text \<open>What \<^verbatim>\<open>Settle\<close> returns: a settlement, a failed one with its error, or an error alone; a panic of the decoder ends it.\<close>

datatype settle_outcome =
    Settled Settlement
  | BroadcastFailed Settlement chain_error
  | InvalidSettlement
  | UnsupportedChain string
  | SettlePanics

definition is_panic :: "chain_error \<Rightarrow> bool" where
  "is_panic e \<longleftrightarrow> e = EthUndecodable (BadRlp SliceBoundsPanic)"

text \<open>The errors of the store are logged and dropped.\<close>

definition store_create :: "('w, 'db) SettlementService \<Rightarrow> Settlement \<Rightarrow> 'db settlement_state \<Rightarrow> 'db settlement_state" where
  "store_create svc s st = st\<lparr>sts_db := snd (sst_CreateSettlement (svc_db svc) s (sts_db st))\<rparr>"

definition store_update :: "('w, 'db) SettlementService \<Rightarrow> Settlement \<Rightarrow> 'db settlement_state \<Rightarrow> 'db settlement_state" where
  "store_update svc s st = st\<lparr>sts_db := snd (sst_UpdateSettlement (svc_db svc) s (sts_db st))\<rparr>"

definition broadcast_and_store ::
  "('w, 'db) SettlementService \<Rightarrow> (chain_error \<Rightarrow> string) \<Rightarrow> int \<Rightarrow> 'w ChainClient \<Rightarrow> SettlementRequest \<Rightarrow> Settlement \<Rightarrow> 'db settlement_state \<Rightarrow> 'w
     \<Rightarrow> settle_outcome \<times> 'db settlement_state \<times> 'w" where
  "broadcast_and_store svc text now client req settlement st w =
     (case cc_BroadcastTransaction client (str_bytes (srq_SignedTransaction req)) w of
        (Inl e, w') \<Rightarrow>
          (let s = settlement\<lparr>stl_Status := ''failed'', stl_ErrorMessage := text e\<rparr>;
               st1 = st\<lparr>sts_metrics := (sts_metrics st)\<lparr>smt_FailedSettlements := i64 (smt_FailedSettlements (sts_metrics st) + 1)\<rparr>\<rparr>
           in (BroadcastFailed s e, store_create svc s st1, w'))
      | (Inr txHash, w') \<Rightarrow>
          (let s = settlement\<lparr>stl_TransactionHash := txHash, stl_Status := ''broadcasted'', stl_BroadcastedAt := Some now\<rparr>;
               st1 = store_create svc s st;
               m = sts_metrics st1
           in (Settled s, st1\<lparr>sts_metrics := m\<lparr>smt_TotalSettlements := i64 (smt_TotalSettlements m + 1),
                 smt_SuccessfulSettlements := i64 (smt_SuccessfulSettlements m + 1)\<rparr>\<rparr>, w')))"

text \<open>A settled transaction is handed to a goroutine running \<^verbatim>\<open>trackConfirmation\<close>, below.\<close>

definition Settle ::
  "('w, 'db) SettlementService \<Rightarrow> (chain_error \<Rightarrow> string) \<Rightarrow> string \<Rightarrow> int \<Rightarrow> int \<Rightarrow> SettlementRequest \<Rightarrow> 'db settlement_state \<Rightarrow> 'w
     \<Rightarrow> settle_outcome \<times> 'db settlement_state \<times> 'w" where
  "Settle svc text newID created now req st w =
     (if srq_SigningID req = '''' \<or> srq_Blockchain req = '''' \<or> srq_SignedTransaction req = '''' then (InvalidSettlement, st, w)
      else case svc_chains svc (srq_Blockchain req) of
        None \<Rightarrow> (UnsupportedChain (srq_Blockchain req), st, w)
      | Some client \<Rightarrow>
          (let settlement = \<lparr>stl_SettlementID = newID, stl_SigningID = srq_SigningID req, stl_CustomerID = '''', stl_Blockchain = srq_Blockchain req,
                 stl_TransactionHash = '''', stl_Status = ''pending'', stl_GasUsed = 0, stl_ConfirmationTime = 0, stl_BroadcastedAt = None,
                 stl_ConfirmedAt = None, stl_ErrorMessage = '''', stl_CreatedAt = created\<rparr>
           in if srq_Blockchain req = ''ethereum'' \<or> srq_Blockchain req = ''polygon'' then
                (case cc_EstimateGas client (str_bytes (srq_SignedTransaction req)) w of
                   (Inl e, w1) \<Rightarrow> if is_panic e then (SettlePanics, st, w1) else broadcast_and_store svc text now client req settlement st w1
                 | (Inr gas, w1) \<Rightarrow> broadcast_and_store svc text now client req (settlement\<lparr>stl_GasUsed := gas\<rparr>) st w1)
              else broadcast_and_store svc text now client req settlement st w))"

text \<open>\<^verbatim>\<open>Duration.Seconds\<close> of a duration in microseconds.\<close>

definition go_Seconds :: "int \<Rightarrow> rat" where
  "go_Seconds d = (let s = sgn d; a = \<bar>d\<bar> in f64 (f64 (of_int (s * (a div 1000000))) + f64 (of_int (s * (a mod 1000000) * 1000) / 1000000000)))"

definition confirmed_at :: "int \<Rightarrow> Settlement \<Rightarrow> SettlementMetrics \<Rightarrow> Settlement \<times> SettlementMetrics" where
  "confirmed_at now s m =
     (let s1 = s\<lparr>stl_Status := ''confirmed'', stl_ConfirmedAt := Some now\<rparr> in
      case stl_BroadcastedAt s of
        None \<Rightarrow> (s1, m)
      | Some b \<Rightarrow> (let t = go_Seconds (now - b) in (s1\<lparr>stl_ConfirmationTime := (if 0 \<le> t then \<lfloor>t\<rfloor> else \<lceil>t\<rceil>)\<rparr>, recordConfirmationTime t m)))"

text \<open>The loop over the ticks. Every tick that does not end the loop counts as an attempt, so the tick and the attempt have
  the same number; before it, \<open>env\<close> says what everybody else did, and the clock reads \<open>clock\<close>.\<close>

function track_loop ::
  "('w, 'db) SettlementService \<Rightarrow> 'w ChainClient \<Rightarrow> (nat \<Rightarrow> 'db settlement_state \<times> 'w \<Rightarrow> 'db settlement_state \<times> 'w) \<Rightarrow> (nat \<Rightarrow> int)
     \<Rightarrow> nat \<Rightarrow> Settlement \<Rightarrow> 'db settlement_state \<times> 'w \<Rightarrow> Settlement \<times> 'db settlement_state \<times> 'w" where
  "track_loop svc client env clock attempts s sw =
     (let (st, w) = env attempts sw in
      if 120 \<le> attempts then
        (let s' = s\<lparr>stl_Status := ''timeout''\<rparr> in (s', store_update svc s' st, w))
      else case cc_GetTransactionStatus client (stl_TransactionHash s) w of
        (Inl e, w') \<Rightarrow> track_loop svc client env clock (attempts + 1) s (st, w')
      | (Inr status, w') \<Rightarrow>
          if status = ''confirmed'' then
            (let (s', m) = confirmed_at (clock attempts) s (sts_metrics st) in (s', store_update svc s' (st\<lparr>sts_metrics := m\<rparr>), w'))
          else track_loop svc client env clock (attempts + 1) s (st, w'))"
  by pat_completeness auto
termination
  by (relation "measure (\<lambda>(svc, client, env, clock, attempts, s, sw). 120 - attempts)") auto

declare track_loop.simps [simp del]

definition trackConfirmation ::
  "('w, 'db) SettlementService \<Rightarrow> (nat \<Rightarrow> 'db settlement_state \<times> 'w \<Rightarrow> 'db settlement_state \<times> 'w) \<Rightarrow> (nat \<Rightarrow> int)
     \<Rightarrow> Settlement \<Rightarrow> 'db settlement_state \<times> 'w \<Rightarrow> Settlement \<times> 'db settlement_state \<times> 'w" where
  "trackConfirmation svc env clock s sw =
     (case svc_chains svc (stl_Blockchain s) of None \<Rightarrow> (s, sw) | Some client \<Rightarrow> track_loop svc client env clock 0 s sw)"

section \<open>Handlers\<close>

datatype settle_answer =
    SettleCreated SettlementResponse
  | SettleStatus int
  | SettleFound Settlement
  | SettleAborted

definition HandleSettle ::
  "('w, 'db) SettlementService \<Rightarrow> (chain_error \<Rightarrow> string) \<Rightarrow> string \<Rightarrow> int \<Rightarrow> int \<Rightarrow> string \<Rightarrow> SettlementRequest option \<Rightarrow> 'db settlement_state \<Rightarrow> 'w
     \<Rightarrow> settle_answer \<times> 'db settlement_state \<times> 'w" where
  "HandleSettle svc text newID created now method body st w =
     (if method \<noteq> ''POST'' then (SettleStatus 405, st, w)
      else case body of
        None \<Rightarrow> (SettleStatus 400, st, w)
      | Some req \<Rightarrow>
          (let (out, st', w') = Settle svc text newID created now req st w in
           (case out of
              Settled s \<Rightarrow> SettleCreated \<lparr>srs_SettlementID = stl_SettlementID s, srs_Status = stl_Status s,
                srs_TransactionHash = stl_TransactionHash s, srs_Error = stl_ErrorMessage s\<rparr>
            | SettlePanics \<Rightarrow> SettleAborted
            | _ \<Rightarrow> SettleStatus 500, st', w')))"

definition HandleGetSettlement :: "('w, 'db) SettlementService \<Rightarrow> string \<Rightarrow> 'db settlement_state \<Rightarrow> settle_answer \<times> 'db settlement_state" where
  "HandleGetSettlement svc settlementID st =
     (if settlementID = '''' then (SettleStatus 400, st)
      else let (r, db') = sst_GetSettlement (svc_db svc) settlementID (sts_db st) in
        ((case r of Inl _ \<Rightarrow> SettleStatus 404 | Inr s \<Rightarrow> SettleFound s), st\<lparr>sts_db := db'\<rparr>))"

section \<open>The chain clients\<close>

definition eth_BroadcastTransaction :: "('w, 'j) rpc_node \<Rightarrow> btcec \<Rightarrow> string \<Rightarrow> bytes \<Rightarrow> 'w \<Rightarrow> (chain_error + string) \<times> 'w" where
  "eth_BroadcastTransaction node lib url txData w =
     (case SendRawTransaction node url (''0x'' @ hex_encode txData) w of
        (Inl e, w') \<Rightarrow> (Inl (EthFails e), w')
      | (Inr returned, w') \<Rightarrow> (Inr (''0x'' @ hex_encode (TransactionHash lib txData)), w'))"

definition eth_GetTransactionStatus :: "('w, 'j) rpc_node \<Rightarrow> string \<Rightarrow> string \<Rightarrow> 'w \<Rightarrow> (chain_error + string) \<times> 'w" where
  "eth_GetTransactionStatus node url txHash w =
     (case TransactionReceipt node url txHash w of
        (Inl e, w') \<Rightarrow> (if e = ErrNotFound then Inr ''pending'' else Inl (EthFails e), w')
      | (Inr receipt, w') \<Rightarrow> (if rcp_Status receipt = 1 then Inr ''confirmed'' else Inr ''failed'', w'))"

definition eth_EstimateGas :: "btcec \<Rightarrow> bytes \<Rightarrow> 'w \<Rightarrow> (chain_error + u64) \<times> 'w" where
  "eth_EstimateGas lib txData w =
     (case DecodeSignedTransaction lib txData of Inl e \<Rightarrow> Inl (EthUndecodable e) | Inr info \<Rightarrow> Inr (info_Gas info), w)"

definition EthereumClient :: "('w, 'j) rpc_node \<Rightarrow> btcec \<Rightarrow> string \<Rightarrow> 'w ChainClient" where
  "EthereumClient node lib url =
     \<lparr>cc_BroadcastTransaction = eth_BroadcastTransaction node lib url, cc_GetTransactionStatus = eth_GetTransactionStatus node url,
      cc_EstimateGas = eth_EstimateGas lib\<rparr>"

definition NewEthereumClient :: "('w, 'j) rpc_node \<Rightarrow> btcec \<Rightarrow> string \<Rightarrow> 'w ChainClient option" where
  "NewEthereumClient node lib rpcURL = (case Dial rpcURL of Inl _ \<Rightarrow> None | Inr url \<Rightarrow> Some (EthereumClient node lib url))"

text \<open>A Bitcoin node: what the exchange with it and the decoding of its answer yield, and the two results that are read.
  The status of the HTTP answer is not looked at.\<close>

datatype btc_param = BString string | BBool bool

datatype 'j btc_reply =
    BtcNoAnswer
  | BtcCutAnswer
  | BtcGarbage
  | BtcErrorAnswer int string
  | BtcResult 'j

record ('w, 'j) btc_node =
  bn_call :: "string \<Rightarrow> btc_param list \<Rightarrow> 'w \<Rightarrow> 'j btc_reply \<times> 'w"
  bn_string :: "'j \<Rightarrow> string option"
  bn_confirmations :: "'j \<Rightarrow> int option"

definition rpcCall :: "('w, 'j) btc_node \<Rightarrow> string \<Rightarrow> btc_param list \<Rightarrow> ('j \<Rightarrow> 'a option) \<Rightarrow> 'w \<Rightarrow> (btc_rpc_error + 'a) \<times> 'w" where
  "rpcCall node method params decode w =
     (let (reply, w') = bn_call node method params w in
      (case reply of
         BtcNoAnswer \<Rightarrow> Inl BtcUnreachable
       | BtcCutAnswer \<Rightarrow> Inl BtcUnreadable
       | BtcGarbage \<Rightarrow> Inl BtcNotJson
       | BtcErrorAnswer code msg \<Rightarrow> Inl (BtcRejects code msg)
       | BtcResult j \<Rightarrow> (case decode j of None \<Rightarrow> Inl BtcBadResult | Some x \<Rightarrow> Inr x), w'))"

definition btc_BroadcastTransaction :: "('w, 'j) btc_node \<Rightarrow> bytes \<Rightarrow> 'w \<Rightarrow> (chain_error + string) \<times> 'w" where
  "btc_BroadcastTransaction node txData w =
     (case rpcCall node ''sendrawtransaction'' [BString (hex_encode txData)] (bn_string node) w of
        (Inl e, w') \<Rightarrow> (Inl (BtcFails e), w')
      | (Inr txid, w') \<Rightarrow> (Inr txid, w'))"

definition btc_GetTransactionStatus :: "('w, 'j) btc_node \<Rightarrow> string \<Rightarrow> 'w \<Rightarrow> (chain_error + string) \<times> 'w" where
  "btc_GetTransactionStatus node txHash w =
     (case rpcCall node ''getrawtransaction'' [BString txHash, BBool True] (bn_confirmations node) w of
        (Inl e, w') \<Rightarrow> (Inl (BtcFails e), w')
      | (Inr confirmations, w') \<Rightarrow> (Inr (if 6 \<le> confirmations then ''confirmed'' else ''pending''), w'))"

definition BitcoinClient :: "('w, 'j) btc_node \<Rightarrow> 'w ChainClient" where
  "BitcoinClient node =
     \<lparr>cc_BroadcastTransaction = btc_BroadcastTransaction node, cc_GetTransactionStatus = btc_GetTransactionStatus node,
      cc_EstimateGas = (\<lambda>txData w. (Inl GasNotApplicable, w))\<rparr>"

text \<open>\<^verbatim>\<open>main\<close>: the chains of the configuration, where an empty address leaves a chain out.\<close>

definition configured_chains ::
  "('w, 'j) rpc_node \<Rightarrow> btcec \<Rightarrow> ('w, 'k) btc_node \<Rightarrow> string \<Rightarrow> string \<Rightarrow> ('w, 'db) SettlementService \<Rightarrow> ('w, 'db) SettlementService" where
  "configured_chains enode lib bnode ethRPC btcRPC svc =
     (let svc1 = (if ethRPC = '''' then svc
                  else case NewEthereumClient enode lib ethRPC of
                    None \<Rightarrow> svc
                  | Some c \<Rightarrow> the (RegisterChain ''polygon'' (Some c) (the (RegisterChain ''ethereum'' (Some c) svc))))
      in if btcRPC = '''' then svc1 else the (RegisterChain ''bitcoin'' (Some (BitcoinClient bnode)) svc1))"

section \<open>The PostgreSQL store\<close>

record settlement_row =
  srw_settlement_id :: string
  srw_signing_id :: "string option"
  srw_customer_id :: "string option"
  srw_blockchain :: string
  srw_transaction_hash :: "string option"
  srw_status :: string
  srw_gas_used :: "int option"
  srw_confirmation_time :: "int option"
  srw_broadcasted_at :: "int option"
  srw_confirmed_at :: "int option"
  srw_error_message :: "string option"
  srw_created_at :: int

text \<open>Of \<open>signing_requests\<close>, the owner of a request, which is never null.\<close>

record settlement_db = sql_conn +
  sdb_signing :: "string \<Rightarrow> string option"
  sdb_settlements :: "settlement_row list"

definition settlement_statuses :: "string set" where
  "settlement_statuses = {''pending'', ''broadcasted'', ''confirmed'', ''failed'', ''timeout''}"

definition settlement_withTenant ::
  "string \<Rightarrow> (settlement_db \<Rightarrow> (store_error + 'a) \<times> settlement_db) \<Rightarrow> settlement_db \<Rightarrow> (store_error + 'a) \<times> settlement_db" where
  "settlement_withTenant = tenant_transaction StoreFails"

text \<open>What row-level security shows a tenant; with no tenant set it shows nothing, and a tenant that is no UUID fails the query.\<close>

definition settlement_tenant :: "(string \<Rightarrow> string option) \<Rightarrow> string \<Rightarrow> string option option" where
  "settlement_tenant uuid customerID = (if customerID = '''' then Some None else map_option Some (uuid customerID))"

definition settlement_visible :: "string option \<Rightarrow> settlement_row \<Rightarrow> bool" where
  "settlement_visible tenant r \<longleftrightarrow> tenant \<noteq> None \<and> srw_customer_id r = tenant"

definition resolveCustomerIDForSigningRequest ::
  "(string \<Rightarrow> string option) \<Rightarrow> string \<Rightarrow> settlement_db \<Rightarrow> (store_error + string) \<times> settlement_db" where
  "resolveCustomerIDForSigningRequest uuid signingID db =
     (case exec_statement (\<lambda>db. map_option (\<lambda>k. (sdb_signing db k, db)) (uuid signingID)) db of
        (None, db') \<Rightarrow> (Inl StoreFails, db')
      | (Some None, db') \<Rightarrow> (Inr '''', db')
      | (Some (Some c), db') \<Rightarrow> (Inr c, db'))"

definition resolveCustomerIDForSettlement ::
  "(string \<Rightarrow> string option) \<Rightarrow> string \<Rightarrow> settlement_db \<Rightarrow> (store_error + string) \<times> settlement_db" where
  "resolveCustomerIDForSettlement uuid settlementID db =
     (case exec_statement (\<lambda>db. map_option (\<lambda>k. (find (\<lambda>r. srw_settlement_id r = k) (sdb_settlements db), db)) (uuid settlementID)) db of
        (None, db') \<Rightarrow> (Inl StoreFails, db')
      | (Some None, db') \<Rightarrow> (Inl SettlementNotFound, db')
      | (Some (Some r), db') \<Rightarrow> (Inr (case srw_customer_id r of None \<Rightarrow> '''' | Some c \<Rightarrow> c), db'))"

definition nullString :: "string \<Rightarrow> string option" where
  "nullString v = (if v = '''' then None else Some v)"

text \<open>The driver takes no unsigned number above the signed range.\<close>

definition nullZeroUint64 :: "u64 \<Rightarrow> int option option" where
  "nullZeroUint64 v = (if v = 0 then Some None else if 2 ^ 63 \<le> unat v then None else Some (Some (int (unat v))))"

definition insert_settlement :: "(string \<Rightarrow> string option) \<Rightarrow> string option \<Rightarrow> Settlement \<Rightarrow> settlement_db \<Rightarrow> (unit \<times> settlement_db) option" where
  "insert_settlement uuid customer s db =
     (case (uuid (stl_SettlementID s), if stl_SigningID s = '''' then Some None else map_option Some (uuid (stl_SigningID s)),
            varchar 50 (stl_Blockchain s), varchar 255 (stl_TransactionHash s), nullZeroUint64 (stl_GasUsed s), sql_text (stl_ErrorMessage s)) of
        (Some i, Some signing, Some bc, Some h, Some gas, Some msg) \<Rightarrow>
          (if (case signing of None \<Rightarrow> True | Some k \<Rightarrow> sdb_signing db k \<noteq> None) \<and> stl_Status s \<in> settlement_statuses \<and>
              list_all (\<lambda>r. srw_settlement_id r \<noteq> i) (sdb_settlements db)
           then Some ((), db\<lparr>sdb_settlements := sdb_settlements db @
             [\<lparr>srw_settlement_id = i, srw_signing_id = signing, srw_customer_id = customer, srw_blockchain = bc, srw_transaction_hash = Some h,
               srw_status = stl_Status s, srw_gas_used = gas, srw_confirmation_time = None, srw_broadcasted_at = stl_BroadcastedAt s,
               srw_confirmed_at = None, srw_error_message = Some msg, srw_created_at = stl_CreatedAt s\<rparr>]\<rparr>)
           else None)
      | _ \<Rightarrow> None)"

definition pg_CreateSettlement :: "(string \<Rightarrow> string option) \<Rightarrow> Settlement \<Rightarrow> settlement_db \<Rightarrow> (store_error + unit) \<times> settlement_db" where
  "pg_CreateSettlement uuid s db =
     (case resolveCustomerIDForSigningRequest uuid (stl_SigningID s) db of
        (Inl e, db1) \<Rightarrow> (Inl e, db1)
      | (Inr customerID, db1) \<Rightarrow>
          (if customerID = '''' then
             (case exec_statement (insert_settlement uuid (nullString customerID) s) db1 of
                (None, db2) \<Rightarrow> (Inl StoreFails, db2)
              | (Some _, db2) \<Rightarrow> (Inr (), db2))
           else settlement_withTenant customerID (\<lambda>db.
             case exec_statement (insert_settlement uuid (nullString customerID) s) db of
               (None, db2) \<Rightarrow> (Inl StoreFails, db2)
             | (Some _, db2) \<Rightarrow> (Inr (), db2)) db1))"

definition update_settlement ::
  "(string \<Rightarrow> string option) \<Rightarrow> string option option \<Rightarrow> Settlement \<Rightarrow> settlement_db \<Rightarrow> (nat \<times> settlement_db) option" where
  "update_settlement uuid tenant s db =
     (case (tenant, uuid (stl_SettlementID s), sql_text (stl_ErrorMessage s)) of
        (Some t, Some i, Some msg) \<Rightarrow>
          (let hit = (\<lambda>r. settlement_visible t r \<and> srw_settlement_id r = i);
               upd = (\<lambda>r. r\<lparr>srw_status := stl_Status s, srw_confirmation_time := (if stl_ConfirmationTime s = 0 then None else Some (stl_ConfirmationTime s)),
                             srw_confirmed_at := stl_ConfirmedAt s, srw_error_message := Some msg\<rparr>)
           in if list_ex hit (sdb_settlements db) \<and> stl_Status s \<notin> settlement_statuses then None
              else Some (length (filter hit (sdb_settlements db)), db\<lparr>sdb_settlements := map (\<lambda>r. if hit r then upd r else r) (sdb_settlements db)\<rparr>))
      | _ \<Rightarrow> None)"

definition pg_UpdateSettlement :: "(string \<Rightarrow> string option) \<Rightarrow> Settlement \<Rightarrow> settlement_db \<Rightarrow> (store_error + unit) \<times> settlement_db" where
  "pg_UpdateSettlement uuid s db =
     (case resolveCustomerIDForSettlement uuid (stl_SettlementID s) db of
        (Inl e, db1) \<Rightarrow> (Inl e, db1)
      | (Inr customerID, db1) \<Rightarrow>
          settlement_withTenant customerID (\<lambda>db.
            case exec_statement (update_settlement uuid (settlement_tenant uuid customerID) s) db of
              (None, db2) \<Rightarrow> (Inl StoreFails, db2)
            | (Some n, db2) \<Rightarrow> (if n = 0 then Inl SettlementNotFound else Inr (), db2)) db1)"

text \<open>A row as it is scanned; the customer is not.\<close>

definition read_settlement :: "settlement_row \<Rightarrow> Settlement" where
  "read_settlement r =
     \<lparr>stl_SettlementID = srw_settlement_id r, stl_SigningID = (case srw_signing_id r of None \<Rightarrow> '''' | Some k \<Rightarrow> k), stl_CustomerID = '''',
      stl_Blockchain = srw_blockchain r, stl_TransactionHash = (case srw_transaction_hash r of None \<Rightarrow> '''' | Some h \<Rightarrow> h), stl_Status = srw_status r,
      stl_GasUsed = (case srw_gas_used r of None \<Rightarrow> 0 | Some g \<Rightarrow> of_int g),
      stl_ConfirmationTime = (case srw_confirmation_time r of None \<Rightarrow> 0 | Some t \<Rightarrow> t), stl_BroadcastedAt = srw_broadcasted_at r,
      stl_ConfirmedAt = srw_confirmed_at r, stl_ErrorMessage = (case srw_error_message r of None \<Rightarrow> '''' | Some m \<Rightarrow> m),
      stl_CreatedAt = srw_created_at r\<rparr>"

definition pg_GetSettlement :: "(string \<Rightarrow> string option) \<Rightarrow> string \<Rightarrow> settlement_db \<Rightarrow> (store_error + Settlement) \<times> settlement_db" where
  "pg_GetSettlement uuid settlementID db =
     (case resolveCustomerIDForSettlement uuid settlementID db of
        (Inl e, db1) \<Rightarrow> (Inl e, db1)
      | (Inr customerID, db1) \<Rightarrow>
          settlement_withTenant customerID (\<lambda>db.
            case exec_statement (\<lambda>db. case (settlement_tenant uuid customerID, uuid settlementID) of
                (Some t, Some i) \<Rightarrow> Some (find (\<lambda>r. srw_settlement_id r = i) (filter (settlement_visible t) (sdb_settlements db)), db)
              | _ \<Rightarrow> None) db of
              (None, db2) \<Rightarrow> (Inl StoreFails, db2)
            | (Some None, db2) \<Rightarrow> (Inl SettlementNotFound, db2)
            | (Some (Some r), db2) \<Rightarrow> (Inr (read_settlement r), db2)) db1)"

definition pg_ListSettlements :: "(string \<Rightarrow> string option) \<Rightarrow> string \<Rightarrow> settlement_db \<Rightarrow> (store_error + Settlement list) \<times> settlement_db" where
  "pg_ListSettlements uuid customerID =
     settlement_withTenant customerID (\<lambda>db.
       case exec_statement (\<lambda>db. case (settlement_tenant uuid customerID, uuid customerID) of
           (Some t, Some c) \<Rightarrow> Some (sort_key (\<lambda>r. - srw_created_at r)
              (filter (\<lambda>r. srw_customer_id r = Some c) (filter (settlement_visible t) (sdb_settlements db))), db)
         | _ \<Rightarrow> None) db of
         (None, db2) \<Rightarrow> (Inl StoreFails, db2)
       | (Some rows, db2) \<Rightarrow> (Inr (map read_settlement rows), db2))"

definition PostgresStore :: "(string \<Rightarrow> string option) \<Rightarrow> settlement_db SettlementStore" where
  "PostgresStore uuid =
     \<lparr>sst_CreateSettlement = pg_CreateSettlement uuid, sst_GetSettlement = pg_GetSettlement uuid,
      sst_ListSettlements = pg_ListSettlements uuid, sst_UpdateSettlement = pg_UpdateSettlement uuid\<rparr>"

section \<open>Waiting for a confirmation\<close>

text \<open>The state at the \<open>k\<close>-th poll, if none before it ended the wait, and the answer the chain gives there.\<close>

primrec poll_state ::
  "'w ChainClient \<Rightarrow> (nat \<Rightarrow> 'db settlement_state \<times> 'w \<Rightarrow> 'db settlement_state \<times> 'w) \<Rightarrow> string \<Rightarrow> 'db settlement_state \<times> 'w \<Rightarrow> nat
     \<Rightarrow> 'db settlement_state \<times> 'w" where
  "poll_state client env h sw 0 = env 0 sw"
| "poll_state client env h sw (Suc k) =
     env (Suc k) (fst (poll_state client env h sw k), snd (cc_GetTransactionStatus client h (snd (poll_state client env h sw k))))"

definition poll_answer ::
  "'w ChainClient \<Rightarrow> (nat \<Rightarrow> 'db settlement_state \<times> 'w \<Rightarrow> 'db settlement_state \<times> 'w) \<Rightarrow> string \<Rightarrow> 'db settlement_state \<times> 'w \<Rightarrow> nat
     \<Rightarrow> chain_error + string" where
  "poll_answer client env h sw k = fst (cc_GetTransactionStatus client h (snd (poll_state client env h sw k)))"

text \<open>The loop from tick \<open>k\<close> on, before which no poll confirmed.\<close>

lemma track_loop_from:
  fixes client :: "'w ChainClient"
  assumes "k \<le> 120" "\<forall>j<k. poll_answer client env (stl_TransactionHash s) sw j \<noteq> Inr ''confirmed''"
  shows "track_loop svc client env clock 0 s sw =
    (if k = 0 then track_loop svc client env clock 0 s sw
     else track_loop svc client env clock k s
       (fst (poll_state client env (stl_TransactionHash s) sw (k - 1)),
        snd (cc_GetTransactionStatus client (stl_TransactionHash s) (snd (poll_state client env (stl_TransactionHash s) sw (k - 1))))))"
  using assms
proof (induction k)
  case (Suc k)
  let ?h = "stl_TransactionHash s"
  let ?sw = "if k = 0 then sw else (fst (poll_state client env ?h sw (k - 1)), snd (cc_GetTransactionStatus client ?h (snd (poll_state client env ?h sw (k - 1)))))"
  have e: "env k ?sw = poll_state client env ?h sw k" by (cases k) simp_all
  have k: "k < 120" "\<not> 120 \<le> k" and no: "poll_answer client env ?h sw k \<noteq> Inr ''confirmed''" using Suc.prems by auto
  obtain a w' where a: "cc_GetTransactionStatus client ?h (snd (poll_state client env ?h sw k)) = (a, w')" by (metis prod.exhaust)
  have a': "a \<noteq> Inr ''confirmed''" using no a by (simp add: poll_answer_def)
  have "track_loop svc client env clock 0 s sw = track_loop svc client env clock k s ?sw"
    using Suc by (cases "k = 0") simp_all
  also have "\<dots> = track_loop svc client env clock (Suc k) s (fst (poll_state client env ?h sw k), w')"
    by (subst track_loop.simps) (use k a a' in \<open>auto simp: e Let_def split: prod.splits sum.splits\<close>)
  finally show ?case by (simp add: a)
qed simp

lemma track_loop_times_out:
  assumes "\<forall>j<120. poll_answer client env (stl_TransactionHash s) sw j \<noteq> Inr ''confirmed''"
  shows "\<exists>st w. track_loop svc client env clock 0 s sw = (s\<lparr>stl_Status := ''timeout''\<rparr>, store_update svc (s\<lparr>stl_Status := ''timeout''\<rparr>) st, w) \<and>
    (st, w) = poll_state client env (stl_TransactionHash s) sw 120"
proof -
  let ?h = "stl_TransactionHash s"
  have e: "env 120 (fst (poll_state client env ?h sw 119), snd (cc_GetTransactionStatus client ?h (snd (poll_state client env ?h sw 119)))) = poll_state client env ?h sw 120"
    using poll_state.simps(2) [of client env ?h sw 119] by simp
  obtain st w where p: "poll_state client env ?h sw 120 = (st, w)" by (metis prod.exhaust)
  show ?thesis
    unfolding track_loop_from [OF _ assms, of svc clock, simplified]
    by (subst track_loop.simps) (simp add: e p Let_def)
qed

lemma track_loop_confirms:
  assumes "k < 120" "poll_answer client env (stl_TransactionHash s) sw k = Inr ''confirmed''"
    and "\<forall>j<k. poll_answer client env (stl_TransactionHash s) sw j \<noteq> Inr ''confirmed''"
    and "poll_state client env (stl_TransactionHash s) sw k = (st, w)"
    and "confirmed_at (clock k) s (sts_metrics st) = (s', m)"
  shows "\<exists>w'. track_loop svc client env clock 0 s sw = (s', store_update svc s' (st\<lparr>sts_metrics := m\<rparr>), w')"
proof -
  let ?h = "stl_TransactionHash s"
  let ?sw = "if k = 0 then sw else (fst (poll_state client env ?h sw (k - 1)), snd (cc_GetTransactionStatus client ?h (snd (poll_state client env ?h sw (k - 1)))))"
  have e: "env k ?sw = (st, w)" using assms(4) by (cases k) simp_all
  obtain w' where a: "cc_GetTransactionStatus client ?h w = (Inr ''confirmed'', w')"
    using assms(2,4) by (metis poll_answer_def prod.exhaust fst_conv snd_conv)
  have "track_loop svc client env clock 0 s sw = track_loop svc client env clock k s ?sw"
    using track_loop_from [OF _ assms(3), of svc clock] assms(1) by (cases "k = 0") simp_all
  also have "\<dots> = (s', store_update svc s' (st\<lparr>sts_metrics := m\<rparr>), w')"
    by (subst track_loop.simps) (use assms(1,5) a e in \<open>simp add: Let_def\<close>)
  finally show ?thesis by blast
qed

lemma confirmed_at_status: "confirmed_at now s m = (s', m') \<Longrightarrow> \<exists>t. s' = s\<lparr>stl_Status := ''confirmed'', stl_ConfirmationTime := t, stl_ConfirmedAt := Some now\<rparr>"
  by (cases s) (auto simp: confirmed_at_def Let_def split: option.splits)

lemma track_loop_cases:
  obtains (confirmed) k st w s' m w' where "k < 120" "poll_answer client env (stl_TransactionHash s) sw k = Inr ''confirmed''"
      "poll_state client env (stl_TransactionHash s) sw k = (st, w)" "confirmed_at (clock k) s (sts_metrics st) = (s', m)"
      "\<forall>j<k. poll_answer client env (stl_TransactionHash s) sw j \<noteq> Inr ''confirmed''"
      "track_loop svc client env clock 0 s sw = (s', store_update svc s' (st\<lparr>sts_metrics := m\<rparr>), w')"
    | (timeout) st w where "\<forall>j<120. poll_answer client env (stl_TransactionHash s) sw j \<noteq> Inr ''confirmed''"
      "poll_state client env (stl_TransactionHash s) sw 120 = (st, w)"
      "track_loop svc client env clock 0 s sw = (s\<lparr>stl_Status := ''timeout''\<rparr>, store_update svc (s\<lparr>stl_Status := ''timeout''\<rparr>) st, w)"
proof (cases "\<exists>k<120. poll_answer client env (stl_TransactionHash s) sw k = Inr ''confirmed''")
  case True
  define P where "P = (\<lambda>k. k < 120 \<and> poll_answer client env (stl_TransactionHash s) sw k = Inr ''confirmed'')"
  define k where "k = (LEAST k. P k)"
  have k: "P k" unfolding k_def by (rule LeastI_ex) (use True in \<open>simp add: P_def\<close>)
  have min: "\<forall>j<k. poll_answer client env (stl_TransactionHash s) sw j \<noteq> Inr ''confirmed''"
  proof (intro allI impI)
    fix j assume j: "j < k"
    then have "\<not> P j" unfolding k_def by (rule not_less_Least)
    moreover have "j < 120" using j k by (simp add: P_def)
    ultimately show "poll_answer client env (stl_TransactionHash s) sw j \<noteq> Inr ''confirmed''" by (simp add: P_def)
  qed
  obtain st w where sw: "poll_state client env (stl_TransactionHash s) sw k = (st, w)" by (metis prod.exhaust)
  obtain s' m where c: "confirmed_at (clock k) s (sts_metrics st) = (s', m)" by (metis prod.exhaust)
  obtain w' where "track_loop svc client env clock 0 s sw = (s', store_update svc s' (st\<lparr>sts_metrics := m\<rparr>), w')"
    using track_loop_confirms [of k client env s sw st w clock s' m svc] k min sw c by (auto simp: P_def)
  then show thesis using confirmed k sw c min by (auto simp: P_def)
next
  case False
  then have no: "\<forall>j<120. poll_answer client env (stl_TransactionHash s) sw j \<noteq> Inr ''confirmed''" by blast
  obtain st w where "track_loop svc client env clock 0 s sw = (s\<lparr>stl_Status := ''timeout''\<rparr>, store_update svc (s\<lparr>stl_Status := ''timeout''\<rparr>) st, w)"
    "(st, w) = poll_state client env (stl_TransactionHash s) sw 120"
    using track_loop_times_out [OF no, of svc clock] by blast
  then show thesis using timeout no by metis
qed

section \<open>The contract of a store\<close>

text \<open>What the service needs of its store, while it is ready: a settlement that fits is kept, an update of its status and times
  replaces it, and what is kept is what is read.\<close>

definition with_outcome :: "Settlement \<Rightarrow> string \<Rightarrow> int \<Rightarrow> int option \<Rightarrow> Settlement" where
  "with_outcome s status t c = s\<lparr>stl_Status := status, stl_ConfirmationTime := t, stl_ConfirmedAt := c\<rparr>"

locale settlement_store =
  fixes store :: "'db SettlementStore" and ready :: "'db \<Rightarrow> bool" and fits holds :: "Settlement \<Rightarrow> 'db \<Rightarrow> bool"
  assumes create_holds: "ready db \<Longrightarrow> fits s db \<Longrightarrow> \<exists>db'. sst_CreateSettlement store s db = (Inr (), db') \<and> ready db' \<and> holds s db'"
    and update_holds: "ready db \<Longrightarrow> holds s db \<Longrightarrow> status \<in> settlement_statuses \<Longrightarrow>
      \<exists>db'. sst_UpdateSettlement store (with_outcome s status t c) db = (Inr (), db') \<and> ready db' \<and> holds (with_outcome s status t c) db'"
    and get_held: "ready db \<Longrightarrow> holds s db \<Longrightarrow> sst_GetSettlement store (stl_SettlementID s) db = (Inr s, db)"
begin

definition keeps :: "Settlement \<Rightarrow> 'db settlement_state \<Rightarrow> bool" where
  "keeps s st \<longleftrightarrow> ready (sts_db st) \<and> holds s (sts_db st)"

lemma create_keeps: "ready (sts_db st) \<Longrightarrow> fits s (sts_db st) \<Longrightarrow> svc_db svc = store \<Longrightarrow> keeps s (store_create svc s st)"
  using create_holds [of "sts_db st" s] by (auto simp: keeps_def store_create_def)

lemma update_keeps:
  "keeps s st \<Longrightarrow> status \<in> settlement_statuses \<Longrightarrow> svc_db svc = store \<Longrightarrow> keeps (with_outcome s status t c) (store_update svc (with_outcome s status t c) st)"
  using update_holds [of "sts_db st" s status t c] by (auto simp: keeps_def store_update_def)

lemma get_kept: "keeps s st \<Longrightarrow> sst_GetSettlement store (stl_SettlementID s) (sts_db st) = (Inr s, sts_db st)"
  by (simp add: keeps_def get_held)

lemma poll_keeps:
  assumes "\<And>k st w. keeps s st \<Longrightarrow> keeps s (fst (env k (st, w)))" "keeps s st"
  shows "keeps s (fst (poll_state client env h (st, w) k))"
proof (induction k)
  case 0
  then show ?case using assms by simp
next
  case (Suc k)
  then show ?case using assms(1) by simp
qed

lemma track_keeps:
  assumes env: "\<And>k st w. keeps s st \<Longrightarrow> keeps s (fst (env k (st, w)))" and st: "keeps s st" and svc: "svc_db svc = store"
    and t: "track_loop svc client env clock 0 s (st, w) = (s', st', w')"
  shows "keeps s' st'"
proof (rule track_loop_cases [of client env s "(st, w)" clock svc])
  fix k st1 w1 s1 m w2
  assume k: "poll_state client env (stl_TransactionHash s) (st, w) k = (st1, w1)" "confirmed_at (clock k) s (sts_metrics st1) = (s1, m)"
    "track_loop svc client env clock 0 s (st, w) = (s1, store_update svc s1 (st1\<lparr>sts_metrics := m\<rparr>), w2)"
  have "keeps s st1" using poll_keeps [of s env st client "stl_TransactionHash s" w k, OF env st] k(1) by simp
  then have kept: "keeps s (st1\<lparr>sts_metrics := m\<rparr>)" by (simp add: keeps_def)
  obtain a where a: "s1 = with_outcome s ''confirmed'' a (Some (clock k))" using confirmed_at_status [OF k(2)] by (auto simp: with_outcome_def)
  have "keeps s1 (store_update svc s1 (st1\<lparr>sts_metrics := m\<rparr>))"
    unfolding a by (rule update_keeps [OF kept _ svc]) (simp add: settlement_statuses_def)
  then show "keeps s' st'" using t k(3) by auto
next
  fix st1 w1
  assume k: "poll_state client env (stl_TransactionHash s) (st, w) 120 = (st1, w1)"
    "track_loop svc client env clock 0 s (st, w) = (s\<lparr>stl_Status := ''timeout''\<rparr>, store_update svc (s\<lparr>stl_Status := ''timeout''\<rparr>) st1, w1)"
  have kept: "keeps s st1" using poll_keeps [of s env st client "stl_TransactionHash s" w 120, OF env st] k(1) by simp
  have a: "s\<lparr>stl_Status := ''timeout''\<rparr> = with_outcome s ''timeout'' (stl_ConfirmationTime s) (stl_ConfirmedAt s)"
    by (cases s) (simp add: with_outcome_def)
  have "keeps (s\<lparr>stl_Status := ''timeout''\<rparr>) (store_update svc (s\<lparr>stl_Status := ''timeout''\<rparr>) st1)"
    unfolding a by (rule update_keeps [OF kept _ svc]) (simp add: settlement_statuses_def)
  then show "keeps s' st'" using t k(2) by auto
qed

lemma settle_keeps:
  assumes "Settle svc text newID created now req st w = (Settled s, st', w')" "svc_db svc = store" "ready (sts_db st)" "fits s (sts_db st)"
  shows "keeps s st'"
proof -
  have "\<exists>st1. st' = st1\<lparr>sts_metrics := sts_metrics st'\<rparr> \<and> st1 = store_create svc s st"
    using assms(1)
    by (auto simp: Settle_def broadcast_and_store_def Let_def split: if_splits option.splits prod.splits sum.splits)
  then have "sts_db st' = sts_db (store_create svc s st)" by (metis settlement_state.select_convs(1) settlement_state.surjective settlement_state.update_convs(2))
  then show ?thesis using create_keeps [OF assms(3,4,2)] by (simp add: keeps_def)
qed

end

section \<open>PostgreSQL keeps the contract\<close>

definition pg_ready :: "(string \<Rightarrow> string option) \<Rightarrow> settlement_db \<Rightarrow> bool" where
  "pg_ready uuid db \<longleftrightarrow> conn_faults db = [] \<and> distinct (map srw_settlement_id (sdb_settlements db)) \<and>
     (\<forall>k c. sdb_signing db k = Some c \<longrightarrow> c \<noteq> '''' \<and> uuid c = Some c)"

definition pg_fits :: "(string \<Rightarrow> string option) \<Rightarrow> Settlement \<Rightarrow> settlement_db \<Rightarrow> bool" where
  "pg_fits uuid s db \<longleftrightarrow> uuid (stl_SettlementID s) = Some (stl_SettlementID s) \<and> stl_SettlementID s \<notin> set (map srw_settlement_id (sdb_settlements db)) \<and>
     stl_SigningID s \<noteq> '''' \<and> uuid (stl_SigningID s) = Some (stl_SigningID s) \<and> sdb_signing db (stl_SigningID s) \<noteq> None \<and> stl_CustomerID s = '''' \<and>
     varchar 50 (stl_Blockchain s) = Some (stl_Blockchain s) \<and> varchar 255 (stl_TransactionHash s) = Some (stl_TransactionHash s) \<and>
     unat (stl_GasUsed s) < 2 ^ 63 \<and> sql_text (stl_ErrorMessage s) = Some (stl_ErrorMessage s) \<and> stl_Status s \<in> settlement_statuses \<and>
     stl_ConfirmationTime s = 0 \<and> stl_ConfirmedAt s = None"

definition pg_holds :: "(string \<Rightarrow> string option) \<Rightarrow> Settlement \<Rightarrow> settlement_db \<Rightarrow> bool" where
  "pg_holds uuid s db \<longleftrightarrow> uuid (stl_SettlementID s) = Some (stl_SettlementID s) \<and> sql_text (stl_ErrorMessage s) = Some (stl_ErrorMessage s) \<and>
     (\<exists>r\<in>set (sdb_settlements db). read_settlement r = s \<and> (\<exists>c. srw_customer_id r = Some c \<and> c \<noteq> '''' \<and> uuid c = Some c))"

lemma find_unique: "distinct (map f xs) \<Longrightarrow> x \<in> set xs \<Longrightarrow> P x \<Longrightarrow> find (\<lambda>y. f y = f x) (filter P xs) = Some x"
  by (induction xs) auto

lemma find_unique_all: "distinct (map f xs) \<Longrightarrow> x \<in> set xs \<Longrightarrow> find (\<lambda>y. f y = f x) xs = Some x"
  using find_unique [of f xs x "\<lambda>_. True"] by simp

lemma read_settlement_id: "srw_settlement_id r = stl_SettlementID (read_settlement r)"
  by (simp add: read_settlement_def)

lemma resolve_held:
  assumes "pg_ready uuid db" "r \<in> set (sdb_settlements db)" "srw_customer_id r = Some c" "uuid (srw_settlement_id r) = Some (srw_settlement_id r)"
  shows "resolveCustomerIDForSettlement uuid (srw_settlement_id r) db = (Inr c, db)"
  using assms find_unique_all [of srw_settlement_id "sdb_settlements db" r]
  by (simp add: resolveCustomerIDForSettlement_def pg_ready_def exec_statement_fails_clean)

lemma pg_get_held:
  assumes "pg_ready uuid db" "pg_holds uuid s db"
  shows "pg_GetSettlement uuid (stl_SettlementID s) db = (Inr s, db)"
proof -
  obtain r c where r: "r \<in> set (sdb_settlements db)" "read_settlement r = s" and c: "srw_customer_id r = Some c" "c \<noteq> ''''" "uuid c = Some c"
    using assms(2) by (auto simp: pg_holds_def)
  have i: "srw_settlement_id r = stl_SettlementID s" using r(2) read_settlement_id [of r] by simp
  have u: "uuid (stl_SettlementID s) = Some (stl_SettlementID s)" using assms(2) by (simp add: pg_holds_def)
  have res: "resolveCustomerIDForSettlement uuid (stl_SettlementID s) db = (Inr c, db)"
    using resolve_held [OF assms(1) r(1) c(1)] u i by simp
  have f: "find (\<lambda>q. srw_settlement_id q = stl_SettlementID s) (filter (settlement_visible (Some c)) (sdb_settlements db)) = Some r"
    using find_unique [of srw_settlement_id "sdb_settlements db" r "settlement_visible (Some c)"] assms(1) r(1) c i
    by (simp add: pg_ready_def settlement_visible_def)
  show ?thesis
    unfolding pg_GetSettlement_def res settlement_withTenant_def
    using assms(1) u c f r(2) by (simp add: tenant_healthy exec_statement_fails_clean settlement_tenant_def pg_ready_def)
qed

lemma pg_create_holds:
  assumes "pg_ready uuid db" "pg_fits uuid s db"
  shows "\<exists>db'. pg_CreateSettlement uuid s db = (Inr (), db') \<and> pg_ready uuid db' \<and> pg_holds uuid s db'"
proof -
  obtain c where c: "sdb_signing db (stl_SigningID s) = Some c" "c \<noteq> ''''" "uuid c = Some c"
    using assms by (auto simp: pg_fits_def pg_ready_def)
  define gas where "gas = (if stl_GasUsed s = 0 then None else Some (int (unat (stl_GasUsed s))))"
  define r where "r = \<lparr>srw_settlement_id = stl_SettlementID s, srw_signing_id = Some (stl_SigningID s), srw_customer_id = Some c, srw_blockchain = stl_Blockchain s,
    srw_transaction_hash = Some (stl_TransactionHash s), srw_status = stl_Status s, srw_gas_used = gas, srw_confirmation_time = None,
    srw_broadcasted_at = stl_BroadcastedAt s, srw_confirmed_at = None, srw_error_message = Some (stl_ErrorMessage s), srw_created_at = stl_CreatedAt s\<rparr>"
  let ?db = "db\<lparr>sdb_settlements := sdb_settlements db @ [r]\<rparr>"
  have gas: "nullZeroUint64 (stl_GasUsed s) = Some gas" using assms(2) by (simp add: nullZeroUint64_def gas_def pg_fits_def)
  have ins: "insert_settlement uuid (Some c) s db = Some ((), ?db)"
    using assms(2) c(1) gas by (auto simp: insert_settlement_def pg_fits_def r_def list_all_iff image_iff)
  have conn: "conn_faults db = []" using assms(1) by (simp add: pg_ready_def)
  have res: "resolveCustomerIDForSigningRequest uuid (stl_SigningID s) db = (Inr c, db)"
    using assms(2) c(1) conn by (simp add: resolveCustomerIDForSigningRequest_def exec_statement_fails_clean pg_fits_def)
  have "settlement_withTenant c (\<lambda>db. case exec_statement (insert_settlement uuid (nullString c) s) db of
      (None, db2) \<Rightarrow> (Inl StoreFails, db2) | (Some _, db2) \<Rightarrow> (Inr (), db2)) db = (Inr (), ?db)"
    unfolding settlement_withTenant_def
    by (rule tenant_commits) (simp_all add: conn exec_statement_fails_clean nullString_def c(2) ins)
  then have create: "pg_CreateSettlement uuid s db = (Inr (), ?db)" using res c(2) by (simp add: pg_CreateSettlement_def)
  have "read_settlement r = s"
    using assms(2) by (cases s) (simp add: read_settlement_def r_def gas_def pg_fits_def)
  then have "pg_holds uuid s ?db" using assms(2) c by (auto simp: pg_holds_def pg_fits_def r_def)
  moreover have "pg_ready uuid ?db" using assms by (auto simp: pg_ready_def pg_fits_def r_def)
  ultimately show ?thesis using create by blast
qed

lemma pg_update_holds:
  assumes "pg_ready uuid db" "pg_holds uuid s db" "status \<in> settlement_statuses"
  shows "\<exists>db'. pg_UpdateSettlement uuid (with_outcome s status t c) db = (Inr (), db') \<and> pg_ready uuid db' \<and> pg_holds uuid (with_outcome s status t c) db'"
proof -
  let ?s = "with_outcome s status t c"
  obtain r cu where r: "r \<in> set (sdb_settlements db)" "read_settlement r = s" and cu: "srw_customer_id r = Some cu" "cu \<noteq> ''''" "uuid cu = Some cu"
    using assms(2) by (auto simp: pg_holds_def)
  have i: "srw_settlement_id r = stl_SettlementID s" using r(2) read_settlement_id [of r] by simp
  have u: "uuid (stl_SettlementID s) = Some (stl_SettlementID s)" "sql_text (stl_ErrorMessage s) = Some (stl_ErrorMessage s)"
    using assms(2) by (simp_all add: pg_holds_def)
  have s': "stl_SettlementID ?s = stl_SettlementID s" "stl_ErrorMessage ?s = stl_ErrorMessage s" "stl_Status ?s = status"
    "stl_ConfirmationTime ?s = t" "stl_ConfirmedAt ?s = c" by (simp_all add: with_outcome_def)
  have conn: "conn_faults db = []" and dist: "distinct (map srw_settlement_id (sdb_settlements db))" using assms(1) by (simp_all add: pg_ready_def)
  define hit where "hit = (\<lambda>q :: settlement_row. settlement_visible (Some cu) q \<and> srw_settlement_id q = stl_SettlementID s)"
  define upd where "upd = (\<lambda>q :: settlement_row. q\<lparr>srw_status := status, srw_confirmation_time := (if t = 0 then None else Some t),
    srw_confirmed_at := c, srw_error_message := Some (stl_ErrorMessage s)\<rparr>)"
  let ?db = "db\<lparr>sdb_settlements := map (\<lambda>q. if hit q then upd q else q) (sdb_settlements db)\<rparr>"
  have hr: "hit r" using i cu by (simp add: hit_def settlement_visible_def)
  have "length (filter hit (sdb_settlements db)) \<noteq> 0" using r(1) hr by (auto simp: filter_empty_conv)
  moreover have "update_settlement uuid (Some (Some cu)) ?s db = Some (length (filter hit (sdb_settlements db)), ?db)"
    unfolding update_settlement_def s' hit_def upd_def Let_def using assms(3) u by simp
  moreover have res: "resolveCustomerIDForSettlement uuid (stl_SettlementID s) db = (Inr cu, db)"
    using resolve_held [OF assms(1) r(1) cu(1)] u i by simp
  moreover have st: "settlement_tenant uuid cu = Some (Some cu)" using cu by (simp add: settlement_tenant_def)
  ultimately have "settlement_withTenant cu (\<lambda>db. case exec_statement (update_settlement uuid (settlement_tenant uuid cu) ?s) db of
      (None, db2) \<Rightarrow> (Inl StoreFails, db2) | (Some n, db2) \<Rightarrow> (if n = 0 then Inl SettlementNotFound else Inr (), db2)) db = (Inr (), ?db)"
    unfolding settlement_withTenant_def by (intro tenant_commits) (simp_all add: conn exec_statement_fails_clean)
  then have up: "pg_UpdateSettlement uuid ?s db = (Inr (), ?db)" using res by (simp add: pg_UpdateSettlement_def s')
  have "read_settlement (upd r) = ?s" using r(2) by (auto simp: read_settlement_def upd_def with_outcome_def)
  moreover have "upd r \<in> set (sdb_settlements ?db)" using r(1) hr by (force simp: image_iff)
  moreover have "srw_customer_id (upd r) = Some cu" using cu by (simp add: upd_def)
  ultimately have "pg_holds uuid ?s ?db" using u cu(2,3) unfolding pg_holds_def s' by blast
  moreover have ids: "srw_settlement_id \<circ> (\<lambda>q. if hit q then upd q else q) = srw_settlement_id" by (auto simp: upd_def)
  have "pg_ready uuid ?db" using assms(1) unfolding pg_ready_def by (simp add: ids)
  ultimately show ?thesis using up by blast
qed

interpretation pgs: settlement_store "PostgresStore uuid" "pg_ready uuid" "pg_fits uuid" "pg_holds uuid" for uuid
  by unfold_locales (simp_all add: PostgresStore_def pg_create_holds pg_update_holds pg_get_held)

text \<open>C14: with a working database, what the service answers about a settlement once its wait is over is what the wait found:
  confirmed, with the time of the first of 120 polls at which the chain reported the transaction confirmed, or timed out if
  none did; whatever else the system did in between, as long as it left that record alone.\<close>

theorem settlement_record_final:
  assumes "svc_db svc = PostgresStore uuid" "svc_chains svc (srq_Blockchain req) = Some client"
    and "Settle svc text newID created now req st w = (Settled s, st1, w1)" "pg_ready uuid (sts_db st)" "pg_fits uuid s (sts_db st)"
    and "\<And>k st w. pg_ready uuid (sts_db st) \<and> pg_holds uuid s (sts_db st) \<Longrightarrow>
      pg_ready uuid (sts_db (fst (env k (st, w)))) \<and> pg_holds uuid s (sts_db (fst (env k (st, w))))"
    and "trackConfirmation svc env clock s (st1, w1) = (s2, st2, w2)" "newID \<noteq> ''''"
  shows "HandleGetSettlement svc newID st2 = (SettleFound s2, st2) \<and>
    (if \<exists>k<120. poll_answer client env (stl_TransactionHash s) (st1, w1) k = Inr ''confirmed''
     then stl_Status s2 = ''confirmed'' \<and>
       stl_ConfirmedAt s2 = Some (clock (LEAST k. poll_answer client env (stl_TransactionHash s) (st1, w1) k = Inr ''confirmed''))
     else stl_Status s2 = ''timeout'' \<and> stl_ConfirmedAt s2 = None) \<and>
    stl_TransactionHash s2 = stl_TransactionHash s"
proof -
  have s: "stl_SettlementID s = newID" "stl_Blockchain s = srq_Blockchain req" "stl_ConfirmedAt s = None"
    using assms(3) by (auto simp: Settle_def broadcast_and_store_def Let_def split: if_splits option.splits prod.splits sum.splits)
  have kept1: "pgs.keeps uuid s st1" by (rule pgs.settle_keeps [OF assms(3,1,4,5)])
  have track: "track_loop svc client env clock 0 s (st1, w1) = (s2, st2, w2)" using assms(7,2) s(2) by (simp add: trackConfirmation_def)
  have "pgs.keeps uuid s2 st2"
    by (rule pgs.track_keeps [OF _ kept1 assms(1) track]) (use assms(6) in \<open>simp add: pgs.keeps_def\<close>)
  then have get: "sst_GetSettlement (PostgresStore uuid) (stl_SettlementID s2) (sts_db st2) = (Inr s2, sts_db st2)" by (rule pgs.get_kept)
  have "stl_SettlementID s2 = newID \<and> stl_TransactionHash s2 = stl_TransactionHash s \<and>
    (if \<exists>k<120. poll_answer client env (stl_TransactionHash s) (st1, w1) k = Inr ''confirmed''
     then stl_Status s2 = ''confirmed'' \<and>
       stl_ConfirmedAt s2 = Some (clock (LEAST k. poll_answer client env (stl_TransactionHash s) (st1, w1) k = Inr ''confirmed''))
     else stl_Status s2 = ''timeout'' \<and> stl_ConfirmedAt s2 = None)"
  proof (rule track_loop_cases [of client env s "(st1, w1)" clock svc])
    fix k st3 w3 s3 m w4
    assume k: "k < 120" "poll_answer client env (stl_TransactionHash s) (st1, w1) k = Inr ''confirmed''"
      "confirmed_at (clock k) s (sts_metrics st3) = (s3, m)" "\<forall>j<k. poll_answer client env (stl_TransactionHash s) (st1, w1) j \<noteq> Inr ''confirmed''"
      "track_loop svc client env clock 0 s (st1, w1) = (s3, store_update svc s3 (st3\<lparr>sts_metrics := m\<rparr>), w4)"
    have s3: "s2 = s3" using k(5) track by simp
    have least: "(LEAST k. poll_answer client env (stl_TransactionHash s) (st1, w1) k = Inr ''confirmed'') = k"
      by (rule Least_equality) (use k(2,4) in \<open>auto simp: not_less [symmetric]\<close>)
    show ?thesis using confirmed_at_status [OF k(3)] s(1) k(1,2) unfolding least s3 by auto
  next
    fix st3 w3
    assume k: "\<forall>j<120. poll_answer client env (stl_TransactionHash s) (st1, w1) j \<noteq> Inr ''confirmed''"
      "track_loop svc client env clock 0 s (st1, w1) = (s\<lparr>stl_Status := ''timeout''\<rparr>, store_update svc (s\<lparr>stl_Status := ''timeout''\<rparr>) st3, w3)"
    then show ?thesis using track s(1,3) by auto
  qed
  then show ?thesis using get assms(1,8) by (auto simp: HandleGetSettlement_def Let_def)
qed

section \<open>What goes out, and what is lost\<close>

text \<open>A list of more than 56 bytes starts with a byte that no text in UTF-8 contains.\<close>

lemma readItem_text:
  assumes "b \<noteq> []" "b ! 0 < 0xf8" "57 \<le> length b"
  shows "\<exists>e. readItem b True = Inl e \<or> (\<exists>p r. readItem b True = Inr (p, r) \<and> r \<noteq> [])"
proof (cases "b ! 0 < 0xc0")
  case True
  then show ?thesis using assms(1) by (auto simp: readItem_def Let_def word_less_nat_alt word_le_nat_alt)
next
  case False
  have le: "b ! 0 \<le> 0xf7" using assms(2) by (simp add: word_less_nat_alt word_le_nat_alt)
  have "unat (b ! 0 - 0xc0) = unat (b ! 0) - 192" using False by (simp add: unat_sub word_le_nat_alt not_less)
  then have "unat (b ! 0 - 0xc0) \<le> 55" using le by (simp add: word_le_nat_alt)
  moreover have "\<not> b ! 0 < 0x80" "\<not> b ! 0 \<le> 0xb7" "\<not> b ! 0 \<le> 0xbf" using False by (simp_all add: word_less_nat_alt word_le_nat_alt)
  ultimately show ?thesis using assms le by (simp add: readItem_def Let_def)
qed

lemma text_is_no_transaction:
  assumes "\<forall>x\<in>set raw. x < 0xf8" "58 \<le> length raw"
  shows "\<exists>e. DecodeSignedTransaction lib raw = Inl e \<and> e \<noteq> BadRlp SliceBoundsPanic"
proof -
  have split: "\<exists>e. splitList b = Inl e \<and> e \<noteq> SliceBoundsPanic" if "\<forall>x\<in>set b. x < 0xf8" "57 \<le> length b" for b
  proof -
    have b: "b \<noteq> []" "b ! 0 < 0xf8" using that by (cases b; simp)+
    have np: "readItem b True \<noteq> Inl SliceBoundsPanic"
      using b by (auto simp: readItem_def Let_def word_less_nat_alt word_le_nat_alt split: if_splits)
    show ?thesis using readItem_text [OF b that(2)] np by (auto simp: splitList_def)
  qed
  have drop: "\<forall>x\<in>set (drop 1 raw). x < 0xf8" using assms(1) by (meson in_set_dropD)
  define body where "body = (if raw ! 0 < 0xc0 then drop 1 raw else raw)"
  have body: "\<forall>x\<in>set body. x < 0xf8" "57 \<le> length body" using assms drop by (auto simp: body_def)
  obtain e where "splitList body = Inl e" "e \<noteq> SliceBoundsPanic" using split [OF body] by blast
  then show ?thesis using assms(2) by (auto simp: DecodeSignedTransaction_def Let_def body_def [symmetric])
qed

lemma str_bytes_bound: "\<forall>c\<in>set t. of_char c < (248 :: nat) \<Longrightarrow> \<forall>x\<in>set (str_bytes t). x < 0xf8"
  by (auto simp: str_bytes_def word_less_nat_alt unat_of_nat)

text \<open>C15: the transaction of a request reaches the chain as the bytes of its JSON text, not as what the text encodes: no
  text of 58 bytes or more (UTF-8 has no byte of 248 or above) is the encoding of a signed transaction. When \<^verbatim>\<open>Settle\<close>
  reports such a request on the Ethereum chain as settled, its one call to the node was \<^verbatim>\<open>eth_sendRawTransaction\<close> with
  the hex of the bytes of that text, the node took it, and the reported transaction hash is the hash of those bytes.\<close>

theorem settle_broadcasts_text:
  assumes "svc_chains svc (srq_Blockchain req) = Some (EthereumClient node lib url)"
    and "\<forall>c\<in>set (srq_SignedTransaction req). of_char c < (248 :: nat)" "58 \<le> length (srq_SignedTransaction req)"
    and "Settle svc text newID created now req st w = (Settled s, st', w')"
  shows "(\<exists>h. SendRawTransaction node url (''0x'' @ hex_encode (str_bytes (srq_SignedTransaction req))) w = (Inr h, w')) \<and>
    stl_TransactionHash s = ''0x'' @ hex_encode (TransactionHash lib (str_bytes (srq_SignedTransaction req))) \<and>
    (\<exists>e. DecodeSignedTransaction lib (str_bytes (srq_SignedTransaction req)) = Inl e) \<and> stl_GasUsed s = 0"
proof -
  obtain e where e: "DecodeSignedTransaction lib (str_bytes (srq_SignedTransaction req)) = Inl e"
    using text_is_no_transaction [OF str_bytes_bound [OF assms(2)], of lib] assms(3) by (auto simp: str_bytes_def)
  then show ?thesis using assms(1,4)
    by (auto simp: Settle_def broadcast_and_store_def EthereumClient_def eth_EstimateGas_def eth_BroadcastTransaction_def Let_def
        split: if_splits option.splits prod.splits sum.splits)
qed

text \<open>A transaction that was mined and reverted is recorded as timed out, never as failed: the wait looks only for a
  confirmation, so it polls a known failure for ten minutes.\<close>

theorem reverted_settlement_times_out:
  assumes "svc_chains svc (stl_Blockchain s) = Some (EthereumClient node lib url)"
    and "\<forall>k<120. \<exists>r. fst (TransactionReceipt node url (stl_TransactionHash s)
      (snd (poll_state (EthereumClient node lib url) env (stl_TransactionHash s) sw k))) = Inr r \<and> rcp_Status r = 0"
  shows "fst (trackConfirmation svc env clock s sw) = s\<lparr>stl_Status := ''timeout''\<rparr>"
proof -
  have "poll_answer (EthereumClient node lib url) env (stl_TransactionHash s) sw k = Inr ''failed''" if k: "k < 120" for k
  proof -
    obtain r where "fst (TransactionReceipt node url (stl_TransactionHash s)
      (snd (poll_state (EthereumClient node lib url) env (stl_TransactionHash s) sw k))) = Inr r" "rcp_Status r = 0" using assms(2) k by blast
    then show ?thesis
      by (auto simp: poll_answer_def EthereumClient_def eth_GetTransactionStatus_def split: prod.splits sum.splits)
  qed
  then have "\<forall>j<120. poll_answer (EthereumClient node lib url) env (stl_TransactionHash s) sw j \<noteq> Inr ''confirmed''" by simp
  then show ?thesis
    using track_loop_times_out [of "EthereumClient node lib url" env s sw svc clock] assms(1) by (auto simp: trackConfirmation_def)
qed

lemma insert_needs_signing:
  assumes "stl_SigningID s \<noteq> ''''" "\<forall>k. uuid (stl_SigningID s) = Some k \<longrightarrow> sdb_signing db k = None"
  shows "insert_settlement uuid customer s db = None"
  using assms by (auto simp: insert_settlement_def split: option.splits)

lemma create_needs_signing:
  assumes "stl_SigningID s \<noteq> ''''" "\<forall>k. uuid (stl_SigningID s) = Some k \<longrightarrow> sdb_signing db k = None"
    and "pg_CreateSettlement uuid s db = (r, db')"
  shows "sdb_settlements db' = sdb_settlements db"
proof -
  obtain u db1 where u: "resolveCustomerIDForSigningRequest uuid (stl_SigningID s) db = (u, db1)" by (metis prod.exhaust)
  have db1: "\<exists>fs. db1 = db\<lparr>conn_faults := fs\<rparr>" "u = Inr '''' \<or> (\<exists>e. u = Inl e)"
    using u assms(2)
    by (auto simp: resolveCustomerIDForSigningRequest_def exec_statement_def Let_def split: option.splits fault.splits prod.splits)
  have none: "insert_settlement uuid customer s (db\<lparr>conn_faults := fs\<rparr>) = None" for customer fs
    by (rule insert_needs_signing) (use assms in simp_all)
  have ex: "\<exists>fs. snd (exec_statement (insert_settlement uuid customer s) (db\<lparr>conn_faults := fs0\<rparr>)) = db\<lparr>conn_faults := fs\<rparr>" for customer fs0
    by (auto simp: exec_statement_def Let_def none split: option.split fault.split)
  obtain fs0 where fs0: "db1 = db\<lparr>conn_faults := fs0\<rparr>" using db1(1) by blast
  obtain x db2 where x: "exec_statement (insert_settlement uuid None s) db1 = (x, db2)" by (metis prod.exhaust)
  then obtain fs where fs: "db2 = db\<lparr>conn_faults := fs\<rparr>" using ex [of None fs0] fs0 by auto
  show ?thesis using assms(3) u db1(2) fs0 x fs
    by (auto simp: pg_CreateSettlement_def nullString_def split: option.splits)
qed

text \<open>C16: a settlement whose signing request is not known is broadcast and reported as settled, and no record of it is
  kept, since the table takes only known signing requests.\<close>

theorem unknown_signing_leaves_no_record:
  assumes "svc_db svc = PostgresStore uuid" "\<forall>k. uuid (srq_SigningID req) = Some k \<longrightarrow> sdb_signing (sts_db st) k = None"
    and "Settle svc text newID created now req st w = (Settled s, st', w')"
  shows "sdb_settlements (sts_db st') = sdb_settlements (sts_db st)"
proof -
  have s: "stl_SigningID s = srq_SigningID req" "srq_SigningID req \<noteq> ''''" "sts_db st' = snd (pg_CreateSettlement uuid s (sts_db st))"
    using assms(1,3) by (auto simp: Settle_def broadcast_and_store_def store_create_def PostgresStore_def Let_def
        split: if_splits option.splits prod.splits sum.splits)
  show ?thesis unfolding s(3)
    by (rule create_needs_signing [of s uuid "sts_db st" "fst (pg_CreateSettlement uuid s (sts_db st))"]) (use s assms(2) in simp_all)
qed

section \<open>A settlement\<close>

definition demo_uuid :: "string \<Rightarrow> string option" where
  "demo_uuid s = (if s = '''' then None else Some s)"

text \<open>A node that takes every transaction and has a receipt of the given status for it.\<close>

definition demo_settle_node :: "string \<Rightarrow> (unit, string) rpc_node" where
  "demo_settle_node status = \<lparr>node_call = (\<lambda>url m ps w. (NodeResult (Some m), w)), json_string = Some,
     json_receipt = (\<lambda>_. Some \<lparr>rr_Status = status, rr_BlockNumber = ''0x10'', rr_GasUsed = ''0x5208'', rr_TxHash = ''''\<rparr>)\<rparr>"

definition demo_settle_service :: "string \<Rightarrow> (unit, settlement_db) SettlementService" where
  "demo_settle_service status =
     \<lparr>svc_db = PostgresStore demo_uuid, svc_chains = [''ethereum'' \<mapsto> EthereumClient (demo_settle_node status) demo_lib ''http://n'']\<rparr>"

definition demo_settle_request :: SettlementRequest where
  "demo_settle_request = \<lparr>srq_SigningID = ''req-1'', srq_Blockchain = ''ethereum'', srq_SignedTransaction = replicate 60 CHR ''f''\<rparr>"

definition demo_settle_state :: "(string \<rightharpoonup> string) \<Rightarrow> settlement_db settlement_state" where
  "demo_settle_state signing = \<lparr>sts_db = \<lparr>conn_faults = [], sdb_signing = signing, sdb_settlements = []\<rparr>,
     sts_metrics = \<lparr>smt_TotalSettlements = 0, smt_SuccessfulSettlements = 0, smt_FailedSettlements = 0, smt_AvgConfirmationTime = 0, smt_confirmedSamples = 0\<rparr>\<rparr>"

definition demo_settlement_record :: Settlement where
  "demo_settlement_record = \<lparr>stl_SettlementID = ''id-1'', stl_SigningID = ''req-1'', stl_CustomerID = '''', stl_Blockchain = ''ethereum'',
     stl_TransactionHash = ''0x'' @ hex_encode (replicate 32 0xab), stl_Status = ''broadcasted'', stl_GasUsed = 0, stl_ConfirmationTime = 0,
     stl_BroadcastedAt = Some 7, stl_ConfirmedAt = None, stl_ErrorMessage = '''', stl_CreatedAt = 5\<rparr>"

lemma demo_bytes: "\<forall>c\<in>set (srq_SignedTransaction demo_settle_request). of_char c < (248 :: nat)" "58 \<le> length (srq_SignedTransaction demo_settle_request)"
  by (simp_all add: demo_settle_request_def)

lemma demo_settled:
  "\<exists>st' w'. Settle (demo_settle_service status) text ''id-1'' 5 7 demo_settle_request st w = (Settled demo_settlement_record, st', w')"
proof -
  obtain e where e: "DecodeSignedTransaction demo_lib (str_bytes (srq_SignedTransaction demo_settle_request)) = Inl e" "e \<noteq> BadRlp SliceBoundsPanic"
    using text_is_no_transaction [OF str_bytes_bound [OF demo_bytes(1)], of demo_lib] demo_bytes(2) by (auto simp: str_bytes_def)
  have h: "TransactionHash demo_lib b = replicate 32 0xab" for b by (simp add: TransactionHash_def Keccak256_def demo_lib_def)
  define tx where "tx = srq_SignedTransaction demo_settle_request"
  have tx: "tx \<noteq> ''''" by (simp add: tx_def demo_settle_request_def)
  have send: "SendRawTransaction (demo_settle_node status) ''http://n'' raw w = (Inr ''eth_sendRawTransaction'', w)" for raw w
    by (simp add: SendRawTransaction_def rpc_call_def demo_settle_node_def)
  have b: "cc_BroadcastTransaction (EthereumClient (demo_settle_node status) demo_lib ''http://n'') (str_bytes tx) w = (Inr (''0x'' @ hex_encode (replicate 32 0xab)), w)" for w
    by (simp only: EthereumClient_def eth_BroadcastTransaction_def send h ChainClient.select_convs prod.case sum.case)
  have g: "cc_EstimateGas (EthereumClient (demo_settle_node status) demo_lib ''http://n'') (str_bytes tx) w = (Inl (EthUndecodable e), w)" for w
    using e(1) by (simp add: EthereumClient_def eth_EstimateGas_def tx_def)
  have c: "svc_chains (demo_settle_service status) ''ethereum'' = Some (EthereumClient (demo_settle_node status) demo_lib ''http://n'')"
    by (simp add: demo_settle_service_def)
  have r: "srq_SigningID demo_settle_request = ''req-1''" "srq_Blockchain demo_settle_request = ''ethereum''" "srq_SignedTransaction demo_settle_request = tx"
    by (simp_all add: demo_settle_request_def tx_def)
  show ?thesis
    using tx e(2) by (simp add: Settle_def r c g b is_panic_def broadcast_and_store_def Let_def demo_settlement_record_def)
qed

theorem settle_broadcasts_text_witness:
  "\<exists>e h. DecodeSignedTransaction demo_lib (str_bytes (srq_SignedTransaction demo_settle_request)) = Inl e \<and>
     SendRawTransaction (demo_settle_node ''0x1'') ''http://n'' (''0x'' @ hex_encode (str_bytes (srq_SignedTransaction demo_settle_request))) () = (Inr h, ())"
proof -
  obtain st' w' where "Settle (demo_settle_service ''0x1'') (\<lambda>_. '''') ''id-1'' 5 7 demo_settle_request (demo_settle_state Map.empty) () = (Settled demo_settlement_record, st', w')"
    using demo_settled by blast
  then show ?thesis
    using settle_broadcasts_text [of "demo_settle_service ''0x1''" demo_settle_request "demo_settle_node ''0x1''" demo_lib "''http://n''"] demo_bytes
    by (auto simp: demo_settle_service_def demo_settle_request_def)
qed

theorem unknown_signing_leaves_no_record_witness:
  "\<exists>st'. fst (Settle (demo_settle_service ''0x1'') (\<lambda>_. '''') ''id-1'' 5 7 demo_settle_request (demo_settle_state Map.empty) ()) = Settled demo_settlement_record \<and>
     st' = fst (snd (Settle (demo_settle_service ''0x1'') (\<lambda>_. '''') ''id-1'' 5 7 demo_settle_request (demo_settle_state Map.empty) ())) \<and>
     sdb_settlements (sts_db st') = []"
proof -
  obtain st' w' where s: "Settle (demo_settle_service ''0x1'') (\<lambda>_. '''') ''id-1'' 5 7 demo_settle_request (demo_settle_state Map.empty) () = (Settled demo_settlement_record, st', w')"
    using demo_settled by blast
  have "sdb_settlements (sts_db st') = sdb_settlements (sts_db (demo_settle_state Map.empty))"
    by (rule unknown_signing_leaves_no_record [OF _ _ s, of demo_uuid]) (simp_all add: demo_settle_service_def demo_settle_state_def)
  then show ?thesis using s by (simp add: demo_settle_state_def)
qed

lemma demo_receipt:
  "fst (TransactionReceipt (demo_settle_node status) url h w) =
     Inr \<lparr>rcp_Status = hexUint status, rcp_BlockNumber = hexUint ''0x10'', rcp_GasUsed = hexUint ''0x5208'', rcp_TxHash = ''''\<rparr>"
  by (simp add: TransactionReceipt_def rpc_call_def demo_settle_node_def)

lemma demo_statuses: "hexUint ''0x1'' = 1" "hexUint ''0x0'' = 0"
  by code_simp+

theorem reverted_settlement_times_out_witness:
  "fst (trackConfirmation (demo_settle_service ''0x0'') (\<lambda>_ sw. sw) int demo_settlement_record (demo_settle_state Map.empty, ())) = demo_settlement_record\<lparr>stl_Status := ''timeout''\<rparr>"
  by (rule reverted_settlement_times_out [where node = "demo_settle_node ''0x0''" and lib = demo_lib and url = "''http://n''"])
    (simp_all add: demo_receipt demo_statuses, simp add: demo_settle_service_def demo_settlement_record_def)

lemma hex_text_ascii: "c \<in> set (''0x'' @ hex_encode b) \<Longrightarrow> (0 :: nat) < of_char c \<and> of_char c < (128 :: nat)"
proof -
  assume "c \<in> set (''0x'' @ hex_encode b)"
  then consider "c = CHR ''0''" | "c = CHR ''x''" | "c \<in> set (hex_encode b)" by auto
  then show ?thesis
  proof cases
    case 3
    then obtain n where n: "n < 16" "c = hex_digit n" using hex_digit_of_hex_encode by blast
    have "of_char c = (if n < 10 then 48 + n else 87 + n)" using n(1) unfolding n(2) hex_digit_def by simp
    then show ?thesis using n(1) by simp
  qed simp_all
qed

theorem settlement_record_final_witness:
  "\<exists>st1 w1 s2 st2 w2. Settle (demo_settle_service ''0x1'') (\<lambda>_. '''') ''id-1'' 5 7 demo_settle_request (demo_settle_state [''req-1'' \<mapsto> ''acme'']) () = (Settled demo_settlement_record, st1, w1) \<and>
     trackConfirmation (demo_settle_service ''0x1'') (\<lambda>_ sw. sw) (\<lambda>k. 12 + int k) demo_settlement_record (st1, w1) = (s2, st2, w2) \<and>
     HandleGetSettlement (demo_settle_service ''0x1'') ''id-1'' st2 = (SettleFound s2, st2) \<and> stl_Status s2 = ''confirmed''"
proof -
  let ?svc = "demo_settle_service ''0x1''" and ?st = "demo_settle_state [''req-1'' \<mapsto> ''acme'']"
  let ?client = "EthereumClient (demo_settle_node ''0x1'') demo_lib ''http://n''"
  obtain st1 w1 where s: "Settle ?svc (\<lambda>_. '''') ''id-1'' 5 7 demo_settle_request ?st () = (Settled demo_settlement_record, st1, w1)" using demo_settled by blast
  obtain s2 st2 w2 where t: "trackConfirmation ?svc (\<lambda>_ sw. sw) (\<lambda>k. 12 + int k) demo_settlement_record (st1, w1) = (s2, st2, w2)" by (metis prod.exhaust)
  have chain: "svc_chains ?svc (srq_Blockchain demo_settle_request) = Some ?client" by (simp add: demo_settle_service_def demo_settle_request_def)
  have hash: "varchar 255 (''0x'' @ hex_encode (replicate 32 0xab)) = Some (''0x'' @ hex_encode (replicate 32 0xab))"
    by (rule varchar_ascii) (use hex_text_ascii in blast, simp)
  have texts: "varchar 50 ''ethereum'' = Some ''ethereum''" "sql_text '''' = Some ''''" by (simp_all add: varchar_ascii sql_text_def)
  have fits: "pg_fits demo_uuid demo_settlement_record (sts_db ?st)"
    by (simp add: pg_fits_def demo_settlement_record_def demo_settle_state_def demo_uuid_def settlement_statuses_def texts hash [simplified])
  have ready: "pg_ready demo_uuid (sts_db ?st)" by (auto simp: pg_ready_def demo_settle_state_def demo_uuid_def split: if_splits)
  have yes: "poll_answer ?client (\<lambda>_ sw. sw) (stl_TransactionHash demo_settlement_record) (st1, w1) 0 = Inr ''confirmed''"
    using demo_receipt [of "''0x1''" "''http://n''" "stl_TransactionHash demo_settlement_record" w1]
    by (auto simp: poll_answer_def EthereumClient_def eth_GetTransactionStatus_def demo_statuses split: prod.splits sum.splits)
  have "HandleGetSettlement ?svc ''id-1'' st2 = (SettleFound s2, st2) \<and> stl_Status s2 = ''confirmed''"
  proof -
    have ex: "\<exists>k<120. poll_answer ?client (\<lambda>_ sw. sw) (stl_TransactionHash demo_settlement_record) (st1, w1) k = Inr ''confirmed''"
      using yes by (intro exI [of _ 0]) simp
    have db: "svc_db ?svc = PostgresStore demo_uuid" by (simp add: demo_settle_service_def)
    show ?thesis using settlement_record_final [of ?svc demo_uuid demo_settle_request ?client, OF db chain s ready fits _ t] unfolding if_P [OF ex] by auto
  qed
  then show ?thesis using s t by blast
qed

end
