(* ===== verification/Spec2Isabelle.thy ===== *)
theory Spec2Isabelle
  imports Eth_Tx Btc_Plan Approvals Deployment Policy_Engine Settlement_Service
begin

text \<open>
  A verification library for OpenFireblocks, a custody platform: keys are generated and used by committees of
  parties that never put a key together, a worker drives them through durable workflows, and services around it
  decide what may be signed and see it through to the chain. All paths below are under \<^verbatim>\<open>src/services/\<close>.

  \<^bold>\<open>The program and its parts.\<close> A transfer comes to the worker (\<^verbatim>\<open>temporal-worker\<close>). Its settlement workflow asks the
  policy service, waits for people to approve where the policy asks for it, has the transaction signed, broadcasts it
  and watches it to its confirmations. Keys are made, rotated and retired by further workflows of the worker, which
  talk over HTTP to the parties (\<^verbatim>\<open>mpc-party\<close>), each of which holds one share of every key, checks an authorization
  before it joins a ceremony and relays the messages of the threshold protocol. The signer (\<^verbatim>\<open>mpc-signer\<close>) builds the
  transactions of each chain.

  \<^bold>\<open>Theories, in the order of their imports.\<close>
  \<^item> \<open>OFB_Prelude\<close>: the result type of fallible code, byte strings, int64 arithmetic, and three interfaces as locales: a
    codec with a frame, a machine driven by events, and a machine that halts. \<open>Go_Text\<close>: the parts of Go's standard
    library on text that the code uses.
  \<^item> \<open>Rlp\<close> (\<^verbatim>\<open>mpc-signer/internal/ethtypes/rlp.go\<close>, the reader in \<^verbatim>\<open>decode.go\<close>): the encoder and the reader, interpreted as
    framed codecs; what the reader accepts beyond the encodings; lengths that wrap. \<open>Eth_Crypto\<close>
    (\<^verbatim>\<open>internal/ethcrypto\<close>): addresses, key encodings, signing and recovery. \<open>Eth_Tx\<close> (\<^verbatim>\<open>transaction.go\<close>,
    \<^verbatim>\<open>decode.go\<close>): a signing payload determines the transaction; a signed transaction decodes to what was signed and
    recovers to its sender.
  \<^item> \<open>Btc_Select\<close> (\<^verbatim>\<open>chains/bitcoin_coinselect.go\<close>) and \<open>Btc_Plan\<close> (\<^verbatim>\<open>chains/bitcoin_threshold.go\<close>): a selection
    spends eligible coins and balances, is found exactly when the coins also pay for a change output, and is the shortest
    of its order; a plan pays what was asked, with a sane fee where the inputs state their amounts; an assembled transaction is the planned one and verifies.
  \<^item> \<open>Approvals\<close> (\<^verbatim>\<open>workflows/approval.go\<close>, \<^verbatim>\<open>activities/approvals.go\<close>): the counting of decisions refines an abstract
    poll; approval needs distinct people other than the initiator; the wait ends with its timer; the record of a request, with
    a connection that may fail, is opened once and closed only while pending.
  \<^item> \<open>Ceremony_Auth\<close> (\<^verbatim>\<open>mpc-party/authorizer.go\<close>, \<^verbatim>\<open>peer_identity.go\<close>, \<^verbatim>\<open>activities/ceremony_authorization.go\<close>):
    authorizations from the worker to the party, and the binding of a message to a certificate.
  \<^item> \<open>Key_Share\<close> (\<^verbatim>\<open>curve.go\<close>, \<^verbatim>\<open>vault_seal.go\<close>, \<^verbatim>\<open>file_seal.go\<close>): shares and where they are kept. The contract of a
    store of shares is a locale; files and Vault both fulfil it.
  \<^item> \<open>Party_State\<close>, \<open>Party_Keygen\<close>, \<open>Party_Signing\<close>, \<open>Party_Resharing\<close>, \<open>Party_Handlers\<close> (\<^verbatim>\<open>tss_party.go\<close>,
    \<^verbatim>\<open>tss_signing.go\<close>, \<^verbatim>\<open>tss_resharing.go\<close>, \<^verbatim>\<open>tss_handlers.go\<close>, \<^verbatim>\<open>main.go\<close>): the state of a party as a record of three
    registries, one function per operation of the manager and per HTTP handler. Shown: which requests change state and
    by whose authority, committees and thresholds, refresh and restore, and that a retired key is gone.
  \<^item> \<open>Eth_Rpc\<close> (\<^verbatim>\<open>temporal-worker/internal/ethrpc\<close>): the JSON-RPC client. \<open>Worker_Ceremony\<close> (\<^verbatim>\<open>activities/real_tss.go\<close>,
    \<^verbatim>\<open>workflows/dkg_ceremony.go\<close>), \<open>Worker_Settlement\<close> (\<^verbatim>\<open>workflows/transaction_settlement.go\<close>,
    \<^verbatim>\<open>activities/activities.go\<close>) and \<open>Worker_Rotation\<close> (\<^verbatim>\<open>activities/key_rotation.go\<close>,
    \<^verbatim>\<open>activities/balance_migration.go\<close>, \<^verbatim>\<open>workflows/provision_key.go\<close>, \<^verbatim>\<open>workflows/balance_migration.go\<close>): workflows are
    functions of their activities that also return the calls they make; the activities are functions of the network,
    the node and the database. Shown: nothing is signed without policy and approvals, confirmed means mined, the calls of
    a settlement come in one order, a rotation that names its new key never leaves a customer without one and destroys
    shares last, a sweep moves the whole balance.
  \<^item> \<open>Deployment\<close>: the worker's network instantiated by a cluster of the parties above, with requests and replies that
    may be lost at any time: what a signature or a retirement reported to the worker says about every party.
  \<^item> \<open>Sql\<close>: statements and transactions of PostgreSQL with faults before and after they took effect, tenants, and what text
    columns hold; a database extends its connection record by its tables. \<open>Approvals\<close> and \<open>Worker_Rotation\<close> build on it too. \<open>Go_Float\<close>:
    rounding of floating-point numbers, and decimal text read by \<^verbatim>\<open>big.Float\<close>.
  \<^item> \<open>Policy_Engine\<close> (\<^verbatim>\<open>policy/policy.go\<close>, \<^verbatim>\<open>db.go\<close>, \<^verbatim>\<open>httperr.go\<close>, \<^verbatim>\<open>main.go\<close>): an evaluation is exactly the verdict on
    the stored policies; in every history of requests, updates and faults what is allowed satisfies every rule of the key;
    how exact an amount limit is.
  \<^item> \<open>Settlement_Service\<close> (\<^verbatim>\<open>settlement/settlement.go\<close>, \<^verbatim>\<open>db.go\<close>, \<^verbatim>\<open>main.go\<close>): the contract of the code's \<^verbatim>\<open>SettlementStore\<close>
    is a locale that the PostgreSQL store fulfils; the record of a settlement ends as the chain decided it; what is sent
    to the chain, and which broadcasts leave no record.

  \<^bold>\<open>How code becomes definitions.\<close> Each function of the source is a definition with its name where Isabelle allows it.
  Errors are values of a datatype per component, and a Go panic is one of them. Machine integers are \<^typ>\<open>64 word\<close>
  where the code uses \<^verbatim>\<open>uint64\<close>, and \<^typ>\<open>int\<close> with the wrap-around written out (\<open>i64\<close>) where it uses \<^verbatim>\<open>int64\<close>
  arithmetic that can overflow. Objects that several goroutines share are entries of a registry with a reference, so
  that a ceremony replaced under its name is not confused with its predecessor. Handlers hold the lock of the manager
  while they read or write it, and are single steps of the model.

  \<^bold>\<open>What is a parameter.\<close> Code outside the repository is an argument of the definitions that use it: Keccak, SHA-256 and
  the curve libraries, btcd's script engine, tss-lib (its outgoing messages and results are events), AES-GCM, file
  system and Vault calls, JSON rendering and parsing, the Temporal server (retries are modelled, the order of signals is
  an event list), HTTP and the Ethereum and Bitcoin nodes, the cast of a text to a UUID, the clock and fresh identifiers.
  What is assumed of them is a named hypothesis (\<open>sort_ok\<close>, \<open>codec_ok\<close>, \<open>rules_codec_ok\<close>, \<open>bodies_agree\<close>, \<open>only_issued\<close> and so on), and the examples at the end of each theory show that the hypotheses can hold.

  \<^bold>\<open>Bounds.\<close> Polling loops take the list of what happens between two polls; when it is used up the deadline of the
  activity has passed, and this is an outcome of the model, so no result depends on a bound. The wait of the settlement
  service ends by itself after the 120 polls of the code. The retry counts are those
  of the workflows. Hypotheses such as \<open>go_len\<close> exclude byte strings longer than a Go slice can be.

  \<^bold>\<open>Idealisations.\<close> A key or ceremony row is found by its id as the database prints it, and any value a table refuses for
  a reason that is not written out is a statement that fails without effect. Clock readings of the policy and settlement
  services are whole microseconds, the precision of their tables. \<^verbatim>\<open>strings.EqualFold\<close> is modelled on ASCII, which is
  exact where one side is hex text, as in every modelled use that matters to a result. Vault entries are found by their path as written.

  \<^bold>\<open>Not modelled.\<close> The single-key Bitcoin, Solana and Cosmos adapters and their node clients; HSM access; TLS
  configuration, certificate reloading and process start-up, which are I/O; and the services around the signing path that
  decide nothing in it: billing, webhooks, marketplace, compliance, backup, Vault initialisation, and the SDKs and
  operator tools. The Rego policies of \<^verbatim>\<open>policy-service\<close> are evaluated by the OPA library, and what the worker relies on of its
  answer is a parameter.
\<close>

end
